(* ===== verification/Prelude.thy ===== *)
theory Prelude
  imports Complex_Main "HOL-Library.AList" "HOL-Library.Option_ord"
begin

text \<open>
  Shared vocabulary of the UniNest development: the collections of facts the
  component theories add to, and the generic lemmas on lists, association lists and
  options that the handler proofs use.  Nothing here is specific to UniNest; the
  model of JavaScript values is in \<open>Json\<close>, the document store in \<open>Mongo\<close>.
\<close>

named_theorems handler_defs
  "unfolding rules of the route handlers (one per exported GET/POST/PUT/DELETE)"

named_theorems store_simps
  "evaluation rules of the document-store operations"

subsection \<open>Association lists as JavaScript objects\<close>

text \<open>
  A JavaScript object and a MongoDB document are both finite maps from field names to
  values that remember the insertion order of their keys.  They are association lists;
  \<open>AList.update\<close> is the assignment \<open>o[k] = v\<close>: it overwrites a key in place and
  appends a new one at the end, as JavaScript does.
\<close>

lemma map_of_update_same [simp]: "map_of (AList.update k v al) k = Some v"
  by (simp add: AList.update_conv')

lemma map_of_update_other [simp]:
  "k' \<noteq> k \<Longrightarrow> map_of (AList.update k v al) k' = map_of al k'"
  by (simp add: AList.update_conv')

lemma length_update_le: "length (AList.update k v al) \<le> Suc (length al)"
  by (induction al) auto

lemma filter_update_other:
  "\<not> P (k, v) \<Longrightarrow> (\<forall>x \<in> set al. fst x = k \<longrightarrow> \<not> P x) \<Longrightarrow>
   filter P (AList.update k v al) = filter P al"
  by (induction al) auto

subsection \<open>Lists\<close>

lemma find_Some_in_set: "find P xs = Some x \<Longrightarrow> x \<in> set xs \<and> P x"
  by (auto simp: find_Some_iff)

lemma find_None_not: "find P xs = None \<Longrightarrow> x \<in> set xs \<Longrightarrow> \<not> P x"
  by (auto simp: find_None_iff)

lemma find_from_member: "x \<in> set xs \<Longrightarrow> P x \<Longrightarrow> \<exists>y. find P xs = Some y"
  by (metis find_None_iff option.exhaust)

lemma distinct_filter_remove:
  "distinct xs \<Longrightarrow> distinct (filter (\<lambda>y. y \<noteq> v) xs)"
  by simp

lemma distinct_append_new:
  "distinct xs \<Longrightarrow> v \<notin> set xs \<Longrightarrow> distinct (xs @ [v])"
  by simp

lemma filter_neq_absent [simp]: "v \<notin> set xs \<Longrightarrow> filter (\<lambda>y. y \<noteq> v) xs = xs"
  by (induction xs) auto

lemma filter_neq_append_new:
  "v \<notin> set xs \<Longrightarrow> filter (\<lambda>y. y \<noteq> v) (xs @ [v]) = xs"
  by simp

subsection \<open>Options\<close>

lemma option_case_same: "(case x of None \<Rightarrow> a | Some _ \<Rightarrow> a) = a"
  by (cases x) simp_all

lemma find_conj_unique:
  "length (filter P xs) \<le> 1 \<Longrightarrow> find P xs = Some w \<Longrightarrow>
   find (\<lambda>x. P x \<and> Q x) xs = (if Q w then Some w else None)"
proof (induction xs)
  case Nil
  then show ?case by simp
next
  case (Cons x xs)
  show ?case
  proof (cases "P x")
    case True
    with Cons.prems have "w = x" "filter P xs = []" by auto
    then have "find (\<lambda>x. P x \<and> Q x) xs = None"
      by (auto simp: find_None_iff filter_empty_conv)
    with True \<open>w = x\<close> show ?thesis by simp
  next
    case False
    with Cons show ?thesis by simp
  qed
qed

lemma find_conj_None: "find P xs = None \<Longrightarrow> find (\<lambda>x. P x \<and> Q x) xs = None"
  by (auto simp: find_None_iff)

lemma list_all2_rightI: "list_all2 R xs ys \<Longrightarrow> (\<And>x y. R x y \<Longrightarrow> Q y) \<Longrightarrow> list_all Q ys"
  by (induction rule: list_all2_induct) auto

lemma map_of_filter_key: "Q k \<Longrightarrow> map_of (filter (\<lambda>(k', _). Q k') xs) k = map_of xs k"
  by (induction xs) auto

lemma find_distinct_key:
  "distinct (map f xs) \<Longrightarrow> x \<in> set xs \<Longrightarrow> f x = k \<Longrightarrow> find (\<lambda>y. f y = k) xs = Some x"
  by (induction xs) (auto simp: image_iff)

lemma find_append_None: "find P xs = None \<Longrightarrow> find P (xs @ ys) = find P ys"
  by (induction xs) (auto split: if_splits)

lemma find_append_Some: "find P xs = Some x \<Longrightarrow> find P (xs @ ys) = Some x"
  by (induction xs) (auto split: if_splits)

subsection \<open>Lists updated at an index\<close>

text \<open>\<open>xs[i := y]\<close> is one slot of a list of concurrent activities moving on; these
  count what the update changes.\<close>

lemma length_filter_upd:
  "i < length xs \<Longrightarrow>
   length (filter P (xs[i := y])) + (if P (xs ! i) then 1 else 0) = length (filter P xs) + (if P y then 1 else 0)"
proof (induction xs arbitrary: i)
  case Nil
  then show ?case by simp
next
  case (Cons x xs)
  then show ?case using Cons.IH [of "i - 1"] by (cases i) auto
qed

lemma sum_list_map_upd:
  "i < length xs \<Longrightarrow> sum_list (map f (xs[i := y])) + f (xs ! i) = sum_list (map f xs) + (f y :: nat)"
proof (induction xs arbitrary: i)
  case Nil
  then show ?case by simp
next
  case (Cons x xs)
  then show ?case using Cons.IH [of "i - 1"] by (cases i) auto
qed

lemma in_set_upd_cases: "z \<in> set (xs[i := y]) \<Longrightarrow> z = y \<or> z \<in> set xs"
  by (meson in_set_conv_nth set_update_subset_insert insertE subsetD)

end
