(* ===== verification/Json.thy ===== *)
theory Json
  imports Prelude
begin

text \<open>
  JavaScript values as the route handlers see them: the parsed JSON request body, the
  query parameters, and the BSON values a MongoDB document holds (an \<open>ObjectId\<close>,
  a \<open>Date\<close>).  With them come the pieces of JavaScript semantics the handlers rely
  on: truthiness and \<open>||\<close>, property reads that throw on \<open>null\<close>, strict equality,
  ASCII lower-casing, \<open>parseInt\<close>, the \<open>ObjectId\<close> constructor and \<open>toString\<close>.
\<close>

section \<open>Values\<close>

text \<open>
  Numbers are JavaScript doubles; the model uses exact rationals (\<open>rat\<close>), which
  agree with doubles on every value the handlers compute (integers from
  \<open>parseInt\<close>, counters, the default coordinates \<open>22.5\<close>, \<open>88.4\<close>).  \<open>NaN\<close>
  is its own constructor since \<open>parseInt\<close> returns it.  An \<open>ObjectId\<close> is kept
  by its hexadecimal string; a \<open>Date\<close> by the argument it was built from.
\<close>

datatype jval =
    JUndef
  | JNull
  | JBool bool
  | JNum rat
  | JNaN
  | JStr string
  | JArr "jval list"
  | JObj "(string \<times> jval) list"
  | JOid string
  | JDate jval

type_synonym jobj = "(string \<times> jval) list"

text \<open>Query parameters: \<open>URLSearchParams.get\<close> returns the first value of a key.\<close>

type_synonym params = "(string \<times> string) list"

definition param_get :: "params \<Rightarrow> string \<Rightarrow> string option" where
  "param_get ps k = map_of ps k"

section \<open>Truthiness, \<open>||\<close> and property access\<close>

fun js_truthy :: "jval \<Rightarrow> bool" where
  "js_truthy JUndef = False"
| "js_truthy JNull = False"
| "js_truthy (JBool b) = b"
| "js_truthy (JNum n) = (n \<noteq> 0)"
| "js_truthy JNaN = False"
| "js_truthy (JStr s) = (s \<noteq> [])"
| "js_truthy (JArr _) = True"
| "js_truthy (JObj _) = True"
| "js_truthy (JOid _) = True"
| "js_truthy (JDate _) = True"

text \<open>\<open>a || b\<close>.\<close>

definition js_or :: "jval \<Rightarrow> jval \<Rightarrow> jval" where
  "js_or a b = (if js_truthy a then a else b)"

text \<open>A query parameter in a boolean context: \<open>null\<close> and \<open>""\<close> are false.\<close>

definition param_truthy :: "string option \<Rightarrow> bool" where
  "param_truthy p = (case p of None \<Rightarrow> False | Some s \<Rightarrow> s \<noteq> [])"

text \<open>\<open>o[k]\<close> on an object: \<open>undefined\<close> for a missing key.\<close>

definition obj_get :: "jobj \<Rightarrow> string \<Rightarrow> jval" where
  "obj_get fs k = (case map_of fs k of None \<Rightarrow> JUndef | Some v \<Rightarrow> v)"

text \<open>\<open>o[k] = v\<close>.\<close>

definition obj_set :: "jobj \<Rightarrow> string \<Rightarrow> jval \<Rightarrow> jobj" where
  "obj_set fs k v = AList.update k v fs"

text \<open>
  The fields of a parsed request body for \<open>body[k]\<close> and destructuring:
  \<open>None\<close> is the \<open>TypeError\<close> that reading a property of \<open>null\<close> or
  \<open>undefined\<close> throws; any other primitive or an array has none of the named fields.
\<close>

fun body_fields :: "jval \<Rightarrow> jobj option" where
  "body_fields JUndef = None"
| "body_fields JNull = None"
| "body_fields (JObj fs) = Some fs"
| "body_fields _ = Some []"

text \<open>\<open>a === b\<close>: primitives by value, objects (arrays, dates, ObjectIds) by identity,
  which two separately read documents never share.\<close>

fun js_primitive :: "jval \<Rightarrow> bool" where
  "js_primitive (JArr _) = False"
| "js_primitive (JObj _) = False"
| "js_primitive (JOid _) = False"
| "js_primitive (JDate _) = False"
| "js_primitive _ = True"

text \<open>\<open>Array.isArray(v)\<close>.\<close>

fun is_jarr :: "jval \<Rightarrow> bool" where
  "is_jarr (JArr _) = True"
| "is_jarr _ = False"

definition js_strict_eq :: "jval \<Rightarrow> jval \<Rightarrow> bool" where
  "js_strict_eq a b = (js_primitive a \<and> a = b \<and> a \<noteq> JNaN)"

section \<open>Strings\<close>

text \<open>
  \<open>String.prototype.toLowerCase\<close> on ASCII letters.  Strings are byte lists, so a
  non-ASCII character is several \<open>char\<close>s that lower-casing leaves alone.
\<close>

definition lower_char :: "char \<Rightarrow> char" where
  "lower_char c =
     (let n = (of_char c :: nat) in if 65 \<le> n \<and> n \<le> 90 then char_of (n + 32) else c)"

definition to_lower :: "string \<Rightarrow> string" where
  "to_lower s = map lower_char s"

text \<open>\<open>s.includes(p)\<close>, the substring test.\<close>

fun has_infix :: "string \<Rightarrow> string \<Rightarrow> bool" where
  "has_infix p [] = (p = [])"
| "has_infix p (c # cs) = (take (length p) (c # cs) = p \<or> has_infix p cs)"

text \<open>\<open>xs.join(sep)\<close> of a list of strings.\<close>

fun js_join :: "string \<Rightarrow> string list \<Rightarrow> string" where
  "js_join sep [] = []"
| "js_join sep [w] = w"
| "js_join sep (w # ws) = w @ sep @ js_join sep ws"

section \<open>Decimal numerals\<close>

definition digit_char :: "nat \<Rightarrow> char" where
  "digit_char d = char_of (48 + d)"

text \<open>\<open>String(n)\<close> for a natural number, as in \<open>`user-${Date.now()}`\<close>.\<close>

fun dec_string :: "nat \<Rightarrow> string" where
  "dec_string n = (if n < 10 then [digit_char n] else dec_string (n div 10) @ [digit_char (n mod 10)])"

declare dec_string.simps [simp del]

section \<open>\<open>parseInt\<close>\<close>

text \<open>
  \<open>parseInt(s)\<close> without a radix: leading white space is skipped, one sign is read,
  a \<open>0x\<close> prefix selects base 16, then the longest run of digits of the base is
  read; no digit at all gives \<open>NaN\<close>.
\<close>

definition js_space :: "char \<Rightarrow> bool" where
  "js_space c = (of_char c \<in> {9, 10, 11, 12, 13, 32::nat})"

definition digit_val :: "nat \<Rightarrow> char \<Rightarrow> nat option" where
  "digit_val radix c =
     (let n = of_char c :: nat;
          v = (if 48 \<le> n \<and> n \<le> 57 then n - 48
               else if 97 \<le> n \<and> n \<le> 102 then n - 87
               else if 65 \<le> n \<and> n \<le> 70 then n - 55 else 99)
      in if v < radix then Some v else None)"

fun digit_prefix :: "nat \<Rightarrow> string \<Rightarrow> nat list" where
  "digit_prefix radix [] = []"
| "digit_prefix radix (c # cs) =
     (case digit_val radix c of None \<Rightarrow> [] | Some d \<Rightarrow> d # digit_prefix radix cs)"

definition digits_value :: "nat \<Rightarrow> nat list \<Rightarrow> nat" where
  "digits_value radix ds = foldl (\<lambda>acc d. acc * radix + d) 0 ds"

definition js_parse_int :: "string \<Rightarrow> jval" where
  "js_parse_int s =
     (let s1 = dropWhile js_space s;
          (neg, s2) = (case s1 of
                         c # r \<Rightarrow> if c = CHR ''-'' then (True, r)
                                  else if c = CHR ''+'' then (False, r) else (False, s1)
                       | [] \<Rightarrow> (False, []));
          (radix, s3) = (if take 2 s2 = ''0x'' \<or> take 2 s2 = ''0X'' then (16, drop 2 s2)
                         else (10, s2));
          ds = digit_prefix radix s3
      in if ds = [] then JNaN
         else JNum (of_int ((if neg then -1 else 1) * int (digits_value radix ds))))"

section \<open>Conversion to number\<close>

text \<open>
  The abstract \<open>ToNumber\<close> of the language, which a relational comparison such as
  \<open>x < 6\<close> applies to its operands.  Numbers are exact rationals here, as
  everywhere in the model, with \<open>NaN\<close> and the two infinities apart.
  \<open>StringToNumber\<close> trims white space; the empty string is \<open>0\<close>; then comes
  either an unsigned \<open>0x\<close>, \<open>0o\<close> or \<open>0b\<close> integer, or an optionally signed
  \<open>Infinity\<close> or decimal literal (digits, an optional fraction, an optional
  exponent, at least one digit before the exponent); anything else is \<open>NaN\<close>.
\<close>

datatype jnum = NFin rat | NNaN | NPosInf | NNegInf

fun str_exponent :: "string \<Rightarrow> int option" where
  "str_exponent [] = Some 0"
| "str_exponent (c # cs) =
     (if c = CHR ''e'' \<or> c = CHR ''E'' then
        (let (sg, ds) = (if take 1 cs = ''-'' then (-1, drop 1 cs)
                         else if take 1 cs = ''+'' then (1, drop 1 cs) else (1::int, cs))
         in if ds \<noteq> [] \<and> length (digit_prefix 10 ds) = length ds
            then Some (sg * int (digits_value 10 (digit_prefix 10 ds))) else None)
      else None)"

definition str_unsigned_decimal :: "string \<Rightarrow> rat option" where
  "str_unsigned_decimal s =
     (let ip = digit_prefix 10 s; r1 = drop (length ip) s;
          fp = (if take 1 r1 = ''.'' then digit_prefix 10 (drop 1 r1) else []);
          r2 = (if take 1 r1 = ''.'' then drop (1 + length fp) r1 else r1)
      in if ip = [] \<and> fp = [] then None
         else (case str_exponent r2 of
                 None \<Rightarrow> None
               | Some e \<Rightarrow>
                   Some (of_nat (digits_value 10 (ip @ fp)) / 10 ^ length fp *
                         (if 0 \<le> e then 10 ^ nat e else 1 / 10 ^ nat (- e)))))"

definition str_radix_int :: "nat \<Rightarrow> string \<Rightarrow> jnum" where
  "str_radix_int radix ds =
     (if ds \<noteq> [] \<and> length (digit_prefix radix ds) = length ds
      then NFin (of_nat (digits_value radix (digit_prefix radix ds))) else NNaN)"

definition js_str_to_number :: "string \<Rightarrow> jnum" where
  "js_str_to_number s =
     (let t = rev (dropWhile js_space (rev (dropWhile js_space s))) in
      if t = [] then NFin 0
      else if take 2 t \<in> {''0x'', ''0X''} then str_radix_int 16 (drop 2 t)
      else if take 2 t \<in> {''0o'', ''0O''} then str_radix_int 8 (drop 2 t)
      else if take 2 t \<in> {''0b'', ''0B''} then str_radix_int 2 (drop 2 t)
      else
        (let (neg, u) = (if take 1 t = ''-'' then (True, drop 1 t)
                         else if take 1 t = ''+'' then (False, drop 1 t) else (False, t))
         in if u = ''Infinity'' then (if neg then NNegInf else NPosInf)
            else (case str_unsigned_decimal u of
                    None \<Rightarrow> NNaN
                  | Some q \<Rightarrow> NFin (if neg then - q else q))))"

text \<open>
  \<open>ToPrimitive\<close> of an object calls \<open>valueOf\<close>, which returns the object itself,
  then \<open>toString\<close>; a parsed object that has its own \<open>toString\<close> key holds a
  value there that is not a function, so the conversion throws a \<open>TypeError\<close>
  (\<open>None\<close>).  An array converts through \<open>join\<close>, which converts each element.
\<close>

fun to_prim_throws :: "jval \<Rightarrow> bool"
  and to_prim_throws_list :: "jval list \<Rightarrow> bool" where
  "to_prim_throws (JObj fs) = (map_of fs ''toString'' \<noteq> None)"
| "to_prim_throws (JArr ys) = to_prim_throws_list ys"
| "to_prim_throws _ = False"
| "to_prim_throws_list [] = False"
| "to_prim_throws_list (y # ys) = (to_prim_throws y \<or> to_prim_throws_list ys)"

text \<open>
  \<open>Number(v)\<close>.  An array of one element converts as the string of that element:
  \<open>undefined\<close> prints as the empty string, a boolean and a date as words; an array
  of two or more elements has a comma, so \<open>NaN\<close>.  An \<open>ObjectId\<close> prints as its
  hexadecimal string.  A date reads as its time value when it was built from a number;
  date-string parsing is not modelled and reads as \<open>NaN\<close>.
\<close>

fun js_to_number :: "jval \<Rightarrow> jnum option" where
  "js_to_number JUndef = Some NNaN"
| "js_to_number JNull = Some (NFin 0)"
| "js_to_number (JBool b) = Some (NFin (if b then 1 else 0))"
| "js_to_number (JNum n) = Some (NFin n)"
| "js_to_number JNaN = Some NNaN"
| "js_to_number (JStr s) = Some (js_str_to_number s)"
| "js_to_number (JArr []) = Some (NFin 0)"
| "js_to_number (JArr [x]) =
     (case x of JUndef \<Rightarrow> Some (NFin 0) | JBool _ \<Rightarrow> Some NNaN | JDate _ \<Rightarrow> Some NNaN
      | _ \<Rightarrow> js_to_number x)"
| "js_to_number (JArr (x # y # zs)) =
     (if to_prim_throws_list (x # y # zs) then None else Some NNaN)"
| "js_to_number (JObj fs) = (if map_of fs ''toString'' \<noteq> None then None else Some NNaN)"
| "js_to_number (JOid h) = Some (js_str_to_number h)"
| "js_to_number (JDate v) = Some (case v of JNum n \<Rightarrow> NFin n | _ \<Rightarrow> NNaN)"

text \<open>\<open>n < c\<close> for a converted operand and a finite constant: \<open>NaN\<close> compares false.\<close>

fun jnum_less :: "jnum \<Rightarrow> rat \<Rightarrow> bool" where
  "jnum_less (NFin q) c = (q < c)"
| "jnum_less NNaN c = False"
| "jnum_less NPosInf c = False"
| "jnum_less NNegInf c = True"

section \<open>ObjectIds\<close>

text \<open>
  A MongoDB \<open>ObjectId\<close> is twelve bytes printed as 24 lower-case hexadecimal
  digits.  The store allocates them from a counter (\<open>oid_hex\<close>); the real driver
  mixes a timestamp, a random value and a counter, which only matters for uniqueness,
  and a counter gives that.
\<close>

definition hex_char :: "nat \<Rightarrow> char" where
  "hex_char d = (if d < 10 then char_of (48 + d) else char_of (87 + d))"

fun hex_digits :: "nat \<Rightarrow> nat \<Rightarrow> string" where
  "hex_digits 0 n = []"
| "hex_digits (Suc k) n = hex_digits k (n div 16) @ [hex_char (n mod 16)]"

definition oid_hex :: "nat \<Rightarrow> string" where
  "oid_hex n = hex_digits 24 n"

definition is_hex_char :: "char \<Rightarrow> bool" where
  "is_hex_char c = (digit_val 16 c \<noteq> None)"

definition is_hex24 :: "string \<Rightarrow> bool" where
  "is_hex24 s = (length s = 24 \<and> list_all is_hex_char s)"

text \<open>
  \<open>new ObjectId(x)\<close> (bson 6): a 24-digit hexadecimal string gives that id, printed
  in lower case; \<open>undefined\<close>, \<open>null\<close> or a number make the driver generate a
  fresh id, which no stored document carries (modelled by the empty id string, which
  \<open>oid_hex\<close> never produces; \<open>NaN\<close> is a number too); an \<open>ObjectId\<close> is copied;
  an object with an \<open>id\<close> key is read through that key, which must hold a 24-digit
  hexadecimal string (a parsed body has no byte buffers); every other value makes the
  constructor throw a \<open>BSONError\<close> (\<open>None\<close>).
\<close>

fun object_id_of :: "jval \<Rightarrow> jval option" where
  "object_id_of (JStr s) = (if is_hex24 s then Some (JOid (to_lower s)) else None)"
| "object_id_of (JOid h) = Some (JOid h)"
| "object_id_of JUndef = Some (JOid [])"
| "object_id_of JNull = Some (JOid [])"
| "object_id_of (JNum _) = Some (JOid [])"
| "object_id_of JNaN = Some (JOid [])"
| "object_id_of (JObj fs) =
     (case map_of fs ''id'' of
        Some (JStr s) \<Rightarrow> if is_hex24 s then Some (JOid (to_lower s)) else None
      | _ \<Rightarrow> None)"
| "object_id_of _ = None"

text \<open>\<open>x.toString()\<close> for the values the handlers print: ids and strings.\<close>

fun js_to_string :: "jval \<Rightarrow> string" where
  "js_to_string (JOid h) = h"
| "js_to_string (JStr s) = s"
| "js_to_string JUndef = ''undefined''"
| "js_to_string JNull = ''null''"
| "js_to_string (JBool b) = (if b then ''true'' else ''false'')"
| "js_to_string _ = ''[object]''"

text \<open>A value of type \<open>string\<close> (\<open>typeof v === "string"\<close>).\<close>

fun is_jstr :: "jval \<Rightarrow> bool" where
  "is_jstr (JStr _) = True"
| "is_jstr _ = False"

section \<open>Lemmas\<close>

lemma js_or_truthy [simp]: "js_truthy a \<Longrightarrow> js_or a b = a"
  by (simp add: js_or_def)

lemma js_or_falsy [simp]: "\<not> js_truthy a \<Longrightarrow> js_or a b = b"
  by (simp add: js_or_def)

lemma obj_get_set_same [simp]: "obj_get (obj_set fs k v) k = v"
  by (simp add: obj_get_def obj_set_def)

lemma obj_get_set_other [simp]: "k' \<noteq> k \<Longrightarrow> obj_get (obj_set fs k v) k' = obj_get fs k'"
  by (simp add: obj_get_def obj_set_def)

lemma obj_get_Cons [simp]:
  "obj_get ((k, v) # fs) k' = (if k' = k then v else obj_get fs k')"
  by (simp add: obj_get_def)

lemma obj_get_Nil [simp]: "obj_get [] k = JUndef"
  by (simp add: obj_get_def)

lemma js_strict_eq_str [simp]: "js_strict_eq (JStr a) b = (b = JStr a)"
  by (auto simp: js_strict_eq_def)

lemma param_truthy_Some [simp]: "param_truthy (Some s) = (s \<noteq> [])"
  by (simp add: param_truthy_def)

lemma param_truthy_None [simp]: "\<not> param_truthy None"
  by (simp add: param_truthy_def)

subsection \<open>Generated ids\<close>

lemma length_hex_digits [simp]: "length (hex_digits k n) = k"
  by (induction k arbitrary: n) auto

lemma hex_char_lower_hex: "d < 16 \<Longrightarrow> digit_val 16 (hex_char d) = Some d"
  by (auto simp: hex_char_def digit_val_def Let_def)

lemma hex_char_lower: "d < 16 \<Longrightarrow> lower_char (hex_char d) = hex_char d"
  by (auto simp: hex_char_def lower_char_def)

lemma hex_digits_hex: "list_all is_hex_char (hex_digits k n)"
  by (induction k arbitrary: n) (auto simp: is_hex_char_def hex_char_lower_hex)

lemma hex_digits_lower: "to_lower (hex_digits k n) = hex_digits k n"
  by (induction k arbitrary: n) (auto simp: to_lower_def hex_char_lower)

lemma oid_hex_is_hex24 [simp]: "is_hex24 (oid_hex n)"
  by (simp add: is_hex24_def oid_hex_def hex_digits_hex)

lemma oid_hex_nonempty [simp]: "oid_hex n \<noteq> []"
proof -
  have "length (oid_hex n) = 24" by (simp add: oid_hex_def)
  then show ?thesis by auto
qed

lemma object_id_of_JOid: "object_id_of v = Some oid \<Longrightarrow> \<exists>h. oid = JOid h"
  by (cases v) (auto split: if_splits option.splits jval.splits)

lemma truthy_defined: "js_truthy v \<Longrightarrow> v \<noteq> JUndef"
  by auto

end
