(* ===== verification/Mongo.thy ===== *)
theory Mongo
  imports Json
begin

text \<open>
  The MongoDB database as the route handlers use it through \<open>getDb()\<close>
  (src/src/lib/mongodb.ts): named collections of documents in insertion order, the
  query forms the handlers build (equality, \<open>$in\<close>, \<open>$all\<close>, case-insensitive
  \<open>$regex\<close>, \<open>$gte\<close>/\<open>$lte\<close>), the update operators they send (\<open>$set\<close>,
  \<open>$inc\<close>, \<open>$pull\<close>, \<open>$addToSet\<close>, \<open>$setOnInsert\<close>, with upsert), and the
  cursor \<open>sort\<close>/\<open>skip\<close>/\<open>limit\<close>.  Every operation is one atomic step on
  one collection; there are no transactions, so a handler that issues several is a
  sequence of such steps, and a failure between them leaves the earlier ones in place.
\<close>

section \<open>Documents, collections, the database\<close>

type_synonym doc = "(string \<times> jval) list"

text \<open>The collections the handlers name in \<open>db.collection(...)\<close>.\<close>

datatype coll = Users | StudentProfiles | LandlordProfiles | Properties | Inquiries | Wishlists

record db =
  colls :: "coll \<Rightarrow> doc list"
  next_oid :: nat

definition empty_db :: db where
  "empty_db = \<lparr>colls = (\<lambda>_. []), next_oid = 0\<rparr>"

definition set_coll :: "coll \<Rightarrow> doc list \<Rightarrow> db \<Rightarrow> db" where
  "set_coll c ds d = d\<lparr>colls := (colls d)(c := ds)\<rparr>"

section \<open>Queries\<close>

text \<open>
  One condition on one field.  Equality follows MongoDB: a field holding an array
  matches a value it contains, and \<open>null\<close> matches a missing field.  The
  \<open>$regex\<close> with option \<open>i\<close> is modelled for literal patterns (a pattern free of
  regular-expression metacharacters), where it is a case-insensitive substring test.
  Ranges compare numbers; \<open>NaN\<close> sorts below every number, as in MongoDB's order.
\<close>

datatype cond =
    CEq jval
  | CIn "jval list"
  | CAll "jval list"
  | CRegexI string
  | CGte jval
  | CLte jval

type_synonym query = "(string \<times> cond) list"

definition eq_match :: "jval \<Rightarrow> jval \<Rightarrow> bool" where
  "eq_match fv v =
     (fv = v \<or> (case fv of JArr xs \<Rightarrow> v \<in> set xs | _ \<Rightarrow> False) \<or> (v = JNull \<and> fv = JUndef))"

fun num_ge :: "jval \<Rightarrow> jval \<Rightarrow> bool" where
  "num_ge (JNum x) (JNum y) = (y \<le> x)"
| "num_ge (JNum x) JNaN = True"
| "num_ge JNaN JNaN = True"
| "num_ge _ _ = False"

fun num_le :: "jval \<Rightarrow> jval \<Rightarrow> bool" where
  "num_le (JNum x) (JNum y) = (x \<le> y)"
| "num_le JNaN (JNum y) = True"
| "num_le JNaN JNaN = True"
| "num_le _ _ = False"

fun cond_match :: "cond \<Rightarrow> jval \<Rightarrow> bool" where
  "cond_match (CEq v) fv = eq_match fv v"
| "cond_match (CIn vs) fv = list_ex (eq_match fv) vs"
| "cond_match (CAll vs) fv = (vs \<noteq> [] \<and> list_all (eq_match fv) vs)"
| "cond_match (CRegexI p) fv =
     (case fv of JStr s \<Rightarrow> has_infix (to_lower p) (to_lower s) | _ \<Rightarrow> False)"
| "cond_match (CGte b) fv = num_ge fv b"
| "cond_match (CLte b) fv = num_le fv b"

definition matches :: "query \<Rightarrow> doc \<Rightarrow> bool" where
  "matches q d = list_all (\<lambda>(f, c). cond_match c (obj_get d f)) q"

section \<open>Reads\<close>

definition find_one :: "coll \<Rightarrow> query \<Rightarrow> db \<Rightarrow> doc option" where
  "find_one c q d = find (matches q) (colls d c)"

definition count_documents :: "coll \<Rightarrow> query \<Rightarrow> db \<Rightarrow> nat" where
  "count_documents c q d = length (filter (matches q) (colls d c))"

text \<open>
  \<open>.sort({createdAt: -1})\<close>: newest first by the \<open>Date\<close> in \<open>createdAt\<close>; a
  document without one sorts last.  MongoDB leaves the order of ties open; the model
  fixes one (reverse insertion order).
\<close>

fun date_key :: "jval \<Rightarrow> rat option" where
  "date_key (JDate (JNum t)) = Some t"
| "date_key _ = None"

definition sort_newest :: "doc list \<Rightarrow> doc list" where
  "sort_newest ds = rev (sort_key (\<lambda>d. date_key (obj_get d ''createdAt'')) ds)"

text \<open>
  \<open>.skip(s).limit(l)\<close>: a negative or \<open>NaN\<close> skip is refused by the server
  (\<open>None\<close>, an exception in the handler); \<open>limit(0)\<close> means no limit and a
  negative limit \<open>-n\<close> returns \<open>n\<close> documents.
\<close>

fun cursor_page :: "jval \<Rightarrow> jval \<Rightarrow> doc list \<Rightarrow> doc list option" where
  "cursor_page (JNum s) (JNum l) ds =
     (if s < 0 then None
      else let ds' = drop (nat \<lfloor>s\<rfloor>) ds in
           Some (if l = 0 then ds' else take (nat \<lfloor>\<bar>l\<bar>\<rfloor>) ds'))"
| "cursor_page _ _ ds = None"

definition find_page :: "coll \<Rightarrow> query \<Rightarrow> jval \<Rightarrow> jval \<Rightarrow> db \<Rightarrow> doc list option" where
  "find_page c q s l d = cursor_page s l (sort_newest (filter (matches q) (colls d c)))"

section \<open>Writes\<close>

text \<open>
  \<open>insertOne\<close>: a fresh \<open>_id\<close> is put first, and a field whose value is
  \<open>undefined\<close> is stored as \<open>null\<close> (the BSON serializer's default,
  \<open>ignoreUndefined: false\<close>; modelled for top-level fields).
\<close>

definition bson_field :: "string \<times> jval \<Rightarrow> string \<times> jval" where
  "bson_field f = (fst f, if snd f = JUndef then JNull else snd f)"

definition insert_one :: "coll \<Rightarrow> doc \<Rightarrow> db \<Rightarrow> jval \<times> db" where
  "insert_one c x d =
     (let oid = JOid (oid_hex (next_oid d))
      in (oid, (set_coll c (colls d c @ [(''_id'', oid) # map bson_field x]) d)
                 \<lparr>next_oid := Suc (next_oid d)\<rparr>))"

text \<open>
  Update operators.  Each may fail as the server fails it (\<open>None\<close>): \<open>$set\<close> of a
  different \<open>_id\<close> or of a \<open>$\<close>-prefixed field, \<open>$inc\<close> of a non-number,
  \<open>$pull\<close>/\<open>$addToSet\<close> on a field that holds a non-array.  \<open>$setOnInsert\<close> only
  acts when an upsert inserts.  The field name of \<open>$set\<close> is a dotted path, since a
  route passes a caller's keys to it: each segment goes into an embedded document
  (created when absent) or, when numeric, into an array (padded with \<open>null\<close>); an
  empty segment, or a segment into a value that is neither, is a write error.  The
  other operators are given fixed top-level names by the code.
\<close>

datatype upd =
    USet string jval
  | UInc string rat
  | UPull string jval
  | UAddToSet string jval
  | USetOnInsert string jval

text \<open>The segments of a dotted field name.\<close>

fun path_segs :: "string \<Rightarrow> string \<Rightarrow> string list" where
  "path_segs acc [] = [rev acc]"
| "path_segs acc (c # cs) = (if c = CHR ''.'' then rev acc # path_segs [] cs else path_segs (c # acc) cs)"

definition field_path :: "string \<Rightarrow> string list" where
  "field_path f = path_segs [] f"

text \<open>An array index segment: decimal digits only.\<close>

definition seg_index :: "string \<Rightarrow> nat option" where
  "seg_index k =
     (if k \<noteq> [] \<and> length (digit_prefix 10 k) = length k then Some (digits_value 10 (digit_prefix 10 k)) else None)"

definition list_set_pad :: "jval list \<Rightarrow> nat \<Rightarrow> jval \<Rightarrow> jval list" where
  "list_set_pad xs i u = (if i < length xs then xs[i := u] else xs @ replicate (i - length xs) JNull @ [u])"

fun set_in :: "jval \<Rightarrow> string list \<Rightarrow> jval \<Rightarrow> jval option" where
  "set_in w [] v = Some v"
| "set_in w (k # ks) v =
     (if k = [] then None
      else
        (case w of
           JObj fs \<Rightarrow> map_option (\<lambda>u. JObj (obj_set fs k u)) (set_in (obj_get fs k) ks v)
         | JUndef \<Rightarrow> map_option (\<lambda>u. JObj [(k, u)]) (set_in JUndef ks v)
         | JArr xs \<Rightarrow>
             (case seg_index k of
                None \<Rightarrow> None
              | Some i \<Rightarrow> map_option (\<lambda>u. JArr (list_set_pad xs i u))
                             (set_in (if i < length xs then xs ! i else JUndef) ks v))
         | _ \<Rightarrow> None))"

definition set_path :: "doc \<Rightarrow> string \<Rightarrow> jval \<Rightarrow> doc option" where
  "set_path x f v = (case set_in (JObj x) (field_path f) v of Some (JObj x') \<Rightarrow> Some x' | _ \<Rightarrow> None)"

text \<open>A field name that \<open>$set\<close> takes as one top-level key.\<close>

definition plain_field :: "string \<Rightarrow> bool" where
  "plain_field k = (k \<noteq> [] \<and> k \<noteq> ''_id'' \<and> take 1 k \<noteq> ''$'' \<and> CHR ''.'' \<notin> set k)"

fun apply_upd :: "bool \<Rightarrow> upd \<Rightarrow> doc \<Rightarrow> doc option" where
  "apply_upd ins (USet f v) x =
     (if (f = ''_id'' \<and> obj_get x ''_id'' \<noteq> v) \<or> take 1 f = ''$'' then None
      else set_path x f v)"
| "apply_upd ins (UInc f n) x =
     (case obj_get x f of
        JUndef \<Rightarrow> Some (obj_set x f (JNum n))
      | JNum m \<Rightarrow> Some (obj_set x f (JNum (m + n)))
      | JNaN \<Rightarrow> Some x
      | _ \<Rightarrow> None)"
| "apply_upd ins (UPull f v) x =
     (case obj_get x f of
        JUndef \<Rightarrow> Some x
      | JArr xs \<Rightarrow> Some (obj_set x f (JArr (filter (\<lambda>y. y \<noteq> v) xs)))
      | _ \<Rightarrow> None)"
| "apply_upd ins (UAddToSet f v) x =
     (case obj_get x f of
        JUndef \<Rightarrow> Some (obj_set x f (JArr [v]))
      | JArr xs \<Rightarrow> Some (if v \<in> set xs then x else obj_set x f (JArr (xs @ [v])))
      | _ \<Rightarrow> None)"
| "apply_upd ins (USetOnInsert f v) x = (if ins then Some (obj_set x f v) else Some x)"

text \<open>The server refuses an update two of whose fields are the same path or one a
  prefix of the other (\<open>Updating the path ... would create a conflict\<close>).\<close>

fun upd_field :: "upd \<Rightarrow> string" where
  "upd_field (USet f _) = f"
| "upd_field (UInc f _) = f"
| "upd_field (UPull f _) = f"
| "upd_field (UAddToSet f _) = f"
| "upd_field (USetOnInsert f _) = f"

fun paths_conflict :: "string list list \<Rightarrow> bool" where
  "paths_conflict [] = False"
| "paths_conflict (p # ps) =
     (list_ex (\<lambda>q. take (length p) q = p \<or> take (length q) p = q) ps \<or> paths_conflict ps)"

definition upd_conflict :: "upd list \<Rightarrow> bool" where
  "upd_conflict us = paths_conflict (map (\<lambda>u. field_path (upd_field u)) us)"

text \<open>The operators of one update apply in order, all or none.\<close>

fun apply_upds :: "bool \<Rightarrow> upd list \<Rightarrow> doc \<Rightarrow> doc option" where
  "apply_upds ins [] x = Some x"
| "apply_upds ins (u # us) x =
     (case apply_upd ins u x of None \<Rightarrow> None | Some x' \<Rightarrow> apply_upds ins us x')"

text \<open>
  The first matching document is updated; the result says whether one matched and
  whether it changed (\<open>modifiedCount\<close>).
\<close>

fun update_first :: "(doc \<Rightarrow> bool) \<Rightarrow> (doc \<Rightarrow> doc option) \<Rightarrow> doc list \<Rightarrow>
                     (doc list \<times> bool \<times> bool) option" where
  "update_first P f [] = Some ([], False, False)"
| "update_first P f (x # xs) =
     (if P x then (case f x of None \<Rightarrow> None | Some x' \<Rightarrow> Some (x' # xs, True, x' \<noteq> x))
      else (case update_first P f xs of
              None \<Rightarrow> None
            | Some (xs', m, ch) \<Rightarrow> Some (x # xs', m, ch)))"

text \<open>
  An upserted document starts from the equality conditions of the filter, as the
  server builds it, then gets the update with \<open>$setOnInsert\<close> active.
\<close>

definition upsert_seed :: "query \<Rightarrow> doc" where
  "upsert_seed q = concat (map (\<lambda>(f, c). case c of CEq v \<Rightarrow> [(f, v)] | _ \<Rightarrow> []) q)"

text \<open>\<open>updateOne(filter, update, {upsert})\<close>: \<open>None\<close> is a write error;
  otherwise the number of modified documents and the new database.\<close>

definition update_one :: "coll \<Rightarrow> query \<Rightarrow> upd list \<Rightarrow> bool \<Rightarrow> db \<Rightarrow> (nat \<times> db) option" where
  "update_one c q us upsert d =
     (if upd_conflict us then None
      else
        (case update_first (matches q) (apply_upds False us) (colls d c) of
           None \<Rightarrow> None
         | Some (xs', True, ch) \<Rightarrow> Some (if ch then 1 else 0, set_coll c xs' d)
         | Some (_, False, _) \<Rightarrow>
             (if upsert then
                (case apply_upds True us (upsert_seed q) of
                   None \<Rightarrow> None
                 | Some x \<Rightarrow> Some (0, snd (insert_one c x d)))
              else Some (0, d))))"

text \<open>
  \<open>updateMany\<close> is not atomic across documents: it updates the matching documents
  in order and stops at the first write error, keeping the updates before it.  The
  flag says whether every update succeeded.
\<close>

fun update_all :: "(doc \<Rightarrow> bool) \<Rightarrow> (doc \<Rightarrow> doc option) \<Rightarrow> doc list \<Rightarrow> doc list \<times> bool" where
  "update_all P f [] = ([], True)"
| "update_all P f (x # xs) =
     (if P x then
        (case f x of
           None \<Rightarrow> (x # xs, False)
         | Some x' \<Rightarrow> (let (ys, ok) = update_all P f xs in (x' # ys, ok)))
      else (let (ys, ok) = update_all P f xs in (x # ys, ok)))"

definition update_many :: "coll \<Rightarrow> query \<Rightarrow> upd list \<Rightarrow> db \<Rightarrow> db \<times> bool" where
  "update_many c q us d =
     (if upd_conflict us then (d, False)
      else (let (xs', ok) = update_all (matches q) (apply_upds False us) (colls d c)
            in (set_coll c xs' d, ok)))"

text \<open>\<open>deleteOne\<close>: the first matching document goes.\<close>

fun delete_first :: "(doc \<Rightarrow> bool) \<Rightarrow> doc list \<Rightarrow> doc list" where
  "delete_first P [] = []"
| "delete_first P (x # xs) = (if P x then xs else x # delete_first P xs)"

definition delete_one :: "coll \<Rightarrow> query \<Rightarrow> db \<Rightarrow> db" where
  "delete_one c q d = set_coll c (delete_first (matches q) (colls d c)) d"

section \<open>Lemmas on the store operations\<close>

lemma update_first_prefix:
  "list_all (\<lambda>y. \<not> P y) ys \<Longrightarrow>
   update_first P f (ys @ xs) = map_option (\<lambda>(xs', m, ch). (ys @ xs', m, ch)) (update_first P f xs)"
  by (induction ys) (auto split: option.splits prod.splits simp: option.map_id)

lemma update_first_none_match:
  "list_all (\<lambda>y. \<not> P y) xs \<Longrightarrow> update_first P f xs = Some (xs, False, False)"
  using update_first_prefix [of P xs f "[]"] by simp

lemma find_Some_split:
  "find P xs = Some w \<Longrightarrow> \<exists>ys zs. xs = ys @ w # zs \<and> list_all (\<lambda>y. \<not> P y) ys \<and> P w"
proof (induction xs)
  case Nil
  then show ?case by simp
next
  case (Cons x xs)
  show ?case
  proof (cases "P x")
    case True
    with Cons.prems show ?thesis by force
  next
    case False
    with Cons obtain ys zs where "xs = ys @ w # zs" "list_all (\<lambda>y. \<not> P y) ys" "P w" by auto
    with False show ?thesis by (intro exI [of _ "x # ys"] exI [of _ zs]) simp
  qed
qed

lemma find_split_hit:
  "list_all (\<lambda>y. \<not> P y) ys \<Longrightarrow> P w \<Longrightarrow> find P (ys @ w # zs) = Some w"
  by (induction ys) auto

lemma find_None_list_all: "find P xs = None \<longleftrightarrow> list_all (\<lambda>y. \<not> P y) xs"
  by (auto simp: find_None_iff list_all_iff)

lemma update_one_hit:
  assumes "find_one c q d = Some w" "\<not> upd_conflict us"
  obtains ys zs where "colls d c = ys @ w # zs" "list_all (\<lambda>y. \<not> matches q y) ys" "matches q w"
    "update_one c q us up d =
       (case apply_upds False us w of
          None \<Rightarrow> None
        | Some w' \<Rightarrow> Some (if w' \<noteq> w then 1 else 0, set_coll c (ys @ w' # zs) d))"
proof -
  from assms obtain ys zs where sp: "colls d c = ys @ w # zs" "list_all (\<lambda>y. \<not> matches q y) ys"
    "matches q w"
    unfolding find_one_def by (blast dest: find_Some_split)
  then show ?thesis
    using assms(2) by (intro that [of ys zs]) (auto simp: update_one_def update_first_prefix split: option.splits)
qed

lemma update_one_miss:
  "find_one c q d = None \<Longrightarrow> \<not> upd_conflict us \<Longrightarrow>
   update_one c q us up d =
     (if up then (case apply_upds True us (upsert_seed q) of
                    None \<Rightarrow> None | Some x \<Rightarrow> Some (0, snd (insert_one c x d)))
      else Some (0, d))"
  by (simp add: update_one_def find_one_def find_None_list_all update_first_none_match)

lemma colls_set_coll [simp]: "colls (set_coll c ds d) = (colls d)(c := ds)"
  by (simp add: set_coll_def)

lemma next_oid_set_coll [simp]: "next_oid (set_coll c ds d) = next_oid d"
  by (simp add: set_coll_def)

lemma insert_one_colls [simp]:
  "colls (snd (insert_one c x d)) =
     (colls d)(c := colls d c @ [(''_id'', JOid (oid_hex (next_oid d))) # map bson_field x])"
  by (simp add: insert_one_def Let_def)

lemma insert_one_fst: "fst (insert_one c x d) = JOid (oid_hex (next_oid d))"
  by (simp add: insert_one_def Let_def)

lemma find_one_update_hit:
  assumes "find_one c q d = Some w" "apply_upds False us w = Some w'" "matches q w'" "\<not> upd_conflict us"
    and "update_one c q us up d = Some (n, d')"
  shows "find_one c q d' = Some w'"
proof -
  obtain ys zs where "colls d c = ys @ w # zs" "list_all (\<lambda>y. \<not> matches q y) ys"
    and u: "update_one c q us up d =
       (case apply_upds False us w of None \<Rightarrow> None
        | Some w' \<Rightarrow> Some (if w' \<noteq> w then 1 else 0, set_coll c (ys @ w' # zs) d))"
    using assms(1,4) by (rule update_one_hit)
  with assms(2,3,5) show ?thesis by (auto simp: find_one_def find_split_hit)
qed

lemma update_one_hit_Some:
  assumes "find_one c q d = Some w" "apply_upds False us w = Some w'" "\<not> upd_conflict us"
  obtains n d' where "update_one c q us up d = Some (n, d')"
proof -
  obtain ys zs where "update_one c q us up d =
       (case apply_upds False us w of None \<Rightarrow> None
        | Some w' \<Rightarrow> Some (if w' \<noteq> w then 1 else 0, set_coll c (ys @ w' # zs) d))"
    using assms(1,3) by (rule update_one_hit)
  with assms(2) show ?thesis by (intro that) simp
qed

lemma update_one_hit_None:
  assumes "find_one c q d = Some w" "apply_upds False us w = None"
  shows "update_one c q us up d = None"
proof (cases "upd_conflict us")
  case False
  obtain ys zs where "update_one c q us up d =
       (case apply_upds False us w of None \<Rightarrow> None
        | Some w' \<Rightarrow> Some (if w' \<noteq> w then 1 else 0, set_coll c (ys @ w' # zs) d))"
    using assms(1) False by (rule update_one_hit)
  with assms(2) show ?thesis by simp
qed (simp add: update_one_def)

lemma find_one_upsert:
  assumes "find_one c q d = None" "apply_upds True us (upsert_seed q) = Some x" "\<not> upd_conflict us"
    and "matches q ((''_id'', JOid (oid_hex (next_oid d))) # map bson_field x)"
    and "update_one c q us True d = Some (n, d')"
  shows "find_one c q d' = Some ((''_id'', JOid (oid_hex (next_oid d))) # map bson_field x)"
proof -
  from assms(1,2,3,5) have "d' = snd (insert_one c x d)" by (simp add: update_one_miss)
  with assms(1,4) show ?thesis
    using find_split_hit [of "matches q" "colls d c" _ "[]"]
    by (simp add: find_one_def find_None_list_all)
qed

lemma bson_field_simp [simp]:
  "bson_field (k, v) = (k, if v = JUndef then JNull else v)"
  by (simp add: bson_field_def)

lemma obj_get_bson: "obj_get x k \<noteq> JUndef \<Longrightarrow> obj_get (map bson_field x) k = obj_get x k"
  by (induction x) (auto split: if_splits)

lemma insert_one_other:
  "insert_one c x d = (oid, d1) \<Longrightarrow> c' \<noteq> c \<Longrightarrow> colls d1 c' = colls d c'"
  by (auto simp: insert_one_def Let_def)

lemma update_one_no_match:
  "list_all (\<lambda>x. \<not> matches q x) (colls d c) \<Longrightarrow> \<not> upd_conflict us \<Longrightarrow> update_one c q us False d = Some (0, d)"
  by (simp add: update_one_miss find_one_def find_None_list_all)

lemma update_one_other:
  "update_one c q us up d = Some (n, d') \<Longrightarrow> c' \<noteq> c \<Longrightarrow> colls d' c' = colls d c'"
  by (auto simp: update_one_def insert_one_def Let_def split: option.splits prod.splits bool.splits if_splits)

text \<open>\<open>updateMany\<close> that reports success rewrote every matching document and left
  the others alone.\<close>

lemma update_all_ok:
  "update_all P f xs = (ys, True) \<Longrightarrow>
   list_all2 (\<lambda>x y. (P x \<longrightarrow> f x = Some y) \<and> (\<not> P x \<longrightarrow> y = x)) xs ys"
proof (induction xs arbitrary: ys)
  case Nil
  then show ?case by simp
next
  case (Cons x xs)
  show ?case
  proof (cases "P x")
    case True
    with Cons show ?thesis by (auto split: option.splits prod.splits)
  next
    case False
    with Cons show ?thesis by (auto split: prod.splits)
  qed
qed

lemma pull_removes:
  "apply_upds False [UPull k v] w = Some w' \<Longrightarrow>
   (case obj_get w' k of JArr xs \<Rightarrow> v \<notin> set xs | _ \<Rightarrow> True)"
  by (auto split: jval.splits)

text \<open>A page of a sorted, filtered cursor is a sorted piece of the collection.\<close>

lemma cursor_page_sub:
  "cursor_page s l ys = Some xs \<Longrightarrow> \<exists>k. xs = take k (drop (nat \<lfloor>case s of JNum r \<Rightarrow> r | _ \<Rightarrow> 0\<rfloor>) ys)"
  by (cases s; cases l) (auto simp: Let_def split: if_splits intro: exI [of _ "length ys"])

lemma cursor_page_set: "cursor_page s l ys = Some xs \<Longrightarrow> set xs \<subseteq> set ys"
  by (auto dest!: cursor_page_sub dest: in_set_takeD in_set_dropD)

lemma cursor_page_sorted:
  "cursor_page s l ys = Some xs \<Longrightarrow> sorted_wrt R ys \<Longrightarrow> sorted_wrt R xs"
  by (auto dest!: cursor_page_sub simp: sorted_wrt_take sorted_wrt_drop)

lemma cursor_page_length:
  "cursor_page s (JNum l) ys = Some xs \<Longrightarrow> l \<noteq> 0 \<Longrightarrow> length xs \<le> nat \<lfloor>\<bar>l\<bar>\<rfloor>"
  by (cases s) (auto split: if_splits)

lemma set_sort_newest [simp]: "set (sort_newest ds) = set ds"
  by (simp add: sort_newest_def)

lemma sort_newest_sorted:
  "sorted_wrt (\<lambda>x y. date_key (obj_get y ''createdAt'') \<le> date_key (obj_get x ''createdAt'')) (sort_newest ds)"
proof -
  have "sorted (map (\<lambda>d. date_key (obj_get d ''createdAt'')) (sort_key (\<lambda>d. date_key (obj_get d ''createdAt'')) ds))"
    by (rule sorted_sort_key)
  then show ?thesis by (simp add: sort_newest_def sorted_wrt_rev sorted_map)
qed

lemma find_page_set:
  "find_page c q s l d = Some xs \<Longrightarrow> set xs \<subseteq> {x \<in> set (colls d c). matches q x}"
  by (auto simp: find_page_def dest!: cursor_page_set)

text \<open>\<open>$set\<close> of several fields, none of them \<open>_id\<close> or an operator.\<close>

text \<open>A field name without a dot is one non-empty segment.\<close>

lemma path_segs_plain: "CHR ''.'' \<notin> set cs \<Longrightarrow> path_segs acc cs = [rev acc @ cs]"
  by (induction acc cs rule: path_segs.induct) auto

lemma field_path_plain [simp]: "CHR ''.'' \<notin> set k \<Longrightarrow> field_path k = [k]"
  by (simp add: field_path_def path_segs_plain)

lemma set_path_plain [simp]: "k \<noteq> [] \<Longrightarrow> CHR ''.'' \<notin> set k \<Longrightarrow> set_path x k v = Some (obj_set x k v)"
  by (simp add: set_path_def field_path_plain)

lemma apply_upds_USets:
  "list_all (\<lambda>(k, v). plain_field k) u \<Longrightarrow>
   apply_upds False (map (\<lambda>(k, v). USet k v) u) x = Some (foldl (\<lambda>x (k, v). obj_set x k v) x u)"
  by (induction u arbitrary: x) (auto simp: plain_field_def set_path_plain)

text \<open>Distinct plain fields never conflict.\<close>

lemma paths_conflict_singletons: "distinct ks \<Longrightarrow> \<not> paths_conflict (map (\<lambda>k. [k]) ks)"
  by (induction ks) (auto simp: list_ex_iff)

lemma upd_conflict_Nil [simp]: "\<not> upd_conflict []"
  by (simp add: upd_conflict_def)

lemma upd_conflict_Cons [simp]:
  "upd_conflict (u # us) =
     (list_ex (\<lambda>q. take (length (field_path (upd_field u))) q = field_path (upd_field u) \<or>
                   take (length q) (field_path (upd_field u)) = q)
        (map (\<lambda>u. field_path (upd_field u)) us) \<or> upd_conflict us)"
  by (simp add: upd_conflict_def)

lemma upd_conflict_plain:
  "distinct (map upd_field us) \<Longrightarrow> list_all (\<lambda>u. CHR ''.'' \<notin> set (upd_field u)) us \<Longrightarrow> \<not> upd_conflict us"
proof -
  assume d: "distinct (map upd_field us)" and p: "list_all (\<lambda>u. CHR ''.'' \<notin> set (upd_field u)) us"
  from p have eq: "map (\<lambda>u. field_path (upd_field u)) us = map (\<lambda>k. [k]) (map upd_field us)"
    by (induction us) (auto simp: field_path_plain)
  show ?thesis unfolding upd_conflict_def eq by (rule paths_conflict_singletons [OF d])
qed

lemma USets_no_conflict:
  assumes "distinct (map fst u)" "list_all (\<lambda>(k, v). plain_field k) u"
  shows "\<not> upd_conflict (map (\<lambda>(k, v). USet k v) u)"
proof (rule upd_conflict_plain)
  have "upd_field \<circ> (\<lambda>(k, v). USet k v) = fst" by (auto simp: fun_eq_iff)
  with assms(1) show "distinct (map upd_field (map (\<lambda>(k, v). USet k v) u))" by simp
  from assms(2) show "list_all (\<lambda>u. CHR ''.'' \<notin> set (upd_field u)) (map (\<lambda>(k, v). USet k v) u)"
    by (induction u) (auto simp: plain_field_def)
qed

lemma obj_get_foldl_notin:
  "k \<notin> fst ` set u \<Longrightarrow> obj_get (foldl (\<lambda>x (k, v). obj_set x k v) x u) k = obj_get x k"
  by (induction u arbitrary: x) auto

lemma obj_get_foldl_in:
  "distinct (map fst u) \<Longrightarrow> k \<in> fst ` set u \<Longrightarrow>
   obj_get (foldl (\<lambda>x (k, v). obj_set x k v) x u) k = obj_get u k"
proof (induction u arbitrary: x)
  case Nil
  then show ?case by simp
next
  case (Cons kv u)
  obtain k' v where kv: "kv = (k', v)" by (cases kv)
  show ?case
  proof (cases "k = k'")
    case True
    with Cons.prems kv have "k \<notin> fst ` set u" by auto
    with True kv show ?thesis by (simp add: obj_get_foldl_notin)
  next
    case False
    with Cons kv show ?thesis by simp
  qed
qed

lemma find_one_own_id:
  assumes "p \<in> set (colls d c)"
  obtains w where "find_one c [(''_id'', CEq (obj_get p ''_id''))] d = Some w"
  using find_from_member [OF assms, of "matches [(''_id'', CEq (obj_get p ''_id''))]"]
  by (auto simp: find_one_def matches_def eq_match_def)

lemma eq_match_str: "is_jstr fv \<Longrightarrow> eq_match fv (JStr s) \<longleftrightarrow> fv = JStr s"
  by (cases fv) (auto simp: eq_match_def)

lemma next_oid_insert_one: "next_oid (snd (insert_one c x d)) = Suc (next_oid d)"
  by (simp add: insert_one_def Let_def)

lemma find_one_append_new:
  "find_one c q d = None \<Longrightarrow> colls d' c = colls d c @ [x] \<Longrightarrow> matches q x \<Longrightarrow> find_one c q d' = Some x"
  by (simp add: find_one_def find_append_None)

lemma find_one_append_old:
  "find_one c q d = Some x \<Longrightarrow> colls d' c = colls d c @ ys \<Longrightarrow> find_one c q d' = Some x"
  by (simp add: find_one_def find_append_Some)

end
