(* ===== verification/Http.thy ===== *)
theory Http
  imports Mongo
begin

text \<open>
  What a route handler returns: \<open>NextResponse.json(body, {status})\<close>, possibly with
  a cookie set on it (\<open>response.cookies.set(...)\<close>, used by the auth routes).  Every
  handler of src/src/app/api is modelled as a function from its request (query
  parameters or parsed body), the clock (\<open>Date.now()\<close> in milliseconds) and the
  database to a response and the database after the handler's writes.  The
  \<open>catch\<close> block at the end of each handler becomes the 500 branch taken wherever
  an operation of the model returns \<open>None\<close>; writes issued before that point stay
  in the returned database.
\<close>

record cookie =
  cookie_name :: string
  cookie_value :: string
  cookie_http_only :: bool
  cookie_same_site :: string
  cookie_max_age :: int
  cookie_path :: string

record resp =
  http_status :: nat
  http_body :: jval
  set_cookie :: "cookie option"

definition json_resp :: "nat \<Rightarrow> jobj \<Rightarrow> resp" where
  "json_resp code fs = \<lparr>http_status = code, http_body = JObj fs, set_cookie = None\<rparr>"

text \<open>\<open>{ success: false, message }\<close> with a status: the error shape of the property,
  inquiry and auth routes.\<close>

definition fail_resp :: "nat \<Rightarrow> string \<Rightarrow> resp" where
  "fail_resp code msg = json_resp code [(''success'', JBool False), (''message'', JStr msg)]"

text \<open>\<open>{ error }\<close> with a status: the error shape of the wishlist route.\<close>

definition error_resp :: "nat \<Rightarrow> string \<Rightarrow> resp" where
  "error_resp code msg = json_resp code [(''error'', JStr msg)]"

text \<open>\<open>new Date()\<close> at the time of the request.\<close>

definition js_now :: "nat \<Rightarrow> jval" where
  "js_now t = JDate (JNum (of_nat t))"

lemma http_status_json_resp [simp]: "http_status (json_resp c fs) = c"
  by (simp add: json_resp_def)

lemma http_status_fail_resp [simp]: "http_status (fail_resp c m) = c"
  by (simp add: fail_resp_def)

lemma http_status_error_resp [simp]: "http_status (error_resp c m) = c"
  by (simp add: error_resp_def)

lemma http_body_fail_resp [simp]:
  "http_body (fail_resp c m) = JObj [(''success'', JBool False), (''message'', JStr m)]"
  by (simp add: fail_resp_def json_resp_def)

lemma http_body_json_resp [simp]: "http_body (json_resp c fs) = JObj fs"
  by (simp add: json_resp_def)

lemma set_cookie_json_resp [simp]: "set_cookie (json_resp c fs) = None"
  by (simp add: json_resp_def)

lemma set_cookie_fail_resp [simp]: "set_cookie (fail_resp c m) = None"
  by (simp add: fail_resp_def)

lemma js_now_defined [simp]: "js_now t \<noteq> JUndef"
  by (simp add: js_now_def)

end
