(* ===== verification/Wishlist.thy ===== *)
theory Wishlist
  imports Http
begin

text \<open>
  The wishlist route, src/src/app/api/wishlist/route.ts.  One wishlist document,
  keyed by the constant user id \<open>"guest-user"\<close>, holds an array
  \<open>propertyIds\<close>.  \<open>GET\<close> reads it, \<open>POST\<close> adds an id (\<open>$addToSet\<close>, with
  upsert), \<open>DELETE\<close> removes one (\<open>$pull\<close>) or clears the list, \<open>PUT\<close> toggles
  one: a membership query, then a \<open>$pull\<close> or an upserting \<open>$addToSet\<close>.  Every
  write stamps \<open>updatedAt\<close>, and a fresh document gets \<open>createdAt\<close>.
\<close>

section \<open>Handlers\<close>

definition DEFAULT_USER_ID :: jval where
  "DEFAULT_USER_ID = JStr ''guest-user''"

definition guest_query :: query where
  "guest_query = [(''userId'', CEq DEFAULT_USER_ID)]"

text \<open>\<open>wishlist?.propertyIds || []\<close> after a \<open>findOne\<close>.\<close>

definition wishlist_ids :: "db \<Rightarrow> jval" where
  "wishlist_ids d =
     (case find_one Wishlists guest_query d of
        None \<Rightarrow> JArr []
      | Some w \<Rightarrow> js_or (obj_get w ''propertyIds'') (JArr []))"

definition wishlist_GET :: "db \<Rightarrow> resp \<times> db" where
  "wishlist_GET d = (json_resp 200 [(''propertyIds'', wishlist_ids d)], d)"

definition add_update :: "jval \<Rightarrow> nat \<Rightarrow> upd list" where
  "add_update pid t =
     [UAddToSet ''propertyIds'' pid, USet ''updatedAt'' (js_now t), USetOnInsert ''createdAt'' (js_now t)]"

definition wishlist_POST :: "jval \<Rightarrow> nat \<Rightarrow> db \<Rightarrow> resp \<times> db" where
  "wishlist_POST body t d =
     (case body_fields body of
        None \<Rightarrow> (error_resp 500 ''Failed to add to wishlist'', d)
      | Some b \<Rightarrow>
          (let pid = obj_get b ''propertyId'' in
           if \<not> js_truthy pid then (error_resp 400 ''Property ID is required'', d)
           else
             (case update_one Wishlists guest_query (add_update pid t) True d of
                None \<Rightarrow> (error_resp 500 ''Failed to add to wishlist'', d)
              | Some (_, d') \<Rightarrow>
                  (json_resp 200 [(''message'', JStr ''Added to wishlist''),
                                  (''propertyIds'', wishlist_ids d')], d'))))"

definition remove_update :: "jval \<Rightarrow> nat \<Rightarrow> upd list" where
  "remove_update pid t = [UPull ''propertyIds'' pid, USet ''updatedAt'' (js_now t)]"

definition wishlist_DELETE :: "params \<Rightarrow> nat \<Rightarrow> db \<Rightarrow> resp \<times> db" where
  "wishlist_DELETE ps t d =
     (let propertyId = param_get ps ''propertyId''; clearAll = param_get ps ''clearAll'' in
      if clearAll = Some ''true'' then
        (case update_one Wishlists guest_query
                [USet ''propertyIds'' (JArr []), USet ''updatedAt'' (js_now t)] False d of
           None \<Rightarrow> (error_resp 500 ''Failed to remove from wishlist'', d)
         | Some (_, d') \<Rightarrow>
             (json_resp 200 [(''message'', JStr ''Wishlist cleared''), (''propertyIds'', JArr [])], d'))
      else
        (case propertyId of
           None \<Rightarrow> (error_resp 400 ''Property ID is required'', d)
         | Some pid \<Rightarrow>
             if pid = [] then (error_resp 400 ''Property ID is required'', d)
             else
               (case update_one Wishlists guest_query (remove_update (JStr pid) t) False d of
                  None \<Rightarrow> (error_resp 500 ''Failed to remove from wishlist'', d)
                | Some (_, d') \<Rightarrow>
                    (json_resp 200 [(''message'', JStr ''Removed from wishlist''),
                                    (''propertyIds'', wishlist_ids d')], d'))))"

text \<open>\<open>PUT\<close>: the membership test is a query on the array field, which matches when
  the array contains the id.\<close>

definition in_wishlist :: "jval \<Rightarrow> db \<Rightarrow> bool" where
  "in_wishlist pid d =
     (find_one Wishlists [(''userId'', CEq DEFAULT_USER_ID), (''propertyIds'', CEq pid)] d \<noteq> None)"

text \<open>The write half of \<open>PUT\<close>, after the membership test has answered \<open>found\<close>.\<close>

definition toggle_write :: "bool \<Rightarrow> jval \<Rightarrow> nat \<Rightarrow> db \<Rightarrow> resp \<times> db" where
  "toggle_write found pid t d =
     (let r = (if found then update_one Wishlists guest_query (remove_update pid t) False d
               else update_one Wishlists guest_query (add_update pid t) True d)
      in case r of
           None \<Rightarrow> (error_resp 500 ''Failed to toggle wishlist'', d)
         | Some (_, d') \<Rightarrow>
             (json_resp 200
                [(''message'', JStr (if found then ''Removed from wishlist'' else ''Added to wishlist'')),
                 (''propertyIds'', wishlist_ids d'),
                 (''isInWishlist'', JBool (\<not> found))], d'))"

definition wishlist_PUT :: "jval \<Rightarrow> nat \<Rightarrow> db \<Rightarrow> resp \<times> db" where
  "wishlist_PUT body t d =
     (case body_fields body of
        None \<Rightarrow> (error_resp 500 ''Failed to toggle wishlist'', d)
      | Some b \<Rightarrow>
          (let pid = obj_get b ''propertyId'' in
           if \<not> js_truthy pid then (error_resp 400 ''Property ID is required'', d)
           else toggle_write (in_wishlist pid d) pid t d))"

section \<open>The abstract wishlist\<close>

text \<open>
  What the route promises: the guest's list is a list without repetitions, \<open>POST\<close>
  adds an id at the end unless it is there, \<open>DELETE\<close> removes it, \<open>PUT\<close> does
  whichever of the two the membership test calls for.  \<open>guest_list\<close> abstracts a
  database to the list that \<open>GET\<close> returns.
\<close>

definition set_add :: "jval \<Rightarrow> jval list \<Rightarrow> jval list" where
  "set_add x xs = (if x \<in> set xs then xs else xs @ [x])"

definition set_remove :: "jval \<Rightarrow> jval list \<Rightarrow> jval list" where
  "set_remove x xs = filter (\<lambda>y. y \<noteq> x) xs"

definition set_toggle :: "jval \<Rightarrow> jval list \<Rightarrow> jval list" where
  "set_toggle x xs = (if x \<in> set xs then set_remove x xs else set_add x xs)"

definition guest_list :: "db \<Rightarrow> jval list" where
  "guest_list d = (case wishlist_ids d of JArr xs \<Rightarrow> xs | _ \<Rightarrow> [])"

text \<open>
  The invariant: every wishlist document holds an array of distinct ids, and at most
  one document belongs to the guest (only an upsert that found none creates one).
\<close>

definition wl_doc_ok :: "doc \<Rightarrow> bool" where
  "wl_doc_ok w = (case obj_get w ''propertyIds'' of JArr xs \<Rightarrow> distinct xs | _ \<Rightarrow> False)"

definition wishlists_ok :: "db \<Rightarrow> bool" where
  "wishlists_ok d =
     (list_all wl_doc_ok (colls d Wishlists) \<and>
      length (filter (matches guest_query) (colls d Wishlists)) \<le> 1)"

section \<open>The route as one step function\<close>

text \<open>
  Next.js dispatches a request to the exported function of its method; the datatype
  of requests and \<open>wishlist_route\<close> make that dispatch explicit, and
  \<open>wishlist_abs\<close> is what each request does to the abstract list.
\<close>

datatype wl_req = WlGet | WlPost jval | WlDelete params | WlPut jval

fun wishlist_route :: "wl_req \<Rightarrow> nat \<Rightarrow> db \<Rightarrow> resp \<times> db" where
  "wishlist_route WlGet t d = wishlist_GET d"
| "wishlist_route (WlPost body) t d = wishlist_POST body t d"
| "wishlist_route (WlDelete ps) t d = wishlist_DELETE ps t d"
| "wishlist_route (WlPut body) t d = wishlist_PUT body t d"

fun wishlist_abs :: "wl_req \<Rightarrow> jval list \<Rightarrow> jval list" where
  "wishlist_abs WlGet xs = xs"
| "wishlist_abs (WlPost body) xs =
     (case body_fields body of
        None \<Rightarrow> xs
      | Some b \<Rightarrow> if js_truthy (obj_get b ''propertyId'') then set_add (obj_get b ''propertyId'') xs else xs)"
| "wishlist_abs (WlDelete ps) xs =
     (if param_get ps ''clearAll'' = Some ''true'' then []
      else case param_get ps ''propertyId'' of
             None \<Rightarrow> xs
           | Some p \<Rightarrow> if p = [] then xs else set_remove (JStr p) xs)"
| "wishlist_abs (WlPut body) xs =
     (case body_fields body of
        None \<Rightarrow> xs
      | Some b \<Rightarrow> if js_truthy (obj_get b ''propertyId'') then set_toggle (obj_get b ''propertyId'') xs else xs)"

text \<open>A toggle of an array value would compare the array with the whole list; the
  client only sends ids, and the refinement is stated for those requests.\<close>

fun wl_req_valid :: "wl_req \<Rightarrow> bool" where
  "wl_req_valid (WlPut body) =
     (case body_fields body of None \<Rightarrow> True | Some b \<Rightarrow> \<not> is_jarr (obj_get b ''propertyId''))"
| "wl_req_valid _ = True"

section \<open>Lemmas\<close>

lemma DEFAULT_USER_ID_defined [simp]: "DEFAULT_USER_ID \<noteq> JUndef"
  by (simp add: DEFAULT_USER_ID_def)

lemma matches_guest: "matches guest_query w = eq_match (obj_get w ''userId'') DEFAULT_USER_ID"
  by (simp add: matches_def guest_query_def)

lemma matches_guest_set [simp]:
  "f \<noteq> ''userId'' \<Longrightarrow> matches guest_query (obj_set w f v) = matches guest_query w"
  by (simp add: matches_guest)

lemma matches_guest_id [simp]:
  "matches guest_query ((''_id'', v) # x) = matches guest_query x"
  by (simp add: matches_guest)

lemma apply_add_update:
  "obj_get w ''propertyIds'' = JArr xs \<Longrightarrow>
   apply_upds False (add_update pid t) w =
     Some (obj_set (if pid \<in> set xs then w else obj_set w ''propertyIds'' (JArr (xs @ [pid])))
             ''updatedAt'' (js_now t))"
  by (simp add: add_update_def)

lemma apply_remove_update:
  "obj_get w ''propertyIds'' = JArr xs \<Longrightarrow>
   apply_upds False (remove_update pid t) w =
     Some (obj_set (obj_set w ''propertyIds'' (JArr (filter (\<lambda>y. y \<noteq> pid) xs))) ''updatedAt'' (js_now t))"
  by (simp add: remove_update_def)

lemma upsert_add_update:
  "apply_upds True (add_update pid t) (upsert_seed guest_query) =
     Some [(''userId'', DEFAULT_USER_ID), (''propertyIds'', JArr [pid]),
           (''updatedAt'', js_now t), (''createdAt'', js_now t)]"
  by (simp add: add_update_def upsert_seed_def guest_query_def obj_set_def)

lemma wl_doc_okE:
  assumes "wl_doc_ok w"
  obtains xs where "obj_get w ''propertyIds'' = JArr xs" "distinct xs"
  using assms by (auto simp: wl_doc_ok_def split: jval.splits)

lemma guest_doc_ok:
  assumes "wishlists_ok d" "find_one Wishlists guest_query d = Some w"
  shows "obj_get w ''propertyIds'' = JArr (guest_list d) \<and> distinct (guest_list d)"
proof -
  from assms(2) have "w \<in> set (colls d Wishlists)"
    by (auto simp: find_one_def dest: find_Some_in_set)
  with assms(1) have "wl_doc_ok w" by (auto simp: wishlists_ok_def list_all_iff)
  then obtain xs where "obj_get w ''propertyIds'' = JArr xs" "distinct xs" by (rule wl_doc_okE)
  with assms(2) show ?thesis by (simp add: guest_list_def wishlist_ids_def)
qed

lemma guest_list_none: "find_one Wishlists guest_query d = None \<Longrightarrow> guest_list d = []"
  by (simp add: guest_list_def wishlist_ids_def)

lemma guest_list_hit:
  "find_one Wishlists guest_query d = Some w \<Longrightarrow> obj_get w ''propertyIds'' = JArr xs \<Longrightarrow>
   guest_list d = xs"
  by (simp add: guest_list_def wishlist_ids_def)

lemma guest_matches:
  "find_one Wishlists guest_query d = Some w \<Longrightarrow> matches guest_query w"
  by (auto simp: find_one_def dest: find_Some_in_set)

lemma wishlists_ok_update_one:
  assumes ok: "wishlists_ok d"
    and upd: "update_one Wishlists guest_query us up d = Some (n, d')"
    and nc: "\<not> upd_conflict us"
    and keep: "\<And>w w'. wl_doc_ok w \<Longrightarrow> matches guest_query w \<Longrightarrow> apply_upds False us w = Some w' \<Longrightarrow>
                 wl_doc_ok w' \<and> matches guest_query w'"
    and ins: "\<And>x. up \<Longrightarrow> apply_upds True us (upsert_seed guest_query) = Some x \<Longrightarrow> wl_doc_ok x"
  shows "wishlists_ok d'"
proof (cases "find_one Wishlists guest_query d")
  case None
  then have none: "filter (matches guest_query) (colls d Wishlists) = []"
    by (simp add: find_one_def find_None_list_all filter_empty_conv list_all_iff)
  show ?thesis
  proof (cases up)
    case True
    with upd None obtain x where x: "apply_upds True us (upsert_seed guest_query) = Some x"
      and d': "d' = snd (insert_one Wishlists x d)"
      by (auto simp: update_one_miss nc split: option.splits)
    have "wl_doc_ok ((''_id'', JOid (oid_hex (next_oid d))) # map bson_field x)"
      using ins [OF True x] by (auto simp: wl_doc_ok_def obj_get_bson split: jval.splits)
    with ok none d' show ?thesis by (simp add: wishlists_ok_def)
  next
    case False
    with upd None show ?thesis using ok nc by (simp add: update_one_miss)
  qed
next
  case (Some w)
  then obtain ys zs where sp: "colls d Wishlists = ys @ w # zs"
    "list_all (\<lambda>y. \<not> matches guest_query y) ys" "matches guest_query w"
    and u: "update_one Wishlists guest_query us up d =
       (case apply_upds False us w of None \<Rightarrow> None
        | Some w' \<Rightarrow> Some (if w' \<noteq> w then 1 else 0, set_coll Wishlists (ys @ w' # zs) d))"
    using nc by (rule update_one_hit)
  from upd u obtain w' where w': "apply_upds False us w = Some w'"
    and d': "d' = set_coll Wishlists (ys @ w' # zs) d"
    by (auto split: option.splits)
  from ok sp have "wl_doc_ok w" by (simp add: wishlists_ok_def)
  with keep [OF _ sp(3) w'] have "wl_doc_ok w'" "matches guest_query w'" by auto
  with ok sp d' show ?thesis by (simp add: wishlists_ok_def)
qed

lemma guest_hit:
  assumes "find_one Wishlists guest_query d = Some w" "apply_upds False us w = Some w'"
    "obj_get w' ''propertyIds'' = JArr ys" "matches guest_query w'" "\<not> upd_conflict us"
  obtains n d' where "update_one Wishlists guest_query us up d = Some (n, d')" "guest_list d' = ys"
proof -
  obtain n d' where u: "update_one Wishlists guest_query us up d = Some (n, d')"
    using assms(1,2,5) by (rule update_one_hit_Some)
  from find_one_update_hit [OF assms(1,2,4,5) u] assms(3) have "guest_list d' = ys"
    by (rule guest_list_hit)
  with u show ?thesis by (rule that)
qed

lemma add_effect:
  assumes ok: "wishlists_ok d"
  obtains n d' where "update_one Wishlists guest_query (add_update pid t) True d = Some (n, d')"
    "guest_list d' = set_add pid (guest_list d)"
proof (cases "find_one Wishlists guest_query d")
  case None
  let ?x = "[(''userId'', DEFAULT_USER_ID), (''propertyIds'', JArr [pid]),
             (''updatedAt'', js_now t), (''createdAt'', js_now t)]"
  have m: "matches guest_query ?x" by (simp add: matches_guest eq_match_def)
  have u: "update_one Wishlists guest_query (add_update pid t) True d =
             Some (0, snd (insert_one Wishlists ?x d))"
    using None upsert_add_update by (simp add: update_one_miss add_update_def)
  then have "find_one Wishlists guest_query (snd (insert_one Wishlists ?x d)) =
               Some ((''_id'', JOid (oid_hex (next_oid d))) # map bson_field ?x)"
    using find_one_upsert [OF None upsert_add_update [of pid t]] m by (simp add: add_update_def)
  then have "guest_list (snd (insert_one Wishlists ?x d)) = set_add pid (guest_list d)"
    using None by (simp add: guest_list_hit guest_list_none set_add_def)
  with u show ?thesis by (rule that)
next
  case (Some w)
  from guest_doc_ok [OF ok Some] have w: "obj_get w ''propertyIds'' = JArr (guest_list d)" ..
  let ?w' = "obj_set (if pid \<in> set (guest_list d) then w
                      else obj_set w ''propertyIds'' (JArr (guest_list d @ [pid]))) ''updatedAt'' (js_now t)"
  have a: "apply_upds False (add_update pid t) w = Some ?w'" by (rule apply_add_update [OF w])
  have f: "obj_get ?w' ''propertyIds'' = JArr (set_add pid (guest_list d))"
    by (simp add: w set_add_def)
  from Some have "matches guest_query w" by (rule guest_matches)
  then have "matches guest_query ?w'" by simp
  then show ?thesis by (rule guest_hit [OF Some a f _ _ that]) (simp add: add_update_def remove_update_def)
qed

lemma remove_effect:
  assumes ok: "wishlists_ok d"
  obtains n d' where "update_one Wishlists guest_query (remove_update pid t) False d = Some (n, d')"
    "guest_list d' = set_remove pid (guest_list d)"
proof (cases "find_one Wishlists guest_query d")
  case None
  then show ?thesis
    by (intro that [of 0 d]) (simp_all add: update_one_miss guest_list_none set_remove_def remove_update_def)
next
  case (Some w)
  from guest_doc_ok [OF ok Some] have w: "obj_get w ''propertyIds'' = JArr (guest_list d)" ..
  let ?w' = "obj_set (obj_set w ''propertyIds'' (JArr (filter (\<lambda>y. y \<noteq> pid) (guest_list d))))
                ''updatedAt'' (js_now t)"
  have a: "apply_upds False (remove_update pid t) w = Some ?w'" by (rule apply_remove_update [OF w])
  have f: "obj_get ?w' ''propertyIds'' = JArr (set_remove pid (guest_list d))"
    by (simp add: set_remove_def)
  from Some have "matches guest_query w" by (rule guest_matches)
  then have "matches guest_query ?w'" by simp
  then show ?thesis by (rule guest_hit [OF Some a f _ _ that]) (simp add: add_update_def remove_update_def)
qed

lemma in_wishlist_guest_list:
  assumes ok: "wishlists_ok d" and na: "\<not> is_jarr pid"
  shows "in_wishlist pid d \<longleftrightarrow> pid \<in> set (guest_list d)"
proof -
  have q: "matches [(''userId'', CEq DEFAULT_USER_ID), (''propertyIds'', CEq pid)] =
           (\<lambda>x. matches guest_query x \<and> eq_match (obj_get x ''propertyIds'') pid)"
    by (simp add: fun_eq_iff matches_def guest_query_def)
  show ?thesis
  proof (cases "find_one Wishlists guest_query d")
    case None
    then show ?thesis
      by (simp add: in_wishlist_def q find_one_def find_conj_None guest_list_none)
  next
    case (Some w)
    from guest_doc_ok [OF ok Some] have w: "obj_get w ''propertyIds'' = JArr (guest_list d)" ..
    from ok have "length (filter (matches guest_query) (colls d Wishlists)) \<le> 1"
      by (simp add: wishlists_ok_def)
    with Some w na show ?thesis
      by (auto simp: in_wishlist_def q find_one_def find_conj_unique eq_match_def)
  qed
qed

lemma keep_add:
  "wl_doc_ok w \<Longrightarrow> matches guest_query w \<Longrightarrow> apply_upds False (add_update pid t) w = Some w' \<Longrightarrow>
   wl_doc_ok w' \<and> matches guest_query w'"
  by (erule wl_doc_okE) (auto simp: apply_add_update wl_doc_ok_def)

lemma keep_remove:
  "wl_doc_ok w \<Longrightarrow> matches guest_query w \<Longrightarrow> apply_upds False (remove_update pid t) w = Some w' \<Longrightarrow>
   wl_doc_ok w' \<and> matches guest_query w'"
  by (erule wl_doc_okE) (auto simp: apply_remove_update wl_doc_ok_def)

lemma keep_clear:
  "wl_doc_ok w \<Longrightarrow> matches guest_query w \<Longrightarrow>
   apply_upds False [USet ''propertyIds'' (JArr []), USet ''updatedAt'' (js_now t)] w = Some w' \<Longrightarrow>
   wl_doc_ok w' \<and> matches guest_query w'"
  by (auto simp: wl_doc_ok_def)

lemma insert_add_ok:
  "up \<Longrightarrow> apply_upds True (add_update pid t) (upsert_seed guest_query) = Some x \<Longrightarrow> wl_doc_ok x"
  by (auto simp: upsert_add_update wl_doc_ok_def)

lemma add_ok:
  assumes "wishlists_ok d" "update_one Wishlists guest_query (add_update pid t) up d = Some (n, d')"
  shows "wishlists_ok d'"
  by (rule wishlists_ok_update_one [OF assms _ keep_add insert_add_ok]) (simp add: add_update_def)

lemma remove_ok:
  assumes "wishlists_ok d" "update_one Wishlists guest_query (remove_update pid t) False d = Some (n, d')"
  shows "wishlists_ok d'"
  by (rule wishlists_ok_update_one [OF assms _ keep_remove]) (simp_all add: remove_update_def)

lemma clear_ok:
  assumes "wishlists_ok d"
    "update_one Wishlists guest_query [USet ''propertyIds'' (JArr []), USet ''updatedAt'' (js_now t)] False d
       = Some (n, d')"
  shows "wishlists_ok d'"
  by (rule wishlists_ok_update_one [OF assms _ keep_clear]) simp_all

lemma wishlist_POST_ok:
  assumes ok: "wishlists_ok d"
  shows "wishlists_ok (snd (wishlist_POST body t d))"
proof -
  have "wishlists_ok d'"
    if "update_one Wishlists guest_query (add_update pid t) True d = Some (n, d')" for pid n d'
    using ok that by (rule add_ok)
  with ok show ?thesis
    by (simp add: wishlist_POST_def Let_def split: option.split prod.split)
qed

lemma wishlist_DELETE_ok:
  assumes ok: "wishlists_ok d"
  shows "wishlists_ok (snd (wishlist_DELETE ps t d))"
proof -
  have "wishlists_ok d'"
    if "update_one Wishlists guest_query (remove_update pid t) False d = Some (n, d')" for pid n d'
    using ok that by (rule remove_ok)
  moreover have "wishlists_ok d'"
    if "update_one Wishlists guest_query [USet ''propertyIds'' (JArr []), USet ''updatedAt'' (js_now t)]
          False d = Some (n, d')" for n d'
    using ok that by (rule clear_ok)
  ultimately show ?thesis using ok
    by (simp add: wishlist_DELETE_def Let_def split: option.split prod.split)
qed

lemma wishlist_PUT_ok:
  assumes ok: "wishlists_ok d"
  shows "wishlists_ok (snd (wishlist_PUT body t d))"
proof -
  have "wishlists_ok d'"
    if "update_one Wishlists guest_query (remove_update pid t) False d = Some (n, d')" for pid n d'
    using ok that by (rule remove_ok)
  moreover have "wishlists_ok d'"
    if "update_one Wishlists guest_query (add_update pid t) True d = Some (n, d')" for pid n d'
    using ok that by (rule add_ok)
  ultimately show ?thesis using ok
    by (simp add: wishlist_PUT_def toggle_write_def Let_def split: option.split prod.split)
qed

lemma POST_guest_list:
  assumes ok: "wishlists_ok d" and b: "body_fields body = Some b"
    and pid: "js_truthy (obj_get b ''propertyId'')"
  shows "guest_list (snd (wishlist_POST body t d)) = set_add (obj_get b ''propertyId'') (guest_list d)"
proof -
  obtain n d' where "update_one Wishlists guest_query (add_update (obj_get b ''propertyId'') t) True d
                       = Some (n, d')"
    "guest_list d' = set_add (obj_get b ''propertyId'') (guest_list d)"
    using ok by (rule add_effect)
  with b pid show ?thesis by (simp add: wishlist_POST_def)
qed

lemma DELETE_guest_list:
  assumes ok: "wishlists_ok d" and c: "param_get ps ''clearAll'' \<noteq> Some ''true''"
    and p: "param_get ps ''propertyId'' = Some p" "p \<noteq> []"
  shows "guest_list (snd (wishlist_DELETE ps t d)) = set_remove (JStr p) (guest_list d)"
proof -
  obtain n d' where "update_one Wishlists guest_query (remove_update (JStr p) t) False d = Some (n, d')"
    "guest_list d' = set_remove (JStr p) (guest_list d)"
    using ok by (rule remove_effect)
  with c p show ?thesis by (simp add: wishlist_DELETE_def)
qed

lemma clear_effect:
  assumes ok: "wishlists_ok d"
  obtains n d' where
    "update_one Wishlists guest_query [USet ''propertyIds'' (JArr []), USet ''updatedAt'' (js_now t)] False d
       = Some (n, d')"
    "guest_list d' = []"
proof (cases "find_one Wishlists guest_query d")
  case None
  then show ?thesis
    by (intro that [of 0 d]) (simp_all add: update_one_miss guest_list_none)
next
  case (Some w)
  let ?w' = "obj_set (obj_set w ''propertyIds'' (JArr [])) ''updatedAt'' (js_now t)"
  have a: "apply_upds False [USet ''propertyIds'' (JArr []), USet ''updatedAt'' (js_now t)] w = Some ?w'"
    by simp
  have f: "obj_get ?w' ''propertyIds'' = JArr []" by simp
  from Some have "matches guest_query w" by (rule guest_matches)
  then have "matches guest_query ?w'" by simp
  then show ?thesis by (rule guest_hit [OF Some a f _ _ that]) (simp add: add_update_def remove_update_def)
qed

lemma DELETE_clear_guest_list:
  assumes ok: "wishlists_ok d" and c: "param_get ps ''clearAll'' = Some ''true''"
  shows "guest_list (snd (wishlist_DELETE ps t d)) = []"
proof -
  obtain n d' where
    "update_one Wishlists guest_query [USet ''propertyIds'' (JArr []), USet ''updatedAt'' (js_now t)] False d
       = Some (n, d')" "guest_list d' = []"
    using ok by (rule clear_effect)
  with c show ?thesis by (simp add: wishlist_DELETE_def)
qed

lemma PUT_guest_list:
  assumes ok: "wishlists_ok d" and b: "body_fields body = Some b"
    and pid: "js_truthy (obj_get b ''propertyId'')" and na: "\<not> is_jarr (obj_get b ''propertyId'')"
  shows "guest_list (snd (wishlist_PUT body t d)) = set_toggle (obj_get b ''propertyId'') (guest_list d)"
proof (cases "obj_get b ''propertyId'' \<in> set (guest_list d)")
  case True
  obtain n d' where "update_one Wishlists guest_query (remove_update (obj_get b ''propertyId'') t) False d
                       = Some (n, d')"
    "guest_list d' = set_remove (obj_get b ''propertyId'') (guest_list d)"
    using ok by (rule remove_effect)
  with True b pid show ?thesis
    by (simp add: wishlist_PUT_def toggle_write_def in_wishlist_guest_list [OF ok na] set_toggle_def)
next
  case False
  obtain n d' where "update_one Wishlists guest_query (add_update (obj_get b ''propertyId'') t) True d
                       = Some (n, d')"
    "guest_list d' = set_add (obj_get b ''propertyId'') (guest_list d)"
    using ok by (rule add_effect)
  with False b pid show ?thesis
    by (simp add: wishlist_PUT_def toggle_write_def in_wishlist_guest_list [OF ok na] set_toggle_def)
qed

subsection \<open>The abstract list operations\<close>

lemma set_add_idem: "set_add x (set_add x xs) = set_add x xs"
  by (simp add: set_add_def)

lemma count_set_add: "distinct xs \<Longrightarrow> count_list (set_add x xs) x = 1"
  by (induction xs) (auto simp: set_add_def)

lemma distinct_set_add: "distinct xs \<Longrightarrow> distinct (set_add x xs)"
  by (simp add: set_add_def)

lemma set_remove_absent: "x \<notin> set xs \<Longrightarrow> set_remove x xs = xs"
  by (simp add: set_remove_def)

lemma set_toggle_twice_set: "set (set_toggle x (set_toggle x xs)) = set xs"
  by (auto simp: set_toggle_def set_add_def set_remove_def)

lemma set_toggle_twice_absent: "x \<notin> set xs \<Longrightarrow> set_toggle x (set_toggle x xs) = xs"
  by (simp add: set_toggle_def set_add_def set_remove_def)

lemma guest_list_distinct: "wishlists_ok d \<Longrightarrow> distinct (guest_list d)"
  by (cases "find_one Wishlists guest_query d") (auto dest: guest_doc_ok simp: guest_list_none)

section \<open>Properties of the wishlist route\<close>

text \<open>
  Claim C1: every request to the wishlist route keeps the
  wishlist invariant: each wishlist document holds an array of distinct property ids,
  and the guest user owns at most one wishlist document.
\<close>

theorem wishlist_route_preserves_ok: "wishlists_ok d \<Longrightarrow> wishlists_ok (snd (wishlist_route r t d))"
  by (cases r) (simp_all add: wishlist_GET_def wishlist_POST_ok wishlist_DELETE_ok wishlist_PUT_ok)


text \<open>
  Adding the same id twice is a no-op after the first time,
  and the list then holds the id exactly once.
\<close>

theorem wishlist_add_twice:
  assumes ok: "wishlists_ok d" and pid: "js_truthy pid"
  shows "guest_list (snd (wishlist_POST (JObj [(''propertyId'', pid)]) t'
                          (snd (wishlist_POST (JObj [(''propertyId'', pid)]) t d)))) =
           guest_list (snd (wishlist_POST (JObj [(''propertyId'', pid)]) t d)) \<and>
         count_list (guest_list (snd (wishlist_POST (JObj [(''propertyId'', pid)]) t d))) pid = 1"
proof -
  let ?d1 = "snd (wishlist_POST (JObj [(''propertyId'', pid)]) t d)"
  have ok1: "wishlists_ok ?d1" using ok by (rule wishlist_POST_ok)
  have l1: "guest_list ?d1 = set_add pid (guest_list d)"
    using POST_guest_list [OF ok] pid by simp
  have "guest_list (snd (wishlist_POST (JObj [(''propertyId'', pid)]) t' ?d1)) = set_add pid (guest_list ?d1)"
    using POST_guest_list [OF ok1] pid by simp
  with l1 show ?thesis
    by (simp add: set_add_idem count_set_add guest_list_distinct [OF ok])
qed

text \<open>
  Removing an id that is not in the list leaves the
  list unchanged.
\<close>

theorem wishlist_remove_absent:
  assumes ok: "wishlists_ok d" and p: "p \<noteq> []" and absent: "JStr p \<notin> set (guest_list d)"
  shows "guest_list (snd (wishlist_DELETE [(''propertyId'', p)] t d)) = guest_list d"
  using DELETE_guest_list [OF ok _ _ p] absent by (simp add: param_get_def set_remove_absent)

text \<open>
  Toggling the same id twice gives back the same set of
  ids, and the same list when the id was not in it (when it was, it comes back at the
  end of the list).
\<close>

theorem wishlist_toggle_twice:
  assumes ok: "wishlists_ok d" and s: "s \<noteq> []"
  shows "set (guest_list (snd (wishlist_PUT (JObj [(''propertyId'', JStr s)]) t'
                  (snd (wishlist_PUT (JObj [(''propertyId'', JStr s)]) t d))))) = set (guest_list d) \<and>
         (JStr s \<notin> set (guest_list d) \<longrightarrow>
            guest_list (snd (wishlist_PUT (JObj [(''propertyId'', JStr s)]) t'
                  (snd (wishlist_PUT (JObj [(''propertyId'', JStr s)]) t d)))) = guest_list d)"
proof -
  let ?b = "JObj [(''propertyId'', JStr s)]"
  have ok1: "wishlists_ok (snd (wishlist_PUT ?b t d))" using ok by (rule wishlist_PUT_ok)
  have "guest_list (snd (wishlist_PUT ?b t' (snd (wishlist_PUT ?b t d)))) =
        set_toggle (JStr s) (set_toggle (JStr s) (guest_list d))"
    using PUT_guest_list [OF ok1, of ?b] PUT_guest_list [OF ok, of ?b] s by simp
  then show ?thesis by (simp add: set_toggle_twice_set set_toggle_twice_absent)
qed

text \<open>
  Claim C28: the toggle is a read followed by a write, with no
  atomicity between them.  Two toggles of the same id that both read before either
  writes both add it, so the id stays in the list, where the two toggles run one after
  the other take it out again.
\<close>

theorem wishlist_toggle_race:
  "guest_list (snd (wishlist_PUT (JObj [(''propertyId'', JStr ''p1'')]) 2
                   (snd (wishlist_PUT (JObj [(''propertyId'', JStr ''p1'')]) 1 empty_db)))) = [] \<and>
   guest_list (snd (toggle_write (in_wishlist (JStr ''p1'') empty_db) (JStr ''p1'') 2
                   (snd (toggle_write (in_wishlist (JStr ''p1'') empty_db) (JStr ''p1'') 1 empty_db))))
     = [JStr ''p1'']"
proof -
  have ok: "wishlists_ok empty_db" by (simp add: wishlists_ok_def empty_db_def)
  have absent: "\<not> in_wishlist (JStr ''p1'') empty_db"
    by (simp add: in_wishlist_def find_one_def empty_db_def)
  have e: "guest_list empty_db = []" by (simp add: guest_list_none find_one_def empty_db_def)
  have seq: "guest_list (snd (wishlist_PUT (JObj [(''propertyId'', JStr ''p1'')]) 2
                   (snd (wishlist_PUT (JObj [(''propertyId'', JStr ''p1'')]) 1 empty_db)))) = []"
    using PUT_guest_list [OF wishlist_PUT_ok [OF ok], of "JObj [(''propertyId'', JStr ''p1'')]"]
      PUT_guest_list [OF ok, of "JObj [(''propertyId'', JStr ''p1'')]"] e
    by (simp add: set_toggle_def set_add_def set_remove_def)
  obtain n1 d1 where u1: "update_one Wishlists guest_query (add_update (JStr ''p1'') 1) True empty_db = Some (n1, d1)"
    and l1: "guest_list d1 = [JStr ''p1'']"
    using add_effect [OF ok] e by (metis set_add_def empty_iff empty_set append_Nil)
  have ok1: "wishlists_ok d1" using add_ok [OF ok u1] .
  obtain n2 d2 where u2: "update_one Wishlists guest_query (add_update (JStr ''p1'') 2) True d1 = Some (n2, d2)"
    and l2: "guest_list d2 = set_add (JStr ''p1'') (guest_list d1)"
    using add_effect [OF ok1] by blast
  from u1 u2 l1 l2 absent seq show ?thesis
    by (simp add: toggle_write_def set_add_def)
qed

subsection \<open>Witnesses\<close>

text \<open>
  The hypotheses above hold together on a database whose guest list is \<open>[p1, p2]\<close>.
\<close>

lemma sample_wishlists_ok: "wishlists_ok \<lparr>colls = (\<lambda>_. [])(Wishlists := [[(''_id'', JOid ''w1''), (''userId'', JStr ''guest-user''), (''propertyIds'', JArr [JStr ''p1'', JStr ''p2''])]]), next_oid = 3\<rparr>"
  by (simp add: wishlists_ok_def wl_doc_ok_def matches_guest eq_match_def DEFAULT_USER_ID_def)

lemma sample_guest_list: "guest_list \<lparr>colls = (\<lambda>_. [])(Wishlists := [[(''_id'', JOid ''w1''), (''userId'', JStr ''guest-user''), (''propertyIds'', JArr [JStr ''p1'', JStr ''p2''])]]), next_oid = 3\<rparr> = [JStr ''p1'', JStr ''p2'']"
  by (simp add: guest_list_def wishlist_ids_def find_one_def matches_guest eq_match_def DEFAULT_USER_ID_def)

theorem wishlist_route_preserves_ok_witness:
  "wishlists_ok \<lparr>colls = (\<lambda>_. [])(Wishlists := [[(''_id'', JOid ''w1''), (''userId'', JStr ''guest-user''), (''propertyIds'', JArr [JStr ''p1'', JStr ''p2''])]]), next_oid = 3\<rparr> \<and>
   wishlists_ok (snd (wishlist_route (WlPut (JObj [(''propertyId'', JStr ''p3'')])) 5 \<lparr>colls = (\<lambda>_. [])(Wishlists := [[(''_id'', JOid ''w1''), (''userId'', JStr ''guest-user''), (''propertyIds'', JArr [JStr ''p1'', JStr ''p2''])]]), next_oid = 3\<rparr>))"
  using wishlist_route_preserves_ok [OF sample_wishlists_ok,
      where r = "WlPut (JObj [(''propertyId'', JStr ''p3'')])" and t = 5] sample_wishlists_ok
  by simp


theorem wishlist_add_twice_witness:
  "wishlists_ok \<lparr>colls = (\<lambda>_. [])(Wishlists := [[(''_id'', JOid ''w1''), (''userId'', JStr ''guest-user''), (''propertyIds'', JArr [JStr ''p1'', JStr ''p2''])]]), next_oid = 3\<rparr> \<and> js_truthy (JStr ''p3'') \<and>
   count_list (guest_list (snd (wishlist_POST (JObj [(''propertyId'', JStr ''p3'')]) 5 \<lparr>colls = (\<lambda>_. [])(Wishlists := [[(''_id'', JOid ''w1''), (''userId'', JStr ''guest-user''), (''propertyIds'', JArr [JStr ''p1'', JStr ''p2''])]]), next_oid = 3\<rparr>))) (JStr ''p3'') = 1"
  using wishlist_add_twice [OF sample_wishlists_ok, of "JStr ''p3''" 6 5] sample_wishlists_ok by simp

theorem wishlist_remove_absent_witness:
  "wishlists_ok \<lparr>colls = (\<lambda>_. [])(Wishlists := [[(''_id'', JOid ''w1''), (''userId'', JStr ''guest-user''), (''propertyIds'', JArr [JStr ''p1'', JStr ''p2''])]]), next_oid = 3\<rparr> \<and> ''p3'' \<noteq> [] \<and> JStr ''p3'' \<notin> set (guest_list \<lparr>colls = (\<lambda>_. [])(Wishlists := [[(''_id'', JOid ''w1''), (''userId'', JStr ''guest-user''), (''propertyIds'', JArr [JStr ''p1'', JStr ''p2''])]]), next_oid = 3\<rparr>) \<and>
   guest_list (snd (wishlist_DELETE [(''propertyId'', ''p3'')] 5 \<lparr>colls = (\<lambda>_. [])(Wishlists := [[(''_id'', JOid ''w1''), (''userId'', JStr ''guest-user''), (''propertyIds'', JArr [JStr ''p1'', JStr ''p2''])]]), next_oid = 3\<rparr>)) = [JStr ''p1'', JStr ''p2'']"
  using wishlist_remove_absent [OF sample_wishlists_ok, of "''p3''" 5] sample_wishlists_ok
  by (simp add: sample_guest_list)

theorem wishlist_toggle_twice_witness:
  "wishlists_ok \<lparr>colls = (\<lambda>_. [])(Wishlists := [[(''_id'', JOid ''w1''), (''userId'', JStr ''guest-user''), (''propertyIds'', JArr [JStr ''p1'', JStr ''p2''])]]), next_oid = 3\<rparr> \<and> ''p1'' \<noteq> [] \<and>
   set (guest_list (snd (wishlist_PUT (JObj [(''propertyId'', JStr ''p1'')]) 6
          (snd (wishlist_PUT (JObj [(''propertyId'', JStr ''p1'')]) 5 \<lparr>colls = (\<lambda>_. [])(Wishlists := [[(''_id'', JOid ''w1''), (''userId'', JStr ''guest-user''), (''propertyIds'', JArr [JStr ''p1'', JStr ''p2''])]]), next_oid = 3\<rparr>))))) = {JStr ''p1'', JStr ''p2''}"
  using wishlist_toggle_twice [OF sample_wishlists_ok, of "''p1''" 6 5] sample_wishlists_ok
  by (auto simp: sample_guest_list)

end
