(* ===== verification/Properties.thy ===== *)
theory Properties
  imports Http
begin

text \<open>
  The property route, src/src/app/api/properties/route.ts: \<open>GET\<close> lists properties
  through a filter built from the query string, newest first, one page at a time;
  \<open>POST\<close> validates the required fields, resolves the landlord, inserts the listing
  with its defaults and then increments a counter on the landlord's profile;
  \<open>PUT\<close> and \<open>DELETE\<close> look the listing up by its ObjectId and check that the
  caller names its landlord before they write.  \<open>DELETE\<close> then decrements the
  landlord counter and pulls the id out of every wishlist: three separate writes.
\<close>

section \<open>GET: the listing query\<close>

text \<open>A filter clause that is present when a query parameter is a non-empty string.\<close>

definition when_param :: "string option \<Rightarrow> (string \<Rightarrow> query) \<Rightarrow> query" where
  "when_param p f = (case p of None \<Rightarrow> [] | Some s \<Rightarrow> if s = [] then [] else f s)"

text \<open>\<open>s.split(",")\<close>: the pieces between commas, empty pieces kept.\<close>

fun split_comma :: "string \<Rightarrow> string list" where
  "split_comma [] = [[]]"
| "split_comma (c # cs) =
     (if c = CHR '','' then [] # split_comma cs
      else (case split_comma cs of [] \<Rightarrow> [[c]] | w # ws \<Rightarrow> (c # w) # ws))"

text \<open>
  The query object the handler builds, clause by clause in the order of the code:
  \<open>landlordId\<close>, \<open>city\<close> (\<open>$regex\<close>, option \<open>i\<close>), \<open>genderPreference\<close>
  (\<open>$in [gender, "ANY"]\<close> unless the gender is \<open>ANY\<close>), \<open>propertyType\<close>,
  \<open>rent\<close> (\<open>$gte\<close>/\<open>$lte\<close> of \<open>parseInt\<close>), \<open>amenities\<close> (\<open>$all\<close>),
  \<open>status\<close> (defaulting to \<open>ACTIVE\<close> only when no \<open>landlordId\<close> is given) and
  \<open>isFeatured\<close>.
\<close>

definition property_query :: "params \<Rightarrow> query" where
  "property_query ps =
     (let landlordId = param_get ps ''landlordId''; city = param_get ps ''city'';
          gender = param_get ps ''gender''; propertyType = param_get ps ''type'';
          minPrice = param_get ps ''minPrice''; maxPrice = param_get ps ''maxPrice'';
          amenities = param_get ps ''amenities''; status = param_get ps ''status'';
          featured = param_get ps ''featured''
      in when_param landlordId (\<lambda>l. [(''landlordId'', CEq (JStr l))])
       @ when_param city (\<lambda>c. [(''city'', CRegexI c)])
       @ when_param gender (\<lambda>g. if g = ''ANY'' then []
                                  else [(''genderPreference'', CIn [JStr g, JStr ''ANY''])])
       @ when_param propertyType (\<lambda>p. [(''propertyType'', CEq (JStr p))])
       @ when_param minPrice (\<lambda>m. [(''rent'', CGte (js_parse_int m))])
       @ when_param maxPrice (\<lambda>m. [(''rent'', CLte (js_parse_int m))])
       @ when_param amenities (\<lambda>a. [(''amenities'', CAll (map JStr (split_comma a)))])
       @ (let dflt = (if param_truthy landlordId then [] else [(''status'', CEq (JStr ''ACTIVE''))])
          in case status of None \<Rightarrow> dflt | Some s \<Rightarrow> if s = [] then dflt else [(''status'', CEq (JStr s))])
       @ (if featured = Some ''true'' then [(''isFeatured'', CEq (JBool True))] else []))"

text \<open>\<open>parseInt(searchParams.get(k) || dflt)\<close>.\<close>

definition int_param :: "params \<Rightarrow> string \<Rightarrow> string \<Rightarrow> jval" where
  "int_param ps k dflt =
     js_parse_int (case param_get ps k of None \<Rightarrow> dflt | Some s \<Rightarrow> if s = [] then dflt else s)"

text \<open>\<open>(page - 1) * limit\<close> in JavaScript numbers.\<close>

fun js_skip :: "jval \<Rightarrow> jval \<Rightarrow> jval" where
  "js_skip (JNum p) (JNum l) = JNum ((p - 1) * l)"
| "js_skip _ _ = JNaN"

text \<open>\<open>Math.ceil(total / limit)\<close> as it reaches the client: \<open>Infinity\<close> and
  \<open>NaN\<close> (a limit of 0) are serialized as \<open>null\<close>.\<close>

fun total_pages :: "nat \<Rightarrow> jval \<Rightarrow> jval" where
  "total_pages n (JNum l) = (if l = 0 then JNull else JNum (of_int \<lceil>of_nat n / l\<rceil>))"
| "total_pages n _ = JNull"

text \<open>\<open>{...p, id: p._id.toString(), _id: undefined}\<close>.\<close>

definition with_string_id :: "doc \<Rightarrow> doc" where
  "with_string_id p = obj_set (obj_set p ''id'' (JStr (js_to_string (obj_get p ''_id'')))) ''_id'' JUndef"

text \<open>\<open>find(query).sort({createdAt: -1}).skip((page - 1) * limit).limit(limit)\<close>.\<close>

definition property_listing :: "params \<Rightarrow> db \<Rightarrow> doc list option" where
  "property_listing ps d =
     (let page = int_param ps ''page'' ''1''; limit = int_param ps ''limit'' ''20''
      in find_page Properties (property_query ps) (js_skip page limit) limit d)"

definition property_GET :: "params \<Rightarrow> db \<Rightarrow> resp \<times> db" where
  "property_GET ps d =
     (let q = property_query ps;
          page = int_param ps ''page'' ''1''; limit = int_param ps ''limit'' ''20'';
          cnt = count_documents Properties q d
      in case property_listing ps d of
           None \<Rightarrow> (fail_resp 500 ''Failed to fetch properties'', d)
         | Some ps' \<Rightarrow>
             (json_resp 200
                [(''success'', JBool True),
                 (''properties'', JArr (map (\<lambda>p. JObj (with_string_id p)) ps')),
                 (''pagination'', JObj [(''page'', page), (''limit'', limit),
                                       (''total'', JNum (of_nat cnt)),
                                       (''totalPages'', total_pages cnt limit)])], d))"

section \<open>POST: create a listing\<close>

definition required_property_fields :: "string list" where
  "required_property_fields =
     [''title'', ''description'', ''propertyType'', ''address'', ''city'', ''rent'', ''deposit'', ''landlordId'']"

text \<open>The loop over the required fields: the first one that is falsy.\<close>

fun first_missing :: "jobj \<Rightarrow> string list \<Rightarrow> string option" where
  "first_missing b [] = None"
| "first_missing b (f # fs) = (if js_truthy (obj_get b f) then first_missing b fs else Some f)"

text \<open>
  The landlord lookup: with the id as an ObjectId, and only if that constructor throws,
  with the raw value; both require \<open>role: "landlord"\<close>.
\<close>

definition landlord_lookup :: "jval \<Rightarrow> db \<Rightarrow> doc option" where
  "landlord_lookup lid d =
     (case object_id_of lid of
        Some oid \<Rightarrow> find_one Users [(''_id'', CEq oid), (''role'', CEq (JStr ''landlord''))] d
      | None \<Rightarrow> find_one Users [(''_id'', CEq lid), (''role'', CEq (JStr ''landlord''))] d)"

text \<open>\<open>.replace(/[^a-z0-9]+/g, "-")\<close>: every maximal run of other characters becomes one dash.\<close>

definition slug_char :: "char \<Rightarrow> bool" where
  "slug_char c = (let n = (of_char c :: nat) in (97 \<le> n \<and> n \<le> 122) \<or> (48 \<le> n \<and> n \<le> 57))"

fun dash_runs :: "bool \<Rightarrow> string \<Rightarrow> string" where
  "dash_runs r [] = []"
| "dash_runs r (c # cs) =
     (if slug_char c then c # dash_runs False cs
      else if r then dash_runs True cs else CHR ''-'' # dash_runs True cs)"

text \<open>\<open>body.slug || body.title.toLowerCase().replace(...)\<close>: \<open>None\<close> is the
  \<open>TypeError\<close> of calling \<open>toLowerCase\<close> on a title that is not a string.\<close>

fun title_slug :: "jval \<Rightarrow> jval option" where
  "title_slug (JStr s) = Some (JStr (dash_runs False (to_lower s)))"
| "title_slug _ = None"

definition property_slug :: "jobj \<Rightarrow> jval option" where
  "property_slug b =
     (if js_truthy (obj_get b ''slug'') then Some (obj_get b ''slug'') else title_slug (obj_get b ''title''))"

definition default_rules :: jval where
  "default_rules = JObj [(''nonVegAllowed'', JBool True), (''smokingAllowed'', JBool False),
     (''drinkingAllowed'', JBool False), (''petsAllowed'', JBool False),
     (''visitorsAllowed'', JBool True), (''oppositeSexAllowed'', JBool False),
     (''gateClosingTime'', JNull)]"

text \<open>The listing document, field by field with the defaults of the code.\<close>

definition new_property :: "jobj \<Rightarrow> doc \<Rightarrow> jval \<Rightarrow> nat \<Rightarrow> doc" where
  "new_property b landlord slug t =
     [(''title'', obj_get b ''title''),
      (''slug'', slug),
      (''description'', obj_get b ''description''),
      (''propertyType'', obj_get b ''propertyType''),
      (''bhk'', js_or (obj_get b ''bhk'') JNull),
      (''address'', obj_get b ''address''),
      (''city'', obj_get b ''city''),
      (''state'', js_or (obj_get b ''state'') (JStr ''West Bengal'')),
      (''pincode'', js_or (obj_get b ''pincode'') (JStr [])),
      (''landmark'', js_or (obj_get b ''landmark'') (JStr [])),
      (''latitude'', js_or (obj_get b ''latitude'') (JNum (45 / 2))),
      (''longitude'', js_or (obj_get b ''longitude'') (JNum (442 / 5))),
      (''nearbyColleges'', js_or (obj_get b ''nearbyColleges'') (JArr [])),
      (''totalRooms'', js_or (obj_get b ''totalRooms'') (JNum 1)),
      (''totalBeds'', js_or (obj_get b ''totalBeds'') (JNum 1)),
      (''availableBeds'', js_or (obj_get b ''availableBeds'') (JNum 1)),
      (''bedsPerRoom'', js_or (obj_get b ''bedsPerRoom'') (JNum 1)),
      (''roomSize'', js_or (obj_get b ''roomSize'') (JStr [])),
      (''bathrooms'', js_or (obj_get b ''bathrooms'') (JNum 1)),
      (''floorNumber'', js_or (obj_get b ''floorNumber'') (JNum 1)),
      (''totalFloors'', js_or (obj_get b ''totalFloors'') (JNum 1)),
      (''rent'', obj_get b ''rent''),
      (''deposit'', obj_get b ''deposit''),
      (''maintenanceCharges'', js_or (obj_get b ''maintenanceCharges'') (JNum 0)),
      (''electricityCharges'', js_or (obj_get b ''electricityCharges'') (JStr ''separate'')),
      (''waterCharges'', js_or (obj_get b ''waterCharges'') (JStr ''included'')),
      (''foodIncluded'', js_or (obj_get b ''foodIncluded'') (JBool False)),
      (''foodCharges'', js_or (obj_get b ''foodCharges'') JNull),
      (''mealsPerDay'', js_or (obj_get b ''mealsPerDay'') (JNum 0)),
      (''genderPreference'', js_or (obj_get b ''genderPreference'') (JStr ''ANY'')),
      (''occupancyType'', js_or (obj_get b ''occupancyType'') (JStr ''double'')),
      (''furnishing'', js_or (obj_get b ''furnishing'') (JStr ''SEMI_FURNISHED'')),
      (''furnishingDetails'', js_or (obj_get b ''furnishingDetails'') (JArr [])),
      (''amenities'', js_or (obj_get b ''amenities'') (JArr [])),
      (''rules'', js_or (obj_get b ''rules'') default_rules),
      (''images'', js_or (obj_get b ''images'') (JArr [])),
      (''availableFrom'', if js_truthy (obj_get b ''availableFrom'')
                          then JDate (obj_get b ''availableFrom'') else js_now t),
      (''minimumStay'', js_or (obj_get b ''minimumStay'') (JNum 6)),
      (''noticePeriod'', js_or (obj_get b ''noticePeriod'') (JNum 1)),
      (''landlordId'', obj_get b ''landlordId''),
      (''landlordName'', obj_get landlord ''name''),
      (''landlordPhone'', js_or (obj_get landlord ''phone'') (JStr [])),
      (''status'', js_or (obj_get b ''status'') (JStr ''ACTIVE'')),
      (''isVerified'', js_or (obj_get b ''isVerified'') (JBool False)),
      (''isFeatured'', js_or (obj_get b ''isFeatured'') (JBool False)),
      (''viewCount'', JNum 0),
      (''inquiryCount'', JNum 0),
      (''savedCount'', JNum 0),
      (''createdAt'', js_now t),
      (''updatedAt'', js_now t)]"

text \<open>
  After the insert, \<open>landlordProfiles.updateOne({userId: new ObjectId(landlordId)},
  {$inc: {propertyCount: 1}})\<close>: the constructor throws for an id that is not 24
  hexadecimal digits, after the listing is already stored.
\<close>

definition property_POST :: "jval \<Rightarrow> nat \<Rightarrow> db \<Rightarrow> resp \<times> db" where
  "property_POST body t d =
     (case body_fields body of
        None \<Rightarrow> (fail_resp 500 ''Failed to create property'', d)
      | Some b \<Rightarrow>
        (case first_missing b required_property_fields of
           Some f \<Rightarrow> (fail_resp 400 (f @ '' is required''), d)
         | None \<Rightarrow>
           (case landlord_lookup (obj_get b ''landlordId'') d of
              None \<Rightarrow> (fail_resp 400 ''Invalid landlord - user not found or not a landlord'', d)
            | Some landlord \<Rightarrow>
              (case property_slug b of
                 None \<Rightarrow> (fail_resp 500 ''Failed to create property'', d)
               | Some slug \<Rightarrow>
                 (let x = new_property b landlord slug t;
                      (oid, d1) = insert_one Properties x d
                  in case object_id_of (obj_get b ''landlordId'') of
                       None \<Rightarrow> (fail_resp 500 ''Failed to create property'', d1)
                     | Some loid \<Rightarrow>
                       (case update_one LandlordProfiles [(''userId'', CEq loid)]
                               [UInc ''propertyCount'' 1] False d1 of
                          None \<Rightarrow> (fail_resp 500 ''Failed to create property'', d1)
                        | Some (_, d2) \<Rightarrow>
                            (json_resp 200
                               [(''success'', JBool True),
                                (''message'', JStr ''Property created successfully''),
                                (''property'', JObj (obj_set (x @ [(''_id'', oid)]) ''id''
                                                      (JStr (js_to_string oid))))], d2)))))))"

section \<open>PUT: update a listing\<close>

text \<open>\<open>const { id, landlordId, ...updateData } = body\<close>.\<close>

definition update_data :: "jobj \<Rightarrow> jobj" where
  "update_data b = filter (\<lambda>(k, _). k \<noteq> ''id'' \<and> k \<noteq> ''landlordId'') b"

definition property_PUT :: "jval \<Rightarrow> nat \<Rightarrow> db \<Rightarrow> resp \<times> db" where
  "property_PUT body t d =
     (case body_fields body of
        None \<Rightarrow> (fail_resp 500 ''Failed to update property'', d)
      | Some b \<Rightarrow>
        (let id = obj_get b ''id''; landlordId = obj_get b ''landlordId'' in
         if \<not> js_truthy id then (fail_resp 400 ''Property ID is required'', d)
         else
           (case object_id_of id of
              None \<Rightarrow> (fail_resp 500 ''Failed to update property'', d)
            | Some oid \<Rightarrow>
              (case find_one Properties [(''_id'', CEq oid)] d of
                 None \<Rightarrow> (fail_resp 404 ''Property not found'', d)
               | Some p \<Rightarrow>
                 if \<not> js_strict_eq (obj_get p ''landlordId'') landlordId
                 then (fail_resp 403 ''Unauthorized'', d)
                 else
                   (case update_one Properties [(''_id'', CEq oid)]
                           (map (\<lambda>(k, v). USet k v) (obj_set (update_data b) ''updatedAt'' (js_now t)))
                           False d of
                      None \<Rightarrow> (fail_resp 500 ''Failed to update property'', d)
                    | Some (n, d') \<Rightarrow>
                        (json_resp 200 [(''success'', JBool True),
                                        (''message'', JStr ''Property updated successfully''),
                                        (''modifiedCount'', JNum (of_nat n))], d'))))))"

section \<open>DELETE: remove a listing\<close>

definition property_DELETE :: "params \<Rightarrow> db \<Rightarrow> resp \<times> db" where
  "property_DELETE ps d =
     (case (param_get ps ''id'', param_get ps ''landlordId'') of
        (Some i, Some l) \<Rightarrow>
          if i = [] \<or> l = [] then (fail_resp 400 ''Property ID and landlord ID are required'', d)
          else
            (case object_id_of (JStr i) of
               None \<Rightarrow> (fail_resp 500 ''Failed to delete property'', d)
             | Some oid \<Rightarrow>
               (case find_one Properties [(''_id'', CEq oid)] d of
                  None \<Rightarrow> (fail_resp 404 ''Property not found'', d)
                | Some p \<Rightarrow>
                  if \<not> js_strict_eq (obj_get p ''landlordId'') (JStr l)
                  then (fail_resp 403 ''Unauthorized'', d)
                  else
                    (let d1 = delete_one Properties [(''_id'', CEq oid)] d in
                     case object_id_of (JStr l) of
                       None \<Rightarrow> (fail_resp 500 ''Failed to delete property'', d1)
                     | Some loid \<Rightarrow>
                       (case update_one LandlordProfiles [(''userId'', CEq loid)]
                               [UInc ''propertyCount'' (-1)] False d1 of
                          None \<Rightarrow> (fail_resp 500 ''Failed to delete property'', d1)
                        | Some (_, d2) \<Rightarrow>
                          (let (d3, ok) = update_many Wishlists [] [UPull ''propertyIds'' (JStr i)] d2 in
                           if ok then (json_resp 200 [(''success'', JBool True),
                                                     (''message'', JStr ''Property deleted successfully'')], d3)
                           else (fail_resp 500 ''Failed to delete property'', d3))))))
      | _ \<Rightarrow> (fail_resp 400 ''Property ID and landlord ID are required'', d))"

section \<open>What the routes promise\<close>

text \<open>No wishlist still lists the value \<open>v\<close> as a property id.\<close>

definition no_wishlist_has :: "jval \<Rightarrow> db \<Rightarrow> bool" where
  "no_wishlist_has v d =
     list_all (\<lambda>w. case obj_get w ''propertyIds'' of JArr xs \<Rightarrow> v \<notin> set xs | _ \<Rightarrow> True) (colls d Wishlists)"

text \<open>A small database for the concrete instances below: a landlord user, three
  listings (two of that landlord, one of a landlord whose id is not an ObjectId
  string), the guest wishlist and one landlord profile as registration creates it.\<close>

abbreviation "sample_landlord \<equiv> ''bbbbbbbbbbbbbbbbbbbbbbbb''"
abbreviation "sample_pid \<equiv> ''aaaaaaaaaaaaaaaaaaaaaaa1''"
abbreviation "sample_p1 \<equiv> [(''_id'', JOid sample_pid), (''landlordId'', JStr sample_landlord),
   (''status'', JStr ''ACTIVE''), (''createdAt'', JDate (JNum 5))]"
abbreviation "sample_p2 \<equiv> [(''_id'', JOid ''aaaaaaaaaaaaaaaaaaaaaaa2''), (''landlordId'', JStr sample_landlord),
   (''status'', JStr ''DRAFT''), (''createdAt'', JDate (JNum 7))]"
abbreviation "sample_p3 \<equiv> [(''_id'', JOid ''aaaaaaaaaaaaaaaaaaaaaaa3''), (''landlordId'', JStr ''landlord-3''),
   (''status'', JStr ''ACTIVE''), (''createdAt'', JDate (JNum 6))]"
abbreviation "sample_db \<equiv> \<lparr>colls = (\<lambda>_. [])(
   Users := [[(''_id'', JOid sample_landlord), (''role'', JStr ''landlord''), (''name'', JStr ''Ravi'')]],
   Properties := [sample_p1, sample_p2, sample_p3],
   Wishlists := [[(''_id'', JOid ''w1''), (''userId'', JStr ''guest-user''), (''propertyIds'', JArr [JStr sample_pid])]],
   LandlordProfiles := [[(''userId'', JStr ''user-1''), (''totalProperties'', JNum 0)]]), next_oid = 9\<rparr>"
abbreviation "sample_body \<equiv> JObj [(''title'', JStr ''Nice Room''), (''description'', JStr ''Near campus''),
   (''propertyType'', JStr ''PG''), (''address'', JStr ''12 Lake Road''), (''city'', JStr ''Kolkata''),
   (''rent'', JNum 5000), (''deposit'', JNum 10000), (''landlordId'', JStr sample_landlord)]"

section \<open>Lemmas\<close>

lemma first_missing_Some_iff:
  "first_missing b fs = Some f \<longleftrightarrow>
   (\<exists>pre post. fs = pre @ f # post \<and> list_all (\<lambda>g. js_truthy (obj_get b g)) pre \<and> \<not> js_truthy (obj_get b f))"
proof (induction fs)
  case Nil
  then show ?case by simp
next
  case (Cons g fs)
  show ?case
  proof (cases "js_truthy (obj_get b g)")
    case True
    show ?thesis
    proof
      assume "first_missing b (g # fs) = Some f"
      with True Cons.IH obtain pre post where "fs = pre @ f # post"
        "list_all (\<lambda>g. js_truthy (obj_get b g)) pre" "\<not> js_truthy (obj_get b f)" by auto
      with True show "\<exists>pre post. g # fs = pre @ f # post \<and> list_all (\<lambda>g. js_truthy (obj_get b g)) pre \<and>
                       \<not> js_truthy (obj_get b f)"
        by (intro exI [of _ "g # pre"] exI [of _ post]) simp
    next
      assume "\<exists>pre post. g # fs = pre @ f # post \<and> list_all (\<lambda>g. js_truthy (obj_get b g)) pre \<and>
                \<not> js_truthy (obj_get b f)"
      with True Cons.IH show "first_missing b (g # fs) = Some f"
        by (auto simp: Cons_eq_append_conv)
    qed
  next
    case False
    then show ?thesis by (auto simp: Cons_eq_append_conv)
  qed
qed

text \<open>A filter on an ObjectId never matches a field that holds a string.\<close>

lemma oid_query_misses_strings:
  assumes "list_all (\<lambda>x. is_jstr (obj_get x ''userId'')) xs" "object_id_of v = Some oid"
  shows "list_all (\<lambda>x. \<not> matches [(''userId'', CEq oid)] x) xs"
proof -
  from assms(2) obtain h where "oid = JOid h" by (blast dest: object_id_of_JOid)
  with assms(1) show ?thesis
    by (auto simp: list_all_iff matches_def eq_match_def elim!: is_jstr.elims)
qed

lemma update_many_pull:
  assumes "update_many Wishlists [] [UPull ''propertyIds'' v] d = (d', True)"
  shows "no_wishlist_has v d' \<and> colls d' Properties = colls d Properties"
proof -
  obtain ys where u: "update_all (matches []) (apply_upds False [UPull ''propertyIds'' v]) (colls d Wishlists) = (ys, True)"
    and d': "d' = set_coll Wishlists ys d"
    using assms by (auto simp: update_many_def split: prod.splits)
  have "list_all (\<lambda>w. case obj_get w ''propertyIds'' of JArr xs \<Rightarrow> v \<notin> set xs | _ \<Rightarrow> True) ys"
    using update_all_ok [OF u] by (rule list_all2_rightI) (simp add: matches_def pull_removes)
  with d' show ?thesis by (simp add: no_wishlist_has_def)
qed

lemma property_listing_page:
  "property_listing ps d = Some xs \<Longrightarrow>
   \<exists>s l. find_page Properties (property_query ps) s l d = Some xs"
  by (auto simp: property_listing_def Let_def)

lemma property_query_public:
  "param_get ps ''landlordId'' = None \<Longrightarrow> param_get ps ''status'' = None \<Longrightarrow>
   (''status'', CEq (JStr ''ACTIVE'')) \<in> set (property_query ps)"
  by (simp add: property_query_def Let_def)

section \<open>Properties of the listing routes\<close>

text \<open>
  Claim C7: a \<open>DELETE\<close> request changes the database only when it names
  an existing listing by a valid id and the landlord id it gives is strictly equal to
  the one stored on that listing.
\<close>

theorem property_DELETE_authorized:
  assumes "property_DELETE ps d = (r, d')" "d' \<noteq> d"
  shows "\<exists>i l oid p. param_get ps ''id'' = Some i \<and> param_get ps ''landlordId'' = Some l \<and>
           object_id_of (JStr i) = Some oid \<and> find_one Properties [(''_id'', CEq oid)] d = Some p \<and>
           js_strict_eq (obj_get p ''landlordId'') (JStr l)"
  using assms
  by (auto simp: property_DELETE_def Let_def split: option.splits if_splits prod.splits)

text \<open>
  Claim C8: a \<open>PUT\<close> request changes the database only when its body
  names an existing listing by a valid id and carries the landlord id stored on it.
\<close>

theorem property_PUT_authorized:
  assumes "property_PUT body t d = (r, d')" "d' \<noteq> d"
  shows "\<exists>b oid p. body_fields body = Some b \<and> object_id_of (obj_get b ''id'') = Some oid \<and>
           find_one Properties [(''_id'', CEq oid)] d = Some p \<and>
           js_strict_eq (obj_get p ''landlordId'') (obj_get b ''landlordId'')"
  using assms
  by (auto simp: property_PUT_def Let_def split: option.splits if_splits prod.splits)

text \<open>
  Claim C16: a \<open>POST\<close> answered with 200 had every required field and
  a landlord, and appended exactly one listing to the collection: the document built
  from the body with the code's defaults, under a fresh \<open>_id\<close>.
\<close>

theorem property_POST_creates:
  assumes "property_POST body t d = (r, d')" "http_status r = 200"
  shows "\<exists>b ll slug. body_fields body = Some b \<and> first_missing b required_property_fields = None \<and>
           landlord_lookup (obj_get b ''landlordId'') d = Some ll \<and> property_slug b = Some slug \<and>
           colls d' Properties = colls d Properties @
             [(''_id'', JOid (oid_hex (next_oid d))) # map bson_field (new_property b ll slug t)]"
proof -
  have "colls d2 Properties = colls d1 Properties"
    if "update_one LandlordProfiles q us False d1 = Some (n, d2)" for q us d1 n d2
    using update_one_other [OF that] by simp
  with assms show ?thesis
    by (auto simp: property_POST_def Let_def insert_one_def split: option.splits prod.splits)
qed

text \<open>
  Claim C18: a \<open>DELETE\<close> answered with 200 removed the listing with
  that id and left no wishlist listing the id.
\<close>

theorem property_DELETE_success:
  assumes "property_DELETE ps d = (r, d')" "http_status r = 200" "param_get ps ''id'' = Some i"
  shows "colls d' Properties = delete_first (matches [(''_id'', CEq (JOid (to_lower i)))]) (colls d Properties) \<and>
         no_wishlist_has (JStr i) d'"
  using assms
  by (auto simp: property_DELETE_def delete_one_def Let_def split: option.splits prod.splits if_splits
      dest!: update_many_pull update_one_other [where c' = Properties])

text \<open>
  Every listing that \<open>GET\<close> returns is a stored listing that
  satisfies every clause of the query built from the parameters.
\<close>

theorem property_listing_matches:
  assumes "property_listing ps d = Some xs"
  shows "list_all (matches (property_query ps)) xs \<and> set xs \<subseteq> set (colls d Properties)"
  using property_listing_page [OF assms] by (auto simp: list_all_iff dest!: find_page_set)

text \<open>
  Without a landlord id and without a status parameter,
  \<open>GET\<close> returns only listings whose status is \<open>ACTIVE\<close>.
\<close>

theorem property_listing_public_active:
  assumes "property_listing ps d = Some xs" "param_get ps ''landlordId'' = None" "param_get ps ''status'' = None"
  shows "list_all (\<lambda>x. eq_match (obj_get x ''status'') (JStr ''ACTIVE'')) xs"
proof -
  have "list_all (matches (property_query ps)) xs"
    using property_listing_page [OF assms(1)] by (auto simp: list_all_iff dest!: find_page_set)
  with property_query_public [OF assms(2,3)] show ?thesis
    by (fastforce simp: list_all_iff matches_def)
qed

text \<open>
  The listings of a page come newest first by \<open>createdAt\<close>.
\<close>

theorem property_listing_newest_first:
  assumes "property_listing ps d = Some xs"
  shows "sorted_wrt (\<lambda>x y. date_key (obj_get y ''createdAt'') \<le> date_key (obj_get x ''createdAt'')) xs"
  using assms
  by (auto simp: property_listing_def Let_def find_page_def intro: cursor_page_sorted sort_newest_sorted)

text \<open>
  A page holds at most \<open>limit\<close> listings when the limit is a
  non-zero number (a negative limit counts by its absolute value).
\<close>

theorem property_listing_bounded:
  assumes "property_listing ps d = Some xs" "int_param ps ''limit'' ''20'' = JNum l" "l \<noteq> 0"
  shows "length xs \<le> nat \<lfloor>\<bar>l\<bar>\<rfloor>"
  using assms by (auto simp: property_listing_def Let_def find_page_def intro: cursor_page_length)

text \<open>
  A \<open>POST\<close> whose body lacks a required field is
  refused with 400 naming the first missing field in the order of the code, and
  writes nothing.
\<close>

theorem property_POST_names_first_missing:
  assumes "body_fields body = Some b" "required_property_fields = pre @ f # post"
    "list_all (\<lambda>g. js_truthy (obj_get b g)) pre" "\<not> js_truthy (obj_get b f)"
  shows "property_POST body t d = (fail_resp 400 (f @ '' is required''), d)"
proof -
  from assms(2-4) have "first_missing b required_property_fields = Some f"
    by (auto simp: first_missing_Some_iff)
  with assms(1) show ?thesis by (simp add: property_POST_def)
qed

text \<open>
  A \<open>PUT\<close> whose landlord id differs from the stored one
  is refused with 403 and writes nothing.
\<close>

theorem property_PUT_rejects_non_owner:
  assumes "body_fields body = Some b" "js_truthy (obj_get b ''id'')"
    "object_id_of (obj_get b ''id'') = Some oid" "find_one Properties [(''_id'', CEq oid)] d = Some p"
    "\<not> js_strict_eq (obj_get p ''landlordId'') (obj_get b ''landlordId'')"
  shows "property_PUT body t d = (fail_resp 403 ''Unauthorized'', d)"
  using assms by (simp add: property_PUT_def)

text \<open>
  Claim C31: the landlord counter is never maintained: the
  profiles that registration creates key the landlord by a string \<open>userId\<close>,
  the counter update filters on an ObjectId, so when every profile holds a string
  \<open>userId\<close>, no \<open>POST\<close> changes the landlord profiles.
\<close>

theorem property_POST_keeps_profiles:
  assumes strs: "list_all (\<lambda>x. is_jstr (obj_get x ''userId'')) (colls d LandlordProfiles)"
  shows "colls (snd (property_POST body t d)) LandlordProfiles = colls d LandlordProfiles"
proof -
  have "update_one LandlordProfiles [(''userId'', CEq oid)] [UInc ''propertyCount'' 1] False d1 = Some (0, d1)"
    if "object_id_of v = Some oid" "insert_one Properties x d = (oid', d1)" for v oid x oid' d1
    using oid_query_misses_strings [OF _ that(1)] strs insert_one_other [OF that(2)]
    by (intro update_one_no_match) simp_all
  then show ?thesis
    by (simp add: property_POST_def Let_def insert_one_other split: option.split prod.split)
qed

text \<open>
  Claim C32: the delete is not atomic: when the landlord id is not
  an ObjectId string, the listing is deleted and the request then fails with 500,
  leaving the counter and the wishlists untouched.
\<close>

theorem property_DELETE_partial:
  assumes "param_get ps ''id'' = Some i" "param_get ps ''landlordId'' = Some l" "i \<noteq> []" "l \<noteq> []"
    "object_id_of (JStr i) = Some oid" "find_one Properties [(''_id'', CEq oid)] d = Some p"
    "obj_get p ''landlordId'' = JStr l" "object_id_of (JStr l) = None"
  shows "property_DELETE ps d =
           (fail_resp 500 ''Failed to delete property'', delete_one Properties [(''_id'', CEq oid)] d)"
  using assms by (simp add: property_DELETE_def)

subsection \<open>Instances\<close>

theorem property_DELETE_authorized_witness:
  "snd (property_DELETE [(''id'', sample_pid), (''landlordId'', sample_landlord)] sample_db) \<noteq> sample_db \<and>
   (\<exists>i l oid p. param_get [(''id'', sample_pid), (''landlordId'', sample_landlord)] ''id'' = Some i \<and>
      param_get [(''id'', sample_pid), (''landlordId'', sample_landlord)] ''landlordId'' = Some l \<and>
      object_id_of (JStr i) = Some oid \<and> find_one Properties [(''_id'', CEq oid)] sample_db = Some p \<and>
      js_strict_eq (obj_get p ''landlordId'') (JStr l))"
proof -
  have "colls (snd (property_DELETE [(''id'', sample_pid), (''landlordId'', sample_landlord)] sample_db)) Properties
        \<noteq> colls sample_db Properties" by code_simp
  then have ne: "snd (property_DELETE [(''id'', sample_pid), (''landlordId'', sample_landlord)] sample_db) \<noteq> sample_db"
    by auto
  show ?thesis using ne property_DELETE_authorized [OF prod.collapse [symmetric] ne] by blast
qed

theorem property_PUT_authorized_witness:
  "snd (property_PUT (JObj [(''id'', JStr sample_pid), (''landlordId'', JStr sample_landlord), (''rent'', JNum 4500)]) 11 sample_db) \<noteq> sample_db \<and>
   (\<exists>b oid p. body_fields (JObj [(''id'', JStr sample_pid), (''landlordId'', JStr sample_landlord), (''rent'', JNum 4500)]) = Some b \<and>
      object_id_of (obj_get b ''id'') = Some oid \<and> find_one Properties [(''_id'', CEq oid)] sample_db = Some p \<and>
      js_strict_eq (obj_get p ''landlordId'') (obj_get b ''landlordId''))"
proof -
  have "colls (snd (property_PUT (JObj [(''id'', JStr sample_pid), (''landlordId'', JStr sample_landlord), (''rent'', JNum 4500)]) 11 sample_db)) Properties
        \<noteq> colls sample_db Properties" by code_simp
  then have ne: "snd (property_PUT (JObj [(''id'', JStr sample_pid), (''landlordId'', JStr sample_landlord), (''rent'', JNum 4500)]) 11 sample_db) \<noteq> sample_db"
    by auto
  show ?thesis using ne property_PUT_authorized [OF prod.collapse [symmetric] ne] by blast
qed

theorem property_POST_creates_witness:
  "http_status (fst (property_POST sample_body 3 sample_db)) = 200 \<and>
   (\<exists>b ll slug. body_fields sample_body = Some b \<and> first_missing b required_property_fields = None \<and>
      landlord_lookup (obj_get b ''landlordId'') sample_db = Some ll \<and> property_slug b = Some slug \<and>
      colls (snd (property_POST sample_body 3 sample_db)) Properties = colls sample_db Properties @
        [(''_id'', JOid (oid_hex (next_oid sample_db))) # map bson_field (new_property b ll slug 3)])"
proof -
  have ok: "http_status (fst (property_POST sample_body 3 sample_db)) = 200" by code_simp
  show ?thesis using ok property_POST_creates [OF prod.collapse [symmetric] ok] by blast
qed

theorem property_DELETE_success_witness:
  "http_status (fst (property_DELETE [(''id'', sample_pid), (''landlordId'', sample_landlord)] sample_db)) = 200 \<and>
   colls (snd (property_DELETE [(''id'', sample_pid), (''landlordId'', sample_landlord)] sample_db)) Properties =
     delete_first (matches [(''_id'', CEq (JOid (to_lower sample_pid)))]) (colls sample_db Properties) \<and>
   no_wishlist_has (JStr sample_pid) (snd (property_DELETE [(''id'', sample_pid), (''landlordId'', sample_landlord)] sample_db))"
proof -
  have ok: "http_status (fst (property_DELETE [(''id'', sample_pid), (''landlordId'', sample_landlord)] sample_db)) = 200"
    by code_simp
  have i: "param_get [(''id'', sample_pid), (''landlordId'', sample_landlord)] ''id'' = Some sample_pid"
    by (simp add: param_get_def)
  show ?thesis using ok property_DELETE_success [OF prod.collapse [symmetric] ok i] by blast
qed

theorem property_listing_matches_witness:
  "property_listing [] sample_db = Some [sample_p3, sample_p1] \<and>
   list_all (matches (property_query [])) [sample_p3, sample_p1] \<and>
   set [sample_p3, sample_p1] \<subseteq> set (colls sample_db Properties)"
proof -
  have h: "property_listing [] sample_db = Some [sample_p3, sample_p1]" by code_simp
  show ?thesis using h property_listing_matches [OF h] by blast
qed

theorem property_listing_public_active_witness:
  "property_listing [(''page'', ''1'')] sample_db = Some [sample_p3, sample_p1] \<and>
   param_get [(''page'', ''1'')] ''landlordId'' = None \<and> param_get [(''page'', ''1'')] ''status'' = None \<and>
   list_all (\<lambda>x. eq_match (obj_get x ''status'') (JStr ''ACTIVE'')) [sample_p3, sample_p1]"
proof -
  have h: "property_listing [(''page'', ''1'')] sample_db = Some [sample_p3, sample_p1]" by code_simp
  have l: "param_get [(''page'', ''1'')] ''landlordId'' = None" and s: "param_get [(''page'', ''1'')] ''status'' = None"
    by (simp_all add: param_get_def)
  show ?thesis using h l s property_listing_public_active [OF h l s] by blast
qed

theorem property_listing_newest_first_witness:
  "property_listing [(''landlordId'', sample_landlord)] sample_db = Some [sample_p2, sample_p1] \<and>
   sorted_wrt (\<lambda>x y. date_key (obj_get y ''createdAt'') \<le> date_key (obj_get x ''createdAt'')) [sample_p2, sample_p1]"
proof -
  have h: "property_listing [(''landlordId'', sample_landlord)] sample_db = Some [sample_p2, sample_p1]" by code_simp
  show ?thesis using h property_listing_newest_first [OF h] by blast
qed

theorem property_listing_bounded_witness:
  "property_listing [(''landlordId'', sample_landlord), (''limit'', ''1'')] sample_db = Some [sample_p2] \<and>
   int_param [(''landlordId'', sample_landlord), (''limit'', ''1'')] ''limit'' ''20'' = JNum 1 \<and>
   length [sample_p2] \<le> nat \<lfloor>\<bar>1 :: rat\<bar>\<rfloor>"
proof -
  have h: "property_listing [(''landlordId'', sample_landlord), (''limit'', ''1'')] sample_db = Some [sample_p2]"
    by code_simp
  have l: "int_param [(''landlordId'', sample_landlord), (''limit'', ''1'')] ''limit'' ''20'' = JNum 1" by code_simp
  show ?thesis by (intro conjI h l property_listing_bounded [OF h l]) simp
qed

theorem property_POST_names_first_missing_witness:
  "property_POST (JObj [(''title'', JStr ''Room'')]) 3 sample_db =
     (fail_resp 400 (''description'' @ '' is required''), sample_db)"
proof -
  have "body_fields (JObj [(''title'', JStr ''Room'')]) = Some [(''title'', JStr ''Room'')]" by simp
  moreover have "required_property_fields = [''title''] @ ''description'' #
      [''propertyType'', ''address'', ''city'', ''rent'', ''deposit'', ''landlordId'']"
    by (simp add: required_property_fields_def)
  moreover have "list_all (\<lambda>g. js_truthy (obj_get [(''title'', JStr ''Room'')] g)) [''title'']"
    by (simp add: obj_get_def)
  moreover have "\<not> js_truthy (obj_get [(''title'', JStr ''Room'')] ''description'')"
    by (simp add: obj_get_def)
  ultimately show ?thesis by (rule property_POST_names_first_missing)
qed

theorem property_PUT_rejects_non_owner_witness:
  "property_PUT (JObj [(''id'', JStr sample_pid), (''landlordId'', JStr ''intruder'')]) 11 sample_db =
     (fail_resp 403 ''Unauthorized'', sample_db)"
proof (rule property_PUT_rejects_non_owner)
  show "body_fields (JObj [(''id'', JStr sample_pid), (''landlordId'', JStr ''intruder'')]) =
        Some [(''id'', JStr sample_pid), (''landlordId'', JStr ''intruder'')]" by simp
  show "js_truthy (obj_get [(''id'', JStr sample_pid), (''landlordId'', JStr ''intruder'')] ''id'')"
    by (simp add: obj_get_def)
  show "object_id_of (obj_get [(''id'', JStr sample_pid), (''landlordId'', JStr ''intruder'')] ''id'')
        = Some (JOid sample_pid)" by code_simp
  show "find_one Properties [(''_id'', CEq (JOid sample_pid))] sample_db = Some sample_p1" by code_simp
  show "\<not> js_strict_eq (obj_get sample_p1 ''landlordId'')
          (obj_get [(''id'', JStr sample_pid), (''landlordId'', JStr ''intruder'')] ''landlordId'')"
    by code_simp
qed

theorem property_POST_keeps_profiles_witness:
  "colls (snd (property_POST sample_body 3 sample_db)) LandlordProfiles = colls sample_db LandlordProfiles"
  by (rule property_POST_keeps_profiles) (simp add: obj_get_def)

theorem property_DELETE_partial_witness:
  "property_DELETE [(''id'', ''aaaaaaaaaaaaaaaaaaaaaaa3''), (''landlordId'', ''landlord-3'')] sample_db =
     (fail_resp 500 ''Failed to delete property'',
      delete_one Properties [(''_id'', CEq (JOid ''aaaaaaaaaaaaaaaaaaaaaaa3''))] sample_db)"
proof (rule property_DELETE_partial)
  show "object_id_of (JStr ''aaaaaaaaaaaaaaaaaaaaaaa3'') = Some (JOid ''aaaaaaaaaaaaaaaaaaaaaaa3'')" by code_simp
  show "find_one Properties [(''_id'', CEq (JOid ''aaaaaaaaaaaaaaaaaaaaaaa3''))] sample_db = Some sample_p3" by code_simp
  show "object_id_of (JStr ''landlord-3'') = None" by code_simp
qed (simp_all add: param_get_def obj_get_def)

end
