(* ===== verification/Inquiries.thy ===== *)
theory Inquiries
  imports Properties
begin

text \<open>
  The inquiry route, src/src/app/api/inquiries/route.ts: a student's request about
  a listing, with a status.  \<open>inquiry_GET\<close> lists inquiries with a summary of
  their listing joined in the handler; \<open>inquiry_POST\<close> is split, as the code runs,
  into its reads and checks (\<open>inquiry_check\<close>) and its writes
  (\<open>inquiry_write\<close>: the insert and the \<open>inquiryCount\<close> increment);
  \<open>inquiry_PUT\<close> lets either party of an inquiry set its status, visit and notes;
  \<open>inquiry_DELETE\<close> is the student's soft cancel.  The invariant
  \<open>active_unique\<close> is the one the duplicate check is meant to keep: at most one
  active (\<open>PENDING\<close> or \<open>CONTACTED\<close>) inquiry per listing and student.
\<close>

section \<open>GET: inquiries with their listing\<close>

definition inquiry_query :: "params \<Rightarrow> query" where
  "inquiry_query ps =
       when_param (param_get ps ''studentId'') (\<lambda>s. [(''studentId'', CEq (JStr s))])
     @ when_param (param_get ps ''landlordId'') (\<lambda>l. [(''landlordId'', CEq (JStr l))])
     @ when_param (param_get ps ''propertyId'') (\<lambda>p. [(''propertyId'', CEq (JStr p))])
     @ when_param (param_get ps ''status'') (\<lambda>s. [(''status'', CEq (JStr s))])"

text \<open>\<open>[...new Set(xs)]\<close>: the distinct values in order of first occurrence.\<close>

definition unique_vals :: "jval list \<Rightarrow> jval list" where
  "unique_vals xs = rev (remdups (rev xs))"

text \<open>\<open>try { return new ObjectId(id) } catch { return id }\<close>.\<close>

definition id_or_raw :: "jval \<Rightarrow> jval" where
  "id_or_raw v = (case object_id_of v of Some oid \<Rightarrow> oid | None \<Rightarrow> v)"

text \<open>The listings fetched for a page of inquiries:
  \<open>find({_id: {$in: ids}})\<close> in natural order.\<close>

definition page_properties :: "doc list \<Rightarrow> db \<Rightarrow> doc list" where
  "page_properties is d =
     filter (matches [(''_id'', CIn (map id_or_raw (unique_vals (map (\<lambda>i. obj_get i ''propertyId'') is))))])
            (colls d Properties)"

text \<open>\<open>new Map(properties.map(p => [p._id.toString(), p])).get(k)\<close>: a later entry
  with the same key overwrites an earlier one, so the last listing with that key wins.\<close>

definition property_map_get :: "doc list \<Rightarrow> jval \<Rightarrow> doc option" where
  "property_map_get ps k = find (\<lambda>p. JStr (js_to_string (obj_get p ''_id'')) = k) (rev ps)"

text \<open>\<open>v?.[0]\<close> and \<open>v?.url\<close> on the values a listing can hold.\<close>

fun js_index0 :: "jval \<Rightarrow> jval" where
  "js_index0 (JArr (x # _)) = x"
| "js_index0 (JObj fs) = obj_get fs ''0''"
| "js_index0 (JStr (c # _)) = JStr [c]"
| "js_index0 _ = JUndef"

fun js_url :: "jval \<Rightarrow> jval" where
  "js_url (JObj fs) = obj_get fs ''url''"
| "js_url _ = JUndef"

definition property_summary :: "doc \<Rightarrow> jval" where
  "property_summary p =
     JObj [(''id'', JStr (js_to_string (obj_get p ''_id''))), (''title'', obj_get p ''title''),
           (''slug'', obj_get p ''slug''), (''city'', obj_get p ''city''), (''rent'', obj_get p ''rent''),
           (''image'', js_url (js_index0 (obj_get p ''images'')))]"

definition with_property :: "doc list \<Rightarrow> doc \<Rightarrow> doc" where
  "with_property ps i =
     obj_set (obj_set (obj_set i ''id'' (JStr (js_to_string (obj_get i ''_id'')))) ''_id'' JUndef)
       ''property'' (case property_map_get ps (obj_get i ''propertyId'') of
                       None \<Rightarrow> JNull
                     | Some p \<Rightarrow> property_summary p)"

definition inquiry_GET :: "params \<Rightarrow> db \<Rightarrow> resp \<times> db" where
  "inquiry_GET ps d =
     (let q = inquiry_query ps;
          page = int_param ps ''page'' ''1''; limit = int_param ps ''limit'' ''20'';
          cnt = count_documents Inquiries q d
      in case find_page Inquiries q (js_skip page limit) limit d of
           None \<Rightarrow> (fail_resp 500 ''Failed to fetch inquiries'', d)
         | Some is \<Rightarrow>
             (let props = page_properties is d
              in (json_resp 200
                    [(''success'', JBool True),
                     (''inquiries'', JArr (map (\<lambda>i. JObj (with_property props i)) is)),
                     (''pagination'', JObj [(''page'', page), (''limit'', limit),
                                           (''total'', JNum (of_nat cnt)),
                                           (''totalPages'', total_pages cnt limit)])], d)))"

section \<open>POST: create an inquiry\<close>

definition inquiry_required_fields :: "string list" where
  "inquiry_required_fields = [''propertyId'', ''studentId'', ''message'']"

text \<open>The listing by ObjectId, or by slug when the id is not one.\<close>

definition property_by_id_or_slug :: "jval \<Rightarrow> db \<Rightarrow> doc option" where
  "property_by_id_or_slug v d =
     (case object_id_of v of
        Some oid \<Rightarrow> find_one Properties [(''_id'', CEq oid)] d
      | None \<Rightarrow> find_one Properties [(''slug'', CEq v)] d)"

definition active_statuses :: "jval list" where
  "active_statuses = [JStr ''PENDING'', JStr ''CONTACTED'']"

definition duplicate_query :: "doc \<Rightarrow> jval \<Rightarrow> query" where
  "duplicate_query p sid =
     [(''propertyId'', CEq (JStr (js_to_string (obj_get p ''_id'')))), (''studentId'', CEq sid),
      (''status'', CIn active_statuses)]"

definition new_inquiry :: "jobj \<Rightarrow> doc \<Rightarrow> doc \<Rightarrow> nat \<Rightarrow> doc" where
  "new_inquiry b p s t =
     [(''propertyId'', JStr (js_to_string (obj_get p ''_id''))),
      (''landlordId'', obj_get p ''landlordId''),
      (''studentId'', obj_get b ''studentId''),
      (''studentName'', obj_get s ''name''),
      (''studentEmail'', obj_get s ''email''),
      (''studentPhone'', js_or (js_or (obj_get s ''phone'') (obj_get b ''phone'')) (JStr [])),
      (''message'', obj_get b ''message''),
      (''preferredMoveIn'', if js_truthy (obj_get b ''preferredMoveIn'')
                            then JDate (obj_get b ''preferredMoveIn'') else JNull),
      (''status'', JStr ''PENDING''),
      (''scheduledVisit'', JNull),
      (''landlordNotes'', JStr []),
      (''createdAt'', js_now t),
      (''updatedAt'', js_now t)]"

text \<open>
  The reads and checks of \<open>POST\<close>, in the order of the code: the body, the required
  fields, the listing, the student (\<open>new ObjectId(studentId)\<close> throws for an id that
  is not one: a 500), the duplicate check.  \<open>Inl\<close> is the response of a refused
  request, \<open>Inr\<close> what the writes need.
\<close>

definition inquiry_check :: "jval \<Rightarrow> db \<Rightarrow> resp + (jobj \<times> doc \<times> doc)" where
  "inquiry_check body d =
     (case body_fields body of
        None \<Rightarrow> Inl (fail_resp 500 ''Failed to create inquiry'')
      | Some b \<Rightarrow>
        (case first_missing b inquiry_required_fields of
           Some f \<Rightarrow> Inl (fail_resp 400 (f @ '' is required''))
         | None \<Rightarrow>
           (case property_by_id_or_slug (obj_get b ''propertyId'') d of
              None \<Rightarrow> Inl (fail_resp 404 ''Property not found'')
            | Some p \<Rightarrow>
              (case object_id_of (obj_get b ''studentId'') of
                 None \<Rightarrow> Inl (fail_resp 500 ''Failed to create inquiry'')
               | Some soid \<Rightarrow>
                 (case find_one Users [(''_id'', CEq soid)] d of
                    None \<Rightarrow> Inl (fail_resp 404 ''Student not found'')
                  | Some s \<Rightarrow>
                    if find_one Inquiries (duplicate_query p (obj_get b ''studentId'')) d \<noteq> None
                    then Inl (fail_resp 400 ''You already have a pending inquiry for this property'')
                    else Inr (b, p, s))))))"

text \<open>The writes of \<open>POST\<close>: \<open>insertOne\<close>, then \<open>$inc\<close> of the listing's
  \<open>inquiryCount\<close>; a failure of the second leaves the first in place.\<close>

definition inquiry_write :: "jobj \<Rightarrow> doc \<Rightarrow> doc \<Rightarrow> nat \<Rightarrow> db \<Rightarrow> resp \<times> db" where
  "inquiry_write b p s t d =
     (let x = new_inquiry b p s t;
          (oid, d1) = insert_one Inquiries x d
      in case update_one Properties [(''_id'', CEq (obj_get p ''_id''))] [UInc ''inquiryCount'' 1] False d1 of
           None \<Rightarrow> (fail_resp 500 ''Failed to create inquiry'', d1)
         | Some (_, d2) \<Rightarrow>
             (json_resp 200
                [(''success'', JBool True),
                 (''message'', JStr ''Inquiry sent successfully''),
                 (''inquiry'', JObj (obj_set (x @ [(''_id'', oid)]) ''id'' (JStr (js_to_string oid))))], d2))"

definition inquiry_POST :: "jval \<Rightarrow> nat \<Rightarrow> db \<Rightarrow> resp \<times> db" where
  "inquiry_POST body t d =
     (case inquiry_check body d of
        Inl r \<Rightarrow> (r, d)
      | Inr (b, p, s) \<Rightarrow> inquiry_write b p s t d)"

section \<open>PUT: update an inquiry\<close>

text \<open>\<open>const { id, userId, ...updateData } = body\<close>.\<close>

definition inquiry_update_data :: "jobj \<Rightarrow> jobj" where
  "inquiry_update_data b = filter (\<lambda>(k, _). k \<noteq> ''id'' \<and> k \<noteq> ''userId'') b"

text \<open>The \<open>updates\<close> object, field by field as the code fills it: a visit forces
  the status to \<open>SCHEDULED\<close>.\<close>

definition inquiry_updates :: "jobj \<Rightarrow> nat \<Rightarrow> jobj" where
  "inquiry_updates u t =
     (let u1 = [(''updatedAt'', js_now t)];
          u2 = (if js_truthy (obj_get u ''status'') then obj_set u1 ''status'' (obj_get u ''status'') else u1);
          u3 = (if js_truthy (obj_get u ''scheduledVisit'')
                then obj_set (obj_set u2 ''scheduledVisit'' (JDate (obj_get u ''scheduledVisit'')))
                       ''status'' (JStr ''SCHEDULED'')
                else u2)
      in if obj_get u ''landlordNotes'' \<noteq> JUndef then obj_set u3 ''landlordNotes'' (obj_get u ''landlordNotes'')
         else u3)"

definition inquiry_PUT :: "jval \<Rightarrow> nat \<Rightarrow> db \<Rightarrow> resp \<times> db" where
  "inquiry_PUT body t d =
     (case body_fields body of
        None \<Rightarrow> (fail_resp 500 ''Failed to update inquiry'', d)
      | Some b \<Rightarrow>
        (let id = obj_get b ''id''; userId = obj_get b ''userId'' in
         if \<not> js_truthy id then (fail_resp 400 ''Inquiry ID is required'', d)
         else
           (case object_id_of id of
              None \<Rightarrow> (fail_resp 500 ''Failed to update inquiry'', d)
            | Some oid \<Rightarrow>
              (case find_one Inquiries [(''_id'', CEq oid)] d of
                 None \<Rightarrow> (fail_resp 404 ''Inquiry not found'', d)
               | Some i \<Rightarrow>
                 if \<not> js_strict_eq (obj_get i ''landlordId'') userId \<and>
                    \<not> js_strict_eq (obj_get i ''studentId'') userId
                 then (fail_resp 403 ''Unauthorized'', d)
                 else
                   (case update_one Inquiries [(''_id'', CEq oid)]
                           (map (\<lambda>(k, v). USet k v) (inquiry_updates (inquiry_update_data b) t)) False d of
                      None \<Rightarrow> (fail_resp 500 ''Failed to update inquiry'', d)
                    | Some (_, d') \<Rightarrow>
                        (json_resp 200 [(''success'', JBool True),
                                        (''message'', JStr ''Inquiry updated successfully'')], d'))))))"

section \<open>DELETE: cancel an inquiry\<close>

definition inquiry_DELETE :: "params \<Rightarrow> nat \<Rightarrow> db \<Rightarrow> resp \<times> db" where
  "inquiry_DELETE ps t d =
     (case (param_get ps ''id'', param_get ps ''studentId'') of
        (Some i, Some s) \<Rightarrow>
          if i = [] \<or> s = [] then (fail_resp 400 ''Inquiry ID and student ID are required'', d)
          else
            (case object_id_of (JStr i) of
               None \<Rightarrow> (fail_resp 500 ''Failed to cancel inquiry'', d)
             | Some oid \<Rightarrow>
               (case find_one Inquiries [(''_id'', CEq oid)] d of
                  None \<Rightarrow> (fail_resp 404 ''Inquiry not found'', d)
                | Some x \<Rightarrow>
                  if \<not> js_strict_eq (obj_get x ''studentId'') (JStr s)
                  then (fail_resp 403 ''Unauthorized'', d)
                  else
                    (case update_one Inquiries [(''_id'', CEq oid)]
                            [USet ''status'' (JStr ''CANCELLED''), USet ''updatedAt'' (js_now t)] False d of
                       None \<Rightarrow> (fail_resp 500 ''Failed to cancel inquiry'', d)
                     | Some (_, d') \<Rightarrow>
                         (json_resp 200 [(''success'', JBool True),
                                         (''message'', JStr ''Inquiry cancelled successfully'')], d'))))
      | _ \<Rightarrow> (fail_resp 400 ''Inquiry ID and student ID are required'', d))"

section \<open>The uniqueness invariant\<close>

text \<open>An inquiry is active when the duplicate check would find it.\<close>

definition is_active :: "doc \<Rightarrow> bool" where
  "is_active x = cond_match (CIn active_statuses) (obj_get x ''status'')"

definition inquiry_key :: "doc \<Rightarrow> jval \<times> jval" where
  "inquiry_key x = (obj_get x ''propertyId'', obj_get x ''studentId'')"

definition active_unique :: "db \<Rightarrow> bool" where
  "active_unique d = distinct (map inquiry_key (filter is_active (colls d Inquiries)))"


text \<open>What a successful \<open>PUT\<close> does to the inquiry: the \<open>$set\<close> of every field of
  the \<open>updates\<close> object, in order.\<close>

abbreviation inquiry_set :: "jobj \<Rightarrow> nat \<Rightarrow> doc \<Rightarrow> doc" where
  "inquiry_set b t x \<equiv> foldl (\<lambda>x (k, v). obj_set x k v) x (inquiry_updates (inquiry_update_data b) t)"

text \<open>A small database for the concrete instances below: a student, the listing of
  Properties' sample data, and inquiries of that student about it.\<close>

abbreviation "sample_student \<equiv> ''cccccccccccccccccccccccc''"

abbreviation "sample_inq_db \<equiv> \<lparr>colls = (\<lambda>_. [])(
   Users := [[(''_id'', JOid sample_student), (''role'', JStr ''student''), (''name'', JStr ''Asha''),
              (''email'', JStr ''asha@example.in'')]],
   Properties := [sample_p1]), next_oid = 20\<rparr>"

abbreviation "sample_inq_body \<equiv> JObj [(''propertyId'', JStr sample_pid), (''studentId'', JStr sample_student),
   (''message'', JStr ''Is the room available?'')]"

abbreviation "sample_inq \<equiv> \<lambda>h st. [(''_id'', JOid h), (''propertyId'', JStr sample_pid),
   (''landlordId'', JStr sample_landlord), (''studentId'', JStr sample_student), (''status'', JStr st)]"

abbreviation "sample_inq_users \<equiv> [[(''_id'', JOid sample_student), (''role'', JStr ''student''),
   (''name'', JStr ''Asha''), (''email'', JStr ''asha@example.in'')]]"

abbreviation "sample_closed_db \<equiv> \<lparr>colls = (\<lambda>_. [])(Users := sample_inq_users, Properties := [sample_p1],
   Inquiries := [sample_inq ''dddddddddddddddddddddd01'' ''CANCELLED'']), next_oid = 30\<rparr>"

abbreviation "sample_reopen_db \<equiv> \<lparr>colls = (\<lambda>_. [])(Users := sample_inq_users, Properties := [sample_p1],
   Inquiries := [sample_inq ''dddddddddddddddddddddd01'' ''CANCELLED'', sample_inq ''dddddddddddddddddddddd02'' ''PENDING'']),
   next_oid = 30\<rparr>"

abbreviation "sample_inq_fields \<equiv> [(''propertyId'', JStr sample_pid), (''studentId'', JStr sample_student),
   (''message'', JStr ''Is the room available?'')]"

abbreviation "sample_reopen_body \<equiv> JObj [(''id'', JStr ''dddddddddddddddddddddd01''), (''userId'', JStr sample_student),
   (''status'', JStr ''PENDING'')]"

abbreviation "sample_visit_body \<equiv> JObj [(''id'', JStr ''dddddddddddddddddddddd02''), (''userId'', JStr sample_landlord),
   (''status'', JStr ''CONTACTED''), (''scheduledVisit'', JStr ''2025-07-01'')]"

section \<open>Lemmas\<close>

lemma first_missing_None: "first_missing b fs = None \<longleftrightarrow> list_all (\<lambda>f. js_truthy (obj_get b f)) fs"
  by (induction fs) auto

lemma inquiry_check_Inl: "inquiry_check body d = Inl r \<Longrightarrow> http_status r \<noteq> 200"
  by (auto simp: inquiry_check_def split: option.splits if_splits)

lemma inquiry_check_Inr:
  assumes "inquiry_check body d = Inr (b, p, s)"
  shows "body_fields body = Some b \<and> list_all (\<lambda>f. js_truthy (obj_get b f)) inquiry_required_fields \<and>
         property_by_id_or_slug (obj_get b ''propertyId'') d = Some p \<and>
         (\<exists>soid. object_id_of (obj_get b ''studentId'') = Some soid \<and> find_one Users [(''_id'', CEq soid)] d = Some s) \<and>
         find_one Inquiries (duplicate_query p (obj_get b ''studentId'')) d = None"
  using assms
  by (auto simp: inquiry_check_def first_missing_None [symmetric] split: option.splits if_splits)

lemma inquiry_write_inquiries:
  "colls (snd (inquiry_write b p s t d)) Inquiries =
     colls d Inquiries @ [(''_id'', JOid (oid_hex (next_oid d))) # map bson_field (new_inquiry b p s t)]"
proof -
  have "colls d2 Inquiries = colls d1 Inquiries"
    if "update_one Properties q us False d1 = Some (n, d2)" for q us d1 n d2
    using update_one_other [OF that] by simp
  then show ?thesis
    by (simp add: inquiry_write_def Let_def insert_one_def split: option.split prod.split)
qed

lemma new_inquiry_key:
  assumes "js_truthy (obj_get b ''studentId'')"
  shows "inquiry_key ((''_id'', oid) # map bson_field (new_inquiry b p s t)) =
           (JStr (js_to_string (obj_get p ''_id'')), obj_get b ''studentId'')"
  using assms by (auto simp: inquiry_key_def new_inquiry_def)

lemma duplicate_query_matches:
  "is_active y \<Longrightarrow> inquiry_key y = (JStr (js_to_string (obj_get p ''_id'')), sid) \<Longrightarrow>
   matches (duplicate_query p sid) y"
  by (simp add: matches_def duplicate_query_def is_active_def inquiry_key_def eq_match_def)

lemma duplicate_found:
  assumes "y \<in> set (colls d Inquiries)" "is_active y"
    "inquiry_key y = (JStr (js_to_string (obj_get p ''_id'')), sid)"
  shows "find_one Inquiries (duplicate_query p sid) d \<noteq> None"
  using find_from_member [OF assms(1), of "matches (duplicate_query p sid)"]
    duplicate_query_matches [OF assms(2,3)]
  by (auto simp: find_one_def)

lemma active_unique_append:
  assumes "active_unique d" "colls d' Inquiries = colls d Inquiries @ [x]"
    "list_all (\<lambda>y. is_active y \<longrightarrow> inquiry_key y \<noteq> inquiry_key x) (colls d Inquiries)"
  shows "active_unique d'"
  using assms by (auto simp: active_unique_def list_all_iff)

lemma active_unique_replace:
  assumes "active_unique d" "colls d Inquiries = ys @ x # zs" "colls d' Inquiries = ys @ x' # zs"
    "\<not> is_active x'"
  shows "active_unique d'"
  using assms by (cases "is_active x") (auto simp: active_unique_def)

lemma active_unique_others:
  assumes "active_unique d" "colls d Inquiries = ys @ x # zs" "is_active x"
  shows "list_all (\<lambda>y. is_active y \<longrightarrow> inquiry_key y \<noteq> inquiry_key x) (ys @ zs)"
  unfolding list_all_iff
proof (intro ballI impI)
  fix y assume "y \<in> set (ys @ zs)" "is_active y"
  then have "inquiry_key y \<in> inquiry_key ` set (filter is_active ys) \<union> inquiry_key ` set (filter is_active zs)"
    by auto
  moreover have "inquiry_key x \<notin> inquiry_key ` set (filter is_active ys) \<union> inquiry_key ` set (filter is_active zs)"
    using assms by (auto simp: active_unique_def)
  ultimately show "inquiry_key y \<noteq> inquiry_key x" by metis
qed

lemma active_pair_not_unique:
  assumes "colls d Inquiries = ys @ x # zs" "y \<in> set ys \<union> set zs" "is_active y" "is_active x"
    "inquiry_key y = inquiry_key x"
  shows "\<not> active_unique d"
proof -
  have "inquiry_key x \<in> inquiry_key ` set (filter is_active ys)" if "y \<in> set ys"
    using that assms(3,5) by (intro image_eqI [where x = y]) simp_all
  moreover have "inquiry_key x \<in> inquiry_key ` set (filter is_active zs)" if "y \<in> set zs"
    using that assms(3,5) by (intro image_eqI [where x = y]) simp_all
  ultimately show ?thesis using assms(1,2,4) by (auto simp: active_unique_def)
qed

lemma cancelled_inactive: "\<not> is_active (obj_set (obj_set x ''status'' (JStr ''CANCELLED'')) ''updatedAt'' v)"
  by (simp add: is_active_def active_statuses_def eq_match_def)

lemma inquiry_DELETE_refused:
  "http_status (fst (inquiry_DELETE ps t d)) \<noteq> 200 \<Longrightarrow> snd (inquiry_DELETE ps t d) = d"
  by (auto simp: inquiry_DELETE_def split: option.splits if_splits prod.splits)

lemma inquiry_DELETE_effect:
  assumes "inquiry_DELETE ps t d = (r, d')" "http_status r = 200"
  obtains i s oid x ys zs where "param_get ps ''id'' = Some i" "param_get ps ''studentId'' = Some s"
    "object_id_of (JStr i) = Some oid" "find_one Inquiries [(''_id'', CEq oid)] d = Some x"
    "js_strict_eq (obj_get x ''studentId'') (JStr s)"
    "colls d Inquiries = ys @ x # zs"
    "d' = set_coll Inquiries (ys @ obj_set (obj_set x ''status'' (JStr ''CANCELLED'')) ''updatedAt'' (js_now t) # zs) d"
proof -
  obtain i s where ps: "param_get ps ''id'' = Some i" "param_get ps ''studentId'' = Some s"
    using assms by (auto simp: inquiry_DELETE_def split: option.splits)
  then obtain oid x where ox: "object_id_of (JStr i) = Some oid" "find_one Inquiries [(''_id'', CEq oid)] d = Some x"
    "js_strict_eq (obj_get x ''studentId'') (JStr s)"
    using assms by (auto simp: inquiry_DELETE_def split: option.splits if_splits)
  have nc: "\<not> upd_conflict [USet ''status'' (JStr ''CANCELLED''), USet ''updatedAt'' (js_now t)]" by simp
  obtain ys zs where sp: "colls d Inquiries = ys @ x # zs"
    and u: "update_one Inquiries [(''_id'', CEq oid)] [USet ''status'' (JStr ''CANCELLED''), USet ''updatedAt'' (js_now t)] False d =
       (case apply_upds False [USet ''status'' (JStr ''CANCELLED''), USet ''updatedAt'' (js_now t)] x of
          None \<Rightarrow> None
        | Some w' \<Rightarrow> Some (if w' \<noteq> x then 1 else 0, set_coll Inquiries (ys @ w' # zs) d))"
    using ox(2) nc by (rule update_one_hit)
  have "d' = set_coll Inquiries (ys @ obj_set (obj_set x ''status'' (JStr ''CANCELLED'')) ''updatedAt'' (js_now t) # zs) d"
    using assms ps ox u by (auto simp: inquiry_DELETE_def split: if_splits)
  with ps ox sp show ?thesis by (rule that)
qed

lemma obj_get_update_data [simp]:
  "k \<noteq> ''id'' \<Longrightarrow> k \<noteq> ''userId'' \<Longrightarrow> obj_get (inquiry_update_data b) k = obj_get b k"
  by (simp add: inquiry_update_data_def obj_get_def map_of_filter_key)

lemma inquiry_updates_keys:
  "fst ` set (inquiry_updates u t) \<subseteq> {''updatedAt'', ''status'', ''scheduledVisit'', ''landlordNotes''}"
  by (auto simp: inquiry_updates_def Let_def obj_set_def dom_update)

lemma inquiry_updates_distinct: "distinct (map fst (inquiry_updates u t))"
  by (simp add: inquiry_updates_def Let_def obj_set_def distinct_update)

lemma inquiry_updates_ok:
  "list_all (\<lambda>(k, v). plain_field k) (inquiry_updates u t)"
  using inquiry_updates_keys [of u t] by (fastforce simp: list_all_iff plain_field_def)

lemma inquiry_updates_no_conflict:
  "\<not> upd_conflict (map (\<lambda>(k, v). USet k v) (inquiry_updates u t))"
  using inquiry_updates_distinct inquiry_updates_ok by (rule USets_no_conflict)

lemma inquiry_PUT_effect:
  assumes "inquiry_PUT body t d = (r, d')" "http_status r = 200"
  obtains b oid i ys zs where "body_fields body = Some b" "js_truthy (obj_get b ''id'')"
    "object_id_of (obj_get b ''id'') = Some oid" "find_one Inquiries [(''_id'', CEq oid)] d = Some i"
    "js_strict_eq (obj_get i ''landlordId'') (obj_get b ''userId'') \<or>
     js_strict_eq (obj_get i ''studentId'') (obj_get b ''userId'')"
    "colls d Inquiries = ys @ i # zs"
    "d' = set_coll Inquiries (ys @ inquiry_set b t i # zs) d"
proof -
  obtain b where b: "body_fields body = Some b"
    using assms by (auto simp: inquiry_PUT_def split: option.splits)
  then obtain oid i where oi: "js_truthy (obj_get b ''id'')" "object_id_of (obj_get b ''id'') = Some oid"
    "find_one Inquiries [(''_id'', CEq oid)] d = Some i"
    "js_strict_eq (obj_get i ''landlordId'') (obj_get b ''userId'') \<or>
     js_strict_eq (obj_get i ''studentId'') (obj_get b ''userId'')"
    using assms by (auto simp: inquiry_PUT_def Let_def split: option.splits if_splits)
  obtain ys zs where sp: "colls d Inquiries = ys @ i # zs"
    and u: "update_one Inquiries [(''_id'', CEq oid)] (map (\<lambda>(k, v). USet k v) (inquiry_updates (inquiry_update_data b) t)) False d =
       (case apply_upds False (map (\<lambda>(k, v). USet k v) (inquiry_updates (inquiry_update_data b) t)) i of
          None \<Rightarrow> None
        | Some w' \<Rightarrow> Some (if w' \<noteq> i then 1 else 0, set_coll Inquiries (ys @ w' # zs) d))"
    using oi(3) inquiry_updates_no_conflict by (rule update_one_hit)
  have "d' = set_coll Inquiries (ys @ inquiry_set b t i # zs) d"
    using assms b oi u by (auto simp: inquiry_PUT_def Let_def apply_upds_USets [OF inquiry_updates_ok])
  with b oi sp show ?thesis by (rule that)
qed

lemma inquiry_PUT_refused:
  "http_status (fst (inquiry_PUT body t d)) \<noteq> 200 \<Longrightarrow> snd (inquiry_PUT body t d) = d"
  by (auto simp: inquiry_PUT_def Let_def split: option.splits if_splits)

lemma obj_get_inquiry_set:
  "k \<in> fst ` set (inquiry_updates (inquiry_update_data b) t) \<Longrightarrow>
   obj_get (inquiry_set b t x) k = obj_get (inquiry_updates (inquiry_update_data b) t) k"
  by (rule obj_get_foldl_in [OF inquiry_updates_distinct])

lemma property_by_id_or_slug_in:
  "property_by_id_or_slug v d = Some p \<Longrightarrow> p \<in> set (colls d Properties)"
  by (auto simp: property_by_id_or_slug_def find_one_def dest: find_Some_in_set split: option.splits)

lemma set_unique_vals [simp]: "set (unique_vals xs) = set xs"
  by (simp add: unique_vals_def)

lemma id_or_raw_hex: "is_hex24 h \<Longrightarrow> to_lower h = h \<Longrightarrow> id_or_raw (JStr h) = JOid h"
  by (simp add: id_or_raw_def)

lemma page_properties_has:
  assumes "p \<in> set (colls d Properties)" "obj_get p ''_id'' = JOid h" "is_hex24 h" "to_lower h = h"
    "i \<in> set is" "obj_get i ''propertyId'' = JStr h"
  shows "p \<in> set (page_properties is d)"
proof -
  have "JOid h \<in> set (map id_or_raw (unique_vals (map (\<lambda>i. obj_get i ''propertyId'') is)))"
    using assms(3-6) id_or_raw_hex [OF assms(3,4)] by (force simp: image_iff)
  with assms(1,2) show ?thesis
    by (auto simp: page_properties_def matches_def list_ex_iff eq_match_def)
qed

section \<open>Properties of the inquiry route\<close>

text \<open>
  Claim C3: a \<open>POST\<close> run alone keeps the invariant: at most one active
  (\<open>PENDING\<close> or \<open>CONTACTED\<close>) inquiry per listing and student.
\<close>

theorem inquiry_POST_preserves_unique:
  assumes "active_unique d"
  shows "active_unique (snd (inquiry_POST body t d))"
proof (cases "inquiry_check body d")
  case (Inl r)
  with assms show ?thesis by (simp add: inquiry_POST_def)
next
  case (Inr c)
  then obtain b p s where c: "inquiry_check body d = Inr (b, p, s)" by (cases c) auto
  note facts = inquiry_check_Inr [OF c]
  then have sid: "js_truthy (obj_get b ''studentId'')" by (simp add: inquiry_required_fields_def)
  have "list_all (\<lambda>y. \<not> matches (duplicate_query p (obj_get b ''studentId'')) y) (colls d Inquiries)"
    using facts by (simp add: find_one_def find_None_list_all)
  then have "list_all (\<lambda>y. is_active y \<longrightarrow> inquiry_key y \<noteq>
               inquiry_key ((''_id'', JOid (oid_hex (next_oid d))) # map bson_field (new_inquiry b p s t)))
             (colls d Inquiries)"
    by (auto simp: list_all_iff new_inquiry_key [OF sid] dest: duplicate_query_matches)
  with assms c show ?thesis
    by (auto simp: inquiry_POST_def intro: active_unique_append [OF _ inquiry_write_inquiries])
qed

text \<open>
  Claim C4: a cancel frees the listing for the student: when the invariant holds
  and a cancel of an active inquiry answers 200, no active inquiry of that listing
  and student is left, so a new \<open>POST\<close> of theirs is not refused as a duplicate.
\<close>

theorem inquiry_DELETE_frees:
  assumes "active_unique d" "inquiry_DELETE ps t d = (r, d')" "http_status r = 200"
    "param_get ps ''id'' = Some i" "object_id_of (JStr i) = Some oid"
    "find_one Inquiries [(''_id'', CEq oid)] d = Some x" "is_active x"
  shows "list_all (\<lambda>y. is_active y \<longrightarrow> inquiry_key y \<noteq> inquiry_key x) (colls d' Inquiries)"
proof -
  obtain i' oid' x' ys zs where "param_get ps ''id'' = Some i'" "object_id_of (JStr i') = Some oid'"
    "find_one Inquiries [(''_id'', CEq oid')] d = Some x'" "colls d Inquiries = ys @ x' # zs"
    and d': "d' = set_coll Inquiries (ys @ obj_set (obj_set x' ''status'' (JStr ''CANCELLED'')) ''updatedAt'' (js_now t) # zs) d"
    using assms(2,3) by (rule inquiry_DELETE_effect)
  with assms(4-6) have sp: "colls d Inquiries = ys @ x # zs" by simp
  from active_unique_others [OF assms(1) sp assms(7)] d' cancelled_inactive
  show ?thesis by (simp add: sp [symmetric] d')
qed

text \<open>
  Claim C26: \<open>PUT\<close> does not enforce the status workflow of the code's comment,
  where no status leads back to \<open>PENDING\<close>: the student of an inactive inquiry
  (\<open>CANCELLED\<close>, \<open>REJECTED\<close>, \<open>SCHEDULED\<close>, \<open>VISITED\<close> or \<open>RENTED\<close>) can set it to
  \<open>PENDING\<close>, and when another inquiry of the same listing and student is active
  the update answers 200 and breaks the invariant.
\<close>

theorem inquiry_PUT_reopens:
  assumes "object_id_of (JStr h) = Some oid" "find_one Inquiries [(''_id'', CEq oid)] d = Some x"
    "obj_get x ''studentId'' = JStr s" "\<not> is_active x"
    "y \<in> set (colls d Inquiries)" "is_active y" "inquiry_key y = inquiry_key x"
  shows "http_status (fst (inquiry_PUT (JObj [(''id'', JStr h), (''userId'', JStr s), (''status'', JStr ''PENDING'')]) t d)) = 200 \<and>
         \<not> active_unique (snd (inquiry_PUT (JObj [(''id'', JStr h), (''userId'', JStr s), (''status'', JStr ''PENDING'')]) t d))"
proof -
  let ?b = "[(''id'', JStr h), (''userId'', JStr s), (''status'', JStr ''PENDING'')]"
  let ?us = "map (\<lambda>(k, v). USet k v) (inquiry_updates (inquiry_update_data ?b) t)"
  let ?x' = "obj_set (obj_set x ''updatedAt'' (js_now t)) ''status'' (JStr ''PENDING'')"
  have upd: "inquiry_updates (inquiry_update_data ?b) t = [(''updatedAt'', js_now t), (''status'', JStr ''PENDING'')]"
    by (simp add: inquiry_update_data_def inquiry_updates_def obj_set_def)
  obtain ys zs where sp: "colls d Inquiries = ys @ x # zs"
    and u: "update_one Inquiries [(''_id'', CEq oid)] ?us False d =
       (case apply_upds False ?us x of
          None \<Rightarrow> None
        | Some w' \<Rightarrow> Some (if w' \<noteq> x then 1 else 0, set_coll Inquiries (ys @ w' # zs) d))"
    using assms(2) inquiry_updates_no_conflict by (rule update_one_hit)
  have "apply_upds False ?us x = Some ?x'"
    using apply_upds_USets [OF inquiry_updates_ok] by (simp add: upd)
  with u have u': "update_one Inquiries [(''_id'', CEq oid)] ?us False d =
      Some (if ?x' \<noteq> x then 1 else 0, set_coll Inquiries (ys @ ?x' # zs) d)" by simp
  from assms(1) have "h \<noteq> []" by (auto simp: is_hex24_def split: if_splits)
  with assms(1-3) u' have put: "inquiry_PUT (JObj ?b) t d =
      (json_resp 200 [(''success'', JBool True), (''message'', JStr ''Inquiry updated successfully'')],
       set_coll Inquiries (ys @ ?x' # zs) d)"
    by (simp add: inquiry_PUT_def Let_def js_strict_eq_def)
  have "y \<noteq> x" using assms(4,6) by auto
  with assms(5) sp have "y \<in> set ys \<union> set zs" by auto
  moreover have "is_active ?x'" by (simp add: is_active_def active_statuses_def eq_match_def)
  moreover have "inquiry_key ?x' = inquiry_key x" by (simp add: inquiry_key_def)
  ultimately have "\<not> active_unique (set_coll Inquiries (ys @ ?x' # zs) d)"
    using assms(6,7) by (intro active_pair_not_unique [where x = ?x' and y = y]) simp_all
  with put show ?thesis by (simp add: json_resp_def)
qed

text \<open>
  Claim C27: the duplicate check and the insert are separate steps: when two
  \<open>POST\<close>s of the same body both pass the check on the same database, before either
  writes, their writes leave two active inquiries of the same listing and student,
  which the check exists to prevent.
\<close>

theorem inquiry_POST_race:
  assumes "inquiry_check body d = Inr (b, p, s)"
  shows "\<not> active_unique (snd (inquiry_write b p s t2 (snd (inquiry_write b p s t1 d))))"
proof -
  note facts = inquiry_check_Inr [OF assms]
  then have sid: "js_truthy (obj_get b ''studentId'')" by (simp add: inquiry_required_fields_def)
  let ?x = "\<lambda>d t. (''_id'', JOid (oid_hex (next_oid d))) # map bson_field (new_inquiry b p s t)"
  let ?d1 = "snd (inquiry_write b p s t1 d)"
  have c: "colls (snd (inquiry_write b p s t2 ?d1)) Inquiries = (colls d Inquiries @ [?x d t1]) @ ?x ?d1 t2 # []"
    by (simp add: inquiry_write_inquiries)
  have a: "is_active (?x d' t)" for d' t
    by (simp add: is_active_def active_statuses_def eq_match_def new_inquiry_def)
  have k: "inquiry_key (?x d t1) = inquiry_key (?x ?d1 t2)"
    using new_inquiry_key [OF sid] by simp
  show ?thesis by (rule active_pair_not_unique [OF c, of "?x d t1"]) (simp_all only: a k, simp)
qed

text \<open>
  Claim C9: a \<open>PUT\<close> changes the database only when the inquiry exists
  and the caller's \<open>userId\<close> is strictly equal to its landlord id or its student id.
\<close>

theorem inquiry_PUT_authorized:
  assumes "inquiry_PUT body t d = (r, d')" "d' \<noteq> d"
  shows "\<exists>b oid i. body_fields body = Some b \<and> object_id_of (obj_get b ''id'') = Some oid \<and>
           find_one Inquiries [(''_id'', CEq oid)] d = Some i \<and>
           (js_strict_eq (obj_get i ''landlordId'') (obj_get b ''userId'') \<or>
            js_strict_eq (obj_get i ''studentId'') (obj_get b ''userId''))"
proof -
  have st: "http_status r = 200" using assms inquiry_PUT_refused [of body t d] by auto
  obtain b oid i where "body_fields body = Some b" "object_id_of (obj_get b ''id'') = Some oid"
    "find_one Inquiries [(''_id'', CEq oid)] d = Some i"
    "js_strict_eq (obj_get i ''landlordId'') (obj_get b ''userId'') \<or>
     js_strict_eq (obj_get i ''studentId'') (obj_get b ''userId'')"
    using assms(1) st by (rule inquiry_PUT_effect)
  then show ?thesis by blast
qed

text \<open>
  Claim C10: a cancel changes the database only when the inquiry exists and
  the given student id is strictly equal to the one stored on it.
\<close>

theorem inquiry_DELETE_authorized:
  assumes "inquiry_DELETE ps t d = (r, d')" "d' \<noteq> d"
  shows "\<exists>i s oid x. param_get ps ''id'' = Some i \<and> param_get ps ''studentId'' = Some s \<and>
           object_id_of (JStr i) = Some oid \<and> find_one Inquiries [(''_id'', CEq oid)] d = Some x \<and>
           js_strict_eq (obj_get x ''studentId'') (JStr s)"
proof -
  have st: "http_status r = 200" using assms inquiry_DELETE_refused [of ps t d] by auto
  obtain i s oid x where "param_get ps ''id'' = Some i" "param_get ps ''studentId'' = Some s"
    "object_id_of (JStr i) = Some oid" "find_one Inquiries [(''_id'', CEq oid)] d = Some x"
    "js_strict_eq (obj_get x ''studentId'') (JStr s)"
    using assms(1) st by (rule inquiry_DELETE_effect)
  then show ?thesis by blast
qed

text \<open>
  Claim C17: a \<open>POST\<close> answered with 200 passed every check, appended
  exactly the inquiry built from the body, the listing and the student, with status
  \<open>PENDING\<close>, and applied \<open>$inc\<close> of \<open>inquiryCount\<close> to the listing with that id.
\<close>

theorem inquiry_POST_creates:
  assumes "inquiry_POST body t d = (r, d')" "http_status r = 200"
  shows "\<exists>b p s. inquiry_check body d = Inr (b, p, s) \<and>
           colls d' Inquiries =
             colls d Inquiries @ [(''_id'', JOid (oid_hex (next_oid d))) # map bson_field (new_inquiry b p s t)] \<and>
           (\<exists>ys w zs w'. colls d Properties = ys @ w # zs \<and> matches [(''_id'', CEq (obj_get p ''_id''))] w \<and>
              apply_upds False [UInc ''inquiryCount'' 1] w = Some w' \<and> colls d' Properties = ys @ w' # zs)"
proof -
  obtain b p s where c: "inquiry_check body d = Inr (b, p, s)"
    using assms inquiry_check_Inl by (cases "inquiry_check body d") (auto simp: inquiry_POST_def)
  then have w: "inquiry_write b p s t d = (r, d')" using assms(1) by (simp add: inquiry_POST_def)
  define d1 where "d1 = snd (insert_one Inquiries (new_inquiry b p s t) d)"
  have p1: "colls d1 Properties = colls d Properties"
    by (simp add: d1_def insert_one_def Let_def)
  have "p \<in> set (colls d1 Properties)"
    using inquiry_check_Inr [OF c] p1 by (auto dest: property_by_id_or_slug_in)
  then obtain w where fw: "find_one Properties [(''_id'', CEq (obj_get p ''_id''))] d1 = Some w"
    by (rule find_one_own_id)
  have nc: "\<not> upd_conflict [UInc ''inquiryCount'' 1]" by simp
  obtain ys zs where sp: "colls d1 Properties = ys @ w # zs"
    "list_all (\<lambda>y. \<not> matches [(''_id'', CEq (obj_get p ''_id''))] y) ys"
    "matches [(''_id'', CEq (obj_get p ''_id''))] w"
    and u: "update_one Properties [(''_id'', CEq (obj_get p ''_id''))] [UInc ''inquiryCount'' 1] False d1 =
       (case apply_upds False [UInc ''inquiryCount'' 1] w of
          None \<Rightarrow> None
        | Some w' \<Rightarrow> Some (if w' \<noteq> w then 1 else 0, set_coll Properties (ys @ w' # zs) d1))"
    using fw nc by (rule update_one_hit)
  obtain w' where w': "apply_upds False [UInc ''inquiryCount'' 1] w = Some w'"
    and d': "d' = set_coll Properties (ys @ w' # zs) d1"
    using w assms(2) u
    by (auto simp: inquiry_write_def Let_def d1_def insert_one_def simp del: apply_upds.simps
             split: option.splits prod.splits)
  have "colls d' Inquiries = colls (snd (inquiry_write b p s t d)) Inquiries" using w by simp
  with c sp p1 w' d' show ?thesis
    by (intro exI conjI) (auto simp: inquiry_write_inquiries)
qed

text \<open>
  A \<open>POST\<close> for a listing and student that already have an
  active inquiry is refused with 400 and writes nothing.
\<close>

theorem inquiry_POST_rejects_duplicate:
  assumes "body_fields body = Some b" "first_missing b inquiry_required_fields = None"
    "property_by_id_or_slug (obj_get b ''propertyId'') d = Some p"
    "object_id_of (obj_get b ''studentId'') = Some soid" "find_one Users [(''_id'', CEq soid)] d = Some s"
    "y \<in> set (colls d Inquiries)" "is_active y"
    "inquiry_key y = (JStr (js_to_string (obj_get p ''_id'')), obj_get b ''studentId'')"
  shows "inquiry_POST body t d = (fail_resp 400 ''You already have a pending inquiry for this property'', d)"
  using assms(1-5) duplicate_found [OF assms(6-8)]
  by (simp add: inquiry_POST_def inquiry_check_def)

text \<open>
  When the ids are strings and no inquiry of that listing and
  student is active (they are \<open>RENTED\<close>, \<open>REJECTED\<close> or \<open>CANCELLED\<close>), the checks of
  a \<open>POST\<close> all pass.
\<close>

theorem inquiry_POST_after_close:
  assumes "body_fields body = Some b" "first_missing b inquiry_required_fields = None"
    "property_by_id_or_slug (obj_get b ''propertyId'') d = Some p"
    "object_id_of (obj_get b ''studentId'') = Some soid" "find_one Users [(''_id'', CEq soid)] d = Some s"
    "obj_get b ''studentId'' = JStr sid"
    "list_all (\<lambda>y. is_jstr (obj_get y ''propertyId'') \<and> is_jstr (obj_get y ''studentId'')) (colls d Inquiries)"
    "list_all (\<lambda>y. inquiry_key y = (JStr (js_to_string (obj_get p ''_id'')), JStr sid) \<longrightarrow> \<not> is_active y)
       (colls d Inquiries)"
  shows "inquiry_check body d = Inr (b, p, s)"
proof -
  have "list_all (\<lambda>y. \<not> matches (duplicate_query p (JStr sid)) y) (colls d Inquiries)"
    using assms(7,8)
    by (auto simp: list_all_iff matches_def duplicate_query_def eq_match_str inquiry_key_def is_active_def)
  then have "find_one Inquiries (duplicate_query p (obj_get b ''studentId'')) d = None"
    using assms(6) by (simp add: find_one_def find_None_list_all)
  with assms(1-5) show ?thesis by (simp add: inquiry_check_def)
qed

text \<open>
  A cancel that writes sets the inquiry's status to
  \<open>CANCELLED\<close> in place, stamps \<open>updatedAt\<close>, and touches no other document or collection.
\<close>

theorem inquiry_DELETE_cancels:
  assumes "inquiry_DELETE ps t d = (r, d')" "d' \<noteq> d"
  shows "\<exists>ys x zs. colls d Inquiries = ys @ x # zs \<and>
           colls d' Inquiries = ys @ obj_set (obj_set x ''status'' (JStr ''CANCELLED'')) ''updatedAt'' (js_now t) # zs \<and>
           (\<forall>c. c \<noteq> Inquiries \<longrightarrow> colls d' c = colls d c)"
proof -
  have st: "http_status r = 200" using assms inquiry_DELETE_refused [of ps t d] by auto
  obtain x ys zs where "colls d Inquiries = ys @ x # zs"
    "d' = set_coll Inquiries (ys @ obj_set (obj_set x ''status'' (JStr ''CANCELLED'')) ''updatedAt'' (js_now t) # zs) d"
    using assms(1) st by (rule inquiry_DELETE_effect)
  then show ?thesis by auto
qed

text \<open>
  A \<open>PUT\<close> with a visit date stores the date and sets the status
  to \<open>SCHEDULED\<close>, whatever status the body gives.
\<close>

theorem inquiry_PUT_schedules:
  assumes "inquiry_PUT body t d = (r, d')" "http_status r = 200" "body_fields body = Some b"
    "js_truthy (obj_get b ''scheduledVisit'')"
  shows "\<exists>ys i zs i'. colls d Inquiries = ys @ i # zs \<and> colls d' Inquiries = ys @ i' # zs \<and>
           obj_get i' ''status'' = JStr ''SCHEDULED'' \<and>
           obj_get i' ''scheduledVisit'' = JDate (obj_get b ''scheduledVisit'')"
proof -
  obtain i ys zs where "colls d Inquiries = ys @ i # zs" "d' = set_coll Inquiries (ys @ inquiry_set b t i # zs) d"
    using assms(1,2) by (rule inquiry_PUT_effect) (use assms(3) in simp)
  moreover have "obj_get (inquiry_set b t i) ''status'' = JStr ''SCHEDULED''"
    "obj_get (inquiry_set b t i) ''scheduledVisit'' = JDate (obj_get b ''scheduledVisit'')"
    using assms(4)
    by (subst obj_get_inquiry_set; auto simp: inquiry_updates_def Let_def obj_set_def dom_update)+
  ultimately show ?thesis by auto
qed

text \<open>
  A \<open>PUT\<close> without a visit date stores any non-empty status string
  the body gives.
\<close>

theorem inquiry_PUT_sets_status:
  assumes "inquiry_PUT body t d = (r, d')" "http_status r = 200" "body_fields body = Some b"
    "obj_get b ''status'' = JStr st" "st \<noteq> []" "\<not> js_truthy (obj_get b ''scheduledVisit'')"
  shows "\<exists>ys i zs i'. colls d Inquiries = ys @ i # zs \<and> colls d' Inquiries = ys @ i' # zs \<and>
           obj_get i' ''status'' = JStr st"
proof -
  obtain i ys zs where "colls d Inquiries = ys @ i # zs" "d' = set_coll Inquiries (ys @ inquiry_set b t i # zs) d"
    using assms(1,2) by (rule inquiry_PUT_effect) (use assms(3) in simp)
  moreover have "obj_get (inquiry_set b t i) ''status'' = JStr st"
    using assms(4-6)
    by (subst obj_get_inquiry_set) (auto simp: inquiry_updates_def Let_def obj_set_def dom_update)
  ultimately show ?thesis by auto
qed

text \<open>
  The listing summary joined to an inquiry is the summary of the
  listing whose id the inquiry stores, when the listings' id strings are distinct.
\<close>

theorem inquiry_GET_joins:
  assumes "distinct (map (\<lambda>q. js_to_string (obj_get q ''_id'')) (colls d Properties))"
    "p \<in> set (colls d Properties)" "obj_get p ''_id'' = JOid h" "is_hex24 h" "to_lower h = h"
    "i \<in> set is" "obj_get i ''propertyId'' = JStr h"
  shows "obj_get (with_property (page_properties is d) i) ''property'' = property_summary p"
proof -
  have "distinct (map (\<lambda>q. js_to_string (obj_get q ''_id'')) (rev (page_properties is d)))"
    using assms(1) by (simp add: page_properties_def distinct_map_filter rev_map [symmetric])
  then have "find (\<lambda>q. js_to_string (obj_get q ''_id'') = h) (rev (page_properties is d)) = Some p"
    using page_properties_has [OF assms(2-7)] assms(3) by (intro find_distinct_key) simp_all
  with assms(7) show ?thesis
    by (simp add: with_property_def property_map_get_def)
qed

subsection \<open>Instances\<close>

theorem inquiry_POST_preserves_unique_witness:
  "active_unique sample_inq_db \<and> active_unique (snd (inquiry_POST sample_inq_body 5 sample_inq_db))"
proof -
  have h: "active_unique sample_inq_db" by code_simp
  show ?thesis using h inquiry_POST_preserves_unique [OF h] by blast
qed

theorem inquiry_DELETE_frees_witness:
  "active_unique sample_reopen_db \<and>
   http_status (fst (inquiry_DELETE [(''id'', ''dddddddddddddddddddddd02''), (''studentId'', sample_student)] 9 sample_reopen_db)) = 200 \<and>
   list_all (\<lambda>y. is_active y \<longrightarrow> inquiry_key y \<noteq> inquiry_key (sample_inq ''dddddddddddddddddddddd02'' ''PENDING''))
     (colls (snd (inquiry_DELETE [(''id'', ''dddddddddddddddddddddd02''), (''studentId'', sample_student)] 9 sample_reopen_db)) Inquiries)"
proof -
  have h: "active_unique sample_reopen_db" by code_simp
  have s: "http_status (fst (inquiry_DELETE [(''id'', ''dddddddddddddddddddddd02''), (''studentId'', sample_student)] 9 sample_reopen_db)) = 200"
    by code_simp
  have p: "param_get [(''id'', ''dddddddddddddddddddddd02''), (''studentId'', sample_student)] ''id'' = Some ''dddddddddddddddddddddd02''"
    by code_simp
  have o: "object_id_of (JStr ''dddddddddddddddddddddd02'') = Some (JOid ''dddddddddddddddddddddd02'')" by code_simp
  have f: "find_one Inquiries [(''_id'', CEq (JOid ''dddddddddddddddddddddd02''))] sample_reopen_db =
             Some (sample_inq ''dddddddddddddddddddddd02'' ''PENDING'')" by code_simp
  have a: "is_active (sample_inq ''dddddddddddddddddddddd02'' ''PENDING'')" by code_simp
  show ?thesis using h s inquiry_DELETE_frees [OF h prod.collapse [symmetric] s p o f a] by blast
qed

theorem inquiry_PUT_reopens_witness:
  "active_unique sample_reopen_db \<and>
   http_status (fst (inquiry_PUT sample_reopen_body 9 sample_reopen_db)) = 200 \<and>
   \<not> active_unique (snd (inquiry_PUT sample_reopen_body 9 sample_reopen_db))"
proof -
  have h: "active_unique sample_reopen_db" by code_simp
  have o: "object_id_of (JStr ''dddddddddddddddddddddd01'') = Some (JOid ''dddddddddddddddddddddd01'')" by code_simp
  have f: "find_one Inquiries [(''_id'', CEq (JOid ''dddddddddddddddddddddd01''))] sample_reopen_db =
             Some (sample_inq ''dddddddddddddddddddddd01'' ''CANCELLED'')" by code_simp
  have st: "obj_get (sample_inq ''dddddddddddddddddddddd01'' ''CANCELLED'') ''studentId'' = JStr sample_student"
    by code_simp
  have na: "\<not> is_active (sample_inq ''dddddddddddddddddddddd01'' ''CANCELLED'')" by code_simp
  have y: "sample_inq ''dddddddddddddddddddddd02'' ''PENDING'' \<in> set (colls sample_reopen_db Inquiries)" by simp
  have ya: "is_active (sample_inq ''dddddddddddddddddddddd02'' ''PENDING'')" by code_simp
  have k: "inquiry_key (sample_inq ''dddddddddddddddddddddd02'' ''PENDING'') =
             inquiry_key (sample_inq ''dddddddddddddddddddddd01'' ''CANCELLED'')" by code_simp
  show ?thesis using h inquiry_PUT_reopens [OF o f st na y ya k, of 9] by blast
qed

theorem inquiry_POST_race_witness:
  "active_unique sample_inq_db \<and>
   inquiry_check sample_inq_body sample_inq_db = Inr (sample_inq_fields, sample_p1, hd sample_inq_users) \<and>
   \<not> active_unique (snd (inquiry_write sample_inq_fields sample_p1 (hd sample_inq_users) 6
        (snd (inquiry_write sample_inq_fields sample_p1 (hd sample_inq_users) 5 sample_inq_db))))"
proof -
  have h: "active_unique sample_inq_db" by code_simp
  have c: "inquiry_check sample_inq_body sample_inq_db = Inr (sample_inq_fields, sample_p1, hd sample_inq_users)"
    by code_simp
  show ?thesis using h c inquiry_POST_race [OF c] by blast
qed

theorem inquiry_PUT_authorized_witness:
  "snd (inquiry_PUT (JObj [(''id'', JStr ''dddddddddddddddddddddd02''), (''userId'', JStr sample_landlord),
                           (''status'', JStr ''CONTACTED'')]) 9 sample_reopen_db) \<noteq> sample_reopen_db \<and>
   (\<exists>b oid i. body_fields (JObj [(''id'', JStr ''dddddddddddddddddddddd02''), (''userId'', JStr sample_landlord),
                           (''status'', JStr ''CONTACTED'')]) = Some b \<and>
      object_id_of (obj_get b ''id'') = Some oid \<and> find_one Inquiries [(''_id'', CEq oid)] sample_reopen_db = Some i \<and>
      (js_strict_eq (obj_get i ''landlordId'') (obj_get b ''userId'') \<or>
       js_strict_eq (obj_get i ''studentId'') (obj_get b ''userId'')))"
proof -
  have "colls (snd (inquiry_PUT (JObj [(''id'', JStr ''dddddddddddddddddddddd02''), (''userId'', JStr sample_landlord),
                           (''status'', JStr ''CONTACTED'')]) 9 sample_reopen_db)) Inquiries \<noteq> colls sample_reopen_db Inquiries"
    by code_simp
  then have ne: "snd (inquiry_PUT (JObj [(''id'', JStr ''dddddddddddddddddddddd02''), (''userId'', JStr sample_landlord),
                           (''status'', JStr ''CONTACTED'')]) 9 sample_reopen_db) \<noteq> sample_reopen_db" by auto
  show ?thesis using ne inquiry_PUT_authorized [OF prod.collapse [symmetric] ne] by blast
qed

theorem inquiry_DELETE_authorized_witness:
  "snd (inquiry_DELETE [(''id'', ''dddddddddddddddddddddd02''), (''studentId'', sample_student)] 9 sample_reopen_db)
     \<noteq> sample_reopen_db \<and>
   (\<exists>i s oid x. param_get [(''id'', ''dddddddddddddddddddddd02''), (''studentId'', sample_student)] ''id'' = Some i \<and>
      param_get [(''id'', ''dddddddddddddddddddddd02''), (''studentId'', sample_student)] ''studentId'' = Some s \<and>
      object_id_of (JStr i) = Some oid \<and> find_one Inquiries [(''_id'', CEq oid)] sample_reopen_db = Some x \<and>
      js_strict_eq (obj_get x ''studentId'') (JStr s))"
proof -
  have "colls (snd (inquiry_DELETE [(''id'', ''dddddddddddddddddddddd02''), (''studentId'', sample_student)] 9
          sample_reopen_db)) Inquiries \<noteq> colls sample_reopen_db Inquiries"
    by code_simp
  then have ne: "snd (inquiry_DELETE [(''id'', ''dddddddddddddddddddddd02''), (''studentId'', sample_student)] 9
          sample_reopen_db) \<noteq> sample_reopen_db" by auto
  show ?thesis using ne inquiry_DELETE_authorized [OF prod.collapse [symmetric] ne] by blast
qed

theorem inquiry_POST_creates_witness:
  "http_status (fst (inquiry_POST sample_inq_body 5 sample_inq_db)) = 200 \<and>
   (\<exists>b p s. inquiry_check sample_inq_body sample_inq_db = Inr (b, p, s) \<and>
      colls (snd (inquiry_POST sample_inq_body 5 sample_inq_db)) Inquiries =
        colls sample_inq_db Inquiries @
          [(''_id'', JOid (oid_hex (next_oid sample_inq_db))) # map bson_field (new_inquiry b p s 5)] \<and>
      (\<exists>ys w zs w'. colls sample_inq_db Properties = ys @ w # zs \<and> matches [(''_id'', CEq (obj_get p ''_id''))] w \<and>
         apply_upds False [UInc ''inquiryCount'' 1] w = Some w' \<and>
         colls (snd (inquiry_POST sample_inq_body 5 sample_inq_db)) Properties = ys @ w' # zs))"
proof -
  have ok: "http_status (fst (inquiry_POST sample_inq_body 5 sample_inq_db)) = 200" by code_simp
  show ?thesis using ok inquiry_POST_creates [OF prod.collapse [symmetric] ok] by blast
qed

theorem inquiry_POST_rejects_duplicate_witness:
  "inquiry_POST sample_inq_body 7 sample_reopen_db =
     (fail_resp 400 ''You already have a pending inquiry for this property'', sample_reopen_db)"
  by (rule inquiry_POST_rejects_duplicate [where b = sample_inq_fields and p = sample_p1
        and soid = "JOid sample_student" and s = "hd sample_inq_users"
        and y = "sample_inq ''dddddddddddddddddddddd02'' ''PENDING''"]) code_simp+

theorem inquiry_POST_after_close_witness:
  "inquiry_check sample_inq_body sample_closed_db = Inr (sample_inq_fields, sample_p1, hd sample_inq_users)"
  by (rule inquiry_POST_after_close [where soid = "JOid sample_student" and sid = sample_student]) code_simp+

theorem inquiry_DELETE_cancels_witness:
  "snd (inquiry_DELETE [(''id'', ''dddddddddddddddddddddd02''), (''studentId'', sample_student)] 9 sample_reopen_db)
     \<noteq> sample_reopen_db \<and>
   (\<exists>ys x zs. colls sample_reopen_db Inquiries = ys @ x # zs \<and>
      colls (snd (inquiry_DELETE [(''id'', ''dddddddddddddddddddddd02''), (''studentId'', sample_student)] 9
        sample_reopen_db)) Inquiries =
        ys @ obj_set (obj_set x ''status'' (JStr ''CANCELLED'')) ''updatedAt'' (js_now 9) # zs \<and>
      (\<forall>c. c \<noteq> Inquiries \<longrightarrow> colls (snd (inquiry_DELETE [(''id'', ''dddddddddddddddddddddd02''),
        (''studentId'', sample_student)] 9 sample_reopen_db)) c = colls sample_reopen_db c))"
proof -
  have "colls (snd (inquiry_DELETE [(''id'', ''dddddddddddddddddddddd02''), (''studentId'', sample_student)] 9
          sample_reopen_db)) Inquiries \<noteq> colls sample_reopen_db Inquiries"
    by code_simp
  then have ne: "snd (inquiry_DELETE [(''id'', ''dddddddddddddddddddddd02''), (''studentId'', sample_student)] 9
          sample_reopen_db) \<noteq> sample_reopen_db" by auto
  show ?thesis using ne inquiry_DELETE_cancels [OF prod.collapse [symmetric] ne] by blast
qed

theorem inquiry_PUT_schedules_witness:
  "http_status (fst (inquiry_PUT sample_visit_body 9 sample_reopen_db)) = 200 \<and>
   (\<exists>ys i zs i'. colls sample_reopen_db Inquiries = ys @ i # zs \<and>
      colls (snd (inquiry_PUT sample_visit_body 9 sample_reopen_db)) Inquiries = ys @ i' # zs \<and>
      obj_get i' ''status'' = JStr ''SCHEDULED'' \<and> obj_get i' ''scheduledVisit'' = JDate (JStr ''2025-07-01''))"
proof -
  have ok: "http_status (fst (inquiry_PUT sample_visit_body 9 sample_reopen_db)) = 200" by code_simp
  have b: "body_fields sample_visit_body = Some [(''id'', JStr ''dddddddddddddddddddddd02''),
             (''userId'', JStr sample_landlord), (''status'', JStr ''CONTACTED''),
             (''scheduledVisit'', JStr ''2025-07-01'')]" by simp
  show ?thesis
    using ok inquiry_PUT_schedules [OF prod.collapse [symmetric] ok b] by (simp add: obj_get_def)
qed

theorem inquiry_PUT_sets_status_witness:
  "http_status (fst (inquiry_PUT sample_reopen_body 9 sample_reopen_db)) = 200 \<and>
   (\<exists>ys i zs i'. colls sample_reopen_db Inquiries = ys @ i # zs \<and>
      colls (snd (inquiry_PUT sample_reopen_body 9 sample_reopen_db)) Inquiries = ys @ i' # zs \<and>
      obj_get i' ''status'' = JStr ''PENDING'')"
proof -
  have ok: "http_status (fst (inquiry_PUT sample_reopen_body 9 sample_reopen_db)) = 200" by code_simp
  have b: "body_fields sample_reopen_body = Some [(''id'', JStr ''dddddddddddddddddddddd01''),
             (''userId'', JStr sample_student), (''status'', JStr ''PENDING'')]" by simp
  show ?thesis
    using ok inquiry_PUT_sets_status [OF prod.collapse [symmetric] ok b] by (simp add: obj_get_def)
qed

theorem inquiry_GET_joins_witness:
  "obj_get (with_property (page_properties (colls sample_reopen_db Inquiries) sample_reopen_db)
      (sample_inq ''dddddddddddddddddddddd02'' ''PENDING'')) ''property'' = property_summary sample_p1"
  by (rule inquiry_GET_joins [where h = sample_pid]) code_simp+

end
