(* ===== verification/Auth.thy ===== *)
theory Auth
  imports Http
begin

text \<open>
  The authentication routes under src/src/app/api/auth: \<open>register_POST\<close>
  (register/route.ts), \<open>login_POST\<close> (login/route.ts), \<open>me_GET\<close> and
  \<open>logout_DELETE\<close> (me/route.ts).  bcrypt and the JSON web token library are
  libraries the code calls; they enter the model as the record \<open>crypto\<close> of their
  four functions, so every lemma holds for any implementation of them, and the lemmas
  that need one of their properties (a token verifies to what was signed) take it as
  a hypothesis.
\<close>

section \<open>Libraries and shared pieces\<close>

text \<open>\<open>bcrypt.hash(password, 12)\<close>, \<open>bcrypt.compare(password, hash)\<close>,
  \<open>jwt.sign(payload, JWT_SECRET, {expiresIn: "7d"})\<close> and \<open>jwt.verify(token,
  JWT_SECRET)\<close>, whose exception is \<open>None\<close>.\<close>

record crypto =
  bcrypt_hash :: "string \<Rightarrow> string"
  bcrypt_compare :: "string \<Rightarrow> string \<Rightarrow> bool"
  jwt_sign :: "jval \<Rightarrow> string"
  jwt_verify :: "string \<Rightarrow> jval option"

text \<open>\<open>password.length < 6\<close> for a truthy password: the length of a string or an
  array; for an object its \<open>length\<close> property, converted to a number by the
  comparison, which throws (\<open>None\<close>) for an object that cannot be converted; any
  other value has no length, and \<open>undefined < 6\<close> is false.\<close>

fun pw_too_short :: "jval \<Rightarrow> bool option" where
  "pw_too_short (JStr s) = Some (length s < 6)"
| "pw_too_short (JArr xs) = Some (length xs < 6)"
| "pw_too_short (JObj fs) = map_option (\<lambda>n. jnum_less n 6) (js_to_number (obj_get fs ''length''))"
| "pw_too_short _ = Some False"

definition valid_role :: "jval \<Rightarrow> bool" where
  "valid_role r = (r = JStr ''student'' \<or> r = JStr ''landlord'')"

text \<open>\<open>email.toLowerCase()\<close>: a \<open>TypeError\<close> (\<open>None\<close>) unless the email is a string.\<close>

fun js_lower :: "jval \<Rightarrow> jval option" where
  "js_lower (JStr s) = Some (JStr (to_lower s))"
| "js_lower _ = None"

text \<open>The \<open>auth-token\<close> cookie: \<open>httpOnly\<close>, \<open>sameSite: "lax"\<close>, seven days.\<close>

definition auth_cookie :: "string \<Rightarrow> int \<Rightarrow> cookie" where
  "auth_cookie tok age = \<lparr>cookie_name = ''auth-token'', cookie_value = tok, cookie_http_only = True,
     cookie_same_site = ''lax'', cookie_max_age = age, cookie_path = ''/''\<rparr>"

text \<open>\<open>maxAge: 60 * 60 * 24 * 7\<close>, seven days in seconds.\<close>

definition week_seconds :: int where
  "week_seconds = 604800"

text \<open>\<open>SafeUser\<close>: the user without its password.\<close>

definition safe_user :: "doc \<Rightarrow> jobj" where
  "safe_user u =
     [(''id'', obj_get u ''id''), (''email'', obj_get u ''email''), (''name'', obj_get u ''name''),
      (''phone'', js_or (obj_get u ''phone'') JUndef), (''image'', js_or (obj_get u ''image'') JUndef),
      (''role'', obj_get u ''role''), (''createdAt'', obj_get u ''createdAt'')]"

text \<open>A success response of login and register: the body and the cookie.\<close>

definition token_resp :: "string \<Rightarrow> doc \<Rightarrow> string \<Rightarrow> resp" where
  "token_resp msg u tok =
     \<lparr>http_status = 200,
      http_body = JObj [(''success'', JBool True), (''message'', JStr msg),
                        (''user'', JObj (safe_user u)), (''token'', JStr tok)],
      set_cookie = Some (auth_cookie tok week_seconds)\<rparr>"

section \<open>Register\<close>

definition new_user :: "string \<Rightarrow> jval \<Rightarrow> string \<Rightarrow> jobj \<Rightarrow> nat \<Rightarrow> doc" where
  "new_user uid e h b t =
     [(''id'', JStr uid), (''email'', e), (''password'', JStr h), (''name'', obj_get b ''name''),
      (''phone'', js_or (obj_get b ''phone'') JNull), (''image'', JNull), (''role'', obj_get b ''role''),
      (''createdAt'', js_now t), (''updatedAt'', js_now t)]"

definition student_profile :: "string \<Rightarrow> nat \<Rightarrow> doc" where
  "student_profile uid t =
     [(''userId'', JStr uid), (''college'', JNull), (''course'', JNull), (''year'', JNull),
      (''city'', JNull), (''bio'', JNull), (''createdAt'', js_now t)]"

definition landlord_profile :: "string \<Rightarrow> nat \<Rightarrow> doc" where
  "landlord_profile uid t =
     [(''userId'', JStr uid), (''companyName'', JNull), (''address'', JNull), (''city'', JNull),
      (''isVerified'', JBool False), (''totalProperties'', JNum 0), (''responseRate'', JNum 0),
      (''responseTime'', JNum 60), (''createdAt'', js_now t)]"

text \<open>\<open>`user-${Date.now()}`\<close>.\<close>

definition user_id_at :: "nat \<Rightarrow> string" where
  "user_id_at t = ''user-'' @ dec_string t"

text \<open>The profile insert of the user's role.\<close>

definition insert_profile :: "jval \<Rightarrow> string \<Rightarrow> nat \<Rightarrow> db \<Rightarrow> db" where
  "insert_profile role uid t d =
     (if role = JStr ''student'' then snd (insert_one StudentProfiles (student_profile uid t) d)
      else if role = JStr ''landlord'' then snd (insert_one LandlordProfiles (landlord_profile uid t) d)
      else d)"

text \<open>The checks of \<open>register\<close>, in the order of the code: the four fields, the
  password length, the role, \<open>email.toLowerCase()\<close>, the existing user.  \<open>Inr\<close>
  carries the lower-cased email and the password string that the writes need;
  \<open>bcrypt.hash\<close> of a password that is not a string throws (a 500).\<close>

definition register_check :: "jobj \<Rightarrow> db \<Rightarrow> resp + (jval \<times> string)" where
  "register_check b d =
     (let email = obj_get b ''email''; password = obj_get b ''password''; role = obj_get b ''role'' in
      if \<not> js_truthy (obj_get b ''name'') \<or> \<not> js_truthy email \<or> \<not> js_truthy password \<or> \<not> js_truthy role
      then Inl (fail_resp 400 ''All fields are required'')
      else
        (case pw_too_short password of
           None \<Rightarrow> Inl (fail_resp 500 ''Registration failed'')
         | Some True \<Rightarrow> Inl (fail_resp 400 ''Password must be at least 6 characters'')
         | Some False \<Rightarrow>
           if \<not> valid_role role then Inl (fail_resp 400 ''Invalid role'')
           else
             (case js_lower email of
                None \<Rightarrow> Inl (fail_resp 500 ''Registration failed'')
              | Some e \<Rightarrow>
                if find_one Users [(''email'', CEq e)] d \<noteq> None
                then Inl (fail_resp 400 ''Email already registered'')
                else
                  (case password of
                     JStr pw \<Rightarrow> Inr (e, pw)
                   | _ \<Rightarrow> Inl (fail_resp 500 ''Registration failed'')))))"

text \<open>The writes: the user, its profile, then the token and the response.\<close>

definition register_write :: "'a crypto_scheme \<Rightarrow> jobj \<Rightarrow> jval \<Rightarrow> string \<Rightarrow> nat \<Rightarrow> db \<Rightarrow> resp \<times> db" where
  "register_write c b e pw t d =
     (let uid = user_id_at t; u = new_user uid e (bcrypt_hash c pw) b t;
          d1 = snd (insert_one Users u d);
          tok = jwt_sign c (JObj [(''userId'', JStr uid), (''email'', e), (''role'', obj_get b ''role'')])
      in (token_resp ''Registration successful'' u tok, insert_profile (obj_get b ''role'') uid t d1))"

definition register_POST :: "'a crypto_scheme \<Rightarrow> jval \<Rightarrow> nat \<Rightarrow> db \<Rightarrow> resp \<times> db" where
  "register_POST c body t d =
     (case body_fields body of
        None \<Rightarrow> (fail_resp 500 ''Registration failed'', d)
      | Some b \<Rightarrow>
        (case register_check b d of
           Inl r \<Rightarrow> (r, d)
         | Inr (e, pw) \<Rightarrow> register_write c b e pw t d))"

section \<open>Login\<close>

definition login_POST :: "'a crypto_scheme \<Rightarrow> jval \<Rightarrow> db \<Rightarrow> resp \<times> db" where
  "login_POST c body d =
     (case body_fields body of
        None \<Rightarrow> (fail_resp 500 ''Login failed'', d)
      | Some b \<Rightarrow>
        (let email = obj_get b ''email''; password = obj_get b ''password'' in
         if \<not> js_truthy email \<or> \<not> js_truthy password
         then (fail_resp 400 ''Email and password are required'', d)
         else
           (case js_lower email of
              None \<Rightarrow> (fail_resp 500 ''Login failed'', d)
            | Some e \<Rightarrow>
              (case find_one Users [(''email'', CEq e)] d of
                 None \<Rightarrow> (fail_resp 401 ''Invalid email or password'', d)
               | Some u \<Rightarrow>
                 (case (password, obj_get u ''password'') of
                    (JStr pw, JStr h) \<Rightarrow>
                      if \<not> bcrypt_compare c pw h then (fail_resp 401 ''Invalid email or password'', d)
                      else
                        (let tok = jwt_sign c (JObj [(''userId'', obj_get u ''id''), (''email'', obj_get u ''email''),
                                                     (''role'', obj_get u ''role'')])
                         in (token_resp ''Login successful'' u tok, d))
                  | _ \<Rightarrow> (fail_resp 500 ''Login failed'', d))))))"

section \<open>The current user and logout\<close>

text \<open>The error shape of \<open>GET /api/auth/me\<close>: \<open>{success: false, message, user: null}\<close>.\<close>

definition me_fail :: "nat \<Rightarrow> string \<Rightarrow> resp" where
  "me_fail code msg = json_resp code [(''success'', JBool False), (''message'', JStr msg), (''user'', JNull)]"

text \<open>\<open>decoded.userId\<close> of a verified payload; a filter value \<open>undefined\<close> is sent
  to the server as \<open>null\<close>.\<close>

fun payload_user_id :: "jval \<Rightarrow> jval" where
  "payload_user_id (JObj fs) = (case obj_get fs ''userId'' of JUndef \<Rightarrow> JNull | v \<Rightarrow> v)"
| "payload_user_id _ = JNull"

definition me_GET :: "'a crypto_scheme \<Rightarrow> string option \<Rightarrow> db \<Rightarrow> resp \<times> db" where
  "me_GET c tok d =
     (case tok of
        None \<Rightarrow> (me_fail 401 ''Not authenticated'', d)
      | Some s \<Rightarrow>
        if s = [] then (me_fail 401 ''Not authenticated'', d)
        else
          (case jwt_verify c s of
             None \<Rightarrow> (me_fail 401 ''Invalid token'', d)
           | Some p \<Rightarrow>
             (case find_one Users [(''id'', CEq (payload_user_id p))] d of
                None \<Rightarrow> (me_fail 404 ''User not found'', d)
              | Some u \<Rightarrow> (json_resp 200 [(''success'', JBool True), (''user'', JObj (safe_user u))], d))))"

definition logout_DELETE :: "resp" where
  "logout_DELETE =
     \<lparr>http_status = 200,
      http_body = JObj [(''success'', JBool True), (''message'', JStr ''Logged out successfully'')],
      set_cookie = Some (auth_cookie [] 0)\<rparr>"

text \<open>The cookie a response leaves in the browser, for the next request.\<close>

definition cookie_after :: "resp \<Rightarrow> string option" where
  "cookie_after r = map_option cookie_value (set_cookie r)"


section \<open>Instances of the interface and sample data\<close>

text \<open>A toy implementation of the libraries for the concrete instances: the hash
  prefixes the password, the token carries the user id in clear.\<close>

definition toy_crypto :: crypto where
  "toy_crypto = \<lparr>bcrypt_hash = (\<lambda>p. ''hash:'' @ p), bcrypt_compare = (\<lambda>p h. h = ''hash:'' @ p),
     jwt_sign = (\<lambda>v. ''jwt:'' @ js_to_string (payload_user_id v)),
     jwt_verify = (\<lambda>s. if take 4 s = ''jwt:'' then Some (JObj [(''userId'', JStr (drop 4 s))]) else None)\<rparr>"

abbreviation "sample_student_body \<equiv> JObj [(''name'', JStr ''Asha''), (''email'', JStr ''Asha@Example.in''), (''password'', JStr ''secret1''), (''role'', JStr ''student'')]"

abbreviation "sample_landlord_body \<equiv> JObj [(''name'', JStr ''Ravi''), (''email'', JStr ''ravi@example.in''), (''password'', JStr ''secret2''), (''role'', JStr ''landlord'')]"

abbreviation "sample_auth_db \<equiv> \<lparr>colls = (\<lambda>_. [])(Users := [[(''_id'', JOid (oid_hex 0)), (''id'', JStr ''user-5''),
   (''email'', JStr ''asha@example.in''), (''password'', JStr ''hash:secret1''), (''name'', JStr ''Asha''),
   (''role'', JStr ''student'')]]), next_oid = 1\<rparr>"

section \<open>Lemmas\<close>

lemma register_check_Inl: "register_check b d = Inl r \<Longrightarrow> http_status r \<noteq> 200"
  by (auto simp: register_check_def Let_def split: option.splits if_splits jval.splits bool.splits)

lemma register_check_Inr:
  assumes "register_check b d = Inr (e, pw)"
  shows "js_lower (obj_get b ''email'') = Some e \<and> obj_get b ''password'' = JStr pw \<and>
         valid_role (obj_get b ''role'') \<and> js_truthy (obj_get b ''name'') \<and>
         pw_too_short (obj_get b ''password'') = Some False \<and> find_one Users [(''email'', CEq e)] d = None"
  using assms by (auto simp: register_check_def Let_def split: option.splits if_splits jval.splits bool.splits)

lemma register_success:
  assumes "register_POST c body t d = (r, d')" "http_status r = 200"
  obtains b e pw where "body_fields body = Some b" "register_check b d = Inr (e, pw)"
    "register_write c b e pw t d = (r, d')"
proof -
  obtain b where b: "body_fields body = Some b"
    using assms by (cases "body_fields body") (auto simp: register_POST_def)
  then obtain e pw where "register_check b d = Inr (e, pw)"
    using assms register_check_Inl by (cases "register_check b d") (auto simp: register_POST_def)
  with b assms(1) show ?thesis by (intro that) (simp_all add: register_POST_def)
qed

lemma insert_profile_users [simp]: "colls (insert_profile role uid t d) Users = colls d Users"
  by (simp add: insert_profile_def insert_one_def Let_def)

lemma safe_user_stored:
  assumes "js_truthy (obj_get b ''name'')" "js_truthy (obj_get b ''role'')" "e \<noteq> JUndef"
  shows "safe_user ((''_id'', oid) # map bson_field (new_user uid e h b t)) = safe_user (new_user uid e h b t)"
  using assms by (auto simp: safe_user_def new_user_def js_or_def dest: truthy_defined)

lemma toy_jwt:
  "payload_user_id p = JStr u \<Longrightarrow>
   jwt_sign toy_crypto p \<noteq> [] \<and> map_option payload_user_id (jwt_verify toy_crypto (jwt_sign toy_crypto p)) = Some (JStr u)"
  by (simp add: toy_crypto_def)

lemma register_200:
  assumes "register_POST c body t d = (r, d')" "http_status r = 200"
  obtains u P where "r = token_resp ''Registration successful'' u (jwt_sign c P)"
    "payload_user_id P = JStr (user_id_at t)"
    "colls d' Users = colls d Users @ [(''_id'', JOid (oid_hex (next_oid d))) # map bson_field u]"
    "obj_get u ''id'' = JStr (user_id_at t)" "obj_get u ''email'' \<noteq> JUndef"
    "find_one Users [(''email'', CEq (obj_get u ''email''))] d = None"
    "safe_user ((''_id'', JOid (oid_hex (next_oid d))) # map bson_field u) = safe_user u"
proof -
  obtain b e pw where ck: "register_check b d = Inr (e, pw)" and w: "register_write c b e pw t d = (r, d')"
    using assms by (rule register_success)
  note facts = register_check_Inr [OF ck]
  define u where "u = new_user (user_id_at t) e (bcrypt_hash c pw) b t"
  define P where "P = JObj [(''userId'', JStr (user_id_at t)), (''email'', e), (''role'', obj_get b ''role'')]"
  have r: "r = token_resp ''Registration successful'' u (jwt_sign c P)"
    and d': "d' = insert_profile (obj_get b ''role'') (user_id_at t) t (snd (insert_one Users u d))"
    using w by (simp_all add: register_write_def Let_def u_def P_def)
  have e: "e \<noteq> JUndef" using facts by (cases "obj_get b ''email''") auto
  have role: "js_truthy (obj_get b ''role'')" using facts by (auto simp: valid_role_def)
  have p: "payload_user_id P = JStr (user_id_at t)" by (simp add: P_def)
  have us: "colls d' Users = colls d Users @ [(''_id'', JOid (oid_hex (next_oid d))) # map bson_field u]"
    by (simp add: d')
  have i: "obj_get u ''id'' = JStr (user_id_at t)" "obj_get u ''email'' \<noteq> JUndef"
    "find_one Users [(''email'', CEq (obj_get u ''email''))] d = None"
    using facts e by (simp_all add: u_def new_user_def)
  have "safe_user ((''_id'', JOid (oid_hex (next_oid d))) # map bson_field u) = safe_user u"
    unfolding u_def using facts role e by (intro safe_user_stored) auto
  with r p us i show ?thesis by (rule that)
qed

lemma stored_user_matches:
  "k \<noteq> ''_id'' \<Longrightarrow> obj_get u k \<noteq> JUndef \<Longrightarrow> matches [(k, CEq (obj_get u k))] ((''_id'', oid) # map bson_field u)"
  by (simp add: matches_def eq_match_def obj_get_bson)

lemma me_GET_token:
  assumes "\<And>p. payload_user_id p = JStr uid \<Longrightarrow>
       jwt_sign c p \<noteq> [] \<and> map_option payload_user_id (jwt_verify c (jwt_sign c p)) = Some (JStr uid)"
    "payload_user_id P = JStr uid" "find_one Users [(''id'', CEq (JStr uid))] d = Some w"
  shows "me_GET c (Some (jwt_sign c P)) d = (json_resp 200 [(''success'', JBool True), (''user'', JObj (safe_user w))], d)"
proof -
  obtain p' where "jwt_sign c P \<noteq> []" "jwt_verify c (jwt_sign c P) = Some p'" "payload_user_id p' = JStr uid"
    using assms(1) [OF assms(2)] by fastforce
  with assms(3) show ?thesis by (simp add: me_GET_def)
qed

lemma cookie_after_token: "cookie_after (token_resp m u tok) = Some tok"
  by (simp add: token_resp_def cookie_after_def auth_cookie_def)

section \<open>Properties of the auth routes\<close>

text \<open>
  Claim C34: registering an email that is already stored, in any letter case
  (stored emails are lower case), is refused with 400 and writes nothing.
\<close>

theorem register_duplicate_email:
  assumes "body_fields body = Some b" "obj_get b ''email'' = JStr em" "em \<noteq> []"
    "js_truthy (obj_get b ''name'')" "js_truthy (obj_get b ''password'')"
    "pw_too_short (obj_get b ''password'') = Some False" "valid_role (obj_get b ''role'')"
    "u \<in> set (colls d Users)" "obj_get u ''email'' = JStr (to_lower em)"
  shows "register_POST c body t d = (fail_resp 400 ''Email already registered'', d)"
proof -
  have "find_one Users [(''email'', CEq (JStr (to_lower em)))] d \<noteq> None"
    using find_from_member [OF assms(8), of "matches [(''email'', CEq (JStr (to_lower em)))]"] assms(9)
    by (auto simp: find_one_def matches_def eq_match_def)
  moreover have "js_truthy (obj_get b ''role'')" using assms(7) by (auto simp: valid_role_def)
  ultimately show ?thesis using assms(1-7) by (simp add: register_POST_def register_check_def)
qed

text \<open>
  Claim C19: every login answered with 401 gets the same response, so an
  unknown email and a wrong password cannot be told apart, and a login never writes.
\<close>

theorem login_failure_uniform:
  assumes "login_POST c body d = (r, d')" "http_status r = 401"
  shows "r = fail_resp 401 ''Invalid email or password'' \<and> d' = d"
  using assms
  by (auto simp: login_POST_def Let_def token_resp_def split: option.splits if_splits jval.splits bool.splits)

text \<open>
  Claim C11: a registration answered with 200 appended the user, with the
  bcrypt hash in place of the password, and exactly one profile of its role.
\<close>

theorem register_creates:
  assumes "register_POST c body t d = (r, d')" "http_status r = 200"
  shows "\<exists>b e pw. body_fields body = Some b \<and> obj_get b ''password'' = JStr pw \<and>
           find_one Users [(''email'', CEq e)] d = None \<and>
           colls d' Users = colls d Users @
             [(''_id'', JOid (oid_hex (next_oid d))) # map bson_field (new_user (user_id_at t) e (bcrypt_hash c pw) b t)] \<and>
           (obj_get b ''role'' = JStr ''student'' \<and>
              colls d' StudentProfiles = colls d StudentProfiles @
                [(''_id'', JOid (oid_hex (Suc (next_oid d)))) # map bson_field (student_profile (user_id_at t) t)] \<and>
              colls d' LandlordProfiles = colls d LandlordProfiles \<or>
            obj_get b ''role'' = JStr ''landlord'' \<and>
              colls d' LandlordProfiles = colls d LandlordProfiles @
                [(''_id'', JOid (oid_hex (Suc (next_oid d)))) # map bson_field (landlord_profile (user_id_at t) t)] \<and>
              colls d' StudentProfiles = colls d StudentProfiles)"
proof -
  obtain b e pw where b: "body_fields body = Some b" and c: "register_check b d = Inr (e, pw)"
    and w: "register_write c b e pw t d = (r, d')"
    using assms by (rule register_success)
  note facts = register_check_Inr [OF c]
  have d': "d' = insert_profile (obj_get b ''role'') (user_id_at t) t
                   (snd (insert_one Users (new_user (user_id_at t) e (bcrypt_hash c pw) b t) d))"
    using w by (simp add: register_write_def Let_def)
  from facts consider "obj_get b ''role'' = JStr ''student''" | "obj_get b ''role'' = JStr ''landlord''"
    by (auto simp: valid_role_def)
  then show ?thesis
  proof cases
    case 1
    with b facts d' show ?thesis
      by (intro exI [of _ b] exI [of _ e] exI [of _ pw]) (simp add: insert_profile_def next_oid_insert_one)
  next
    case 2
    with b facts d' show ?thesis
      by (intro exI [of _ b] exI [of _ e] exI [of _ pw]) (simp add: insert_profile_def next_oid_insert_one)
  qed
qed

text \<open>
  Claim C12: after a registration, \<open>GET /api/auth/me\<close> with the cookie it set
  returns the user the registration returned, when no user already had the same
  generated id and the token verifies to the user id that was signed.
\<close>

theorem register_me_roundtrip:
  assumes "register_POST c body t d = (r, d')" "http_status r = 200"
    "find_one Users [(''id'', CEq (JStr (user_id_at t)))] d = None"
    "\<And>p. payload_user_id p = JStr (user_id_at t) \<Longrightarrow>
       jwt_sign c p \<noteq> [] \<and> map_option payload_user_id (jwt_verify c (jwt_sign c p)) = Some (JStr (user_id_at t))"
  shows "\<exists>fs. http_body r = JObj fs \<and>
           me_GET c (cookie_after r) d' = (json_resp 200 [(''success'', JBool True), (''user'', obj_get fs ''user'')], d')"
proof -
  obtain u P where r: "r = token_resp ''Registration successful'' u (jwt_sign c P)"
    and p: "payload_user_id P = JStr (user_id_at t)"
    and us: "colls d' Users = colls d Users @ [(''_id'', JOid (oid_hex (next_oid d))) # map bson_field u]"
    and i: "obj_get u ''id'' = JStr (user_id_at t)"
    and su: "safe_user ((''_id'', JOid (oid_hex (next_oid d))) # map bson_field u) = safe_user u"
    using assms(1,2) by (rule register_200)
  have "find_one Users [(''id'', CEq (JStr (user_id_at t)))] d' =
          Some ((''_id'', JOid (oid_hex (next_oid d))) # map bson_field u)"
    using find_one_append_new [OF assms(3) us] stored_user_matches [where k = "''id''" and u = u] i by simp
  from me_GET_token [OF assms(4) p this] su
  have "me_GET c (cookie_after r) d' = (json_resp 200 [(''success'', JBool True), (''user'', JObj (safe_user u))], d')"
    by (simp add: r cookie_after_token)
  then show ?thesis by (simp add: r token_resp_def)
qed

text \<open>
  Claim C30: user ids are \<open>user-<milliseconds>\<close>: when two registrations
  succeed in the same millisecond (and no earlier user had that id), the two
  registrants are different users, and the cookie the second one receives makes
  \<open>GET /api/auth/me\<close> return the first one.
\<close>

theorem register_id_collision:
  assumes "register_POST c body1 t d = (r1, d1)" "http_status r1 = 200"
    "register_POST c body2 t d1 = (r2, d2)" "http_status r2 = 200"
    "find_one Users [(''id'', CEq (JStr (user_id_at t)))] d = None"
    "\<And>p. payload_user_id p = JStr (user_id_at t) \<Longrightarrow>
       jwt_sign c p \<noteq> [] \<and> map_option payload_user_id (jwt_verify c (jwt_sign c p)) = Some (JStr (user_id_at t))"
  shows "\<exists>fs1 fs2. http_body r1 = JObj fs1 \<and> http_body r2 = JObj fs2 \<and>
           obj_get fs1 ''user'' \<noteq> obj_get fs2 ''user'' \<and>
           me_GET c (cookie_after r2) d2 = (json_resp 200 [(''success'', JBool True), (''user'', obj_get fs1 ''user'')], d2)"
proof -
  obtain u1 P1 where r1: "r1 = token_resp ''Registration successful'' u1 (jwt_sign c P1)"
    and us1: "colls d1 Users = colls d Users @ [(''_id'', JOid (oid_hex (next_oid d))) # map bson_field u1]"
    and i1: "obj_get u1 ''id'' = JStr (user_id_at t)" and e1: "obj_get u1 ''email'' \<noteq> JUndef"
    and su1: "safe_user ((''_id'', JOid (oid_hex (next_oid d))) # map bson_field u1) = safe_user u1"
    using assms(1,2) by (rule register_200)
  obtain u2 P2 where r2: "r2 = token_resp ''Registration successful'' u2 (jwt_sign c P2)"
    and p2: "payload_user_id P2 = JStr (user_id_at t)"
    and us2: "colls d2 Users = colls d1 Users @ [(''_id'', JOid (oid_hex (next_oid d1))) # map bson_field u2]"
    and fresh: "find_one Users [(''email'', CEq (obj_get u2 ''email''))] d1 = None"
    using assms(3,4) by (rule register_200)
  let ?s1 = "(''_id'', JOid (oid_hex (next_oid d))) # map bson_field u1"
  have "find_one Users [(''id'', CEq (JStr (user_id_at t)))] d1 = Some ?s1"
    using find_one_append_new [OF assms(5) us1] stored_user_matches [where k = "''id''" and u = u1] i1 by simp
  then have "find_one Users [(''id'', CEq (JStr (user_id_at t)))] d2 = Some ?s1"
    using us2 by (rule find_one_append_old)
  from me_GET_token [OF assms(6) p2 this]
  have me: "me_GET c (cookie_after r2) d2 =
              (json_resp 200 [(''success'', JBool True), (''user'', JObj (safe_user u1))], d2)"
    by (simp add: r2 cookie_after_token su1)
  have "obj_get u1 ''email'' \<noteq> obj_get u2 ''email''"
  proof
    assume eq: "obj_get u1 ''email'' = obj_get u2 ''email''"
    have "?s1 \<in> set (colls d1 Users)" by (simp add: us1)
    moreover have "matches [(''email'', CEq (obj_get u2 ''email''))] ?s1"
      using stored_user_matches [OF _ e1] eq by simp
    ultimately show False using fresh find_from_member by (fastforce simp: find_one_def)
  qed
  then have "safe_user u1 \<noteq> safe_user u2" by (auto simp: safe_user_def)
  with me show ?thesis by (simp add: r1 r2 token_resp_def)
qed

text \<open>
  A password string shorter than six characters is refused
  with 400 and nothing is written.
\<close>

theorem register_rejects_short_password:
  assumes "body_fields body = Some b" "js_truthy (obj_get b ''name'')" "js_truthy (obj_get b ''email'')"
    "obj_get b ''password'' = JStr pw" "pw \<noteq> []" "length pw < 6" "js_truthy (obj_get b ''role'')"
  shows "register_POST c body t d = (fail_resp 400 ''Password must be at least 6 characters'', d)"
  using assms by (simp add: register_POST_def register_check_def)

text \<open>
  After logout the cookie is empty and \<open>GET /api/auth/me\<close> answers 401.
\<close>

theorem logout_then_me:
  "me_GET c (cookie_after logout_DELETE) d = (me_fail 401 ''Not authenticated'', d)"
  by (simp add: me_GET_def cookie_after_def logout_DELETE_def auth_cookie_def)

subsection \<open>Instances\<close>

theorem register_duplicate_email_witness:
  "register_POST toy_crypto sample_student_body 7 sample_auth_db = (fail_resp 400 ''Email already registered'', sample_auth_db)"
  by (rule register_duplicate_email [where b = "[(''name'', JStr ''Asha''), (''email'', JStr ''Asha@Example.in''),
        (''password'', JStr ''secret1''), (''role'', JStr ''student'')]" and em = "''Asha@Example.in''"
        and u = "hd (colls sample_auth_db Users)"]) code_simp+

theorem login_failure_uniform_witness:
  "http_status (fst (login_POST toy_crypto (JObj [(''email'', JStr ''asha@example.in''), (''password'', JStr ''wrong1'')])
     sample_auth_db)) = 401 \<and>
   fst (login_POST toy_crypto (JObj [(''email'', JStr ''asha@example.in''), (''password'', JStr ''wrong1'')])
     sample_auth_db) = fail_resp 401 ''Invalid email or password'' \<and>
   snd (login_POST toy_crypto (JObj [(''email'', JStr ''asha@example.in''), (''password'', JStr ''wrong1'')])
     sample_auth_db) = sample_auth_db"
proof -
  have s: "http_status (fst (login_POST toy_crypto (JObj [(''email'', JStr ''asha@example.in''), (''password'', JStr ''wrong1'')])
     sample_auth_db)) = 401" by code_simp
  show ?thesis using s login_failure_uniform [OF prod.collapse [symmetric] s] by blast
qed

theorem register_creates_witness:
  "http_status (fst (register_POST toy_crypto sample_landlord_body 7 sample_auth_db)) = 200 \<and>
   (\<exists>b e pw. body_fields sample_landlord_body = Some b \<and> obj_get b ''password'' = JStr pw \<and>
      find_one Users [(''email'', CEq e)] sample_auth_db = None \<and>
      colls (snd (register_POST toy_crypto sample_landlord_body 7 sample_auth_db)) Users = colls sample_auth_db Users @
        [(''_id'', JOid (oid_hex (next_oid sample_auth_db))) #
           map bson_field (new_user (user_id_at 7) e (bcrypt_hash toy_crypto pw) b 7)] \<and>
      (obj_get b ''role'' = JStr ''student'' \<and>
         colls (snd (register_POST toy_crypto sample_landlord_body 7 sample_auth_db)) StudentProfiles =
           colls sample_auth_db StudentProfiles @
             [(''_id'', JOid (oid_hex (Suc (next_oid sample_auth_db)))) # map bson_field (student_profile (user_id_at 7) 7)] \<and>
         colls (snd (register_POST toy_crypto sample_landlord_body 7 sample_auth_db)) LandlordProfiles = colls sample_auth_db LandlordProfiles \<or>
       obj_get b ''role'' = JStr ''landlord'' \<and>
         colls (snd (register_POST toy_crypto sample_landlord_body 7 sample_auth_db)) LandlordProfiles =
           colls sample_auth_db LandlordProfiles @
             [(''_id'', JOid (oid_hex (Suc (next_oid sample_auth_db)))) # map bson_field (landlord_profile (user_id_at 7) 7)] \<and>
         colls (snd (register_POST toy_crypto sample_landlord_body 7 sample_auth_db)) StudentProfiles = colls sample_auth_db StudentProfiles))"
proof -
  have s: "http_status (fst (register_POST toy_crypto sample_landlord_body 7 sample_auth_db)) = 200" by code_simp
  show ?thesis using s register_creates [OF prod.collapse [symmetric] s] by blast
qed

theorem register_me_roundtrip_witness:
  "http_status (fst (register_POST toy_crypto sample_landlord_body 7 sample_auth_db)) = 200 \<and>
   (\<exists>fs. http_body (fst (register_POST toy_crypto sample_landlord_body 7 sample_auth_db)) = JObj fs \<and>
      me_GET toy_crypto (cookie_after (fst (register_POST toy_crypto sample_landlord_body 7 sample_auth_db)))
        (snd (register_POST toy_crypto sample_landlord_body 7 sample_auth_db)) =
      (json_resp 200 [(''success'', JBool True), (''user'', obj_get fs ''user'')],
       snd (register_POST toy_crypto sample_landlord_body 7 sample_auth_db)))"
proof -
  have s: "http_status (fst (register_POST toy_crypto sample_landlord_body 7 sample_auth_db)) = 200" by code_simp
  have n: "find_one Users [(''id'', CEq (JStr (user_id_at 7)))] sample_auth_db = None" by code_simp
  show ?thesis using s register_me_roundtrip [OF prod.collapse [symmetric] s n toy_jwt] by blast
qed

theorem register_id_collision_witness:
  "http_status (fst (register_POST toy_crypto sample_student_body 5 empty_db)) = 200 \<and>
   http_status (fst (register_POST toy_crypto sample_landlord_body 5
     (snd (register_POST toy_crypto sample_student_body 5 empty_db)))) = 200 \<and>
   (\<exists>fs1 fs2. http_body (fst (register_POST toy_crypto sample_student_body 5 empty_db)) = JObj fs1 \<and>
      http_body (fst (register_POST toy_crypto sample_landlord_body 5
        (snd (register_POST toy_crypto sample_student_body 5 empty_db)))) = JObj fs2 \<and>
      obj_get fs1 ''user'' \<noteq> obj_get fs2 ''user'' \<and>
      me_GET toy_crypto (cookie_after (fst (register_POST toy_crypto sample_landlord_body 5
          (snd (register_POST toy_crypto sample_student_body 5 empty_db)))))
        (snd (register_POST toy_crypto sample_landlord_body 5
          (snd (register_POST toy_crypto sample_student_body 5 empty_db)))) =
      (json_resp 200 [(''success'', JBool True), (''user'', obj_get fs1 ''user'')],
       snd (register_POST toy_crypto sample_landlord_body 5
          (snd (register_POST toy_crypto sample_student_body 5 empty_db)))))"
proof -
  have s1: "http_status (fst (register_POST toy_crypto sample_student_body 5 empty_db)) = 200" by code_simp
  have s2: "http_status (fst (register_POST toy_crypto sample_landlord_body 5
     (snd (register_POST toy_crypto sample_student_body 5 empty_db)))) = 200" by code_simp
  have n: "find_one Users [(''id'', CEq (JStr (user_id_at 5)))] empty_db = None" by code_simp
  show ?thesis
    using s1 s2 register_id_collision [OF prod.collapse [symmetric] s1 prod.collapse [symmetric] s2 n toy_jwt]
    by blast
qed

theorem register_rejects_short_password_witness:
  "register_POST toy_crypto (JObj [(''name'', JStr ''Ravi''), (''email'', JStr ''ravi@example.in''),
      (''password'', JStr ''abc''), (''role'', JStr ''landlord'')]) 7 sample_auth_db =
   (fail_resp 400 ''Password must be at least 6 characters'', sample_auth_db)"
  by (rule register_rejects_short_password [where pw = "''abc''"]) code_simp+


text \<open>The comparison \<open>password.length < 6\<close> converts an object's \<open>length\<close>: a
  numeric string counts as its number, and an object with its own \<open>toString\<close>
  key makes the conversion throw.\<close>

lemma register_length_coerced:
  "fst (register_POST toy_crypto (JObj [(''name'', JStr ''Ravi''), (''email'', JStr ''ravi@example.in''),
      (''password'', JObj [(''length'', JStr '' 3 '')]), (''role'', JStr ''landlord'')]) 7 empty_db) =
     fail_resp 400 ''Password must be at least 6 characters''"
  "fst (register_POST toy_crypto (JObj [(''name'', JStr ''Ravi''), (''email'', JStr ''ravi@example.in''),
      (''password'', JObj [(''length'', JObj [(''toString'', JNum 1)])]), (''role'', JStr ''landlord'')]) 7 empty_db) =
     fail_resp 500 ''Registration failed''"
  by code_simp+

end
