(* ===== verification/Gateway.thy ===== *)
theory Gateway
  imports Prelude
begin

text \<open>
  The database gateway, src/src/lib/mongodb.ts: \<open>connectToDatabase\<close> returns the
  cached client and database when both are set, and otherwise creates a client,
  awaits \<open>client.connect()\<close>, and caches it.  A client is named by the number of
  clients created before it, and its database handle by the same number.
  \<open>connect_to_database\<close> is one call run to completion, as a single request sees
  it; \<open>gw_step\<close> is the same code with its \<open>await\<close>: a call that finds no cache
  creates its client, and only later, when the connection is made, fills the cache,
  so calls of concurrent requests interleave between the two steps.  The promise of
  \<open>client.connect()\<close> may reject: the exception leaves the call (and \<open>getDb\<close>),
  the cache stays as it was, and the client created for it is never closed.
\<close>

section \<open>The cache and one call\<close>

text \<open>Where one call of \<open>connectToDatabase\<close> is: not started, waiting for
  \<open>client.connect()\<close> of client \<open>c\<close>, returned with database \<open>c\<close>, or left
  with the rejection of \<open>client.connect()\<close>.\<close>

datatype call = Idle | Connecting nat | Returned nat | Failed

record gw =
  cached_client :: "nat option"
  cached_db :: "nat option"
  clients :: nat
  calls :: "call list"

definition gw_init :: "nat \<Rightarrow> gw" where
  "gw_init n = \<lparr>cached_client = None, cached_db = None, clients = 0, calls = replicate n Idle\<rparr>"

definition cache_hit :: "gw \<Rightarrow> bool" where
  "cache_hit s = (cached_client s \<noteq> None \<and> cached_db s \<noteq> None)"

text \<open>One call; \<open>ok\<close> says whether \<open>client.connect()\<close> resolves, and \<open>None\<close> is
  the exception of a rejected connection.\<close>

definition connect_to_database :: "bool \<Rightarrow> gw \<Rightarrow> nat option \<times> gw" where
  "connect_to_database ok s =
     (case (cached_client s, cached_db s) of
        (Some c, Some db) \<Rightarrow> (Some db, s)
      | _ \<Rightarrow> (let c = clients s
             in if ok then (Some c, s\<lparr>cached_client := Some c, cached_db := Some c, clients := Suc c\<rparr>)
                else (None, s\<lparr>clients := Suc c\<rparr>)))"

text \<open>\<open>getDb()\<close>: the database of \<open>connectToDatabase()\<close>.\<close>

definition get_db :: "bool \<Rightarrow> gw \<Rightarrow> nat option \<times> gw" where
  "get_db ok s = connect_to_database ok s"

text \<open>Requests one after the other, each calling \<open>getDb()\<close>; the list gives, for
  each, whether its \<open>client.connect()\<close> would resolve if it had to connect.\<close>

fun get_db_seq :: "bool list \<Rightarrow> gw \<Rightarrow> nat option list \<times> gw" where
  "get_db_seq [] s = ([], s)"
| "get_db_seq (ok # oks) s =
     (let (db, s1) = get_db ok s; (dbs, s2) = get_db_seq oks s1 in (db # dbs, s2))"

section \<open>Interleaved calls\<close>

inductive gw_step :: "gw \<Rightarrow> gw \<Rightarrow> bool" where
  hit: "i < length (calls s) \<Longrightarrow> calls s ! i = Idle \<Longrightarrow> cached_db s = Some db \<Longrightarrow> cache_hit s \<Longrightarrow>
        gw_step s (s\<lparr>calls := (calls s)[i := Returned db]\<rparr>)"
| start: "i < length (calls s) \<Longrightarrow> calls s ! i = Idle \<Longrightarrow> \<not> cache_hit s \<Longrightarrow>
        gw_step s (s\<lparr>calls := (calls s)[i := Connecting (clients s)], clients := Suc (clients s)\<rparr>)"
| finish: "i < length (calls s) \<Longrightarrow> calls s ! i = Connecting c \<Longrightarrow>
        gw_step s (s\<lparr>cached_client := Some c, cached_db := Some c, calls := (calls s)[i := Returned c]\<rparr>)"
| fail: "i < length (calls s) \<Longrightarrow> calls s ! i = Connecting c \<Longrightarrow>
        gw_step s (s\<lparr>calls := (calls s)[i := Failed]\<rparr>)"

inductive_cases gw_stepE: "gw_step s s'"

fun returned :: "call \<Rightarrow> bool" where
  "returned (Returned _) = True"
| "returned _ = False"

section \<open>The cache once a call has returned\<close>

lemma gw_step_cache_kept: "gw_step s s' \<Longrightarrow> cache_hit s \<Longrightarrow> cache_hit s' \<and> clients s' = clients s"
  by (induction rule: gw_step.induct) (auto simp: cache_hit_def)

lemma gw_steps_cache_kept: "gw_step\<^sup>*\<^sup>* s s' \<Longrightarrow> cache_hit s \<Longrightarrow> cache_hit s' \<and> clients s' = clients s"
  by (induction rule: rtranclp_induct) (auto dest: gw_step_cache_kept)

lemma returned_upd:
  "list_ex returned (xs[i := y]) \<Longrightarrow> list_ex returned xs \<or> returned y"
  by (auto simp: list_ex_iff dest!: in_set_upd_cases)

text \<open>A returned call saw the cache or filled it, and nothing empties the cache.\<close>

lemma gw_returned_cached:
  "gw_step\<^sup>*\<^sup>* (gw_init n) s \<Longrightarrow> list_ex returned (calls s) \<Longrightarrow> cache_hit s"
proof (induction rule: rtranclp_induct)
  case base
  then show ?case by (simp add: gw_init_def list_ex_iff)
next
  case (step s s')
  from step.hyps(2) show ?case
    by (cases rule: gw_step.cases) (use step.IH step.prems in \<open>auto simp: cache_hit_def dest: returned_upd\<close>)
qed

section \<open>Sequential and concurrent requests\<close>

lemma get_db_seq_cached:
  "cached_client s = Some c \<Longrightarrow> cached_db s = Some db \<Longrightarrow> get_db_seq oks s = (replicate (length oks) (Some db), s)"
  by (induction oks) (simp_all add: get_db_def connect_to_database_def)

text \<open>
  Claim C5: requests served one after the other share one connection: when the
  first \<open>getDb()\<close> connects, it creates client 0 and caches it, and every later one
  returns database 0 without creating a client, whatever its own connection would
  have done.
\<close>

theorem get_db_seq_connects_once:
  "get_db_seq (True # oks) (gw_init n) =
     (replicate (Suc (length oks)) (Some 0), (gw_init n)\<lparr>cached_client := Some 0, cached_db := Some 0, clients := 1\<rparr>)"
  by (simp add: get_db_def connect_to_database_def gw_init_def get_db_seq_cached)

text \<open>A rejected first connection caches nothing: the request fails, its client
  stays open, and the next request creates another.\<close>

lemma get_db_seq_rejected:
  "get_db_seq (False # oks) (gw_init n) =
     (None # fst (get_db_seq oks ((gw_init n)\<lparr>clients := 1\<rparr>)), snd (get_db_seq oks ((gw_init n)\<lparr>clients := 1\<rparr>)))"
  by (simp add: get_db_def connect_to_database_def gw_init_def split: prod.split)

text \<open>
  Claim C6: once a call has returned, in any interleaving, the cache is set for
  good and no later call creates a client: every later step keeps the cache and the
  number of clients.
\<close>

theorem gw_no_client_after_return:
  assumes "gw_step\<^sup>*\<^sup>* (gw_init n) s" "list_ex returned (calls s)" "gw_step\<^sup>*\<^sup>* s s'"
  shows "cache_hit s' \<and> clients s' = clients s"
  using assms(3) gw_returned_cached [OF assms(1,2)] by (rule gw_steps_cache_kept)

text \<open>
  Claim C29: two concurrent requests that both call
  \<open>getDb()\<close> before either connection is made each create a client: the process ends
  with two clients, and the cache holds the second, so the connection is not created
  once per process.
\<close>

theorem gw_concurrent_two_clients:
  "gw_step\<^sup>*\<^sup>* (gw_init 2)
     \<lparr>cached_client = Some 1, cached_db = Some 1, clients = 2, calls = [Returned 0, Returned 1]\<rparr>"
proof -
  let ?s0 = "gw_init 2"
  let ?s1 = "?s0\<lparr>calls := [Connecting 0, Idle], clients := 1\<rparr>"
  let ?s2 = "?s1\<lparr>calls := [Connecting 0, Connecting 1], clients := 2\<rparr>"
  let ?s3 = "?s2\<lparr>cached_client := Some 0, cached_db := Some 0, calls := [Returned 0, Connecting 1]\<rparr>"
  let ?s4 = "?s3\<lparr>cached_client := Some 1, cached_db := Some 1, calls := [Returned 0, Returned 1]\<rparr>"
  have "gw_step ?s0 ?s1" using gw_step.start [of 0 ?s0] by (simp add: gw_init_def cache_hit_def numeral_2_eq_2)
  moreover have "gw_step ?s1 ?s2" using gw_step.start [of 1 ?s1] by (simp add: gw_init_def cache_hit_def numeral_2_eq_2)
  moreover have "gw_step ?s2 ?s3" using gw_step.finish [of 0 ?s2 0] by (simp add: gw_init_def numeral_2_eq_2)
  moreover have "gw_step ?s3 ?s4" using gw_step.finish [of 1 ?s3 1] by (simp add: gw_init_def numeral_2_eq_2)
  ultimately have "gw_step\<^sup>*\<^sup>* ?s0 ?s4" by (meson rtranclp.rtrancl_into_rtrancl rtranclp.rtrancl_refl)
  then show ?thesis by (simp add: gw_init_def numeral_2_eq_2)
qed

text \<open>After one call of two has returned, the other hits the cache.\<close>

theorem gw_no_client_after_return_witness:
  "gw_step\<^sup>*\<^sup>* (gw_init 2) \<lparr>cached_client = Some 0, cached_db = Some 0, clients = 1, calls = [Returned 0, Idle]\<rparr> \<and>
   list_ex returned [Returned 0, Idle] \<and>
   gw_step\<^sup>*\<^sup>* \<lparr>cached_client = Some 0, cached_db = Some 0, clients = 1, calls = [Returned 0, Idle]\<rparr>
     \<lparr>cached_client = Some 0, cached_db = Some 0, clients = 1, calls = [Returned 0, Returned 0]\<rparr> \<and>
   cache_hit \<lparr>cached_client = Some 0, cached_db = Some 0, clients = 1, calls = [Returned 0, Returned 0]\<rparr>"
proof -
  let ?s0 = "gw_init 2"
  let ?s1 = "?s0\<lparr>calls := [Connecting 0, Idle], clients := 1\<rparr>"
  let ?s2 = "?s1\<lparr>cached_client := Some 0, cached_db := Some 0, calls := [Returned 0, Idle]\<rparr>"
  let ?s3 = "?s2\<lparr>calls := [Returned 0, Returned 0]\<rparr>"
  have "gw_step ?s0 ?s1" using gw_step.start [of 0 ?s0] by (simp add: gw_init_def cache_hit_def numeral_2_eq_2)
  moreover have "gw_step ?s1 ?s2" using gw_step.finish [of 0 ?s1 0] by (simp add: gw_init_def numeral_2_eq_2)
  ultimately have a: "gw_step\<^sup>*\<^sup>* ?s0 ?s2" by (meson rtranclp.rtrancl_into_rtrancl rtranclp.rtrancl_refl)
  have "gw_step ?s2 ?s3" using gw_step.hit [of 1 ?s2 0] by (simp add: gw_init_def cache_hit_def)
  then have b: "gw_step\<^sup>*\<^sup>* ?s2 ?s3" by blast
  have r: "list_ex returned (calls ?s2)" by (simp add: gw_init_def)
  from a b gw_no_client_after_return [OF a r b] show ?thesis by (simp add: gw_init_def numeral_2_eq_2)
qed

end
