(* ===== verification/Utils.thy ===== *)
theory Utils
  imports Json
begin

text \<open>
  The helpers of src/src/lib/utils.ts that the pages call: relative times, slugs,
  truncation and capitalisation, initials, masking of e-mail addresses and phone
  numbers, the e-mail and phone tests, the label tables with the option lists the
  filters show, \<open>debounce\<close> (as a state of pending timer and the calls made), the
  one-time password and the distance format.  \<open>cn\<close>, \<open>formatPrice\<close>,
  \<open>formatDate\<close> (\<open>Intl\<close>), \<open>calculateDistance\<close> (trigonometry) and \<open>sleep\<close>
  only call libraries; \<open>formatDate\<close> is a parameter where it is used.  Strings are
  byte lists and the character classes are the ASCII ones, as in \<open>Json\<close>.
\<close>

section \<open>Characters\<close>

definition upper_char :: "char \<Rightarrow> char" where
  "upper_char c =
     (let n = (of_char c :: nat) in if 97 \<le> n \<and> n \<le> 122 then char_of (n - 32) else c)"

definition to_upper :: "string \<Rightarrow> string" where
  "to_upper s = map upper_char s"

definition is_digit :: "char \<Rightarrow> bool" where
  "is_digit c = (let n = (of_char c :: nat) in 48 \<le> n \<and> n \<le> 57)"

text \<open>\<open>\w\<close>: ASCII letters, digits and the underscore.\<close>

definition word_char :: "char \<Rightarrow> bool" where
  "word_char c =
     (let n = (of_char c :: nat)
      in 48 \<le> n \<and> n \<le> 57 \<or> 65 \<le> n \<and> n \<le> 90 \<or> 97 \<le> n \<and> n \<le> 122 \<or> n = 95)"

text \<open>\<open>s.split(c)\<close> for a one-character separator: the pieces between the
  separators, empty ones included, and \<open>[""]\<close> for the empty string.\<close>

fun split_on :: "char \<Rightarrow> string \<Rightarrow> string list" where
  "split_on c [] = [[]]"
| "split_on c (x # xs) =
     (if x = c then [] # split_on c xs
      else (case split_on c xs of w # ws \<Rightarrow> (x # w) # ws | [] \<Rightarrow> [[x]]))"

section \<open>\<open>formatRelativeTime\<close>\<close>

text \<open>Dates are milliseconds since the epoch; \<open>now\<close> is the clock and
  \<open>format_date\<close> stands for \<open>formatDate\<close> (\<open>Intl.DateTimeFormat\<close>).  A template
  \<open>${n}\<close> of a non-negative integer is its decimal numeral.\<close>

definition int_string :: "int \<Rightarrow> string" where
  "int_string i = (if i < 0 then CHR ''-'' # dec_string (nat (- i)) else dec_string (nat i))"

definition format_relative_time :: "(int \<Rightarrow> string) \<Rightarrow> int \<Rightarrow> int \<Rightarrow> string" where
  "format_relative_time format_date now date =
     (let diff = (now - date) div 1000
      in if diff < 60 then ''Just now''
         else if diff < 3600 then int_string (diff div 60) @ ''m ago''
         else if diff < 86400 then int_string (diff div 3600) @ ''h ago''
         else if diff < 604800 then int_string (diff div 86400) @ ''d ago''
         else format_date date)"

section \<open>\<open>slugify\<close>\<close>

text \<open>\<open>.replace(/[^\w\s-]/g, "")\<close> keeps these characters.\<close>

definition slug_keep :: "char \<Rightarrow> bool" where
  "slug_keep c = (word_char c \<or> js_space c \<or> c = CHR ''-'')"

text \<open>\<open>[\s_-]\<close>, the separators.\<close>

definition slug_sep :: "char \<Rightarrow> bool" where
  "slug_sep c = (js_space c \<or> c = CHR ''_'' \<or> c = CHR ''-'')"

text \<open>\<open>.replace(/[\s_-]+/g, "-")\<close>: the scan of the global replace; the flag says
  the previous character was a separator, so that a maximal run of separators
  becomes a single dash.\<close>

fun collapse_seps :: "bool \<Rightarrow> string \<Rightarrow> string" where
  "collapse_seps b [] = []"
| "collapse_seps b (c # cs) =
     (if slug_sep c then (if b then collapse_seps True cs else CHR ''-'' # collapse_seps True cs)
      else c # collapse_seps False cs)"

text \<open>\<open>.replace(/^-+|-+$/g, "")\<close>.\<close>

definition trim_dashes :: "string \<Rightarrow> string" where
  "trim_dashes s = rev (dropWhile (\<lambda>c. c = CHR ''-'') (rev (dropWhile (\<lambda>c. c = CHR ''-'') s)))"

definition slugify :: "string \<Rightarrow> string" where
  "slugify text = trim_dashes (collapse_seps False (filter slug_keep (to_lower text)))"

text \<open>The words of a string: the pieces between separators.\<close>

fun sep_pieces :: "string \<Rightarrow> string \<Rightarrow> string list" where
  "sep_pieces w [] = [w]"
| "sep_pieces w (c # cs) = (if slug_sep c then w # sep_pieces [] cs else sep_pieces (w @ [c]) cs)"

text \<open>What a slug is meant to be: the words of the lower-cased title, stripped of
  other characters, joined by single dashes.\<close>

definition slug_words :: "string \<Rightarrow> string" where
  "slug_words text =
     js_join ''-'' (filter (\<lambda>w. w \<noteq> []) (sep_pieces [] (filter slug_keep (to_lower text))))"

text \<open>The slug built in one pass: words with a dash between two of them.  The flags
  say that a word was written and that a separator came after it.\<close>

fun slug_pass :: "bool \<Rightarrow> bool \<Rightarrow> string \<Rightarrow> string" where
  "slug_pass started dash [] = []"
| "slug_pass started dash (c # cs) =
     (if slug_sep c then slug_pass started started cs
      else if dash then CHR ''-'' # c # slug_pass True False cs
      else c # slug_pass True False cs)"

text \<open>\<open>.replace(/-+$/, "")\<close>, the second half of \<open>trim_dashes\<close>.\<close>

definition strip_trailing :: "string \<Rightarrow> string" where
  "strip_trailing x = rev (dropWhile (\<lambda>c. c = CHR ''-'') (rev x))"

section \<open>\<open>truncate\<close>, \<open>capitalizeFirst\<close>, \<open>getInitials\<close>\<close>

text \<open>\<open>substring(0, n)\<close> clamps a negative \<open>n\<close> to \<open>0\<close>.\<close>

definition truncate_text :: "string \<Rightarrow> int \<Rightarrow> string" where
  "truncate_text text len =
     (if int (length text) \<le> len then text else take (nat len) text @ ''...'')"

fun capitalize_first :: "string \<Rightarrow> string" where
  "capitalize_first [] = []"
| "capitalize_first (c # cs) = upper_char c # to_lower cs"

text \<open>\<open>n[0]\<close> of an empty piece is \<open>undefined\<close>, which \<open>join\<close> writes as the empty
  string.\<close>

definition get_initials :: "string \<Rightarrow> string" where
  "get_initials name = take 2 (to_upper (concat (map (take 1) (split_on CHR '' '' name))))"

section \<open>Masking\<close>

text \<open>\<open>maskEmail\<close>: \<open>const [username, domain] = email.split("@")\<close>; a missing
  domain is \<open>undefined\<close> in the template, and \<open>"*".repeat(n)\<close> throws a
  \<open>RangeError\<close> for \<open>n < 0\<close>, the \<open>None\<close> of the model.\<close>

definition mask_email :: "string \<Rightarrow> string option" where
  "mask_email email =
     (case split_on CHR ''@'' email of
        [] \<Rightarrow> None
      | username # rest \<Rightarrow>
          (if length username < 2 then None
           else Some (take 2 username @ replicate (length username - 2) CHR ''*'' @ ''@'' @
                      (case rest of [] \<Rightarrow> ''undefined'' | domain # _ \<Rightarrow> domain))))"

definition mask_phone :: "string \<Rightarrow> string" where
  "mask_phone phone = take 2 phone @ replicate 6 CHR ''*'' @ drop 8 phone"

section \<open>\<open>isValidEmail\<close>, \<open>isValidPhone\<close>\<close>

text \<open>\<open>/^[^\s@]+@[^\s@]+\.[^\s@]+$/\<close>: one \<open>@\<close> with a non-empty name before it,
  and after it no blank and a dot with a character on each side.\<close>

definition plain_char :: "char \<Rightarrow> bool" where
  "plain_char c = (\<not> js_space c \<and> c \<noteq> CHR ''@'')"

definition is_valid_email :: "string \<Rightarrow> bool" where
  "is_valid_email email =
     (let u = takeWhile (\<lambda>c. c \<noteq> CHR ''@'') email; r = drop (Suc (length u)) email
      in u \<noteq> [] \<and> length u < length email \<and> list_all plain_char u \<and> list_all plain_char r \<and>
         CHR ''.'' \<in> set (butlast (drop 1 r)))"

text \<open>\<open>/^[6-9]\d{9}$/\<close>: ten digits, the first at least \<open>6\<close>.\<close>

definition is_valid_phone :: "string \<Rightarrow> bool" where
  "is_valid_phone phone =
     (length phone = 10 \<and> list_all is_digit phone \<and> (of_char (hd phone) :: nat) \<ge> 54)"

section \<open>Labels and option lists\<close>

definition property_type_labels :: "(string \<times> string) list" where
  "property_type_labels =
     [(''PG'', ''PG''), (''HOSTEL'', ''Hostel''), (''FLAT'', ''Flat''), (''APARTMENT'', ''Apartment''),
      (''ROOM'', ''Single Room''), (''SHARED_ROOM'', ''Shared Room''), (''HOUSE'', ''House''),
      (''VILLA'', ''Villa'')]"

text \<open>\<open>labels[type] || type\<close>; every label is a non-empty string, so \<open>||\<close> falls
  back exactly on a missing key.\<close>

definition get_property_type_label :: "string \<Rightarrow> string" where
  "get_property_type_label t = (case map_of property_type_labels t of Some l \<Rightarrow> l | None \<Rightarrow> t)"

definition furnishing_labels :: "(string \<times> string) list" where
  "furnishing_labels =
     [(''FULLY_FURNISHED'', ''Fully Furnished''), (''SEMI_FURNISHED'', ''Semi Furnished''),
      (''UNFURNISHED'', ''Unfurnished'')]"

definition get_furnishing_label :: "string \<Rightarrow> string" where
  "get_furnishing_label t = (case map_of furnishing_labels t of Some l \<Rightarrow> l | None \<Rightarrow> t)"

definition gender_labels :: "(string \<times> string) list" where
  "gender_labels =
     [(''MALE'', ''Boys Only''), (''FEMALE'', ''Girls Only''), (''OTHER'', ''Any Gender''),
      (''ANY'', ''Any Gender'')]"

definition get_gender_label :: "string \<Rightarrow> string" where
  "get_gender_label g = (case map_of gender_labels g of Some l \<Rightarrow> l | None \<Rightarrow> ''Any Gender'')"

definition property_types :: "(string \<times> string) list" where
  "property_types =
     [(''PG'', ''PG''), (''HOSTEL'', ''Hostel''), (''FLAT'', ''Flat''), (''APARTMENT'', ''Apartment''),
      (''ROOM'', ''Single Room''), (''SHARED_ROOM'', ''Shared Room''), (''HOUSE'', ''House''),
      (''VILLA'', ''Villa'')]"

definition furnishing_types :: "(string \<times> string) list" where
  "furnishing_types =
     [(''FULLY_FURNISHED'', ''Fully Furnished''), (''SEMI_FURNISHED'', ''Semi Furnished''),
      (''UNFURNISHED'', ''Unfurnished'')]"

definition gender_options :: "(string \<times> string) list" where
  "gender_options = [(''ANY'', ''Any Gender''), (''MALE'', ''Boys Only''), (''FEMALE'', ''Girls Only'')]"

definition occupancy_types :: "(string \<times> string) list" where
  "occupancy_types =
     [(''single'', ''Single Occupancy''), (''double'', ''Double Sharing''),
      (''triple'', ''Triple Sharing''), (''any'', ''Any'')]"

section \<open>\<open>debounce\<close>\<close>

text \<open>
  \<open>debounce(func, wait)\<close> returns a function that clears the pending timer and
  sets a new one for \<open>func(...args)\<close> in \<open>wait\<close> milliseconds.  The state is the
  pending timer (its arguments and due time) and the calls of \<open>func\<close> made so far;
  the event loop runs a due timer when the clock reaches its time.  \<open>setTimeout\<close>
  treats a negative delay as 0.
\<close>

record 'a debounced =
  pending :: "('a \<times> int) option"
  invoked :: "'a list"

definition debounce_init :: "'a debounced" where
  "debounce_init = \<lparr>pending = None, invoked = []\<rparr>"

definition debounce_call :: "int \<Rightarrow> int \<Rightarrow> 'a \<Rightarrow> 'a debounced \<Rightarrow> 'a debounced" where
  "debounce_call wait now args s = s\<lparr>pending := Some (args, now + max wait 0)\<rparr>"

definition timer_tick :: "int \<Rightarrow> 'a debounced \<Rightarrow> 'a debounced" where
  "timer_tick now s =
     (case pending s of
        Some (args, due) \<Rightarrow> if due \<le> now then \<lparr>pending = None, invoked = invoked s @ [args]\<rparr> else s
      | None \<Rightarrow> s)"

datatype 'a deb_event = Call int 'a | Tick int

fun debounce_run :: "int \<Rightarrow> 'a deb_event list \<Rightarrow> 'a debounced \<Rightarrow> 'a debounced" where
  "debounce_run wait [] s = s"
| "debounce_run wait (Call t a # es) s = debounce_run wait es (debounce_call wait t a s)"
| "debounce_run wait (Tick t # es) s = debounce_run wait es (timer_tick t s)"

section \<open>\<open>generateOTP\<close>, \<open>formatDistance\<close>, \<open>getErrorMessage\<close>\<close>

text \<open>\<open>Math.floor(100000 + Math.random() * 900000).toString()\<close> for the value
  \<open>r\<close> of \<open>Math.random()\<close>, a number in \<open>[0, 1)\<close>.\<close>

definition generate_otp :: "rat \<Rightarrow> string" where
  "generate_otp r = dec_string (nat \<lfloor>100000 + r * 900000\<rfloor>)"

text \<open>\<open>Math.round(x)\<close> is \<open>\<lfloor>x + 1/2\<rfloor>\<close>; \<open>x.toFixed(1)\<close> of a non-negative
  \<open>x\<close> writes \<open>n / 10\<close> for the nearest \<open>n\<close>, the larger one on a tie.\<close>

definition js_round :: "rat \<Rightarrow> int" where
  "js_round x = \<lfloor>x + 1/2\<rfloor>"

definition to_fixed1 :: "rat \<Rightarrow> string" where
  "to_fixed1 x = (let n = \<lfloor>10 * x + 1/2\<rfloor> in int_string (n div 10) @ ''.'' @ dec_string (nat (n mod 10)))"

definition format_distance :: "rat \<Rightarrow> string" where
  "format_distance d =
     (if d < 1 then int_string (js_round (d * 1000)) @ ''m'' else to_fixed1 d @ ''km'')"

datatype thrown = ThrownError string | ThrownString string | ThrownOther

fun get_error_message :: "thrown \<Rightarrow> string" where
  "get_error_message (ThrownError m) = m"
| "get_error_message (ThrownString s) = s"
| "get_error_message ThrownOther = ''An unexpected error occurred''"

section \<open>Lemmas\<close>

lemma slug_sep_dash [simp]: "slug_sep CHR ''-''"
  by (simp add: slug_sep_def)

lemma slug_pass_dash:
  "slug_pass True True t = (if slug_pass False False t = [] then [] else CHR ''-'' # slug_pass False False t)"
  by (induction t) auto

lemma collapse_True_no_dash: "dropWhile (\<lambda>c. c = CHR ''-'') (collapse_seps True t) = collapse_seps True t"
  by (induction t) (auto dest: sym)

lemma collapse_False_drop: "dropWhile (\<lambda>c. c = CHR ''-'') (collapse_seps False t) = collapse_seps True t"
proof (induction t)
  case (Cons c cs)
  then show ?case by (auto simp: collapse_True_no_dash dest: sym)
qed simp

lemma strip_trailing_Cons:
  "strip_trailing (c # y) =
     (if c = CHR ''-'' \<and> strip_trailing y = [] then [] else c # strip_trailing y)"
  by (auto simp: strip_trailing_def dropWhile_append)

lemma strip_collapse:
  "strip_trailing (collapse_seps True t) = slug_pass False False t \<and>
   strip_trailing (collapse_seps False t) = slug_pass True False t"
proof (induction t)
  case Nil
  then show ?case by (simp add: strip_trailing_def)
next
  case (Cons c cs)
  then show ?case by (auto simp: strip_trailing_Cons slug_pass_dash dest: sym)
qed

lemma js_join_Cons: "js_join sep (w # ws) = (if ws = [] then w else w @ sep @ js_join sep ws)"
  by (cases ws) auto

lemma js_join_Nil_iff: "list_all (\<lambda>w. w \<noteq> []) ws \<Longrightarrow> js_join sep ws = [] \<longleftrightarrow> ws = []"
  by (cases ws) (auto simp: js_join_Cons)

lemma sep_pieces_pass:
  "js_join ''-'' (filter (\<lambda>w. w \<noteq> []) (sep_pieces w t)) =
     w @ (if w = [] then slug_pass False False t else slug_pass True False t)"
proof (induction t arbitrary: w)
  case Nil
  then show ?case by simp
next
  case (Cons c cs)
  show ?case
  proof (cases "slug_sep c")
    case True
    have IH: "js_join ''-'' (filter (\<lambda>w. w \<noteq> []) (sep_pieces [] cs)) = slug_pass False False cs"
      using Cons.IH [of "[]"] by simp
    have ne: "list_all (\<lambda>w. w \<noteq> []) (filter (\<lambda>w. w \<noteq> []) (sep_pieces [] cs))"
      by (simp add: list_all_iff)
    show ?thesis using True IH js_join_Nil_iff [OF ne, of "''-''"]
      by (auto simp: js_join_Cons slug_pass_dash)
  next
    case False
    then show ?thesis using Cons.IH [of "w @ [c]"] by auto
  qed
qed

text \<open>
  Claim C39: \<open>slugify\<close>, three global regular-expression replaces, gives
  exactly the words of the lower-cased text (runs of letters, digits and
  other kept characters between white space, underscores and dashes) joined by single dashes.
\<close>

theorem slugify_eq_slug_words: "slugify text = slug_words text"
proof -
  let ?t = "filter slug_keep (to_lower text)"
  have "slugify text = strip_trailing (collapse_seps True ?t)"
    by (simp add: slugify_def trim_dashes_def strip_trailing_def collapse_False_drop)
  also have "\<dots> = slug_pass False False ?t" using strip_collapse by blast
  also have "\<dots> = slug_words text" using sep_pieces_pass [of "[]" ?t] by (simp add: slug_words_def)
  finally show ?thesis .
qed

lemma split_on_hd: "split_on c s = takeWhile (\<lambda>x. x \<noteq> c) s # tl (split_on c s)"
  by (induction s) (auto split: list.splits)

lemma split_on_append:
  "c \<notin> set u \<Longrightarrow> split_on c (u @ c # d) = u # split_on c d"
  by (induction u) auto

lemma split_on_notin: "c \<notin> set d \<Longrightarrow> split_on c d = [d]"
  by (induction d) auto

text \<open>
  \<open>maskEmail\<close> throws (\<open>"*".repeat\<close> of a negative count)
  exactly when the part before the first \<open>@\<close> is shorter than two characters.
\<close>

theorem mask_email_error:
  "mask_email email = None \<longleftrightarrow> length (takeWhile (\<lambda>x. x \<noteq> CHR ''@'') email) < 2"
proof -
  obtain rest where "split_on CHR ''@'' email = takeWhile (\<lambda>x. x \<noteq> CHR ''@'') email # rest"
    using split_on_hd by blast
  then show ?thesis by (simp add: mask_email_def)
qed

text \<open>
  For an address with one \<open>@\<close> and a name of at least two
  characters, \<open>maskEmail\<close> keeps the first two characters and the domain, stars the rest of
  the name, and keeps the length.
\<close>

theorem mask_email_masks:
  assumes "CHR ''@'' \<notin> set username" "CHR ''@'' \<notin> set domain" "2 \<le> length username"
  shows "mask_email (username @ CHR ''@'' # domain) =
           Some (take 2 username @ replicate (length username - 2) CHR ''*'' @ CHR ''@'' # domain) \<and>
         length (the (mask_email (username @ CHR ''@'' # domain))) = length (username @ CHR ''@'' # domain)"
  using assms by (simp add: mask_email_def split_on_append split_on_notin)

lemma digit_char_is_digit: "d < 10 \<Longrightarrow> is_digit (digit_char d)"
  by (simp add: digit_char_def is_digit_def)

lemma dec_string_digits: "list_all is_digit (dec_string n)"
  by (induction n rule: dec_string.induct) (subst dec_string.simps, simp add: digit_char_is_digit)

lemma length_dec_string:
  "10 ^ k \<le> n \<Longrightarrow> n < 10 ^ Suc k \<Longrightarrow> length (dec_string n) = Suc k"
proof (induction k arbitrary: n)
  case 0
  then show ?case by (subst dec_string.simps) simp
next
  case (Suc k)
  have "10 ^ Suc k div 10 \<le> n div 10" using Suc.prems(1) by (rule div_le_mono)
  then have "10 ^ k \<le> n div 10" by simp
  moreover have "n div 10 < 10 ^ Suc k"
    using Suc.prems(2) by (intro less_mult_imp_div_less) (simp add: mult.commute)
  moreover have "10 \<le> n" using Suc.prems(1) order_trans [of 10 "10 ^ Suc k" n] by simp
  ultimately show ?case using Suc.IH [of "n div 10"] by (subst dec_string.simps) simp
qed

text \<open>
  For every value of \<open>Math.random()\<close> in \<open>[0, 1)\<close>,
  \<open>generateOTP\<close> gives six decimal digits.
\<close>

theorem generate_otp_six_digits:
  assumes "0 \<le> r" "r < 1"
  shows "length (generate_otp r) = 6 \<and> list_all is_digit (generate_otp r)"
proof -
  have lo: "100000 \<le> \<lfloor>100000 + r * 900000\<rfloor>" using assms by (simp add: le_floor_iff)
  have hi: "\<lfloor>100000 + r * 900000\<rfloor> < 1000000" using assms by (simp add: floor_less_iff)
  have "10 ^ 5 \<le> nat \<lfloor>100000 + r * 900000\<rfloor>" "nat \<lfloor>100000 + r * 900000\<rfloor> < 10 ^ Suc 5"
    using lo hi by (simp_all add: le_nat_iff nat_less_iff)
  then have "length (dec_string (nat \<lfloor>100000 + r * 900000\<rfloor>)) = Suc 5" by (rule length_dec_string)
  then show ?thesis by (simp add: generate_otp_def dec_string_digits)
qed

text \<open>
  The label functions agree with the option lists the
  filters show: each option's value is labelled with the option's label.
\<close>

theorem labels_match_options:
  "list_all (\<lambda>(v, l). get_property_type_label v = l) property_types \<and>
   list_all (\<lambda>(v, l). get_furnishing_label v = l) furnishing_types \<and>
   list_all (\<lambda>(v, l). get_gender_label v = l) gender_options"
  by (simp add: get_property_type_label_def property_type_labels_def property_types_def
      get_furnishing_label_def furnishing_labels_def furnishing_types_def
      get_gender_label_def gender_labels_def gender_options_def)

lemma debounce_run_append:
  "debounce_run wait (es @ es') s = debounce_run wait es' (debounce_run wait es s)"
  by (induction wait es s rule: debounce_run.induct) auto

lemma debounce_calls:
  "cs \<noteq> [] \<Longrightarrow> debounce_run wait (map (\<lambda>(t, a). Call t a) cs) s =
     s\<lparr>pending := Some (snd (last cs), fst (last cs) + max wait 0)\<rparr>"
proof (induction cs arbitrary: s)
  case (Cons c cs)
  then show ?case by (cases cs) (auto simp: debounce_call_def split: prod.splits)
qed simp

text \<open>
  A burst of calls of a debounced function with no timer run
  in between invokes the function once, with the arguments of the last call, once the
  wait after the last call has passed.
\<close>

theorem debounce_burst:
  assumes "cs \<noteq> []" "fst (last cs) + max wait 0 \<le> now"
  shows "debounce_run wait (map (\<lambda>(t, a). Call t a) cs @ [Tick now]) s =
           \<lparr>pending = None, invoked = invoked s @ [snd (last cs)]\<rparr>"
  using assms by (simp add: debounce_run_append debounce_calls timer_tick_def)


subsection \<open>Instances\<close>

theorem mask_email_masks_witness:
  "CHR ''@'' \<notin> set ''asha'' \<and> CHR ''@'' \<notin> set ''example.in'' \<and> 2 \<le> length ''asha'' \<and>
   mask_email ''asha@example.in'' = Some ''as**@example.in''"
  using mask_email_masks [of "''asha''" "''example.in''"] by simp

theorem generate_otp_six_digits_witness:
  "0 \<le> (1/2 :: rat) \<and> (1/2 :: rat) < 1 \<and> length (generate_otp (1/2)) = 6"
  using generate_otp_six_digits [of "1/2"] by simp

theorem debounce_burst_witness:
  "[(0::int, ''a''), (100, ''ab''), (250, ''abc'')] \<noteq> [] \<and>
   fst (last [(0::int, ''a''), (100, ''ab''), (250, ''abc'')]) + max 300 0 \<le> 600 \<and>
   debounce_run 300 (map (\<lambda>(t, a). Call t a) [(0, ''a''), (100, ''ab''), (250, ''abc'')] @ [Tick 600])
     debounce_init = \<lparr>pending = None, invoked = [''abc'']\<rparr>"
  using debounce_burst [of "[(0::int, ''a''), (100, ''ab''), (250, ''abc'')]" 300 600 debounce_init]
  by (simp add: debounce_init_def)

end
