(* ===== verification/Types.thy ===== *)
theory Types
  imports Json
begin

text \<open>
  The TypeScript declarations of src/src/types: a small language of the types they
  use (\<open>tstype\<close>) and the check that a JavaScript value has a type at run time
  (\<open>has_type\<close>), with each interface the handlers and pages rely on written as a
  term of it.  TypeScript's structural typing admits extra keys; an optional field
  (\<open>k?: T\<close>) may be missing or \<open>undefined\<close>.  The typing is of the object a
  handler passes to \<open>NextResponse.json\<close> or stores, before serialisation.
\<close>

section \<open>Types and values\<close>

datatype tstype =
    TString
  | TNumber
  | TBool
  | TDate
  | TNull
  | TUndefined
  | TLit string
  | TUnion "tstype list"
  | TArray tstype
  | TObject "(string \<times> bool \<times> tstype) list"
  | TUnknown

text \<open>A field of an object type is (name, optional, type).\<close>

fun has_type :: "tstype \<Rightarrow> jval \<Rightarrow> bool"
  and field_ok :: "jobj \<Rightarrow> string \<times> bool \<times> tstype \<Rightarrow> bool" where
  "has_type TString v = (case v of JStr _ \<Rightarrow> True | _ \<Rightarrow> False)"
| "has_type TNumber v = (case v of JNum _ \<Rightarrow> True | JNaN \<Rightarrow> True | _ \<Rightarrow> False)"
| "has_type TBool v = (case v of JBool _ \<Rightarrow> True | _ \<Rightarrow> False)"
| "has_type TDate v = (case v of JDate _ \<Rightarrow> True | _ \<Rightarrow> False)"
| "has_type TNull v = (v = JNull)"
| "has_type TUndefined v = (v = JUndef)"
| "has_type (TLit s) v = (v = JStr s)"
| "has_type (TUnion ts) v = list_ex (\<lambda>t. has_type t v) ts"
| "has_type (TArray t) v = (case v of JArr vs \<Rightarrow> list_all (has_type t) vs | _ \<Rightarrow> False)"
| "has_type (TObject fs) v = (case v of JObj kvs \<Rightarrow> list_all (field_ok kvs) fs | _ \<Rightarrow> False)"
| "has_type TUnknown v = True"
| "field_ok kvs (k, opt, t) =
     (case map_of kvs k of None \<Rightarrow> opt | Some v \<Rightarrow> has_type t v \<or> opt \<and> v = JUndef)"

abbreviation req :: "string \<Rightarrow> tstype \<Rightarrow> string \<times> bool \<times> tstype" where
  "req k t \<equiv> (k, False, t)"

abbreviation opt :: "string \<Rightarrow> tstype \<Rightarrow> string \<times> bool \<times> tstype" where
  "opt k t \<equiv> (k, True, t)"

abbreviation lits :: "string list \<Rightarrow> tstype" where
  "lits ss \<equiv> TUnion (map TLit ss)"

section \<open>types/auth.ts\<close>

definition user_role_type :: tstype where
  "user_role_type = lits [''student'', ''landlord'']"

definition auth_user_type :: tstype where
  "auth_user_type = TObject
     [opt ''_id'' TString, req ''id'' TString, req ''email'' TString, req ''password'' TString,
      req ''name'' TString, opt ''phone'' TString, opt ''image'' TString, req ''role'' user_role_type,
      req ''createdAt'' TDate, req ''updatedAt'' TDate]"

definition auth_student_profile_type :: tstype where
  "auth_student_profile_type = TObject
     [req ''userId'' TString, opt ''college'' TString, opt ''course'' TString, opt ''year'' TNumber,
      opt ''city'' TString, opt ''bio'' TString]"

definition auth_landlord_profile_type :: tstype where
  "auth_landlord_profile_type = TObject
     [req ''userId'' TString, opt ''companyName'' TString, opt ''address'' TString, opt ''city'' TString,
      req ''isVerified'' TBool, req ''totalProperties'' TNumber, req ''responseRate'' TNumber,
      req ''responseTime'' TNumber]"

definition register_request_type :: tstype where
  "register_request_type = TObject
     [req ''name'' TString, req ''email'' TString, req ''password'' TString, opt ''phone'' TString,
      req ''role'' user_role_type]"

definition login_request_type :: tstype where
  "login_request_type = TObject [req ''email'' TString, req ''password'' TString]"

definition safe_user_type :: tstype where
  "safe_user_type = TObject
     [req ''id'' TString, req ''email'' TString, req ''name'' TString, opt ''phone'' TString,
      opt ''image'' TString, req ''role'' user_role_type, req ''createdAt'' TDate]"

definition auth_response_type :: tstype where
  "auth_response_type = TObject
     [req ''success'' TBool, req ''message'' TString, opt ''user'' safe_user_type, opt ''token'' TString]"

definition token_payload_type :: tstype where
  "token_payload_type = TObject
     [req ''userId'' TString, req ''email'' TString, req ''role'' user_role_type, req ''exp'' TNumber]"

definition property_listing_type :: tstype where
  "property_listing_type = TObject
     [req ''id'' TString, req ''landlordId'' TString, req ''title'' TString, req ''slug'' TString,
      req ''description'' TString, req ''propertyType'' (lits [''PG'', ''HOSTEL'', ''FLAT'', ''ROOM'']),
      req ''roomType'' (lits [''private'', ''sharing'', ''entire'']),
      opt ''bhk'' (TUnion [TNumber, TNull]), req ''bedsPerRoom'' TNumber, req ''roomSize'' TString,
      req ''status'' (lits [''ACTIVE'', ''INACTIVE'', ''PENDING'', ''REJECTED'']),
      req ''address'' TString, req ''city'' TString, req ''state'' TString, req ''pincode'' TString,
      req ''latitude'' TNumber, req ''longitude'' TNumber, opt ''landmark'' TString,
      req ''nearbyColleges'' (TArray TString), opt ''distanceFromCollege'' TString,
      req ''totalBeds'' TNumber, req ''availableBeds'' TNumber, req ''totalRooms'' TNumber,
      req ''bathrooms'' TNumber, opt ''floorNumber'' TNumber, opt ''totalFloors'' TNumber,
      req ''rent'' TNumber, req ''deposit'' TNumber, opt ''maintenanceCharges'' TNumber,
      req ''electricityCharges'' (lits [''included'', ''separate'']),
      req ''waterCharges'' (lits [''included'', ''separate'']),
      opt ''foodCharges'' (TUnion [TNumber, TNull]), req ''foodIncluded'' TBool, opt ''mealsPerDay'' TNumber,
      req ''genderPreference'' (lits [''MALE'', ''FEMALE'', ''ANY'']),
      req ''occupancyType'' (lits [''single'', ''double'', ''triple'', ''quadruple'', ''any'']),
      req ''furnishing'' (lits [''FULLY_FURNISHED'', ''SEMI_FURNISHED'', ''UNFURNISHED'']),
      req ''furnishingDetails'' (TArray TString), req ''amenities'' (TArray TString),
      req ''rules'' (TObject
        [req ''nonVegAllowed'' TBool, req ''smokingAllowed'' TBool, req ''drinkingAllowed'' TBool,
         req ''petsAllowed'' TBool, req ''visitorsAllowed'' TBool, req ''oppositeSexAllowed'' TBool,
         opt ''gateClosingTime'' (TUnion [TString, TNull])]),
      req ''images'' (TArray (TObject [req ''url'' TString, req ''isPrimary'' TBool, opt ''caption'' TString])),
      req ''availableFrom'' TString, req ''minimumStay'' TNumber, req ''noticePeriod'' TNumber,
      req ''isVerified'' TBool, req ''isFeatured'' TBool, req ''viewCount'' TNumber,
      req ''createdAt'' TDate, req ''updatedAt'' TDate]"

definition property_inquiry_type :: tstype where
  "property_inquiry_type = TObject
     [req ''id'' TString, req ''propertyId'' TString, req ''propertyTitle'' TString,
      req ''studentId'' TString, req ''studentName'' TString, req ''studentEmail'' TString,
      opt ''studentPhone'' TString, req ''landlordId'' TString, req ''message'' TString,
      req ''status'' (lits [''pending'', ''contacted'', ''visited'', ''closed'']),
      req ''createdAt'' TDate, req ''updatedAt'' TDate]"

section \<open>types/index.ts\<close>

definition property_image_type :: tstype where
  "property_image_type = TObject [req ''url'' TString, req ''isPrimary'' TBool, req ''caption'' TString]"

definition property_owner_type :: tstype where
  "property_owner_type = TObject
     [req ''id'' TString, req ''name'' TString, req ''image'' TString, req ''phone'' TString,
      req ''responseRate'' TNumber, req ''responseTime'' TNumber, req ''isVerified'' TBool]"

definition property_type :: tstype where
  "property_type = TObject
     [req ''id'' TString, req ''title'' TString, req ''slug'' TString, req ''description'' TString,
      req ''propertyType'' TString, req ''roomType'' TString, req ''bhk'' (TUnion [TNumber, TNull]),
      req ''bedsPerRoom'' TNumber, req ''roomSize'' TString, req ''status'' TString,
      req ''address'' TString, req ''city'' TString, req ''state'' TString, req ''pincode'' TString,
      req ''latitude'' TNumber, req ''longitude'' TNumber, req ''landmark'' TString,
      req ''nearbyColleges'' (TArray TString), req ''distanceFromCollege'' TString,
      req ''totalBeds'' TNumber, req ''availableBeds'' TNumber, req ''totalRooms'' TNumber,
      req ''bathrooms'' TNumber, req ''floorNumber'' TNumber, req ''totalFloors'' TNumber,
      req ''rent'' TNumber, req ''deposit'' TNumber, req ''maintenanceCharges'' TNumber,
      req ''electricityCharges'' TString, req ''waterCharges'' TString,
      req ''foodCharges'' (TUnion [TNumber, TNull]), req ''foodIncluded'' TBool, req ''mealsPerDay'' TNumber,
      req ''genderPreference'' TString, req ''occupancyType'' TString, req ''furnishing'' TString,
      req ''furnishingDetails'' (TArray TString), req ''nonVegAllowed'' TBool, req ''smokingAllowed'' TBool,
      req ''drinkingAllowed'' TBool, req ''petsAllowed'' TBool, req ''visitorsAllowed'' TBool,
      req ''oppositeSexAllowed'' TBool, req ''gateClosingTime'' (TUnion [TString, TNull]),
      req ''availableFrom'' TString, req ''minimumStay'' TNumber, req ''noticePeriod'' TNumber,
      req ''isVerified'' TBool, req ''isFeatured'' TBool, req ''viewCount'' TNumber,
      req ''images'' (TArray property_image_type), req ''amenities'' (TArray TString),
      req ''averageRating'' TNumber, req ''reviewCount'' TNumber, req ''owner'' property_owner_type]"

definition property_card_type :: tstype where
  "property_card_type = TObject
     [req ''id'' TString, req ''title'' TString, req ''slug'' TString, req ''propertyType'' TString,
      req ''rent'' TNumber, req ''deposit'' TNumber, req ''city'' TString, req ''address'' TString,
      req ''genderPreference'' TString, req ''furnishing'' TString, req ''availableBeds'' TNumber,
      req ''totalBeds'' TNumber, req ''isVerified'' TBool, req ''isFeatured'' TBool,
      req ''images'' (TArray (TObject [req ''url'' TString, req ''isPrimary'' TBool])),
      opt ''averageRating'' TNumber, opt ''reviewCount'' TNumber, opt ''distance'' TNumber,
      opt ''latitude'' (TUnion [TNumber, TNull]), opt ''longitude'' (TUnion [TNumber, TNull])]"

definition search_filters_type :: tstype where
  "search_filters_type = TObject
     [opt ''query'' TString, opt ''city'' TString, opt ''propertyType'' (TArray TString),
      opt ''minRent'' TNumber, opt ''maxRent'' TNumber, opt ''gender'' TString,
      opt ''furnishing'' (TArray TString), opt ''amenities'' (TArray TString),
      opt ''occupancyType'' TString, opt ''nearCollege'' TString, opt ''latitude'' TNumber,
      opt ''longitude'' TNumber, opt ''radius'' TNumber,
      opt ''sortBy'' (lits [''relevance'', ''price_low'', ''price_high'', ''newest'', ''rating''])]"

definition paginated_response_type :: "tstype \<Rightarrow> tstype" where
  "paginated_response_type t = TObject
     [req ''data'' (TArray t),
      req ''pagination'' (TObject
        [req ''total'' TNumber, req ''page'' TNumber, req ''limit'' TNumber, req ''totalPages'' TNumber,
         req ''hasMore'' TBool])]"

definition api_response_type :: "tstype \<Rightarrow> tstype" where
  "api_response_type t = TObject
     [req ''success'' TBool, opt ''data'' t, opt ''message'' TString, opt ''error'' TString]"

definition local_user_type :: tstype where
  "local_user_type = TObject
     [req ''id'' TString, req ''name'' TString, opt ''email'' TString, opt ''image'' TString,
      opt ''phone'' TString]"

definition local_student_profile_type :: tstype where
  "local_student_profile_type = TObject
     [req ''id'' TString, req ''userId'' TString, opt ''college'' TString, opt ''course'' TString,
      opt ''year'' TNumber]"

definition local_landlord_profile_type :: tstype where
  "local_landlord_profile_type = TObject
     [req ''id'' TString, req ''userId'' TString, opt ''companyName'' TString, req ''verified'' TBool]"

definition inquiry_preview_type :: tstype where
  "inquiry_preview_type = TObject
     [req ''id'' TString, req ''property'' (TObject [req ''title'' TString]),
      req ''user'' (TObject [req ''name'' TString, opt ''image'' TString]),
      req ''message'' TString, req ''createdAt'' TDate]"

definition property_performance_type :: tstype where
  "property_performance_type = TObject
     [req ''id'' TString, req ''title'' TString, req ''views'' TNumber, req ''inquiries'' TNumber,
      req ''favorites'' TNumber, req ''status'' TString]"

definition landlord_dashboard_stats_type :: tstype where
  "landlord_dashboard_stats_type = TObject
     [req ''totalProperties'' TNumber, req ''activeListings'' TNumber, req ''totalViews'' TNumber,
      req ''totalInquiries'' TNumber, req ''pendingVisits'' TNumber, req ''averageRating'' TNumber,
      req ''totalReviews'' TNumber, req ''recentInquiries'' (TArray inquiry_preview_type),
      req ''propertyPerformance'' (TArray property_performance_type)]"

definition student_dashboard_stats_type :: tstype where
  "student_dashboard_stats_type = TObject
     [req ''savedProperties'' TNumber, req ''recentlyViewed'' TNumber,
      req ''activeApplications'' TNumber, req ''scheduledVisits'' TNumber,
      req ''wishlist'' (TArray property_card_type), req ''recommendations'' (TArray property_card_type)]"

definition form_state_type :: tstype where
  "form_state_type = TObject [req ''isSubmitting'' TBool, req ''isSuccess'' TBool, opt ''error'' TString]"

definition user_with_profile_type :: tstype where
  "user_with_profile_type = TObject
     [req ''id'' TString, req ''name'' TString, opt ''email'' TString, opt ''image'' TString,
      opt ''phone'' TString, opt ''studentProfile'' (TUnion [local_student_profile_type, TNull]),
      opt ''landlordProfile'' (TUnion [local_landlord_profile_type, TNull])]"

text \<open>\<open>Pick<User, "id" | "name" | "image">\<close>.\<close>

definition user_pick_type :: tstype where
  "user_pick_type = TObject [req ''id'' TString, req ''name'' TString, opt ''image'' TString]"

definition message_with_sender_type :: tstype where
  "message_with_sender_type = TObject
     [req ''id'' TString, req ''content'' TString, req ''senderId'' TString, req ''sender'' user_pick_type,
      req ''createdAt'' TDate, req ''isRead'' TBool]"

definition conversation_type :: tstype where
  "conversation_type = TObject
     [req ''id'' TString, opt ''propertyId'' TString,
      req ''participants'' (TArray (TObject [req ''user'' user_pick_type, opt ''lastReadAt'' TDate])),
      req ''messages'' (TArray message_with_sender_type), req ''updatedAt'' TDate]"

definition activity_preview_type :: tstype where
  "activity_preview_type = TObject
     [req ''id'' TString, req ''action'' TString, req ''user'' (TObject [req ''name'' TString]),
      opt ''entity'' TString, req ''createdAt'' TDate]"

definition growth_data_type :: tstype where
  "growth_data_type = TObject [req ''date'' TString, req ''count'' TNumber]"

definition admin_dashboard_stats_type :: tstype where
  "admin_dashboard_stats_type = TObject
     [req ''totalUsers'' TNumber, req ''totalStudents'' TNumber, req ''totalLandlords'' TNumber,
      req ''totalProperties'' TNumber, req ''activeListings'' TNumber,
      req ''pendingVerifications'' TNumber, req ''pendingReports'' TNumber,
      req ''recentActivity'' (TArray activity_preview_type), req ''userGrowth'' (TArray growth_data_type),
      req ''propertyGrowth'' (TArray growth_data_type)]"

definition map_marker_type :: tstype where
  "map_marker_type = TObject
     [req ''id'' TString, req ''latitude'' TNumber, req ''longitude'' TNumber, req ''title'' TString,
      req ''rent'' TNumber, req ''type'' TString]"

definition notification_item_type :: tstype where
  "notification_item_type = TObject
     [req ''id'' TString, req ''type'' TString, req ''title'' TString, req ''message'' TString,
      opt ''link'' TString, req ''isRead'' TBool, req ''createdAt'' TDate]"

definition uploaded_file_type :: tstype where
  "uploaded_file_type = TObject
     [req ''url'' TString, req ''name'' TString, req ''size'' TNumber, req ''type'' TString]"

definition comparison_property_type :: tstype where
  "comparison_property_type = TObject
     [req ''id'' TString, req ''title'' TString, req ''rent'' TNumber, req ''deposit'' TNumber,
      req ''propertyType'' TString, req ''furnishing'' TString, req ''amenities'' (TArray TString),
      req ''rating'' TNumber, req ''image'' TString]"

section \<open>types/next-auth.d.ts\<close>

text \<open>The declarations that augment the \<open>next-auth\<close> module (which no route uses).\<close>

definition session_type :: tstype where
  "session_type = TObject
     [req ''user'' (TObject
        [req ''id'' TString, opt ''name'' (TUnion [TString, TNull]), opt ''email'' (TUnion [TString, TNull]),
         opt ''image'' (TUnion [TString, TNull]), req ''role'' TString,
         req ''emailVerified'' (TUnion [TDate, TNull])])]"

definition jwt_type :: tstype where
  "jwt_type = TObject [req ''id'' TString, req ''role'' TString, req ''emailVerified'' (TUnion [TDate, TNull])]"

end
