(* ===== verification/Validations.thy ===== *)
theory Validations
  imports Types Utils
begin

text \<open>
  The zod schemas of src/src/lib/validations.ts.  zod is a library the file only
  calls; its behaviour is given here as the function \<open>zparse\<close> over a datatype of
  the schema constructors the file uses (\<open>z.string\<close> with \<open>min\<close>, \<open>max\<close>,
  \<open>regex\<close>, \<open>email\<close>; \<open>z.number\<close> with \<open>min\<close>, \<open>max\<close>; \<open>z.boolean\<close>,
  \<open>z.date\<close>, \<open>z.enum\<close>, \<open>z.array\<close>, \<open>z.object\<close>, \<open>.optional()\<close>,
  \<open>.default()\<close>, \<open>.refine()\<close>), as zod 3 implements them: a parse collects the
  issues of every field; a wrong type \<^emph>\<open>aborts\<close> the value (\<open>None\<close>), a failed
  check only marks it dirty, so the refinement of an object still runs when a
  string check failed but not when a field has the wrong type; unknown keys are
  dropped; \<open>safeParse\<close> succeeds when there is no issue.  \<open>z.infer\<close> is
  \<open>infer\<close>, a TypeScript type of \<open>Types\<close>.
\<close>

section \<open>Schemas\<close>

datatype strcheck = SMin nat string | SMax nat string | SRegex "string \<Rightarrow> bool" string | SEmail string

datatype numcheck = NMin rat string | NMax rat string

datatype schema =
    ZString "strcheck list"
  | ZNumber "numcheck list"
  | ZBoolean
  | ZDate
  | ZEnum "string list"
  | ZArray schema
  | ZOptional schema
  | ZDefault schema jval
  | ZObject "(string \<times> schema) list"
  | ZRefine schema "jval \<Rightarrow> bool" string "string list"

text \<open>An issue: its path and its message.\<close>

type_synonym issue = "string list \<times> string"

section \<open>The library: parsing\<close>

fun parsed_type :: "jval \<Rightarrow> string" where
  "parsed_type JUndef = ''undefined''"
| "parsed_type JNull = ''null''"
| "parsed_type (JBool _) = ''boolean''"
| "parsed_type (JNum _) = ''number''"
| "parsed_type JNaN = ''nan''"
| "parsed_type (JStr _) = ''string''"
| "parsed_type (JArr _) = ''array''"
| "parsed_type (JObj _) = ''object''"
| "parsed_type (JOid _) = ''object''"
| "parsed_type (JDate _) = ''date''"

definition type_issue :: "string \<Rightarrow> jval \<Rightarrow> issue list" where
  "type_issue expected v =
     [([], if v = JUndef then ''Required'' else ''Expected '' @ expected @ '', received '' @ parsed_type v)]"

definition alnum :: "char \<Rightarrow> bool" where
  "alnum c = (word_char c \<and> c \<noteq> CHR ''_'')"

definition alpha :: "char \<Rightarrow> bool" where
  "alpha c = (alnum c \<and> \<not> is_digit c)"

text \<open>zod's e-mail pattern
  \<open>/^(?!\.)(?!.*\.\.)([A-Z0-9_'+\-\.]*)[A-Z0-9_+-]@([A-Z0-9][A-Z0-9\-]*\.)+[A-Z]{2,}$/i\<close>.\<close>

definition email_local_char :: "char \<Rightarrow> bool" where
  "email_local_char c = (alnum c \<or> c \<in> set ''_'' \<or> c = CHR 39 \<or> c \<in> set ''+-.'')"

definition email_local_last :: "char \<Rightarrow> bool" where
  "email_local_last c = (alnum c \<or> c \<in> set ''_+-'')"

definition label_ok :: "string \<Rightarrow> bool" where
  "label_ok l = (l \<noteq> [] \<and> alnum (hd l) \<and> list_all (\<lambda>c. alnum c \<or> c = CHR ''-'') l)"

definition zod_email :: "string \<Rightarrow> bool" where
  "zod_email s =
     (let u = takeWhile (\<lambda>c. c \<noteq> CHR ''@'') s; ls = split_on CHR ''.'' (drop (Suc (length u)) s)
      in length u < length s \<and> u \<noteq> [] \<and> hd u \<noteq> CHR ''.'' \<and> \<not> has_infix ''..'' s \<and>
         list_all email_local_char u \<and> email_local_last (last u) \<and>
         2 \<le> length ls \<and> list_all label_ok (butlast ls) \<and>
         2 \<le> length (last ls) \<and> list_all alpha (last ls))"

fun str_check :: "string \<Rightarrow> strcheck \<Rightarrow> issue list" where
  "str_check s (SMin n m) = (if length s < n then [([], m)] else [])"
| "str_check s (SMax n m) = (if n < length s then [([], m)] else [])"
| "str_check s (SRegex p m) = (if p s then [] else [([], m)])"
| "str_check s (SEmail m) = (if zod_email s then [] else [([], m)])"

fun num_check :: "rat \<Rightarrow> numcheck \<Rightarrow> issue list" where
  "num_check q (NMin n m) = (if q < n then [([], m)] else [])"
| "num_check q (NMax n m) = (if n < q then [([], m)] else [])"

definition enum_expected :: "string list \<Rightarrow> string" where
  "enum_expected opts = js_join '' | '' (map (\<lambda>x. CHR 39 # x @ [CHR 39]) opts)"

primrec all_some :: "'a option list \<Rightarrow> 'a list option" where
  "all_some [] = Some []"
| "all_some (x # xs) = (case (x, all_some xs) of (Some y, Some ys) \<Rightarrow> Some (y # ys) | _ \<Rightarrow> None)"

definition under :: "string \<Rightarrow> issue list \<Rightarrow> issue list" where
  "under k is = map (\<lambda>(p, m). (k # p, m)) is"

text \<open>An object keeps a key of the shape when its parsed value is defined or the
  input has the key.\<close>

definition keep_field :: "jobj \<Rightarrow> string \<Rightarrow> jval \<Rightarrow> bool" where
  "keep_field kvs k w = (w \<noteq> JUndef \<or> k \<in> fst ` set kvs)"

fun zparse :: "schema \<Rightarrow> jval \<Rightarrow> issue list \<times> jval option" where
  "zparse (ZString cs) v =
     (case v of JStr s \<Rightarrow> (concat (map (str_check s) cs), Some v) | _ \<Rightarrow> (type_issue ''string'' v, None))"
| "zparse (ZNumber cs) v =
     (case v of JNum q \<Rightarrow> (concat (map (num_check q) cs), Some v) | _ \<Rightarrow> (type_issue ''number'' v, None))"
| "zparse ZBoolean v =
     (case v of JBool _ \<Rightarrow> ([], Some v) | _ \<Rightarrow> (type_issue ''boolean'' v, None))"
| "zparse ZDate v =
     (case v of
        JDate a \<Rightarrow> (if a = JNaN \<or> a = JUndef then ([([], ''Invalid date'')], None) else ([], Some v))
      | _ \<Rightarrow> (type_issue ''date'' v, None))"
| "zparse (ZEnum opts) v =
     (case v of
        JStr s \<Rightarrow>
          (if s \<in> set opts then ([], Some v)
           else ([([], ''Invalid enum value. Expected '' @ enum_expected opts @ '', received '' @
                       CHR 39 # s @ [CHR 39])], None))
      | _ \<Rightarrow> (type_issue (enum_expected opts) v, None))"
| "zparse (ZArray s) v =
     (case v of
        JArr vs \<Rightarrow>
          (let rs = map (\<lambda>(i, x). (i, zparse s x)) (enumerate 0 vs)
           in (concat (map (\<lambda>(i, r). under (dec_string i) (fst r)) rs),
               map_option JArr (all_some (map (\<lambda>(i, r). snd r) rs))))
      | _ \<Rightarrow> (type_issue ''array'' v, None))"
| "zparse (ZOptional s) v = (if v = JUndef then ([], Some JUndef) else zparse s v)"
| "zparse (ZDefault s d) v = zparse s (if v = JUndef then d else v)"
| "zparse (ZObject fs) v =
     (case v of
        JObj kvs \<Rightarrow>
          (let rs = map (\<lambda>(k, s). (k, zparse s (obj_get kvs k))) fs
           in (concat (map (\<lambda>(k, r). under k (fst r)) rs),
               map_option (\<lambda>ws. JObj (filter (\<lambda>(k, w). keep_field kvs k w) (zip (map fst fs) ws)))
                 (all_some (map (\<lambda>(k, r). snd r) rs))))
      | _ \<Rightarrow> (type_issue ''object'' v, None))"
| "zparse (ZRefine s p m path) v =
     (case zparse s v of
        (is, None) \<Rightarrow> (is, None)
      | (is, Some w) \<Rightarrow> (if p w then (is, Some w) else (is @ [(path, m)], Some w)))"

text \<open>\<open>schema.safeParse(v)\<close>: the issues, or the parsed value.\<close>

definition safe_parse :: "schema \<Rightarrow> jval \<Rightarrow> issue list + jval" where
  "safe_parse s v = (case zparse s v of ([], Some w) \<Rightarrow> Inr w | (is, _) \<Rightarrow> Inl is)"

text \<open>\<open>z.infer\<close>.  As zod's \<open>addQuestionMarks\<close> does, a key of an object is
  optional when its type admits \<open>undefined\<close>.\<close>

fun accepts_undef :: "tstype \<Rightarrow> bool" where
  "accepts_undef TUndefined = True"
| "accepts_undef TUnknown = True"
| "accepts_undef (TUnion ts) = list_ex accepts_undef ts"
| "accepts_undef _ = False"

fun infer :: "schema \<Rightarrow> tstype" where
  "infer (ZString cs) = TString"
| "infer (ZNumber cs) = TNumber"
| "infer ZBoolean = TBool"
| "infer ZDate = TDate"
| "infer (ZEnum opts) = TUnion (map TLit opts)"
| "infer (ZArray s) = TArray (infer s)"
| "infer (ZOptional s) = TUnion [infer s, TUndefined]"
| "infer (ZDefault s d) = infer s"
| "infer (ZObject fs) = TObject (map (\<lambda>(k, s). (k, accepts_undef (infer s), infer s)) fs)"
| "infer (ZRefine s p m path) = infer s"

text \<open>The shapes of a schema have distinct keys.\<close>

fun wf_schema :: "schema \<Rightarrow> bool" where
  "wf_schema (ZArray s) = wf_schema s"
| "wf_schema (ZOptional s) = wf_schema s"
| "wf_schema (ZDefault s d) = wf_schema s"
| "wf_schema (ZObject fs) = (distinct (map fst fs) \<and> list_all (\<lambda>(k, s). wf_schema s) fs)"
| "wf_schema (ZRefine s p m path) = wf_schema s"
| "wf_schema _ = True"

section \<open>The schemas of validations.ts\<close>

text \<open>The character tests of the password rules: \<open>/[A-Z]/\<close>, \<open>/[a-z]/\<close>,
  \<open>/[0-9]/\<close>; the phone rule \<open>/^[6-9]\d{9}$/\<close> is \<open>is_valid_phone\<close>, the
  same pattern as \<open>isValidPhone\<close> of utils.ts.\<close>

definition has_upper :: "string \<Rightarrow> bool" where
  "has_upper s = list_ex (\<lambda>c. 65 \<le> (of_char c :: nat) \<and> (of_char c :: nat) \<le> 90) s"

definition has_lower :: "string \<Rightarrow> bool" where
  "has_lower s = list_ex (\<lambda>c. 97 \<le> (of_char c :: nat) \<and> (of_char c :: nat) \<le> 122) s"

definition has_digit :: "string \<Rightarrow> bool" where
  "has_digit s = list_ex is_digit s"

definition is_pincode :: "string \<Rightarrow> bool" where
  "is_pincode s = (length s = 6 \<and> list_all is_digit s)"

text \<open>zod's default messages of the checks written without one.\<close>

definition str_min :: "nat \<Rightarrow> strcheck" where
  "str_min n = SMin n (''String must contain at least '' @ dec_string n @ '' character(s)'')"

definition str_max :: "nat \<Rightarrow> strcheck" where
  "str_max n = SMax n (''String must contain at most '' @ dec_string n @ '' character(s)'')"

definition num_min :: "nat \<Rightarrow> numcheck" where
  "num_min n = NMin (of_nat n) (''Number must be greater than or equal to '' @ dec_string n)"

definition num_max :: "nat \<Rightarrow> numcheck" where
  "num_max n = NMax (of_nat n) (''Number must be less than or equal to '' @ dec_string n)"

definition password_rule :: schema where
  "password_rule = ZString
     [SMin 8 ''Password must be at least 8 characters'',
      SRegex has_upper ''Password must contain at least one uppercase letter'',
      SRegex has_lower ''Password must contain at least one lowercase letter'',
      SRegex has_digit ''Password must contain at least one number'']"

definition passwords_match :: "jval \<Rightarrow> bool" where
  "passwords_match v =
     (case v of JObj fs \<Rightarrow> js_strict_eq (obj_get fs ''password'') (obj_get fs ''confirmPassword'') | _ \<Rightarrow> False)"

definition register_shape :: "(string \<times> schema) list" where
  "register_shape =
     [(''name'', ZString [SMin 2 ''Name must be at least 2 characters'']),
      (''email'', ZString [SEmail ''Invalid email address'']),
      (''password'', password_rule),
      (''confirmPassword'', ZString []),
      (''role'', ZEnum [''STUDENT'', ''LANDLORD'']),
      (''phone'', ZOptional (ZString [SRegex is_valid_phone ''Invalid phone number'']))]"

definition register_schema :: schema where
  "register_schema =
     ZRefine (ZObject register_shape) passwords_match ''Passwords don't match'' [''confirmPassword'']"

definition login_schema :: schema where
  "login_schema = ZObject
     [(''email'', ZString [SEmail ''Invalid email address'']),
      (''password'', ZString [SMin 1 ''Password is required''])]"

definition forgot_password_schema :: schema where
  "forgot_password_schema = ZObject [(''email'', ZString [SEmail ''Invalid email address''])]"

definition reset_password_schema :: schema where
  "reset_password_schema = ZRefine (ZObject
     [(''password'', password_rule), (''confirmPassword'', ZString [])])
     passwords_match ''Passwords don't match'' [''confirmPassword'']"

definition student_profile_schema :: schema where
  "student_profile_schema = ZObject
     [(''studentId'', ZOptional (ZString [])),
      (''collegeName'', ZString [SMin 2 ''College name is required'']),
      (''course'', ZOptional (ZString [])),
      (''yearOfStudy'', ZOptional (ZNumber [num_min 1, num_max 6])),
      (''graduationYear'', ZOptional (ZNumber [num_min 2024, num_max 2035])),
      (''gender'', ZEnum [''MALE'', ''FEMALE'', ''OTHER'']),
      (''dateOfBirth'', ZOptional ZDate),
      (''preferredAreas'', ZOptional (ZArray (ZString []))),
      (''budgetMin'', ZOptional (ZNumber [num_min 0])),
      (''budgetMax'', ZOptional (ZNumber [num_min 0])),
      (''moveInDate'', ZOptional ZDate),
      (''emergencyName'', ZOptional (ZString [])),
      (''emergencyPhone'', ZOptional (ZString [])),
      (''emergencyRelation'', ZOptional (ZString []))]"

definition landlord_profile_schema :: schema where
  "landlord_profile_schema = ZObject
     [(''businessName'', ZOptional (ZString [])),
      (''businessType'', ZEnum [''individual'', ''company'', ''agent'']),
      (''gstNumber'', ZOptional (ZString [])),
      (''panNumber'', ZOptional (ZString [])),
      (''autoReply'', ZDefault ZBoolean (JBool False)),
      (''autoReplyMessage'', ZOptional (ZString []))]"

definition charges_enum :: schema where
  "charges_enum = ZEnum [''included'', ''separate'', ''shared'']"

definition property_schema :: schema where
  "property_schema = ZObject
     [(''title'', ZString [SMin 10 ''Title must be at least 10 characters'', SMax 100 ''Title too long'']),
      (''description'', ZString [SMin 50 ''Description must be at least 50 characters'',
                                 SMax 2000 ''Description too long'']),
      (''propertyType'', ZEnum [''PG'', ''HOSTEL'', ''FLAT'', ''APARTMENT'', ''ROOM'', ''SHARED_ROOM'',
                              ''HOUSE'', ''VILLA'']),
      (''address'', ZString [SMin 10 ''Address is required'']),
      (''addressLine2'', ZOptional (ZString [])),
      (''city'', ZString [SMin 2 ''City is required'']),
      (''state'', ZString [SMin 2 ''State is required'']),
      (''pincode'', ZString [SRegex is_pincode ''Invalid pincode'']),
      (''latitude'', ZOptional (ZNumber [])),
      (''longitude'', ZOptional (ZNumber [])),
      (''landmark'', ZOptional (ZString [])),
      (''nearbyColleges'', ZOptional (ZArray (ZString []))),
      (''totalBeds'', ZNumber [NMin 1 ''At least 1 bed required'']),
      (''availableBeds'', ZNumber [num_min 0]),
      (''totalRooms'', ZNumber [num_min 1]),
      (''bathrooms'', ZNumber [num_min 1]),
      (''floorNumber'', ZOptional (ZNumber [])),
      (''totalFloors'', ZOptional (ZNumber [])),
      (''propertyAge'', ZOptional (ZNumber [])),
      (''carpetArea'', ZOptional (ZNumber [])),
      (''rent'', ZNumber [NMin 100 (''Rent must be at least '' @ [CHR 226, CHR 130, CHR 185] @ ''100'')]),
      (''deposit'', ZNumber [num_min 0]),
      (''maintenanceCharges'', ZDefault (ZNumber [num_min 0]) (JNum 0)),
      (''electricityCharges'', ZDefault charges_enum (JStr ''separate'')),
      (''waterCharges'', ZDefault charges_enum (JStr ''included'')),
      (''otherCharges'', ZDefault (ZNumber [num_min 0]) (JNum 0)),
      (''otherChargesDetails'', ZOptional (ZString [])),
      (''genderPreference'', ZDefault (ZEnum [''MALE'', ''FEMALE'', ''OTHER'', ''ANY'']) (JStr ''ANY'')),
      (''occupancyType'', ZDefault (ZString []) (JStr ''any'')),
      (''preferredTenants'', ZOptional (ZArray (ZString []))),
      (''furnishing'', ZDefault (ZEnum [''FULLY_FURNISHED'', ''SEMI_FURNISHED'', ''UNFURNISHED''])
                         (JStr ''SEMI_FURNISHED'')),
      (''nonVegAllowed'', ZDefault ZBoolean (JBool True)),
      (''smokingAllowed'', ZDefault ZBoolean (JBool False)),
      (''drinkingAllowed'', ZDefault ZBoolean (JBool False)),
      (''petsAllowed'', ZDefault ZBoolean (JBool False)),
      (''visitorsAllowed'', ZDefault ZBoolean (JBool True)),
      (''gateClosingTime'', ZOptional (ZString [])),
      (''additionalRules'', ZOptional (ZArray (ZString []))),
      (''availableFrom'', ZDate),
      (''minimumStay'', ZDefault (ZNumber [num_min 1]) (JNum 1)),
      (''noticePeriod'', ZDefault (ZNumber [num_min 1]) (JNum 1)),
      (''amenityIds'', ZOptional (ZArray (ZString [])))]"

definition rating :: schema where
  "rating = ZNumber [num_min 1, num_max 5]"

definition review_schema :: schema where
  "review_schema = ZObject
     [(''propertyId'', ZString []),
      (''overallRating'', rating),
      (''cleanlinessRating'', ZOptional rating),
      (''locationRating'', ZOptional rating),
      (''valueRating'', ZOptional rating),
      (''ownerRating'', ZOptional rating),
      (''safetyRating'', ZOptional rating),
      (''amenitiesRating'', ZOptional rating),
      (''title'', ZOptional (ZString [str_max 100])),
      (''content'', ZString [SMin 20 ''Review must be at least 20 characters'', str_max 1000]),
      (''pros'', ZOptional (ZArray (ZString []))),
      (''cons'', ZOptional (ZArray (ZString []))),
      (''stayDuration'', ZOptional (ZNumber [])),
      (''stayPeriod'', ZOptional (ZString []))]"

definition message_schema :: schema where
  "message_schema = ZObject
     [(''receiverId'', ZString []),
      (''content'', ZString [SMin 1 ''Message cannot be empty'', str_max 1000]),
      (''propertyId'', ZOptional (ZString []))]"

definition visit_request_schema :: schema where
  "visit_request_schema = ZObject
     [(''propertyId'', ZString []),
      (''preferredDate'', ZDate),
      (''preferredTime'', ZString []),
      (''alternateDate'', ZOptional ZDate),
      (''alternateTime'', ZOptional (ZString [])),
      (''visitorMessage'', ZOptional (ZString [str_max 500]))]"

definition search_schema :: schema where
  "search_schema = ZObject
     [(''query'', ZOptional (ZString [])),
      (''city'', ZOptional (ZString [])),
      (''propertyType'', ZOptional (ZArray (ZString []))),
      (''minRent'', ZOptional (ZNumber [])),
      (''maxRent'', ZOptional (ZNumber [])),
      (''gender'', ZOptional (ZEnum [''MALE'', ''FEMALE'', ''ANY''])),
      (''furnishing'', ZOptional (ZArray (ZString []))),
      (''amenities'', ZOptional (ZArray (ZString []))),
      (''occupancyType'', ZOptional (ZString [])),
      (''nearCollege'', ZOptional (ZString [])),
      (''latitude'', ZOptional (ZNumber [])),
      (''longitude'', ZOptional (ZNumber [])),
      (''radius'', ZOptional (ZNumber [])),
      (''sortBy'', ZOptional (ZEnum [''relevance'', ''price_low'', ''price_high'', ''newest'', ''rating''])),
      (''page'', ZDefault (ZNumber [num_min 1]) (JNum 1)),
      (''limit'', ZDefault (ZNumber [num_min 1, num_max 50]) (JNum 20))]"

definition roommate_profile_schema :: schema where
  "roommate_profile_schema = ZObject
     [(''isLookingForRoommate'', ZBoolean),
      (''hasProperty'', ZDefault ZBoolean (JBool False)),
      (''propertyDetails'', ZOptional (ZString [])),
      (''bio'', ZOptional (ZString [str_max 500])),
      (''interests'', ZOptional (ZArray (ZString []))),
      (''languages'', ZOptional (ZArray (ZString []))),
      (''occupation'', ZOptional (ZString [])),
      (''preferredGender'', ZDefault (ZEnum [''MALE'', ''FEMALE'', ''OTHER'', ''ANY'']) (JStr ''ANY'')),
      (''preferredAgeMin'', ZOptional (ZNumber [num_min 18])),
      (''preferredAgeMax'', ZOptional (ZNumber [num_max 50])),
      (''preferredBudget'', ZOptional (ZNumber [])),
      (''preferredArea'', ZOptional (ZString []))]"

definition report_schema :: schema where
  "report_schema = ZObject
     [(''type'', ZEnum [''FAKE_LISTING'', ''MISLEADING_INFO'', ''INAPPROPRIATE_CONTENT'', ''SCAM'',
                      ''HARASSMENT'', ''SPAM'', ''OTHER'']),
      (''propertyId'', ZOptional (ZString [])),
      (''reportedUserId'', ZOptional (ZString [])),
      (''reason'', ZString [SMin 20 ''Please provide more details'', str_max 1000]),
      (''evidence'', ZOptional (ZArray (ZString [])))]"

definition contact_schema :: schema where
  "contact_schema = ZObject
     [(''name'', ZString [str_min 2]),
      (''email'', ZString [SEmail ''Invalid email'']),
      (''subject'', ZString [str_min 5]),
      (''message'', ZString [str_min 20, str_max 1000])]"

text \<open>The exported input types, \<open>z.infer<typeof ...>\<close>.\<close>

definition register_input :: tstype where
  "register_input = infer register_schema"

definition login_input :: tstype where
  "login_input = infer login_schema"

definition student_profile_input :: tstype where
  "student_profile_input = infer student_profile_schema"

definition landlord_profile_input :: tstype where
  "landlord_profile_input = infer landlord_profile_schema"

definition property_input :: tstype where
  "property_input = infer property_schema"

definition review_input :: tstype where
  "review_input = infer review_schema"

definition message_input :: tstype where
  "message_input = infer message_schema"

definition visit_request_input :: tstype where
  "visit_request_input = infer visit_request_schema"

definition search_input :: tstype where
  "search_input = infer search_schema"

definition roommate_profile_input :: tstype where
  "roommate_profile_input = infer roommate_profile_schema"

definition report_input :: tstype where
  "report_input = infer report_schema"

definition contact_input :: tstype where
  "contact_input = infer contact_schema"

section \<open>Lemmas\<close>

lemma has_type_undef: "has_type t JUndef \<longleftrightarrow> accepts_undef t"
  by (induction t) (auto simp: list_ex_iff)

lemma all_some_Some:
  "all_some xs = Some ys \<Longrightarrow> list_all2 (\<lambda>x y. x = Some y) xs ys"
  by (induction xs arbitrary: ys) (auto split: option.splits)

lemma all_some_map_Some [simp]: "all_some (map Some ys) = Some ys"
  by (induction ys) auto

lemma map_enumerate: "map (\<lambda>(i, x). f x) (enumerate n xs) = map f xs"
  by (induction xs arbitrary: n) auto

lemma map_enumerate_pair:
  "map ((\<lambda>(i, y). g y) \<circ> (\<lambda>(i, x). (i, f x))) (enumerate n xs) = map (\<lambda>x. g (f x)) xs"
proof -
  have eq: "(\<lambda>(i, y). g y) \<circ> (\<lambda>(i, x). (i, f x)) = (\<lambda>(i, x). g (f x))" by (auto simp: fun_eq_iff)
  show ?thesis by (simp only: eq map_enumerate)
qed

lemma zparse_undef_out: "zparse s v = (iss, Some JUndef) \<Longrightarrow> v = JUndef"
  by (induction s v arbitrary: iss rule: zparse.induct)
     (auto simp: Let_def split: jval.splits if_splits prod.splits option.splits)

lemma list_all2_right_mem:
  "list_all2 R xs ys \<Longrightarrow> (\<And>x y. x \<in> set xs \<Longrightarrow> R x y \<Longrightarrow> Q y) \<Longrightarrow> list_all Q ys"
  by (induction rule: list_all2_induct) auto

lemma in_set_enumerate: "x \<in> set xs \<Longrightarrow> \<exists>i. (i, x) \<in> set (enumerate n xs)"
proof -
  assume "x \<in> set xs"
  then obtain j where "j < length xs" "xs ! j = x" by (auto simp: in_set_conv_nth)
  then have "(n + j, x) \<in> set (enumerate n xs)" by (simp add: in_set_enumerate_eq)
  then show ?thesis ..
qed

lemma map_of_filter_zip_None:
  "k \<notin> set ks \<Longrightarrow> map_of (filter P (zip ks ws)) k = None"
  by (auto simp: map_of_eq_None_iff dest: set_zip_leftD)

lemma field_ok_Cons_other:
  "fst f \<noteq> k \<Longrightarrow> field_ok ((k, w) # kvs) f = field_ok kvs f"
  by (cases f) auto

lemma field_ok_out:
  assumes "list_all2 Q fs ws" "distinct (map fst fs)"
    "\<And>k s w. (k, s) \<in> set fs \<Longrightarrow> Q (k, s) w \<Longrightarrow>
       (keep k w \<longrightarrow> has_type (infer s) w) \<and> (\<not> keep k w \<longrightarrow> accepts_undef (infer s))"
  shows "list_all (field_ok (filter (\<lambda>(k, w). keep k w) (zip (map fst fs) ws)))
           (map (\<lambda>(k, s). (k, accepts_undef (infer s), infer s)) fs)"
  using assms
proof (induction rule: list_all2_induct)
  case Nil
  then show ?case by simp
next
  case (Cons f fs w ws)
  obtain k s where f: "f = (k, s)" by (cases f)
  let ?out = "filter (\<lambda>(k, w). keep k w) (zip (map fst fs) ws)"
  have tail: "list_all (field_ok ?out) (map (\<lambda>(k, s). (k, accepts_undef (infer s), infer s)) fs)"
    using Cons by auto
  have notin: "k \<notin> set (map fst fs)" using Cons.prems(1) f by simp
  then have notin': "\<And>s'. (k, s') \<notin> set fs" by force
  have "\<forall>x\<in>set (map (\<lambda>(k, s). (k, accepts_undef (infer s), infer s)) fs). fst x \<noteq> k"
    using notin' by auto
  then have tail': "list_all (field_ok ((k, w) # ?out)) (map (\<lambda>(k, s). (k, accepts_undef (infer s), infer s)) fs)"
    using tail by (simp add: list_all_iff field_ok_Cons_other del: field_ok.simps)
  have head: "keep k w \<longrightarrow> has_type (infer s) w" "\<not> keep k w \<longrightarrow> accepts_undef (infer s)"
    using Cons.prems(2) [of k s w] Cons.hyps(1) f by auto
  show ?case
    using tail tail' head notin f by (simp add: map_of_filter_zip_None)
qed

text \<open>
  Whatever the input, a value zod returns (even with issues of a
  failed check) has the TypeScript type \<open>z.infer\<close> gives the schema, for every schema whose
  object shapes have distinct keys.
\<close>

theorem zparse_sound:
  "wf_schema s \<Longrightarrow> zparse s v = (iss, Some w) \<Longrightarrow> has_type (infer s) w"
proof (induction s v arbitrary: iss w rule: zparse.induct)
  case (6 s v)
  then obtain vs where v: "v = JArr vs" by (cases v) auto
  with 6 obtain ws where ws: "all_some (map (\<lambda>x. snd (zparse s x)) vs) = Some ws" and w: "w = JArr ws"
    by (auto simp: Let_def map_enumerate_pair)
  have "list_all2 (\<lambda>x y. snd (zparse s x) = Some y) vs ws"
    using all_some_Some [OF ws] by (simp add: list_all2_map1)
  moreover have "\<And>x y. x \<in> set vs \<Longrightarrow> snd (zparse s x) = Some y \<Longrightarrow> has_type (infer s) y"
    using 6 v by (metis in_set_enumerate prod.collapse wf_schema.simps(1))
  ultimately show ?case using w by (simp add: list_all2_right_mem)
next
  case (9 fs v)
  then obtain kvs where v: "v = JObj kvs" by (cases v) auto
  with 9 obtain ws where ws: "all_some (map (\<lambda>x. snd (zparse (snd x) (obj_get kvs (fst x)))) fs) = Some ws"
    and w: "w = JObj (filter (\<lambda>(k, w). keep_field kvs k w) (zip (map fst fs) ws))"
    by (auto simp: Let_def case_prod_beta comp_def)
  have Q: "list_all2 (\<lambda>x y. snd (zparse (snd x) (obj_get kvs (fst x))) = Some y) fs ws"
    using all_some_Some [OF ws] by (simp add: list_all2_map1)
  have ty: "\<And>k s y. (k, s) \<in> set fs \<Longrightarrow> snd (zparse s (obj_get kvs k)) = Some y \<Longrightarrow> has_type (infer s) y"
    using 9 v by (metis list_all_iff old.prod.case prod.collapse wf_schema.simps(4))
  have "list_all (field_ok (filter (\<lambda>(k, w). keep_field kvs k w) (zip (map fst fs) ws)))
          (map (\<lambda>(k, s). (k, accepts_undef (infer s), infer s)) fs)"
  proof (rule field_ok_out [OF Q])
    show "distinct (map fst fs)" using 9 by simp
  next
    fix k s y
    assume "(k, s) \<in> set fs" "snd (zparse (snd (k, s)) (obj_get kvs (fst (k, s)))) = Some y"
    then show "(keep_field kvs k y \<longrightarrow> has_type (infer s) y) \<and> (\<not> keep_field kvs k y \<longrightarrow> accepts_undef (infer s))"
      using ty [of k s y] by (auto simp: keep_field_def has_type_undef [symmetric])
  qed
  then show ?case using w by simp
qed (auto simp: Let_def list_ex_iff split: jval.splits if_splits prod.splits option.splits)

lemma in_set_enumerate_snd: "(i, x) \<in> set (enumerate n xs) \<Longrightarrow> x \<in> set xs"
  by (auto simp: in_set_enumerate_eq)

lemma under_Nil [simp]: "under k iss = [] \<longleftrightarrow> iss = []"
  by (simp add: under_def)

lemma list_all2_mono_zip:
  "list_all2 P xs ys \<Longrightarrow> (\<And>x y. (x, y) \<in> set (zip xs ys) \<Longrightarrow> P x y \<Longrightarrow> Q x y) \<Longrightarrow> list_all2 Q xs ys"
  by (induction rule: list_all2_induct) auto

lemma map_of_filter_distinct:
  "distinct (map fst xs) \<Longrightarrow> (k, w) \<in> set xs \<Longrightarrow>
   map_of (filter (\<lambda>(k, w). P k w) xs) k = (if P k w then Some w else None)"
proof (induction xs)
  case (Cons x xs)
  then show ?case by (cases x) (auto simp: map_of_eq_None_iff image_iff)
qed simp

lemma key_in_filter_distinct:
  assumes "distinct (map fst xs)" "(k, w) \<in> set xs"
  shows "k \<in> fst ` set (filter (\<lambda>(k, w). P k w) xs) \<longleftrightarrow> P k w"
proof -
  have "k \<in> fst ` set (filter (\<lambda>(k, w). P k w) xs) \<longleftrightarrow> map_of (filter (\<lambda>(k, w). P k w) xs) k \<noteq> None"
    by (simp add: map_of_eq_None_iff)
  then show ?thesis using map_of_filter_distinct [OF assms, of P] by simp
qed

lemma distinct_zip_keys: "distinct ks \<Longrightarrow> distinct (map fst (zip ks ws))"
  by (simp add: map_fst_zip_take)

lemma obj_get_map_of: "obj_get kvs k = (case map_of kvs k of None \<Rightarrow> JUndef | Some v \<Rightarrow> v)"
  by (simp add: obj_get_def)

lemma fields_all_ok:
  "list_all2 (\<lambda>(k, s) w. zparse s (obj_get kvs k) = ([], Some w)) fs ws \<Longrightarrow>
   concat (map (\<lambda>(k, r). under k (fst r)) (map (\<lambda>(k, s). (k, zparse s (obj_get kvs k))) fs)) = [] \<and>
   all_some (map (\<lambda>(k, r). snd r) (map (\<lambda>(k, s). (k, zparse s (obj_get kvs k))) fs)) = Some ws"
  by (induction rule: list_all2_induct) (auto simp: under_def)

lemma concat_under_Nil:
  assumes "concat (map (\<lambda>(i, r). under (dec_string i) (fst r)) (map (\<lambda>(i, x). (i, f x)) (enumerate n xs))) = []"
    "x \<in> set xs"
  shows "fst (f x) = []"
proof -
  obtain i where "(i, x) \<in> set (enumerate n xs)" using in_set_enumerate [OF assms(2)] ..
  then have "(i, f x) \<in> set (map (\<lambda>(i, x). (i, f x)) (enumerate n xs))" by force
  then show ?thesis using assms(1) by (force simp del: map_map)
qed

lemma enumerate_cong:
  "(\<And>x. x \<in> set xs \<Longrightarrow> f x = g x) \<Longrightarrow>
   map (\<lambda>(i, x). (i, f x)) (enumerate n xs) = map (\<lambda>(i, x). (i, g x)) (enumerate n xs)"
  by (rule map_cong) (auto dest: in_set_enumerate_snd)

text \<open>
  Parsing is idempotent: a value a schema accepts without issue is
  accepted again, unchanged, so the defaults and the stripping of unknown keys are applied
  once.
\<close>

theorem zparse_idem:
  "wf_schema s \<Longrightarrow> zparse s v = ([], Some w) \<Longrightarrow> zparse s w = ([], Some w)"
proof (induction s v arbitrary: w rule: zparse.induct)
  case (6 s v)
  then obtain vs where v: "v = JArr vs" by (cases v) auto
  with 6 obtain ws where ws: "all_some (map (\<lambda>x. snd (zparse s x)) vs) = Some ws" and w: "w = JArr ws"
    by (auto simp: Let_def map_enumerate_pair)
  have "fst (zparse (ZArray s) (JArr vs)) = []" using 6 v by simp
  then have "concat (map (\<lambda>(i, r). under (dec_string i) (fst r)) (map (\<lambda>(i, x). (i, zparse s x)) (enumerate 0 vs))) = []"
    by (simp only: zparse.simps jval.case Let_def fst_conv)
  then have iss: "\<forall>x\<in>set vs. fst (zparse s x) = []" using concat_under_Nil [of "zparse s" 0 vs] by blast
  have "list_all2 (\<lambda>x y. snd (zparse s x) = Some y) vs ws"
    using all_some_Some [OF ws] by (simp add: list_all2_map1)
  moreover have "\<And>x y. x \<in> set vs \<Longrightarrow> snd (zparse s x) = Some y \<Longrightarrow> zparse s y = ([], Some y)"
  proof -
    fix x y assume x: "x \<in> set vs" and y: "snd (zparse s x) = Some y"
    then have "zparse s x = ([], Some y)" using iss by (metis prod.collapse)
    then show "zparse s y = ([], Some y)" using 6 v x by (metis in_set_enumerate wf_schema.simps(1))
  qed
  ultimately have all: "list_all (\<lambda>y. zparse s y = ([], Some y)) ws" by (rule list_all2_right_mem)
  then have "map (\<lambda>(i, x). (i, zparse s x)) (enumerate 0 ws) = map (\<lambda>(i, x). (i, ([], Some x))) (enumerate 0 ws)"
    by (intro enumerate_cong) (simp add: list_all_iff)
  moreover have m: "map (\<lambda>x. snd (zparse s x)) ws = map Some ws" using all by (simp add: list_all_iff)
  ultimately show ?case using w by (simp add: Let_def under_def map_enumerate_pair m split: prod.splits)
next
  case (9 fs v)
  then obtain kvs where v: "v = JObj kvs" by (cases v) auto
  let ?out = "filter (\<lambda>(k, w). keep_field kvs k w) (zip (map fst fs) ws)"
  from 9 v obtain ws where ws: "all_some (map (\<lambda>x. snd (zparse (snd x) (obj_get kvs (fst x)))) fs) = Some ws"
    and w: "w = JObj (filter (\<lambda>(k, w). keep_field kvs k w) (zip (map fst fs) ws))"
    and iss: "\<forall>x\<in>set fs. fst (zparse (snd x) (obj_get kvs (fst x))) = []"
    by (auto simp: Let_def case_prod_beta comp_def)
  define out where "out = filter (\<lambda>(k, w). keep_field kvs k w) (zip (map fst fs) ws)"
  have dist: "distinct (map fst (zip (map fst fs) ws))" using 9 by (simp add: distinct_zip_keys)
  have A: "list_all2 (\<lambda>x y. snd (zparse (snd x) (obj_get kvs (fst x))) = Some y) fs ws"
    using all_some_Some [OF ws] by (simp add: list_all2_map1)
  have B: "list_all2 (\<lambda>(k, s) w. zparse s (obj_get out k) = ([], Some w)) fs ws"
  proof (rule list_all2_mono_zip [OF A])
    fix x y assume xy: "(x, y) \<in> set (zip fs ws)" and p: "snd (zparse (snd x) (obj_get kvs (fst x))) = Some y"
    obtain k s where x: "x = (k, s)" by (cases x)
    have mem: "(k, s) \<in> set fs" using xy x by (auto dest: set_zip_leftD)
    have orig: "zparse s (obj_get kvs k) = ([], Some y)" using p iss mem x by (metis prod.collapse snd_conv fst_conv)
    have kw: "(k, y) \<in> set (zip (map fst fs) ws)" using xy x by (force simp: zip_map1)
    have get: "obj_get out k = (if keep_field kvs k y then y else JUndef)"
      using map_of_filter_distinct [OF dist kw, of "keep_field kvs"] by (simp add: out_def obj_get_map_of)
    show "(\<lambda>(k, s) w. zparse s (obj_get out k) = ([], Some w)) x y"
    proof (cases "keep_field kvs k y")
      case True
      have wf: "wf_schema s" using 9(2) mem by (auto simp: list_all_iff)
      have "zparse s y = ([], Some y)" using 9(1) v mem wf orig by blast
      then show ?thesis using get x True by simp
    next
      case False
      then have y: "y = JUndef" by (simp add: keep_field_def)
      then have "obj_get kvs k = JUndef" using zparse_undef_out orig by blast
      note y this
      then show ?thesis using orig get x False by simp
    qed
  qed
  have "\<And>k w. (k, w) \<in> set (zip (map fst fs) ws) \<Longrightarrow> keep_field out k w = keep_field kvs k w"
  proof -
    fix k w assume kw: "(k, w) \<in> set (zip (map fst fs) ws)"
    have "k \<in> fst ` set out \<longleftrightarrow> keep_field kvs k w"
      unfolding out_def by (rule key_in_filter_distinct [OF dist kw])
    then show "keep_field out k w = keep_field kvs k w" by (cases "w = JUndef") (simp_all add: keep_field_def)
  qed
  then have keep: "filter (\<lambda>(k, w). keep_field out k w) (zip (map fst fs) ws) = out"
    unfolding out_def by (intro filter_cong) auto
  show ?case using fields_all_ok [OF B] keep w v by (simp add: out_def Let_def)
qed (auto simp: Let_def split: jval.splits if_splits prod.splits option.splits dest: zparse_undef_out)

lemma obj_get_out:
  assumes "distinct (map fst fs)" "((k, s), y) \<in> set (zip fs ws)"
  shows "obj_get (filter (\<lambda>(k, w). keep_field kvs k w) (zip (map fst fs) ws)) k =
           (if keep_field kvs k y then y else JUndef)"
proof -
  have kw: "(k, y) \<in> set (zip (map fst fs) ws)" using assms(2) by (force simp: zip_map1)
  show ?thesis
    using map_of_filter_distinct [OF distinct_zip_keys [OF assms(1)] kw, of "keep_field kvs"]
    by (simp add: obj_get_map_of)
qed

lemma zparse_object_field:
  assumes "distinct (map fst fs)" "zparse (ZObject fs) (JObj kvs) = ([], Some w)" "(k, s) \<in> set fs"
  shows "\<exists>out. w = JObj out \<and> zparse s (obj_get kvs k) = ([], Some (obj_get out k))"
proof -
  from assms(2) obtain ws where ws: "all_some (map (\<lambda>x. snd (zparse (snd x) (obj_get kvs (fst x)))) fs) = Some ws"
    and w: "w = JObj (filter (\<lambda>(k, w). keep_field kvs k w) (zip (map fst fs) ws))"
    and iss: "\<forall>x\<in>set fs. fst (zparse (snd x) (obj_get kvs (fst x))) = []"
    by (auto simp: Let_def case_prod_beta comp_def)
  have A: "list_all2 (\<lambda>x y. snd (zparse (snd x) (obj_get kvs (fst x))) = Some y) fs ws"
    using all_some_Some [OF ws] by (simp add: list_all2_map1)
  obtain j where j: "j < length fs" "fs ! j = (k, s)" using assms(3) by (auto simp: in_set_conv_nth)
  have len: "length ws = length fs" using A by (simp add: list_all2_lengthD)
  have mem: "((k, s), ws ! j) \<in> set (zip fs ws)" unfolding in_set_zip using j len by auto
  have "snd (zparse s (obj_get kvs k)) = Some (ws ! j)" using list_all2_nthD [OF A j(1)] j(2) by simp
  moreover have "fst (zparse s (obj_get kvs k)) = []" using iss assms(3) by force
  ultimately have orig: "zparse s (obj_get kvs k) = ([], Some (ws ! j))" by (simp add: prod_eq_iff)
  have "obj_get (filter (\<lambda>(k, w). keep_field kvs k w) (zip (map fst fs) ws)) k = ws ! j"
  proof (cases "keep_field kvs k (ws ! j)")
    case False
    then have "ws ! j = JUndef" by (simp add: keep_field_def)
    then show ?thesis using obj_get_out [OF assms(1) mem, of kvs] by simp
  qed (use obj_get_out [OF assms(1) mem, of kvs] in simp)
  then show ?thesis using w orig by simp
qed


lemma zparse_field_value:
  "distinct (map fst fs) \<Longrightarrow> zparse (ZObject fs) (JObj kvs) = ([], Some (JObj out)) \<Longrightarrow> (k, s) \<in> set fs \<Longrightarrow>
   zparse s (obj_get kvs k) = ([], Some (obj_get out k))"
  using zparse_object_field by fastforce

lemma zparse_string_ok:
  "zparse (ZString cs) v = (iss, Some w) \<Longrightarrow> \<exists>s. v = JStr s \<and> w = JStr s \<and> iss = concat (map (str_check s) cs)"
  by (cases v) auto

lemma zparse_enum_ok:
  "zparse (ZEnum opts) v = (iss, Some w) \<Longrightarrow> \<exists>s. v = JStr s \<and> w = JStr s \<and> s \<in> set opts"
  by (cases v) (auto split: if_splits)

lemma zparse_refine_ok:
  "zparse (ZRefine s p m path) v = ([], Some w) \<Longrightarrow> zparse s v = ([], Some w) \<and> p w"
  by (auto split: prod.splits option.splits if_splits)

lemma zparse_object_ok:
  "zparse (ZObject fs) v = ([], Some w) \<Longrightarrow> \<exists>kvs out. v = JObj kvs \<and> w = JObj out"
  by (cases v) (auto simp: Let_def type_issue_def)

subsection \<open>Instances\<close>

lemma search_schema_defaults:
  "zparse search_schema (JObj []) = ([], Some (JObj [(''page'', JNum 1), (''limit'', JNum 20)]))"
  by code_simp

lemma search_schema_wf: "wf_schema search_schema"
  by code_simp

theorem zparse_sound_witness:
  "wf_schema search_schema \<and>
   zparse search_schema (JObj []) = ([], Some (JObj [(''page'', JNum 1), (''limit'', JNum 20)])) \<and>
   has_type (infer search_schema) (JObj [(''page'', JNum 1), (''limit'', JNum 20)])"
  using zparse_sound [OF search_schema_wf search_schema_defaults] search_schema_wf search_schema_defaults
  by simp

theorem zparse_idem_witness:
  "wf_schema search_schema \<and>
   zparse search_schema (JObj []) = ([], Some (JObj [(''page'', JNum 1), (''limit'', JNum 20)])) \<and>
   zparse search_schema (JObj [(''page'', JNum 1), (''limit'', JNum 20)]) =
     ([], Some (JObj [(''page'', JNum 1), (''limit'', JNum 20)]))"
  using zparse_idem [OF search_schema_wf search_schema_defaults] search_schema_wf search_schema_defaults
  by simp

end
