(* ===== verification/Conformance.thy ===== *)
theory Conformance
  imports Types Auth Inquiries
begin

text \<open>
  The documents and responses of the handlers against the interfaces of src/src/types
  they are declared with: what a registration returns has the declared
  \<open>AuthResponse\<close> type exactly when the body's name (and a given phone) are strings,
  which the route does not check, and the documents it stores do not have the declared
  \<open>User\<close> type (an \<open>ObjectId\<close> in \<open>_id\<close>, \<open>null\<close> in \<open>image\<close>).
\<close>

lemma jstr_case: "(case v of JStr x \<Rightarrow> True | _ \<Rightarrow> False) = is_jstr v"
  by (cases v) auto

lemma has_type_date_now [simp]: "has_type TDate (js_now t)"
  by (simp add: js_now_def)

lemma js_lower_string: "js_lower v = Some e \<Longrightarrow> \<exists>s. e = JStr s"
  by (cases v) auto

text \<open>
  The body of a successful registration has the
  declared type \<open>AuthResponse\<close> (with a \<open>SafeUser\<close>) exactly when the request's name is
  a string and its phone, when given, is a string: the route checks neither.
\<close>

theorem register_response_typed:
  assumes "register_POST c body t d = (r, d')" "http_status r = 200"
  shows "has_type auth_response_type (http_body r) \<longleftrightarrow>
           (\<exists>b. body_fields body = Some b \<and> is_jstr (obj_get b ''name'') \<and>
                (js_truthy (obj_get b ''phone'') \<longrightarrow> is_jstr (obj_get b ''phone'')))"
proof -
  obtain b e pw where b: "body_fields body = Some b" and ck: "register_check b d = Inr (e, pw)"
    and w: "register_write c b e pw t d = (r, d')"
    using assms by (rule register_success)
  note facts = register_check_Inr [OF ck]
  obtain s where e: "e = JStr s" using facts js_lower_string by blast
  have role: "has_type user_role_type (obj_get b ''role'')"
    using facts by (auto simp: valid_role_def user_role_type_def)
  have r: "http_body r = JObj [(''success'', JBool True), (''message'', JStr ''Registration successful''),
      (''user'', JObj (safe_user (new_user (user_id_at t) e (bcrypt_hash c pw) b t))),
      (''token'', JStr (jwt_sign c (JObj [(''userId'', JStr (user_id_at t)), (''email'', e),
                                          (''role'', obj_get b ''role'')])))]"
    using w by (auto simp: register_write_def Let_def token_resp_def)
  have "has_type (TUnion [TString, TUndefined]) (js_or (js_or (obj_get b ''phone'') JNull) JUndef) \<longleftrightarrow>
        (js_truthy (obj_get b ''phone'') \<longrightarrow> is_jstr (obj_get b ''phone''))"
    by (cases "obj_get b ''phone''") (auto simp: js_or_def jstr_case)
  then show ?thesis
    using b e role
    by (simp add: r auth_response_type_def safe_user_type_def safe_user_def new_user_def jstr_case js_now_def)
qed

text \<open>
  The user document a successful registration stores
  never has the declared \<open>User\<close> type of types/auth.ts: its \<open>_id\<close> is an
  \<open>ObjectId\<close>, not a string, and its \<open>image\<close> is \<open>null\<close>.
\<close>

theorem register_user_untyped:
  assumes "register_POST c body t d = (r, d')" "http_status r = 200"
  shows "\<not> has_type auth_user_type (JObj (last (colls d' Users)))"
proof -
  obtain b e pw where ck: "register_check b d = Inr (e, pw)" and w: "register_write c b e pw t d = (r, d')"
    using assms by (rule register_success)
  have "last (colls d' Users) =
          (''_id'', JOid (oid_hex (next_oid d))) # map bson_field (new_user (user_id_at t) e (bcrypt_hash c pw) b t)"
    using w by (auto simp: register_write_def Let_def)
  then show ?thesis by (simp add: auth_user_type_def)
qed

text \<open>The inquiry a \<open>POST\<close> builds is not a \<open>PropertyInquiry\<close>: it has no \<open>id\<close>
  and its status is upper case.\<close>

theorem new_inquiry_untyped: "\<not> has_type property_inquiry_type (JObj (new_inquiry b p s t))"
  by (simp add: new_inquiry_def property_inquiry_type_def)

subsection \<open>Instances\<close>

theorem register_response_typed_witness:
  "register_POST toy_crypto sample_student_body 5 empty_db =
     (fst (register_POST toy_crypto sample_student_body 5 empty_db),
      snd (register_POST toy_crypto sample_student_body 5 empty_db)) \<and>
   http_status (fst (register_POST toy_crypto sample_student_body 5 empty_db)) = 200 \<and>
   has_type auth_response_type (http_body (fst (register_POST toy_crypto sample_student_body 5 empty_db)))"
proof -
  have s: "http_status (fst (register_POST toy_crypto sample_student_body 5 empty_db)) = 200" by code_simp
  have "has_type auth_response_type (http_body (fst (register_POST toy_crypto sample_student_body 5 empty_db)))"
    using register_response_typed [OF prod.collapse [symmetric] s] by simp
  with s show ?thesis by simp
qed

theorem register_user_untyped_witness:
  "http_status (fst (register_POST toy_crypto sample_student_body 5 empty_db)) = 200 \<and>
   \<not> has_type auth_user_type (JObj (last (colls (snd (register_POST toy_crypto sample_student_body 5 empty_db)) Users)))"
proof -
  have s: "http_status (fst (register_POST toy_crypto sample_student_body 5 empty_db)) = 200" by code_simp
  with register_user_untyped [OF prod.collapse [symmetric] s] show ?thesis by simp
qed

end
