(* ===== verification/Client.thy ===== *)
theory Client
  imports Wishlist Properties Inquiries Auth
begin

text \<open>
  The browser side of the application: a request from a page reaches the route file
  of its path (the file-system routing of the Next.js \<open>app/api\<close> directory), the
  browser keeps the \<open>auth-token\<close> cookie a response sets, and
  src/src/contexts/auth-context.tsx holds the signed-in user for every page.
  \<open>route\<close> is the routing; \<open>browser\<close> the cookie jar and the context's state;
  \<open>ctx_login\<close>, \<open>ctx_register\<close>, \<open>ctx_logout\<close>, \<open>ctx_refresh\<close> are the
  context's \<open>login\<close>, \<open>register\<close>, \<open>logout\<close> and \<open>refreshUser\<close>.  A request is
  a step of the server's database; other clients change the database between two
  steps of a page (\<open>session\<close>).  \<open>run_effect\<close> is React's re-running of an
  effect while it changes its own dependencies; the lemmas on \<open>fetch\<close> and
  \<open>route\<close> are shared by the page theories.
\<close>

section \<open>Routing and \<open>fetch\<close>\<close>

datatype meth = MGet | MPost | MPut | MDelete

record http_req =
  rq_method :: meth
  rq_path :: string
  rq_query :: params
  rq_body :: jval
  rq_token :: "string option"

text \<open>What a page receives: the JSON response of a handler, or a response without a
  JSON body (the 404 page of a path with no route file, the empty 405 of a method the
  route file does not export), on which \<open>res.json()\<close> throws.\<close>

datatype reply = JsonReply resp | NotJson nat

definition json_reply :: "resp \<times> db \<Rightarrow> reply \<times> db" where
  "json_reply rd = (JsonReply (fst rd), snd rd)"

definition route :: "'a crypto_scheme \<Rightarrow> http_req \<Rightarrow> nat \<Rightarrow> db \<Rightarrow> reply \<times> db" where
  "route c rq t d =
     (let p = rq_path rq; q = rq_query rq; b = rq_body rq in
      if p = ''/api/wishlist'' then
        (case rq_method rq of
           MGet \<Rightarrow> json_reply (wishlist_GET d) | MPost \<Rightarrow> json_reply (wishlist_POST b t d)
         | MDelete \<Rightarrow> json_reply (wishlist_DELETE q t d) | MPut \<Rightarrow> json_reply (wishlist_PUT b t d))
      else if p = ''/api/properties'' then
        (case rq_method rq of
           MGet \<Rightarrow> json_reply (property_GET q d) | MPost \<Rightarrow> json_reply (property_POST b t d)
         | MPut \<Rightarrow> json_reply (property_PUT b t d) | MDelete \<Rightarrow> json_reply (property_DELETE q d))
      else if p = ''/api/inquiries'' then
        (case rq_method rq of
           MGet \<Rightarrow> json_reply (inquiry_GET q d) | MPost \<Rightarrow> json_reply (inquiry_POST b t d)
         | MPut \<Rightarrow> json_reply (inquiry_PUT b t d) | MDelete \<Rightarrow> json_reply (inquiry_DELETE q t d))
      else if p = ''/api/auth/register'' then
        (case rq_method rq of MPost \<Rightarrow> json_reply (register_POST c b t d) | _ \<Rightarrow> (NotJson 405, d))
      else if p = ''/api/auth/login'' then
        (case rq_method rq of MPost \<Rightarrow> json_reply (login_POST c b d) | _ \<Rightarrow> (NotJson 405, d))
      else if p = ''/api/auth/me'' then
        (case rq_method rq of
           MGet \<Rightarrow> json_reply (me_GET c (rq_token rq) d) | MDelete \<Rightarrow> json_reply (logout_DELETE, d)
         | _ \<Rightarrow> (NotJson 405, d))
      else (NotJson 404, d))"

text \<open>\<open>await res.json()\<close>: the body, or \<open>None\<close> where it throws.\<close>

fun res_json :: "reply \<Rightarrow> jval option" where
  "res_json (JsonReply r) = Some (http_body r)"
| "res_json (NotJson _) = None"

text \<open>\<open>data.k\<close> of a parsed body; every handler answers with an object.\<close>

definition jget :: "jval \<Rightarrow> string \<Rightarrow> jval" where
  "jget v k = (case v of JObj fs \<Rightarrow> obj_get fs k | _ \<Rightarrow> JUndef)"

text \<open>The cookie jar: a \<open>Set-Cookie\<close> with \<open>maxAge\<close> 0 deletes the cookie.\<close>

definition store_cookie :: "cookie option \<Rightarrow> string option \<Rightarrow> string option" where
  "store_cookie ck jar =
     (case ck of
        None \<Rightarrow> jar
      | Some k \<Rightarrow> if cookie_max_age k \<le> 0 then None else Some (cookie_value k))"

fun reply_cookie :: "reply \<Rightarrow> cookie option" where
  "reply_cookie (JsonReply r) = set_cookie r"
| "reply_cookie (NotJson _) = None"

section \<open>The auth context\<close>

text \<open>The state of \<open>AuthProvider\<close> and the browser's cookie: \<open>user\<close> is a
  \<open>SafeUser\<close> or \<open>null\<close>; \<open>isLoading\<close> starts \<open>false\<close> and is never set.\<close>

record browser =
  jar :: "string option"
  ctx_user :: jval

definition browser_init :: browser where
  "browser_init = \<lparr>jar = None, ctx_user = JNull\<rparr>"

definition is_authenticated :: "browser \<Rightarrow> bool" where
  "is_authenticated b = js_truthy (ctx_user b)"

text \<open>\<open>fetch\<close> from the page: the browser sends its cookie and stores the one the
  response sets.\<close>

definition fetch :: "'a crypto_scheme \<Rightarrow> http_req \<Rightarrow> nat \<Rightarrow> browser \<Rightarrow> db \<Rightarrow> reply \<times> browser \<times> db" where
  "fetch c rq t b d =
     (let (rep, d') = route c (rq\<lparr>rq_token := jar b\<rparr>) t d
      in (rep, b\<lparr>jar := store_cookie (reply_cookie rep) (jar b)\<rparr>, d'))"

definition api_req :: "meth \<Rightarrow> string \<Rightarrow> params \<Rightarrow> jval \<Rightarrow> http_req" where
  "api_req m p q body = \<lparr>rq_method = m, rq_path = p, rq_query = q, rq_body = body, rq_token = None\<rparr>"

text \<open>The outcome of \<open>login\<close> and \<open>register\<close>: \<open>{success, message}\<close>.\<close>

definition auth_outcome :: "string \<Rightarrow> reply \<Rightarrow> browser \<Rightarrow> (bool \<times> jval) \<times> browser" where
  "auth_outcome failed rep b =
     (case res_json rep of
        None \<Rightarrow> ((False, JStr failed), b)
      | Some data \<Rightarrow>
          if js_truthy (jget data ''success'') \<and> js_truthy (jget data ''user'')
          then ((True, jget data ''message''), b\<lparr>ctx_user := jget data ''user''\<rparr>)
          else ((False, js_or (jget data ''message'') (JStr failed)), b))"

definition ctx_login ::
  "'a crypto_scheme \<Rightarrow> string \<Rightarrow> string \<Rightarrow> nat \<Rightarrow> browser \<Rightarrow> db \<Rightarrow> (bool \<times> jval) \<times> browser \<times> db" where
  "ctx_login c email password t b d =
     (let (rep, b1, d1) = fetch c (api_req MPost ''/api/auth/login'' []
                                    (JObj [(''email'', JStr email), (''password'', JStr password)])) t b d;
          (out, b2) = auth_outcome ''Login failed'' rep b1
      in (out, b2, d1))"

definition ctx_register ::
  "'a crypto_scheme \<Rightarrow> string \<Rightarrow> string \<Rightarrow> string \<Rightarrow> string \<Rightarrow> string \<Rightarrow> nat \<Rightarrow> browser \<Rightarrow> db \<Rightarrow>
   (bool \<times> jval) \<times> browser \<times> db" where
  "ctx_register c name email password phone role t b d =
     (let (rep, b1, d1) = fetch c (api_req MPost ''/api/auth/register'' []
                                    (JObj [(''name'', JStr name), (''email'', JStr email),
                                           (''password'', JStr password), (''phone'', JStr phone),
                                           (''role'', JStr role)])) t b d;
          (out, b2) = auth_outcome ''Registration failed'' rep b1
      in (out, b2, d1))"

text \<open>\<open>logout\<close>: \<open>ok\<close> says whether \<open>fetch\<close> resolves; a rejected request (the
  network fails) is caught and logged, and neither the cookie nor the user changes.\<close>

definition ctx_logout :: "'a crypto_scheme \<Rightarrow> bool \<Rightarrow> nat \<Rightarrow> browser \<Rightarrow> db \<Rightarrow> browser \<times> db" where
  "ctx_logout c ok t b d =
     (if \<not> ok then (b, d)
      else
        (let (rep, b1, d1) = fetch c (api_req MDelete ''/api/auth/me'' [] JUndef) t b d
         in (b1\<lparr>ctx_user := JNull\<rparr>, d1)))"

text \<open>\<open>refreshUser\<close>: the request is aborted when no answer came within three
  seconds, and a request the network fails rejects the same way (\<open>in_time\<close> false
  for both); every failure leaves the user signed out.\<close>

definition ctx_refresh :: "'a crypto_scheme \<Rightarrow> bool \<Rightarrow> nat \<Rightarrow> browser \<Rightarrow> db \<Rightarrow> browser \<times> db" where
  "ctx_refresh c in_time t b d =
     (if \<not> in_time then (b\<lparr>ctx_user := JNull\<rparr>, d)
      else
        (let (rep, b1, d1) = fetch c (api_req MGet ''/api/auth/me'' [] JUndef) t b d
         in (case res_json rep of
               Some data \<Rightarrow>
                 if js_truthy (jget data ''success'') \<and> js_truthy (jget data ''user'')
                 then (b1\<lparr>ctx_user := jget data ''user''\<rparr>, d1) else (b1\<lparr>ctx_user := JNull\<rparr>, d1)
             | None \<Rightarrow> (b1\<lparr>ctx_user := JNull\<rparr>, d1))))"

text \<open>A session of one browser: the context's operations, in any order, while other
  clients change the database.\<close>

inductive session :: "'a crypto_scheme \<Rightarrow> browser \<times> db \<Rightarrow> browser \<times> db \<Rightarrow> bool" for c where
  login: "session c (b, d) (snd (ctx_login c e p t b d))"
| register: "session c (b, d) (snd (ctx_register c n e p ph r t b d))"
| logout: "session c (b, d) (ctx_logout c ok t b d)"
| refresh: "session c (b, d) (ctx_refresh c it t b d)"
| others: "session c (b, d) (b, d')"

text \<open>The signed-in user is shown only while the browser holds a session cookie.\<close>

definition shown_with_cookie :: "browser \<Rightarrow> bool" where
  "shown_with_cookie b = (is_authenticated b \<longrightarrow> jar b \<noteq> None)"

text \<open>A React effect: it runs after a render, and again after each render in which
  one of its dependencies changed.  \<open>None\<close> is an effect that never settles.\<close>

partial_function (option) run_effect :: "('s \<Rightarrow> 's) \<Rightarrow> ('s \<Rightarrow> 'k) \<Rightarrow> 's \<Rightarrow> 's option" where
  "run_effect eff dep s = (let s' = eff s in if dep s' = dep s then Some s' else run_effect eff dep s')"

section \<open>Responses, routes and cookies\<close>

lemma fail_resp_not_success: "\<not> js_truthy (jget (http_body (fail_resp n m)) ''success'')"
  by (simp add: fail_resp_def json_resp_def jget_def)

lemma login_reply_cookie:
  "login_POST c body d = (r, d') \<Longrightarrow>
   set_cookie r = None \<and> \<not> js_truthy (jget (http_body r) ''success'') \<or>
   (\<exists>tok. set_cookie r = Some (auth_cookie tok week_seconds))"
  by (auto simp: login_POST_def Let_def fail_resp_def json_resp_def jget_def token_resp_def
           split: option.splits if_splits jval.splits prod.splits)

lemma register_check_fail: "register_check b d = Inl r \<Longrightarrow> \<exists>n m. r = fail_resp n m"
  by (auto simp: register_check_def Let_def split: option.splits if_splits jval.splits bool.splits)

lemma register_reply_cookie:
  "register_POST c body t d = (r, d') \<Longrightarrow>
   set_cookie r = None \<and> \<not> js_truthy (jget (http_body r) ''success'') \<or>
   (\<exists>tok. set_cookie r = Some (auth_cookie tok week_seconds))"
  by (auto simp: register_POST_def register_write_def Let_def fail_resp_not_success token_resp_def
           dest!: register_check_fail split: option.splits sum.splits prod.splits)
      (simp_all add: fail_resp_def json_resp_def jget_def)

lemma store_auth_cookie: "store_cookie (Some (auth_cookie tok week_seconds)) j = Some tok"
  by (simp add: store_cookie_def auth_cookie_def week_seconds_def)

lemma store_cookie_None: "store_cookie None j = j"
  by (simp add: store_cookie_def)

lemma route_login:
  "route c ((api_req MPost ''/api/auth/login'' [] body)\<lparr>rq_token := x\<rparr>) t d = json_reply (login_POST c body d)"
  by (simp add: route_def api_req_def)

lemma route_register:
  "route c ((api_req MPost ''/api/auth/register'' [] body)\<lparr>rq_token := x\<rparr>) t d = json_reply (register_POST c body t d)"
  by (simp add: route_def api_req_def)

lemma route_me_get:
  "route c ((api_req MGet ''/api/auth/me'' [] body)\<lparr>rq_token := x\<rparr>) t d = json_reply (me_GET c x d)"
  by (simp add: route_def api_req_def)

lemma route_me_delete:
  "route c ((api_req MDelete ''/api/auth/me'' [] body)\<lparr>rq_token := x\<rparr>) t d = json_reply (logout_DELETE, d)"
  by (simp add: route_def api_req_def)

lemma fetch_json:
  "route c (rq\<lparr>rq_token := jar b\<rparr>) t d = json_reply (r, d') \<Longrightarrow>
   fetch c rq t b d = (JsonReply r, b\<lparr>jar := store_cookie (set_cookie r) (jar b)\<rparr>, d')"
  by (simp add: fetch_def json_reply_def)

lemma auth_step_keeps:
  assumes "set_cookie r = None \<and> \<not> js_truthy (jget (http_body r) ''success'') \<or>
           (\<exists>tok. set_cookie r = Some (auth_cookie tok week_seconds))"
    and "shown_with_cookie b"
  shows "shown_with_cookie (snd (auth_outcome f (JsonReply r) (b\<lparr>jar := store_cookie (set_cookie r) (jar b)\<rparr>)))"
  using assms
  by (auto simp: auth_outcome_def shown_with_cookie_def is_authenticated_def store_auth_cookie store_cookie_None)

lemma fetch_not_json:
  "route c (rq\<lparr>rq_token := jar b\<rparr>) t d = (NotJson n, d') \<Longrightarrow> fetch c rq t b d = (NotJson n, b, d')"
  by (simp add: fetch_def store_cookie_None)

lemma fetch_ctx_user: "ctx_user (fst (snd (fetch c rq t b d))) = ctx_user b"
  by (simp add: fetch_def case_prod_beta)

lemma run_effect_stable: "dep (eff s) = dep s \<Longrightarrow> run_effect eff dep s = Some (eff s)"
  by (subst run_effect.simps) (simp add: Let_def)

section \<open>The session invariant\<close>

lemma login_session:
  "shown_with_cookie b \<Longrightarrow> shown_with_cookie (fst (snd (ctx_login c e p t b d)))"
proof -
  assume inv: "shown_with_cookie b"
  obtain r d' where lp: "login_POST c (JObj [(''email'', JStr e), (''password'', JStr p)]) d = (r, d')"
    by fastforce
  then have "fetch c (api_req MPost ''/api/auth/login'' [] (JObj [(''email'', JStr e), (''password'', JStr p)])) t b d =
               (JsonReply r, b\<lparr>jar := store_cookie (set_cookie r) (jar b)\<rparr>, d')"
    by (intro fetch_json) (simp add: route_login)
  then show ?thesis
    using auth_step_keeps [OF login_reply_cookie [OF lp] inv, of "''Login failed''"]
    by (simp add: ctx_login_def case_prod_beta)
qed

lemma register_session:
  "shown_with_cookie b \<Longrightarrow> shown_with_cookie (fst (snd (ctx_register c n e p ph ro t b d)))"
proof -
  assume inv: "shown_with_cookie b"
  let ?body = "JObj [(''name'', JStr n), (''email'', JStr e), (''password'', JStr p), (''phone'', JStr ph),
                     (''role'', JStr ro)]"
  obtain r d' where rp: "register_POST c ?body t d = (r, d')" by fastforce
  then have "fetch c (api_req MPost ''/api/auth/register'' [] ?body) t b d =
               (JsonReply r, b\<lparr>jar := store_cookie (set_cookie r) (jar b)\<rparr>, d')"
    by (intro fetch_json) (simp add: route_register)
  then show ?thesis
    using auth_step_keeps [OF register_reply_cookie [OF rp] inv, of "''Registration failed''"]
    by (simp add: ctx_register_def case_prod_beta)
qed

lemma logout_session: "shown_with_cookie b \<Longrightarrow> shown_with_cookie (fst (ctx_logout c ok t b d))"
  by (simp add: ctx_logout_def case_prod_beta shown_with_cookie_def is_authenticated_def)

lemma me_reply_cookie:
  "me_GET c x d = (r, d') \<Longrightarrow>
   set_cookie r = None \<and> (js_truthy (jget (http_body r) ''success'') \<longrightarrow> x \<noteq> None)"
  by (auto simp: me_GET_def me_fail_def json_resp_def jget_def split: option.splits if_splits)

lemma refresh_session:
  "shown_with_cookie b \<Longrightarrow> shown_with_cookie (fst (ctx_refresh c it t b d))"
proof (cases it)
  case True
  assume inv: "shown_with_cookie b"
  obtain r d' where mp: "me_GET c (jar b) d = (r, d')" by fastforce
  then have "fetch c (api_req MGet ''/api/auth/me'' [] JUndef) t b d =
               (JsonReply r, b\<lparr>jar := store_cookie (set_cookie r) (jar b)\<rparr>, d')"
    by (intro fetch_json) (simp add: route_me_get)
  then show ?thesis
    using True inv me_reply_cookie [OF mp]
    by (simp add: ctx_refresh_def store_cookie_None shown_with_cookie_def is_authenticated_def)
qed (simp add: ctx_refresh_def shown_with_cookie_def is_authenticated_def)

lemma session_step_inv:
  "session c s s' \<Longrightarrow> shown_with_cookie (fst s) \<Longrightarrow> shown_with_cookie (fst s')"
  by (induction rule: session.induct)
     (simp_all add: login_session register_session logout_session refresh_session)

text \<open>Claim C13: in every session of the auth context, whatever the database does between
  its steps, a page shows a signed-in user only while the browser holds a session cookie.\<close>

theorem session_inv:
  "(session c)\<^sup>*\<^sup>* s0 s \<Longrightarrow> shown_with_cookie (fst s0) \<Longrightarrow> shown_with_cookie (fst s)"
  by (induction rule: rtranclp_induct) (auto dest: session_step_inv)

lemma session_inv_witness:
  "shown_with_cookie (fst (snd (ctx_login toy_crypto ''ravi@example.in'' ''secret2'' 7 browser_init empty_db)))"
proof -
  have "(session toy_crypto)\<^sup>*\<^sup>* (browser_init, empty_db)
          (snd (ctx_login toy_crypto ''ravi@example.in'' ''secret2'' 7 browser_init empty_db))"
    by (rule r_into_rtranclp) (rule session.login)
  moreover have "shown_with_cookie (fst (browser_init, empty_db))"
    by (simp add: shown_with_cookie_def is_authenticated_def browser_init_def)
  ultimately show ?thesis by (rule session_inv)
qed

lemma logout_clears_jar: "jar (fst (ctx_logout c True t b d)) = None"
  by (simp add: ctx_logout_def fetch_json route_me_delete case_prod_beta logout_DELETE_def
                store_cookie_def auth_cookie_def)

text \<open>Claim C33: after a \<open>logout\<close> whose request went through, reloading the page
  (\<open>refreshUser\<close>) leaves the user signed out, whatever other clients did to the
  database in between.  (A logout whose request fails changes nothing: the cookie
  stays, and the next \<open>refreshUser\<close> signs the user back in.)\<close>

theorem logout_then_refresh:
  "\<not> is_authenticated (fst (ctx_refresh c it t' (fst (ctx_logout c True t b d)) d'))"
proof -
  let ?b = "fst (ctx_logout c True t b d)"
  obtain r d2 where mp: "me_GET c (jar ?b) d' = (r, d2)" by fastforce
  have "jar ?b = None" by (rule logout_clears_jar)
  with mp have "\<not> js_truthy (jget (http_body r) ''success'')" using me_reply_cookie by blast
  moreover from mp have "fetch c (api_req MGet ''/api/auth/me'' [] JUndef) t' ?b d' =
               (JsonReply r, ?b\<lparr>jar := store_cookie (set_cookie r) (jar ?b)\<rparr>, d2)"
    by (intro fetch_json) (simp add: route_me_get)
  ultimately show ?thesis
    by (simp add: ctx_refresh_def is_authenticated_def)
qed

lemma logout_failed: "ctx_logout c False t b d = (b, d)"
  by (simp add: ctx_logout_def)

end
