(* ===== verification/Pages_Landlord.thy ===== *)
theory Pages_Landlord
  imports Client Utils
begin

text \<open>
  The landlord's pages under src/src/app/dashboard/landlord: the form of
  add-property/page.tsx and the request its \<open>handleSubmit\<close> sends to
  \<open>POST /api/properties\<close>; the listings page properties/page.tsx (fetch, delete,
  status toggle, filters); the dashboard page.tsx and its data effect; the inquiries
  page inquiries/page.tsx (fetch, status update, visit scheduling, filters).  A
  page's state (its \<open>useState\<close> hooks) is a record; a handler takes it with the
  browser of \<open>Client\<close> and the server's database and returns all three.  The form
  data is the JavaScript object the page keeps, a \<open>jobj\<close> whose inputs hold
  strings.  \<open>JSON.stringify\<close> followed by the route's \<open>request.json()\<close> gives
  back the object for the values the page sends (strings, numbers, booleans, arrays,
  objects and \<open>null\<close>), so a request body is that object.  Rendering, dialogs and
  \<open>router.push\<close> are not modelled.
\<close>

section \<open>Numbers typed into the form\<close>

text \<open>\<open>parseFloat\<close>: leading white space, a sign, decimal digits with an optional
  fraction and exponent; \<open>NaN\<close> without a digit.  \<open>None\<close> is \<open>Infinity\<close>, which
  the number model has no value for and which \<open>JSON.stringify\<close> writes as \<open>null\<close>.\<close>

definition exp_value :: "string \<Rightarrow> int" where
  "exp_value s =
     (case s of
        c # r \<Rightarrow>
          if c = CHR ''e'' \<or> c = CHR ''E'' then
            (let (sg, r') = (case r of
                               x # y \<Rightarrow> if x = CHR ''-'' then (-1, y) else if x = CHR ''+'' then (1, y) else (1, r)
                             | [] \<Rightarrow> (1, []));
                 ds = digit_prefix 10 r'
             in if ds = [] then 0 else sg * int (digits_value 10 ds))
          else 0
      | [] \<Rightarrow> 0)"

definition scale10 :: "rat \<Rightarrow> int \<Rightarrow> rat" where
  "scale10 q e = (if 0 \<le> e then q * 10 ^ nat e else q / 10 ^ nat (- e))"

definition js_parse_float :: "string \<Rightarrow> jval option" where
  "js_parse_float s =
     (let s1 = dropWhile js_space s;
          (neg, s2) = (case s1 of
                         c # r \<Rightarrow> if c = CHR ''-'' then (True, r)
                                  else if c = CHR ''+'' then (False, r) else (False, s1)
                       | [] \<Rightarrow> (False, []));
          ip = digit_prefix 10 s2;
          s3 = drop (length ip) s2;
          fp = (case s3 of c # r \<Rightarrow> if c = CHR ''.'' then digit_prefix 10 r else [] | [] \<Rightarrow> []);
          s4 = (case s3 of c # r \<Rightarrow> if c = CHR ''.'' then drop (length fp) r else s3 | [] \<Rightarrow> []);
          m = of_nat (digits_value 10 (ip @ fp)) / 10 ^ length fp
      in if take 8 s2 = ''Infinity'' then None
         else if ip = [] \<and> fp = [] then Some JNaN
         else Some (JNum ((if neg then -1 else 1) * scale10 m (exp_value s4))))"

text \<open>\<open>parseInt(v) || d\<close> and \<open>parseFloat(v) || d\<close> of a form field.\<close>

definition int_or :: "jval \<Rightarrow> jval \<Rightarrow> jval" where
  "int_or v dflt = js_or (js_parse_int (js_to_string v)) dflt"

definition float_or :: "jval \<Rightarrow> jval \<Rightarrow> jval" where
  "float_or v dflt =
     (case js_parse_float (js_to_string v) of None \<Rightarrow> JNull | Some x \<Rightarrow> js_or x dflt)"

text \<open>\<open>.trim()\<close> and \<open>s.split(",").map(c => c.trim()).filter(Boolean)\<close>.\<close>

definition js_trim :: "string \<Rightarrow> string" where
  "js_trim s = rev (dropWhile js_space (rev (dropWhile js_space s)))"

definition comma_list :: "jval \<Rightarrow> jval" where
  "comma_list v = JArr (map JStr (filter (\<lambda>w. w \<noteq> []) (map js_trim (split_on CHR '','' (js_to_string v)))))"

section \<open>add-property/page.tsx: the form\<close>

definition form_init :: jobj where
  "form_init =
     [(''title'', JStr []), (''description'', JStr []), (''propertyType'', JStr []),
      (''roomType'', JStr ''sharing''), (''bhk'', JStr []),
      (''address'', JStr []), (''city'', JStr []), (''state'', JStr ''West Bengal''),
      (''pincode'', JStr []), (''landmark'', JStr []), (''latitude'', JStr []), (''longitude'', JStr []),
      (''nearbyColleges'', JStr []),
      (''totalRooms'', JStr []), (''totalBeds'', JStr []), (''availableBeds'', JStr []),
      (''bedsPerRoom'', JStr []), (''roomSize'', JStr []), (''bathrooms'', JStr []),
      (''floorNumber'', JStr []), (''totalFloors'', JStr []),
      (''rent'', JStr []), (''deposit'', JStr []), (''maintenanceCharges'', JStr []),
      (''electricityCharges'', JStr ''separate''), (''waterCharges'', JStr ''included''),
      (''foodIncluded'', JBool False), (''foodCharges'', JStr []), (''mealsPerDay'', JStr []),
      (''genderPreference'', JStr []), (''occupancyType'', JStr ''double''), (''furnishing'', JStr []),
      (''nonVegAllowed'', JBool True), (''smokingAllowed'', JBool False), (''drinkingAllowed'', JBool False),
      (''petsAllowed'', JBool False), (''visitorsAllowed'', JBool True), (''oppositeSexAllowed'', JBool False),
      (''gateClosingTime'', JStr []),
      (''amenities'', JArr []), (''furnishingDetails'', JStr []), (''availableFrom'', JStr []),
      (''minimumStay'', JStr ''6''), (''noticePeriod'', JStr ''1''), (''images'', JArr [])]"

definition update_form_data :: "string \<Rightarrow> jval \<Rightarrow> jobj \<Rightarrow> jobj" where
  "update_form_data field value f = obj_set f field value"

definition toggle_amenity :: "string \<Rightarrow> jobj \<Rightarrow> jobj" where
  "toggle_amenity a f =
     (let xs = (case obj_get f ''amenities'' of JArr xs \<Rightarrow> xs | _ \<Rightarrow> [])
      in obj_set f ''amenities'' (JArr (if JStr a \<in> set xs then filter (\<lambda>x. x \<noteq> JStr a) xs else xs @ [JStr a])))"

text \<open>\<open>addImageUrl\<close>: the answer of \<open>prompt\<close> (\<open>None\<close> when cancelled).\<close>

definition add_image_url :: "string option \<Rightarrow> jobj \<Rightarrow> jobj" where
  "add_image_url url f =
     (case url of
        None \<Rightarrow> f
      | Some u \<Rightarrow>
          if u = [] then f
          else obj_set f ''images'' (JArr ((case obj_get f ''images'' of JArr xs \<Rightarrow> xs | _ \<Rightarrow> []) @ [JStr u])))"

definition remove_image :: "nat \<Rightarrow> jobj \<Rightarrow> jobj" where
  "remove_image i f =
     obj_set f ''images''
       (JArr (map snd (filter (\<lambda>(j, x). j \<noteq> i)
                        (enumerate 0 (case obj_get f ''images'' of JArr xs \<Rightarrow> xs | _ \<Rightarrow> [])))))"

section \<open>add-property/page.tsx: \<open>handleSubmit\<close>\<close>

text \<open>\<open>.replace(/(^-|-$)/g, "")\<close>: one dash at each end.\<close>

definition strip_end_dashes :: "string \<Rightarrow> string" where
  "strip_end_dashes s =
     (let s1 = (case s of c # r \<Rightarrow> if c = CHR ''-'' then r else s | [] \<Rightarrow> [])
      in if s1 \<noteq> [] \<and> last s1 = CHR ''-'' then butlast s1 else s1)"

definition page_slug :: "string \<Rightarrow> nat \<Rightarrow> string" where
  "page_slug title t = strip_end_dashes (dash_runs False (to_lower title)) @ ''-'' @ dec_string t"

definition default_image :: jval where
  "default_image =
     JObj [(''url'', JStr ''https://images.unsplash.com/photo-1555854877-bab0e564b8d5?w=800''),
           (''isPrimary'', JBool True), (''caption'', JStr ''Property'')]"

definition form_images :: "jval \<Rightarrow> jval" where
  "form_images v =
     (case v of
        JArr (x # xs) \<Rightarrow>
          JArr (map (\<lambda>(i, u). JObj [(''url'', u), (''isPrimary'', JBool (i = 0)), (''caption'', JStr [])])
                    (enumerate 0 (x # xs)))
      | _ \<Rightarrow> JArr [default_image])"

text \<open>\<open>propertyData\<close>: the spread of the form, then the fields the literal sets, in
  its order; a key of the form keeps its place.\<close>

definition property_overrides :: "jobj \<Rightarrow> jval \<Rightarrow> nat \<Rightarrow> jobj" where
  "property_overrides f uid t =
     (let g = obj_get f; food = js_truthy (g ''foodIncluded'') in
      [(''slug'', JStr (page_slug (js_to_string (g ''title'')) t)),
       (''landlordId'', uid),
       (''bhk'', if js_truthy (g ''bhk'') then js_parse_int (js_to_string (g ''bhk'')) else JNull),
       (''totalRooms'', int_or (g ''totalRooms'') (JNum 1)),
       (''totalBeds'', int_or (g ''totalBeds'') (JNum 1)),
       (''availableBeds'', int_or (g ''availableBeds'') (JNum 1)),
       (''bedsPerRoom'', int_or (g ''bedsPerRoom'') (JNum 1)),
       (''bathrooms'', int_or (g ''bathrooms'') (JNum 1)),
       (''floorNumber'', int_or (g ''floorNumber'') (JNum 1)),
       (''totalFloors'', int_or (g ''totalFloors'') (JNum 1)),
       (''rent'', int_or (g ''rent'') (JNum 0)),
       (''deposit'', int_or (g ''deposit'') (JNum 0)),
       (''maintenanceCharges'', int_or (g ''maintenanceCharges'') (JNum 0)),
       (''foodCharges'', if food then int_or (g ''foodCharges'') (JNum 0) else JNull),
       (''mealsPerDay'', if food then int_or (g ''mealsPerDay'') (JNum 0) else JNum 0),
       (''latitude'', float_or (g ''latitude'') (JNum (45 / 2))),
       (''longitude'', float_or (g ''longitude'') (JNum (442 / 5))),
       (''minimumStay'', int_or (g ''minimumStay'') (JNum 6)),
       (''noticePeriod'', int_or (g ''noticePeriod'') (JNum 1)),
       (''nearbyColleges'', comma_list (g ''nearbyColleges'')),
       (''furnishingDetails'', comma_list (g ''furnishingDetails'')),
       (''images'', form_images (g ''images'')),
       (''rules'', JObj [(''nonVegAllowed'', g ''nonVegAllowed''), (''smokingAllowed'', g ''smokingAllowed''),
                        (''drinkingAllowed'', g ''drinkingAllowed''), (''petsAllowed'', g ''petsAllowed''),
                        (''visitorsAllowed'', g ''visitorsAllowed''),
                        (''oppositeSexAllowed'', g ''oppositeSexAllowed''),
                        (''gateClosingTime'', js_or (g ''gateClosingTime'') JNull)]),
       (''status'', JStr ''ACTIVE''), (''isVerified'', JBool False), (''isFeatured'', JBool False),
       (''viewCount'', JNum 0)])"

definition property_data :: "jobj \<Rightarrow> jval \<Rightarrow> nat \<Rightarrow> jobj" where
  "property_data f uid t = foldl (\<lambda>acc (k, v). obj_set acc k v) f (property_overrides f uid t)"

record add_page =
  ap_form :: jobj
  ap_error :: jval
  ap_success :: bool
  ap_submitting :: bool

definition add_page_init :: add_page where
  "add_page_init = \<lparr>ap_form = form_init, ap_error = JStr [], ap_success = False, ap_submitting = False\<rparr>"

text \<open>\<open>handleSubmit\<close>: the two guards on the signed-in user, the request, and the
  outcome; a reply that is not JSON makes \<open>res.json()\<close> throw into the
  \<open>catch\<close>.  \<open>finally\<close> clears \<open>isSubmitting\<close>.\<close>

definition add_property_submit ::
  "'a crypto_scheme \<Rightarrow> nat \<Rightarrow> add_page \<Rightarrow> browser \<Rightarrow> db \<Rightarrow> add_page \<times> browser \<times> db" where
  "add_property_submit c t pg b d =
     (let user = ctx_user b; uid = jget user ''id''; pg0 = pg\<lparr>ap_error := JStr []\<rparr> in
      if \<not> js_truthy uid then (pg0\<lparr>ap_error := JStr ''You must be logged in to add a property''\<rparr>, b, d)
      else if \<not> js_strict_eq (jget user ''role'') (JStr ''landlord'') then
        (pg0\<lparr>ap_error := JStr ''Only landlords can add properties. Please register as a landlord.''\<rparr>, b, d)
      else
        (let (rep, b1, d1) =
               fetch c (api_req MPost ''/api/properties'' [] (JObj (property_data (ap_form pg) uid t))) t b d
         in case res_json rep of
              None \<Rightarrow> (pg0\<lparr>ap_error := JStr ''Failed to add property. Please try again.'', ap_submitting := False\<rparr>,
                        b1, d1)
            | Some data \<Rightarrow>
                if js_truthy (jget data ''success'') then (pg0\<lparr>ap_success := True, ap_submitting := False\<rparr>, b1, d1)
                else (pg0\<lparr>ap_error := js_or (jget data ''message'') (JStr ''Failed to add property''),
                          ap_submitting := False\<rparr>, b1, d1)))"

section \<open>Shared by the pages\<close>

text \<open>The items of an array the route sent (every route answers arrays where a page
  reads a list); \<open>v.k\<close> on a list element; \<open>{...v, k: x}\<close> on an object.\<close>

definition arr_items :: "jval \<Rightarrow> jval list" where
  "arr_items v = (case v of JArr xs \<Rightarrow> xs | _ \<Rightarrow> [])"

definition jset :: "jval \<Rightarrow> string \<Rightarrow> jval \<Rightarrow> jval" where
  "jset v k x = (case v of JObj fs \<Rightarrow> JObj (obj_set fs k x) | _ \<Rightarrow> JObj [(k, x)])"

text \<open>\<open>v.toLowerCase().includes(q.toLowerCase())\<close>: \<open>None\<close> is the \<open>TypeError\<close>
  of a value that is not a string, which breaks the render.\<close>

definition lower_includes :: "jval \<Rightarrow> string \<Rightarrow> bool option" where
  "lower_includes v q = (case v of JStr s \<Rightarrow> Some (has_infix (to_lower q) (to_lower s)) | _ \<Rightarrow> None)"

text \<open>\<open>a || b\<close> of two tests that may throw, \<open>b\<close> evaluated only when \<open>a\<close> is false.\<close>

definition or_else :: "bool option \<Rightarrow> bool option \<Rightarrow> bool option" where
  "or_else a b = (case a of Some True \<Rightarrow> Some True | Some False \<Rightarrow> b | None \<Rightarrow> None)"

text \<open>\<open>xs.filter(p)\<close> with a test that may throw.\<close>

fun filter_opt :: "('a \<Rightarrow> bool option) \<Rightarrow> 'a list \<Rightarrow> 'a list option" where
  "filter_opt p [] = Some []"
| "filter_opt p (x # xs) =
     (case p x of
        None \<Rightarrow> None
      | Some b \<Rightarrow> map_option (\<lambda>ys. if b then x # ys else ys) (filter_opt p xs))"

text \<open>\<open>statusFilter === "all" || v.status === statusFilter\<close>.\<close>

definition status_matches :: "string \<Rightarrow> jval \<Rightarrow> bool" where
  "status_matches sf v = (sf = ''all'' \<or> js_strict_eq (jget v ''status'') (JStr sf))"

section \<open>properties/page.tsx: the landlord's listings\<close>

record lprops_page =
  lp_properties :: "jval list"
  lp_loading :: bool
  lp_search :: string
  lp_status_filter :: string
  lp_dialog_open :: bool
  lp_to_delete :: "jval option"
  lp_deleting :: bool

definition lprops_init :: lprops_page where
  "lprops_init = \<lparr>lp_properties = [], lp_loading = True, lp_search = [], lp_status_filter = ''all'',
                  lp_dialog_open = False, lp_to_delete = None, lp_deleting = False\<rparr>"

text \<open>\<open>fetchProperties\<close>: \<open>GET /api/properties?landlordId=${user?.id}\<close>.\<close>

definition fetch_properties ::
  "'a crypto_scheme \<Rightarrow> nat \<Rightarrow> lprops_page \<Rightarrow> browser \<Rightarrow> db \<Rightarrow> lprops_page \<times> browser \<times> db" where
  "fetch_properties c t pg b d =
     (let (rep, b1, d1) = fetch c (api_req MGet ''/api/properties''
                                     [(''landlordId'', js_to_string (jget (ctx_user b) ''id''))] JUndef) t b d
      in case res_json rep of
           None \<Rightarrow> (pg\<lparr>lp_loading := False\<rparr>, b1, d1)
         | Some data \<Rightarrow>
             if js_truthy (jget data ''success'')
             then (pg\<lparr>lp_properties := arr_items (jget data ''properties''), lp_loading := False\<rparr>, b1, d1)
             else (pg\<lparr>lp_loading := False\<rparr>, b1, d1))"

text \<open>\<open>handleDeleteProperty\<close>: \<open>DELETE /api/properties?id=..&landlordId=..\<close>; on
  success the listing leaves the page's list; \<open>finally\<close> closes the dialog.\<close>

definition handle_delete_property ::
  "'a crypto_scheme \<Rightarrow> nat \<Rightarrow> lprops_page \<Rightarrow> browser \<Rightarrow> db \<Rightarrow> lprops_page \<times> browser \<times> db" where
  "handle_delete_property c t pg b d =
     (case lp_to_delete pg of
        None \<Rightarrow> (pg, b, d)
      | Some p \<Rightarrow>
          (let (rep, b1, d1) = fetch c (api_req MDelete ''/api/properties''
                                          [(''id'', js_to_string (jget p ''id'')),
                                           (''landlordId'', js_to_string (jget (ctx_user b) ''id''))] JUndef) t b d;
               pg1 = (case res_json rep of
                        Some data \<Rightarrow>
                          if js_truthy (jget data ''success'')
                          then pg\<lparr>lp_properties :=
                                    filter (\<lambda>q. \<not> js_strict_eq (jget q ''id'') (jget p ''id'')) (lp_properties pg)\<rparr>
                          else pg
                      | None \<Rightarrow> pg)
           in (pg1\<lparr>lp_deleting := False, lp_dialog_open := False, lp_to_delete := None\<rparr>, b1, d1)))"

text \<open>\<open>togglePropertyStatus\<close>: \<open>PUT /api/properties\<close> with the other status.\<close>

definition new_status :: "jval \<Rightarrow> string" where
  "new_status p = (if js_strict_eq (jget p ''status'') (JStr ''ACTIVE'') then ''INACTIVE'' else ''ACTIVE'')"

definition toggle_property_status ::
  "'a crypto_scheme \<Rightarrow> nat \<Rightarrow> jval \<Rightarrow> lprops_page \<Rightarrow> browser \<Rightarrow> db \<Rightarrow> lprops_page \<times> browser \<times> db" where
  "toggle_property_status c t p pg b d =
     (let st = new_status p;
          (rep, b1, d1) = fetch c (api_req MPut ''/api/properties'' []
                                     (JObj [(''id'', jget p ''id''), (''landlordId'', jget (ctx_user b) ''id''),
                                            (''status'', JStr st)])) t b d
      in case res_json rep of
           Some data \<Rightarrow>
             if js_truthy (jget data ''success'')
             then (pg\<lparr>lp_properties :=
                       map (\<lambda>q. if js_strict_eq (jget q ''id'') (jget p ''id'') then jset q ''status'' (JStr st) else q)
                           (lp_properties pg)\<rparr>, b1, d1)
             else (pg, b1, d1)
         | None \<Rightarrow> (pg, b1, d1))"

definition filtered_properties :: "lprops_page \<Rightarrow> jval list option" where
  "filtered_properties pg =
     filter_opt (\<lambda>p. map_option (\<lambda>m. m \<and> status_matches (lp_status_filter pg) p)
                       (or_else (lower_includes (jget p ''title'') (lp_search pg))
                                (lower_includes (jget p ''city'') (lp_search pg))))
       (lp_properties pg)"

definition active_count :: "jval list \<Rightarrow> nat" where
  "active_count ps = length (filter (\<lambda>p. js_strict_eq (jget p ''status'') (JStr ''ACTIVE'')) ps)"

section \<open>page.tsx: the landlord's dashboard\<close>

record ldash_page =
  ld_stats :: jobj
  ld_recent :: jval
  ld_properties :: jval
  ld_loading :: bool

definition ldash_zero_stats :: jobj where
  "ldash_zero_stats =
     [(''totalProperties'', JNum 0), (''activeListings'', JNum 0), (''totalViews'', JNum 0),
      (''totalInquiries'', JNum 0), (''pendingInquiries'', JNum 0), (''averageRating'', JNum 0),
      (''monthlyRevenue'', JNum 0)]"

definition ldash_init :: ldash_page where
  "ldash_init = \<lparr>ld_stats = ldash_zero_stats, ld_recent = JArr [], ld_properties = JArr [], ld_loading = True\<rparr>"

text \<open>\<open>sum + (p.k || 0)\<close> over the listings, for numeric fields (the values the
  listing documents hold there); any other value gives \<open>NaN\<close> here.\<close>

definition num_sum :: "string \<Rightarrow> jval list \<Rightarrow> jval" where
  "num_sum k ps =
     foldl (\<lambda>acc p. case (acc, js_or (jget p k) (JNum 0)) of (JNum a, JNum x) \<Rightarrow> JNum (a + x) | _ \<Rightarrow> JNaN)
           (JNum 0) ps"

definition dash_stats :: "jval \<Rightarrow> jobj" where
  "dash_stats data =
     (let ps = arr_items (js_or (jget data ''properties'') (JArr [])) in
      [(''totalProperties'', JNum (of_nat (length ps))),
       (''activeListings'', JNum (of_nat (active_count ps))),
       (''totalViews'', num_sum ''viewCount'' ps),
       (''totalInquiries'', js_or (jget data ''totalInquiries'') (JNum 0)),
       (''pendingInquiries'', js_or (jget data ''pendingInquiries'') (JNum 0)),
       (''averageRating'', js_or (jget data ''averageRating'') (JNum 0)),
       (''monthlyRevenue'', num_sum ''rent'' ps)])"

text \<open>\<open>fetchDashboardData\<close>: the listings from \<open>/api/properties/landlord\<close>, then
  the recent inquiries from \<open>/api/inquiries/landlord\<close>; a reply that is not JSON
  throws out of the \<open>try\<close>, and \<open>finally\<close> ends the loading.\<close>

definition fetch_dashboard_data ::
  "'a crypto_scheme \<Rightarrow> nat \<Rightarrow> ldash_page \<Rightarrow> browser \<Rightarrow> db \<Rightarrow> ldash_page \<times> browser \<times> db" where
  "fetch_dashboard_data c t pg b d =
     (let user = ctx_user b; uid = js_to_string (jget user ''id'') in
      if \<not> js_truthy user then (pg, b, d)
      else
        (let (rep, b1, d1) = fetch c (api_req MGet ''/api/properties/landlord'' [(''userId'', uid)] JUndef) t b d
         in case res_json rep of
              None \<Rightarrow> (pg\<lparr>ld_loading := False\<rparr>, b1, d1)
            | Some pdata \<Rightarrow>
                (let pg1 = (if js_truthy (jget pdata ''success'')
                            then pg\<lparr>ld_properties := js_or (jget pdata ''properties'') (JArr []),
                                    ld_stats := dash_stats pdata\<rparr>
                            else pg);
                     (rep2, b2, d2) = fetch c (api_req MGet ''/api/inquiries/landlord''
                                                 [(''userId'', uid), (''limit'', ''5'')] JUndef) t b1 d1
                 in case res_json rep2 of
                      None \<Rightarrow> (pg1\<lparr>ld_loading := False\<rparr>, b2, d2)
                    | Some idata \<Rightarrow>
                        (if js_truthy (jget idata ''success'')
                         then pg1\<lparr>ld_recent := js_or (jget idata ''inquiries'') (JArr []), ld_loading := False\<rparr>
                         else pg1\<lparr>ld_loading := False\<rparr>, b2, d2))))"

section \<open>inquiries/page.tsx: the landlord's inquiries\<close>

record linq_page =
  li_inquiries :: "jval list"
  li_loading :: bool
  li_search :: string
  li_status_filter :: string
  li_selected :: "jval option"
  li_dialog_open :: bool
  li_date :: string
  li_time :: string
  li_notes :: string
  li_updating :: bool

definition fetch_inquiries ::
  "'a crypto_scheme \<Rightarrow> nat \<Rightarrow> linq_page \<Rightarrow> browser \<Rightarrow> db \<Rightarrow> linq_page \<times> browser \<times> db" where
  "fetch_inquiries c t pg b d =
     (let (rep, b1, d1) = fetch c (api_req MGet ''/api/inquiries''
                                     [(''landlordId'', js_to_string (jget (ctx_user b) ''id''))] JUndef) t b d
      in case res_json rep of
           Some data \<Rightarrow>
             if js_truthy (jget data ''success'')
             then (pg\<lparr>li_inquiries := arr_items (jget data ''inquiries''), li_loading := False\<rparr>, b1, d1)
             else (pg\<lparr>li_loading := False\<rparr>, b1, d1)
         | None \<Rightarrow> (pg\<lparr>li_loading := False\<rparr>, b1, d1))"

definition update_inquiry_status ::
  "'a crypto_scheme \<Rightarrow> nat \<Rightarrow> jval \<Rightarrow> string \<Rightarrow> linq_page \<Rightarrow> browser \<Rightarrow> db \<Rightarrow> linq_page \<times> browser \<times> db" where
  "update_inquiry_status c t iid st pg b d =
     (let (rep, b1, d1) = fetch c (api_req MPut ''/api/inquiries'' []
                                     (JObj [(''id'', iid), (''userId'', jget (ctx_user b) ''id''),
                                            (''status'', JStr st)])) t b d;
          pg1 = (case res_json rep of
                   Some data \<Rightarrow>
                     if js_truthy (jget data ''success'')
                     then pg\<lparr>li_inquiries :=
                               map (\<lambda>i. if js_strict_eq (jget i ''id'') iid then jset i ''status'' (JStr st) else i)
                                   (li_inquiries pg)\<rparr>
                     else pg
                 | None \<Rightarrow> pg)
      in (pg1\<lparr>li_updating := False\<rparr>, b1, d1))"

text \<open>\<open>scheduleVisit\<close>: \<open>new Date(`${date}T${time}`).toISOString()\<close> is the
  parameter \<open>to_iso\<close> (\<open>None\<close>: an invalid date, on which \<open>toISOString\<close> throws).\<close>

definition schedule_visit ::
  "'a crypto_scheme \<Rightarrow> nat \<Rightarrow> (string \<Rightarrow> string option) \<Rightarrow> linq_page \<Rightarrow> browser \<Rightarrow> db \<Rightarrow>
   linq_page \<times> browser \<times> db" where
  "schedule_visit c t to_iso pg b d =
     (case li_selected pg of
        None \<Rightarrow> (pg, b, d)
      | Some sel \<Rightarrow>
          if li_date pg = [] \<or> li_time pg = [] then (pg, b, d)
          else
            (case to_iso (li_date pg @ ''T'' @ li_time pg) of
               None \<Rightarrow> (pg\<lparr>li_updating := False\<rparr>, b, d)
             | Some v \<Rightarrow>
                 (let (rep, b1, d1) = fetch c (api_req MPut ''/api/inquiries'' []
                                                (JObj [(''id'', jget sel ''id''), (''userId'', jget (ctx_user b) ''id''),
                                                       (''scheduledVisit'', JStr v),
                                                       (''landlordNotes'', JStr (li_notes pg))])) t b d;
                      pg1 = (case res_json rep of
                               Some data \<Rightarrow>
                                 if js_truthy (jget data ''success'')
                                 then pg\<lparr>li_inquiries :=
                                           map (\<lambda>i. if js_strict_eq (jget i ''id'') (jget sel ''id'')
                                                    then jset (jset (jset i ''status'' (JStr ''SCHEDULED''))
                                                                 ''scheduledVisit'' (JStr v)) ''landlordNotes'' (JStr (li_notes pg))
                                                    else i) (li_inquiries pg),
                                         li_dialog_open := False, li_selected := None,
                                         li_date := [], li_time := [], li_notes := []\<rparr>
                                 else pg
                             | None \<Rightarrow> pg)
                  in (pg1\<lparr>li_updating := False\<rparr>, b1, d1))))"

text \<open>\<open>inquiry.property?.title.toLowerCase()\<close>: the optional chain gives
  \<open>undefined\<close> (no match) when the inquiry has no listing.\<close>

definition inquiry_search :: "string \<Rightarrow> jval \<Rightarrow> bool option" where
  "inquiry_search q i =
     or_else (lower_includes (jget i ''studentName'') q)
       (or_else (let p = jget i ''property'' in
                 if p = JNull \<or> p = JUndef then Some False else lower_includes (jget p ''title'') q)
                (lower_includes (jget i ''studentEmail'') q))"

definition filtered_inquiries :: "linq_page \<Rightarrow> jval list option" where
  "filtered_inquiries pg =
     filter_opt (\<lambda>i. map_option (\<lambda>m. m \<and> status_matches (li_status_filter pg) i)
                       (inquiry_search (li_search pg) i))
       (li_inquiries pg)"

definition pending_count :: "jval list \<Rightarrow> nat" where
  "pending_count is = length (filter (\<lambda>i. js_strict_eq (jget i ''status'') (JStr ''PENDING'')) is)"

section \<open>The option tables and status badges\<close>

text \<open>The choices of add-property/page.tsx's selects and checkboxes, as
  (value, label) pairs; the icons are not modelled.\<close>

definition ap_property_types :: "(string \<times> string) list" where
  "ap_property_types =
     [(''PG'', ''Paying Guest (PG)''), (''HOSTEL'', ''Hostel''), (''FLAT'', ''Flat/Apartment''), (''ROOM'', ''Single Room'')]"

definition ap_furnishing_options :: "(string \<times> string) list" where
  "ap_furnishing_options =
     [(''FULLY_FURNISHED'', ''Fully Furnished''), (''SEMI_FURNISHED'', ''Semi Furnished''),
      (''UNFURNISHED'', ''Unfurnished'')]"

definition ap_gender_options :: "(string \<times> string) list" where
  "ap_gender_options = [(''MALE'', ''Boys Only''), (''FEMALE'', ''Girls Only''), (''ANY'', ''Any Gender'')]"

definition ap_occupancy_options :: "(string \<times> string) list" where
  "ap_occupancy_options =
     [(''single'', ''Single''), (''double'', ''Double Sharing''), (''triple'', ''Triple Sharing''),
      (''quadruple'', ''Four Sharing''), (''any'', ''Any'')]"

definition ap_amenities :: "(string \<times> string) list" where
  "ap_amenities =
     [(''wifi'', ''WiFi''), (''parking'', ''Parking''), (''security'', ''24/7 Security''), (''mess'', ''Mess/Food''),
      (''laundry'', ''Laundry''), (''tv'', ''TV''), (''ac'', ''AC''), (''geyser'', ''Geyser''), (''gym'', ''Gym''),
      (''power_backup'', ''Power Backup''), (''water_purifier'', ''Water Purifier''), (''cctv'', ''CCTV'')]"

text \<open>properties/page.tsx, \<open>getStatusBadge\<close>: the badge's text.\<close>

definition lp_status_label :: "string \<Rightarrow> string" where
  "lp_status_label st =
     (if st = ''ACTIVE'' then ''Active'' else if st = ''INACTIVE'' then ''Inactive''
      else if st = ''PENDING'' then ''Pending'' else st)"

text \<open>inquiries/page.tsx: \<open>statusOptions\<close> (value, label, colour) and
  \<open>getStatusBadge\<close>, the label and colour of a status.\<close>

definition li_status_options :: "(string \<times> string \<times> string) list" where
  "li_status_options =
     [(''PENDING'', ''Pending'', ''bg-yellow-100 text-yellow-700''),
      (''CONTACTED'', ''Contacted'', ''bg-blue-100 text-blue-700''),
      (''SCHEDULED'', ''Visit Scheduled'', ''bg-purple-100 text-purple-700''),
      (''VISITED'', ''Visited'', ''bg-indigo-100 text-indigo-700''),
      (''RENTED'', ''Rented'', ''bg-green-100 text-green-700''),
      (''REJECTED'', ''Rejected'', ''bg-red-100 text-red-700''),
      (''CANCELLED'', ''Cancelled'', ''bg-gray-100 text-gray-700'')]"

definition li_status_badge :: "string \<Rightarrow> string \<times> string" where
  "li_status_badge st =
     (case find (\<lambda>(v, l, c). v = st) li_status_options of
        Some (v, l, c) \<Rightarrow> (if l = [] then st else l, if c = [] then ''bg-gray-100 text-gray-700'' else c)
      | None \<Rightarrow> (st, ''bg-gray-100 text-gray-700''))"

section \<open>Lemmas: the listing request\<close>

lemma route_property_post:
  "route c ((api_req MPost ''/api/properties'' [] body)\<lparr>rq_token := x\<rparr>) t d = json_reply (property_POST body t d)"
  by (simp add: route_def api_req_def)

lemma property_overrides_distinct: "distinct (map fst (property_overrides f uid t))"
  by (simp add: property_overrides_def Let_def)

lemma property_data_get:
  "k \<in> fst ` set (property_overrides f uid t) \<Longrightarrow>
   obj_get (property_data f uid t) k = obj_get (property_overrides f uid t) k"
  unfolding property_data_def by (rule obj_get_foldl_in [OF property_overrides_distinct])

lemma property_data_landlord: "obj_get (property_data f uid t) ''landlordId'' = uid"
  by (subst property_data_get) (simp_all add: property_overrides_def Let_def)

lemma user_id_not_hex: "\<not> is_hex24 (user_id_at n)"
  by (simp add: is_hex24_def user_id_at_def is_hex_char_def digit_val_def)

lemma landlord_lookup_user_id:
  assumes "\<forall>u\<in>set (colls d Users). \<exists>h. obj_get u ''_id'' = JOid h"
  shows "landlord_lookup (JStr (user_id_at n)) d = None"
proof -
  have "\<not> matches [(''_id'', CEq (JStr (user_id_at n))), (''role'', CEq (JStr ''landlord''))] u"
    if "u \<in> set (colls d Users)" for u
    using assms that by (auto simp: matches_def eq_match_def)
  then show ?thesis
    by (simp add: landlord_lookup_def user_id_not_hex find_one_def find_None_list_all list_all_iff)
qed

lemma property_POST_user_id:
  assumes "\<forall>u\<in>set (colls d Users). \<exists>h. obj_get u ''_id'' = JOid h"
    and "obj_get b ''landlordId'' = JStr (user_id_at n)"
  shows "\<exists>code msg. property_POST (JObj b) t d = (fail_resp code msg, d)"
  using landlord_lookup_user_id [OF assms(1), of n] assms(2)
  by (auto simp: property_POST_def split: option.splits)

section \<open>Lemmas: the dashboard and the inquiries page\<close>

lemma route_landlord_properties:
  "route c ((api_req m ''/api/properties/landlord'' q body)\<lparr>rq_token := x\<rparr>) t d = (NotJson 404, d)"
  by (simp add: route_def api_req_def)

lemma route_inquiries_put:
  "route c ((api_req MPut ''/api/inquiries'' [] body)\<lparr>rq_token := x\<rparr>) t d = json_reply (inquiry_PUT body t d)"
  by (simp add: route_def api_req_def)

lemma inquiry_PUT_success_200:
  "inquiry_PUT body t d = (r, d') \<Longrightarrow> js_truthy (jget (http_body r) ''success'') \<Longrightarrow> http_status r = 200"
  by (auto simp: inquiry_PUT_def Let_def jget_def fail_resp_def json_resp_def split: option.splits if_splits)

lemma fetch_dashboard_user: "ctx_user (fst (snd (fetch_dashboard_data c t pg b d))) = ctx_user b"
  by (simp add: fetch_dashboard_data_def Let_def case_prod_beta fetch_ctx_user split: option.split)

section \<open>A registered landlord cannot list\<close>

text \<open>Claim C14: a landlord signed up through the app has the
  id \<open>user-<ms>\<close>, which the landlord lookup of \<open>POST /api/properties\<close> never finds
  (it matches \<open>_id\<close>, an ObjectId); so the add-property page never lists a property for
  them (the page never turns to its success card), and the database stays as it was.\<close>

theorem registered_landlord_cannot_list:
  assumes "\<forall>u\<in>set (colls d Users). \<exists>h. obj_get u ''_id'' = JOid h"
    and "jget (ctx_user b) ''id'' = JStr (user_id_at n)"
  shows "ap_success (fst (add_property_submit c t pg b d)) = ap_success pg \<and> snd (add_property_submit c t pg b d) = (b, d)"
proof -
  let ?uid = "JStr (user_id_at n)"
  obtain code msg where pp: "property_POST (JObj (property_data (ap_form pg) ?uid t)) t d = (fail_resp code msg, d)"
    using property_POST_user_id [OF assms(1) property_data_landlord] by blast
  then have "fetch c (api_req MPost ''/api/properties'' [] (JObj (property_data (ap_form pg) ?uid t))) t b d =
               (JsonReply (fail_resp code msg), b, d)"
    by (subst fetch_json [of _ _ _ _ _ "fail_resp code msg" d]) (simp_all add: route_property_post store_cookie_None)
  then show ?thesis
    using assms(2) fail_resp_not_success [of code msg]
    by (simp add: add_property_submit_def Let_def)
qed

lemma registered_landlord_cannot_list_witness:
  "ap_success (fst (add_property_submit toy_crypto 1700 add_page_init
      \<lparr>jar = Some ''t'', ctx_user = JObj [(''id'', JStr (user_id_at 5)), (''role'', JStr ''landlord'')]\<rparr>
      sample_auth_db)) = False \<and>
   snd (add_property_submit toy_crypto 1700 add_page_init
      \<lparr>jar = Some ''t'', ctx_user = JObj [(''id'', JStr (user_id_at 5)), (''role'', JStr ''landlord'')]\<rparr>
      sample_auth_db) =
   (\<lparr>jar = Some ''t'', ctx_user = JObj [(''id'', JStr (user_id_at 5)), (''role'', JStr ''landlord'')]\<rparr>,
    sample_auth_db)"
  using registered_landlord_cannot_list [of sample_auth_db
      "\<lparr>jar = Some ''t'', ctx_user = JObj [(''id'', JStr (user_id_at 5)), (''role'', JStr ''landlord'')]\<rparr>"
      5 toy_crypto 1700 add_page_init]
  by (simp add: add_page_init_def jget_def)

section \<open>The landlord's dashboard and inquiries\<close>

text \<open>Claim C21: the landlord's dashboard asks for
  \<open>/api/properties/landlord\<close>, a path with no route file; the 404 page is not JSON,
  \<open>res.json()\<close> throws, and the dashboard keeps its initial statistics, listings and
  inquiries whatever the database holds, without touching it.\<close>

theorem landlord_dashboard_never_loads:
  "fetch_dashboard_data c t pg b d = (pg\<lparr>ld_loading := ld_loading pg \<and> \<not> js_truthy (ctx_user b)\<rparr>, b, d)"
proof (cases "js_truthy (ctx_user b)")
  case True
  have "fetch c (api_req MGet ''/api/properties/landlord'' [(''userId'', js_to_string (jget (ctx_user b) ''id''))] JUndef) t b d
          = (NotJson 404, b, d)"
    by (rule fetch_not_json) (simp add: route_landlord_properties)
  then show ?thesis using True by (simp add: fetch_dashboard_data_def)
qed (simp add: fetch_dashboard_data_def)

text \<open>The dashboard's effect (dependencies
  \<open>[user]\<close>) does not change the signed-in user, so it runs once and the page
  settles: the effect loop terminates with the state of one run.\<close>

theorem dashboard_effect_settles:
  "run_effect (\<lambda>(pg, b, d). fetch_dashboard_data c t pg b d) (\<lambda>(pg, b, d). ctx_user b) (pg, b, d)
     = Some (fetch_dashboard_data c t pg b d)"
  by (subst run_effect_stable) (simp_all add: case_prod_beta fetch_dashboard_user)

text \<open>Claim C20: when the landlord's inquiries page shows a
  new status after \<open>updateInquiryStatus\<close>, the server stored that status on one
  inquiry, the others unchanged.\<close>

theorem status_update_reaches_server:
  assumes "update_inquiry_status c t iid st pg b d = (pg', b', d')"
    and "li_inquiries pg' \<noteq> li_inquiries pg" and "st \<noteq> []"
  shows "\<exists>ys i zs i'. colls d Inquiries = ys @ i # zs \<and> colls d' Inquiries = ys @ i' # zs \<and>
           obj_get i' ''status'' = JStr st"
proof -
  let ?fs = "[(''id'', iid), (''userId'', jget (ctx_user b) ''id''), (''status'', JStr st)]"
  obtain r d2 where ip: "inquiry_PUT (JObj ?fs) t d = (r, d2)" by fastforce
  then have f: "fetch c (api_req MPut ''/api/inquiries'' [] (JObj ?fs)) t b d =
                  (JsonReply r, b\<lparr>jar := store_cookie (set_cookie r) (jar b)\<rparr>, d2)"
    by (intro fetch_json) (simp add: route_inquiries_put)
  have ok: "js_truthy (jget (http_body r) ''success'')" and dd: "d' = d2"
    using assms(1,2) f by (auto simp: update_inquiry_status_def split: if_splits)
  show ?thesis
    using inquiry_PUT_sets_status [OF ip inquiry_PUT_success_200 [OF ip ok], of ?fs st] assms(3) dd
    by simp
qed

lemma status_update_reaches_server_witness:
  "\<exists>ys i zs i'. colls sample_reopen_db Inquiries = ys @ i # zs \<and>
     colls (snd (snd (update_inquiry_status toy_crypto 9 (JStr ''dddddddddddddddddddddd02'') ''CONTACTED''
        \<lparr>li_inquiries = [JObj [(''id'', JStr ''dddddddddddddddddddddd02''), (''status'', JStr ''PENDING'')]],
         li_loading = False, li_search = [], li_status_filter = ''all'', li_selected = None, li_dialog_open = False,
         li_date = [], li_time = [], li_notes = [], li_updating = False\<rparr>
        \<lparr>jar = Some ''t'', ctx_user = JObj [(''id'', JStr sample_landlord), (''role'', JStr ''landlord'')]\<rparr>
        sample_reopen_db))) Inquiries = ys @ i' # zs \<and> obj_get i' ''status'' = JStr ''CONTACTED''"
proof -
  have "li_inquiries (fst (update_inquiry_status toy_crypto 9 (JStr ''dddddddddddddddddddddd02'') ''CONTACTED''
        \<lparr>li_inquiries = [JObj [(''id'', JStr ''dddddddddddddddddddddd02''), (''status'', JStr ''PENDING'')]],
         li_loading = False, li_search = [], li_status_filter = ''all'', li_selected = None, li_dialog_open = False,
         li_date = [], li_time = [], li_notes = [], li_updating = False\<rparr>
        \<lparr>jar = Some ''t'', ctx_user = JObj [(''id'', JStr sample_landlord), (''role'', JStr ''landlord'')]\<rparr>
        sample_reopen_db)) \<noteq> [JObj [(''id'', JStr ''dddddddddddddddddddddd02''), (''status'', JStr ''PENDING'')]]"
    by code_simp
  then show ?thesis
    using status_update_reaches_server [of toy_crypto 9 "JStr ''dddddddddddddddddddddd02''" "''CONTACTED''" _ _ sample_reopen_db
            "fst (update_inquiry_status toy_crypto 9 (JStr ''dddddddddddddddddddddd02'') ''CONTACTED''
        \<lparr>li_inquiries = [JObj [(''id'', JStr ''dddddddddddddddddddddd02''), (''status'', JStr ''PENDING'')]],
         li_loading = False, li_search = [], li_status_filter = ''all'', li_selected = None, li_dialog_open = False,
         li_date = [], li_time = [], li_notes = [], li_updating = False\<rparr>
        \<lparr>jar = Some ''t'', ctx_user = JObj [(''id'', JStr sample_landlord), (''role'', JStr ''landlord'')]\<rparr>
        sample_reopen_db)" "fst (snd (update_inquiry_status toy_crypto 9 (JStr ''dddddddddddddddddddddd02'') ''CONTACTED''
        \<lparr>li_inquiries = [JObj [(''id'', JStr ''dddddddddddddddddddddd02''), (''status'', JStr ''PENDING'')]],
         li_loading = False, li_search = [], li_status_filter = ''all'', li_selected = None, li_dialog_open = False,
         li_date = [], li_time = [], li_notes = [], li_updating = False\<rparr>
        \<lparr>jar = Some ''t'', ctx_user = JObj [(''id'', JStr sample_landlord), (''role'', JStr ''landlord'')]\<rparr>
        sample_reopen_db))" "snd (snd (update_inquiry_status toy_crypto 9 (JStr ''dddddddddddddddddddddd02'') ''CONTACTED''
        \<lparr>li_inquiries = [JObj [(''id'', JStr ''dddddddddddddddddddddd02''), (''status'', JStr ''PENDING'')]],
         li_loading = False, li_search = [], li_status_filter = ''all'', li_selected = None, li_dialog_open = False,
         li_date = [], li_time = [], li_notes = [], li_updating = False\<rparr>
        \<lparr>jar = Some ''t'', ctx_user = JObj [(''id'', JStr sample_landlord), (''role'', JStr ''landlord'')]\<rparr>
        sample_reopen_db))"]
    by simp
qed

end
