(* ===== verification/Pages_Student.thy ===== *)
theory Pages_Student
  imports Pages_Landlord
begin

text \<open>
  The pages a student uses: the dashboard (src/src/app/dashboard/student/page.tsx),
  the wishlist (src/src/app/wishlist/page.tsx), the search page
  (src/src/app/properties/page.tsx), a listing's page
  (src/src/app/properties/[slug]/page.tsx) and the search box of the home page
  (src/src/app/page.tsx).  These pages show listings from a static catalogue,
  \<open>@/data/properties.json\<close> (and reviews from \<open>@/data/reviews.json\<close>), which
  the repository does not contain: the catalogue is a parameter, a list of objects.
  Only the wishlist goes to the server.  Strings are byte strings, so
  \<open>encodeURIComponent\<close> encodes each byte outside its unreserved set.
\<close>

section \<open>dashboard/student/page.tsx\<close>

record sdash_page =
  sd_wishlist :: jval
  sd_inquiries :: jval
  sd_loading :: bool

definition sdash_init :: sdash_page where
  "sdash_init = \<lparr>sd_wishlist = JArr [], sd_inquiries = JArr [], sd_loading = True\<rparr>"

text \<open>\<open>fetchData\<close>: the wishlist, then the student's inquiries from
  \<open>/api/inquiries/student\<close>.\<close>

definition fetch_student_data ::
  "'a crypto_scheme \<Rightarrow> nat \<Rightarrow> sdash_page \<Rightarrow> browser \<Rightarrow> db \<Rightarrow> sdash_page \<times> browser \<times> db" where
  "fetch_student_data c t pg b d =
     (let user = ctx_user b in
      if \<not> js_truthy user then (pg, b, d)
      else
        (let (rep, b1, d1) = fetch c (api_req MGet ''/api/wishlist'' [] JUndef) t b d
         in case res_json rep of
              None \<Rightarrow> (pg\<lparr>sd_loading := False\<rparr>, b1, d1)
            | Some wdata \<Rightarrow>
                (let pg1 = pg\<lparr>sd_wishlist := js_or (jget wdata ''propertyIds'') (JArr [])\<rparr>;
                     (rep2, b2, d2) = fetch c (api_req MGet ''/api/inquiries/student''
                                                 [(''userId'', js_to_string (jget user ''id''))] JUndef) t b1 d1
                 in case res_json rep2 of
                      None \<Rightarrow> (pg1\<lparr>sd_loading := False\<rparr>, b2, d2)
                    | Some idata \<Rightarrow>
                        (if js_truthy (jget idata ''success'')
                         then pg1\<lparr>sd_inquiries := js_or (jget idata ''inquiries'') (JArr []), sd_loading := False\<rparr>
                         else pg1\<lparr>sd_loading := False\<rparr>, b2, d2))))"

text \<open>\<open>xs.includes(v)\<close> (SameValueZero).\<close>

definition js_includes :: "jval list \<Rightarrow> jval \<Rightarrow> bool" where
  "js_includes xs v = list_ex (\<lambda>x. js_strict_eq x v \<or> x = JNaN \<and> v = JNaN) xs"

definition wishlisted_properties :: "jval list \<Rightarrow> jval \<Rightarrow> jval list" where
  "wishlisted_properties catalog wl = filter (\<lambda>p. js_includes (arr_items wl) (jget p ''id'')) catalog"

definition student_pending :: "jval \<Rightarrow> nat" where
  "student_pending is = length (filter (\<lambda>i. js_strict_eq (jget i ''status'') (JStr ''pending'')) (arr_items is))"

section \<open>wishlist/page.tsx\<close>

record wl_page =
  wp_wishlist :: jval
  wp_loading :: bool

definition wl_page_init :: wl_page where
  "wl_page_init = \<lparr>wp_wishlist = JArr [], wp_loading = True\<rparr>"

text \<open>Each request sets the list to \<open>data.propertyIds || []\<close>; a reply that is not
  JSON leaves it.  The page interpolates the id into the URL; the ids of the
  catalogue are plain, so the query holds the id itself.\<close>

definition set_wishlist_from :: "reply \<Rightarrow> wl_page \<Rightarrow> wl_page" where
  "set_wishlist_from rep pg =
     (case res_json rep of None \<Rightarrow> pg | Some data \<Rightarrow> pg\<lparr>wp_wishlist := js_or (jget data ''propertyIds'') (JArr [])\<rparr>)"

definition wl_fetch :: "'a crypto_scheme \<Rightarrow> nat \<Rightarrow> wl_page \<Rightarrow> browser \<Rightarrow> db \<Rightarrow> wl_page \<times> browser \<times> db" where
  "wl_fetch c t pg b d =
     (let (rep, b1, d1) = fetch c (api_req MGet ''/api/wishlist'' [] JUndef) t b d
      in ((set_wishlist_from rep pg)\<lparr>wp_loading := False\<rparr>, b1, d1))"

definition wl_remove ::
  "'a crypto_scheme \<Rightarrow> nat \<Rightarrow> string \<Rightarrow> wl_page \<Rightarrow> browser \<Rightarrow> db \<Rightarrow> wl_page \<times> browser \<times> db" where
  "wl_remove c t pid pg b d =
     (let (rep, b1, d1) = fetch c (api_req MDelete ''/api/wishlist'' [(''propertyId'', pid)] JUndef) t b d
      in (set_wishlist_from rep pg, b1, d1))"

definition wl_clear :: "'a crypto_scheme \<Rightarrow> nat \<Rightarrow> wl_page \<Rightarrow> browser \<Rightarrow> db \<Rightarrow> wl_page \<times> browser \<times> db" where
  "wl_clear c t pg b d =
     (let (rep, b1, d1) = fetch c (api_req MDelete ''/api/wishlist'' [(''clearAll'', ''true'')] JUndef) t b d
      in (set_wishlist_from rep pg, b1, d1))"

text \<open>The page's operations as one step function, and a run of them.\<close>

datatype wl_action = WLoad | WRemove string | WClear

fun wl_page_step ::
  "'a crypto_scheme \<Rightarrow> nat \<Rightarrow> wl_action \<Rightarrow> wl_page \<Rightarrow> browser \<Rightarrow> db \<Rightarrow> wl_page \<times> browser \<times> db" where
  "wl_page_step c t WLoad pg b d = wl_fetch c t pg b d"
| "wl_page_step c t (WRemove pid) pg b d = wl_remove c t pid pg b d"
| "wl_page_step c t WClear pg b d = wl_clear c t pg b d"

fun wl_page_run ::
  "'a crypto_scheme \<Rightarrow> (nat \<times> wl_action) list \<Rightarrow> wl_page \<Rightarrow> browser \<Rightarrow> db \<Rightarrow> wl_page \<times> browser \<times> db" where
  "wl_page_run c [] pg b d = (pg, b, d)"
| "wl_page_run c ((t, a) # as) pg b d =
     (let (pg1, b1, d1) = wl_page_step c t a pg b d in wl_page_run c as pg1 b1 d1)"

fun wl_action_ok :: "wl_action \<Rightarrow> bool" where
  "wl_action_ok (WRemove pid) = (pid \<noteq> [])"
| "wl_action_ok _ = True"

section \<open>properties/page.tsx: search, filters and sorting\<close>

datatype sort_option = Relevance | PriceLow | PriceHigh | RatingSort | Newest

record props_page =
  pp_properties :: "jval list"
  pp_loading :: bool
  pp_query :: string
  pp_location :: string
  pp_sort :: sort_option
  pp_view :: string
  pp_wishlist :: jval
  pp_type :: string
  pp_min_price :: rat
  pp_max_price :: rat
  pp_gender :: string

text \<open>The state after the first render: the query and the location come from the
  URL (\<open>searchParams.get(k) || ""\<close>), \<open>view=map\<close> selects the map.\<close>

definition param_or_empty :: "params \<Rightarrow> string \<Rightarrow> string" where
  "param_or_empty ps k = (case param_get ps k of None \<Rightarrow> [] | Some s \<Rightarrow> s)"

definition props_page_init :: "params \<Rightarrow> props_page" where
  "props_page_init ps =
     \<lparr>pp_properties = [], pp_loading = True, pp_query = param_or_empty ps ''q'',
      pp_location = param_or_empty ps ''location'', pp_sort = Relevance,
      pp_view = (if param_get ps ''view'' = Some ''map'' then ''map'' else ''grid''),
      pp_wishlist = JArr [], pp_type = [], pp_min_price = 0, pp_max_price = 50000, pp_gender = []\<rparr>"

text \<open>The timer of the first effect puts the catalogue in place.\<close>

definition load_catalog :: "jval list \<Rightarrow> props_page \<Rightarrow> props_page" where
  "load_catalog catalog pg = pg\<lparr>pp_properties := catalog, pp_loading := False\<rparr>"

definition pp_fetch_wishlist ::
  "'a crypto_scheme \<Rightarrow> nat \<Rightarrow> props_page \<Rightarrow> browser \<Rightarrow> db \<Rightarrow> props_page \<times> browser \<times> db" where
  "pp_fetch_wishlist c t pg b d =
     (let (rep, b1, d1) = fetch c (api_req MGet ''/api/wishlist'' [] JUndef) t b d
      in (case res_json rep of
            None \<Rightarrow> pg
          | Some data \<Rightarrow> pg\<lparr>pp_wishlist := js_or (jget data ''propertyIds'') (JArr [])\<rparr>, b1, d1))"

definition pp_toggle_wishlist ::
  "'a crypto_scheme \<Rightarrow> nat \<Rightarrow> jval \<Rightarrow> props_page \<Rightarrow> browser \<Rightarrow> db \<Rightarrow> props_page \<times> browser \<times> db" where
  "pp_toggle_wishlist c t pid pg b d =
     (let (rep, b1, d1) = fetch c (api_req MPut ''/api/wishlist'' [] (JObj [(''propertyId'', pid)])) t b d
      in (case res_json rep of
            None \<Rightarrow> pg
          | Some data \<Rightarrow> pg\<lparr>pp_wishlist := js_or (jget data ''propertyIds'') (JArr [])\<rparr>, b1, d1))"

text \<open>\<open>p.rent >= lo && p.rent <= hi\<close>: the catalogue's rents are numbers; a
  missing rent is \<open>undefined\<close>, which no comparison admits.\<close>

definition rent_in_range :: "rat \<Rightarrow> rat \<Rightarrow> jval \<Rightarrow> bool" where
  "rent_in_range lo hi v = (case v of JNum r \<Rightarrow> lo \<le> r \<and> r \<le> hi | JNull \<Rightarrow> lo \<le> 0 \<and> 0 \<le> hi | _ \<Rightarrow> False)"

text \<open>The sort keys of the three orders; \<open>Array.prototype.sort\<close> is stable, as
  \<open>sort_key\<close> is.\<close>

definition num_key :: "jval \<Rightarrow> rat" where
  "num_key v = (case v of JNum q \<Rightarrow> q | _ \<Rightarrow> 0)"

fun sort_props :: "sort_option \<Rightarrow> jval list \<Rightarrow> jval list" where
  "sort_props PriceLow ps = sort_key (\<lambda>p. num_key (jget p ''rent'')) ps"
| "sort_props PriceHigh ps = sort_key (\<lambda>p. - num_key (jget p ''rent'')) ps"
| "sort_props RatingSort ps = sort_key (\<lambda>p. - num_key (js_or (jget p ''averageRating'') (JNum 0))) ps"
| "sort_props _ ps = ps"

definition filtered_props :: "props_page \<Rightarrow> jval list option" where
  "filtered_props pg =
     (let q = pp_query pg; loc = pp_location pg;
          r1 = (if q = [] then Some (pp_properties pg)
                else filter_opt (\<lambda>p. or_else (lower_includes (jget p ''title'') q)
                                        (or_else (lower_includes (jget p ''description'') q)
                                          (or_else (lower_includes (jget p ''city'') q)
                                            (lower_includes (jget p ''address'') q)))) (pp_properties pg));
          r2 = Option.bind r1 (\<lambda>r. if loc = [] then Some r
                                   else filter_opt (\<lambda>p. or_else (lower_includes (jget p ''city'') loc)
                                                           (lower_includes (jget p ''address'') loc)) r)
      in map_option (\<lambda>r.
           (let r3 = (if pp_type pg = [] then r
                      else filter (\<lambda>p. js_strict_eq (jget p ''propertyType'') (JStr (pp_type pg))) r);
                r4 = filter (\<lambda>p. rent_in_range (pp_min_price pg) (pp_max_price pg) (jget p ''rent'')) r3;
                r5 = (if pp_gender pg = [] then r4
                      else filter (\<lambda>p. js_strict_eq (jget p ''genderPreference'') (JStr (pp_gender pg))) r4)
            in sort_props (pp_sort pg) r5)) r2)"

definition clear_filters :: "props_page \<Rightarrow> props_page" where
  "clear_filters pg =
     pg\<lparr>pp_type := [], pp_min_price := 0, pp_max_price := 50000, pp_gender := [], pp_query := [], pp_location := []\<rparr>"

section \<open>properties/[slug]/page.tsx\<close>

record detail_page =
  dp_property :: "jval option"
  dp_reviews :: "jval list"
  dp_loading :: bool
  dp_image :: int
  dp_wishlisted :: jval

definition detail_init :: detail_page where
  "detail_init = \<lparr>dp_property = None, dp_reviews = [], dp_loading = True, dp_image = 0, dp_wishlisted = JBool False\<rparr>"

text \<open>The effect: the listing of the slug in the catalogue, its reviews, and whether
  the server's wishlist holds it.\<close>

definition load_detail ::
  "jval list \<Rightarrow> jval list \<Rightarrow> string \<Rightarrow> 'a crypto_scheme \<Rightarrow> nat \<Rightarrow> detail_page \<Rightarrow> browser \<Rightarrow> db \<Rightarrow>
   detail_page \<times> browser \<times> db" where
  "load_detail catalog reviews slug c t pg b d =
     (case find (\<lambda>p. js_strict_eq (jget p ''slug'') (JStr slug)) catalog of
        None \<Rightarrow> (pg\<lparr>dp_loading := False\<rparr>, b, d)
      | Some p \<Rightarrow>
          (let pg1 = pg\<lparr>dp_property := Some p,
                        dp_reviews := filter (\<lambda>r. js_strict_eq (jget r ''propertyId'') (jget p ''id'')) reviews,
                        dp_loading := False\<rparr>;
               (rep, b1, d1) = fetch c (api_req MGet ''/api/wishlist'' [] JUndef) t b d
           in case res_json rep of
                None \<Rightarrow> (pg1, b1, d1)
              | Some data \<Rightarrow>
                  (pg1\<lparr>dp_wishlisted :=
                         JBool (js_includes (arr_items (js_or (jget data ''propertyIds'') (JArr []))) (jget p ''id''))\<rparr>,
                   b1, d1)))"

definition toggle_detail ::
  "'a crypto_scheme \<Rightarrow> nat \<Rightarrow> detail_page \<Rightarrow> browser \<Rightarrow> db \<Rightarrow> detail_page \<times> browser \<times> db" where
  "toggle_detail c t pg b d =
     (case dp_property pg of
        None \<Rightarrow> (pg, b, d)
      | Some p \<Rightarrow>
          (let (rep, b1, d1) = fetch c (api_req MPut ''/api/wishlist'' [] (JObj [(''propertyId'', jget p ''id'')])) t b d
           in (case res_json rep of None \<Rightarrow> pg | Some data \<Rightarrow> pg\<lparr>dp_wishlisted := jget data ''isInWishlist''\<rparr>, b1, d1)))"

text \<open>The image carousel: \<open>prev === len - 1 ? 0 : prev + 1\<close> and
  \<open>prev === 0 ? len - 1 : prev - 1\<close>.\<close>

definition next_image :: "int \<Rightarrow> int \<Rightarrow> int" where
  "next_image len prev = (if prev = len - 1 then 0 else prev + 1)"

definition prev_image :: "int \<Rightarrow> int \<Rightarrow> int" where
  "prev_image len prev = (if prev = 0 then len - 1 else prev - 1)"

definition image_count :: "jval \<Rightarrow> int" where
  "image_count p = int (length (arr_items (jget p ''images'')))"

definition detail_next :: "detail_page \<Rightarrow> detail_page" where
  "detail_next pg =
     (case dp_property pg of None \<Rightarrow> pg | Some p \<Rightarrow> pg\<lparr>dp_image := next_image (image_count p) (dp_image pg)\<rparr>)"

definition detail_prev :: "detail_page \<Rightarrow> detail_page" where
  "detail_prev pg =
     (case dp_property pg of None \<Rightarrow> pg | Some p \<Rightarrow> pg\<lparr>dp_image := prev_image (image_count p) (dp_image pg)\<rparr>)"

section \<open>page.tsx: the search box\<close>

definition uri_unreserved :: "char \<Rightarrow> bool" where
  "uri_unreserved c = (word_char c \<or> c \<in> set ''-.!~*()'' \<or> c = CHR 39)"

definition hex_upper :: "nat \<Rightarrow> char" where
  "hex_upper n = (if n < 10 then char_of (48 + n) else char_of (55 + n))"

definition encode_uri_component :: "string \<Rightarrow> string" where
  "encode_uri_component s =
     concat (map (\<lambda>c. if uri_unreserved c then [c]
                      else [CHR ''%'', hex_upper (of_char c div 16), hex_upper (of_char c mod 16)]) s)"

text \<open>\<open>handleSearch\<close>: the URL it navigates to.\<close>

definition home_search :: "string \<Rightarrow> string" where
  "home_search q = (if js_trim q \<noteq> [] then ''/properties?q='' @ encode_uri_component q else ''/properties'')"

text \<open>The other side, \<open>useSearchParams\<close> (URLSearchParams): the query after the
  \<open>?\<close>, pieces between \<open>&\<close>, a name up to the first \<open>=\<close>, and the
  form-decoding of both: \<open>+\<close> is a space, \<open>%XX\<close> a byte, a stray \<open>%\<close> itself.\<close>

fun form_decode :: "string \<Rightarrow> string" where
  "form_decode [] = []"
| "form_decode (c # cs) =
     (if c = CHR ''+'' then CHR '' '' # form_decode cs
      else if c = CHR ''%'' then
        (case cs of
           x # y # r \<Rightarrow>
             (case (digit_val 16 x, digit_val 16 y) of
                (Some h, Some l) \<Rightarrow> char_of (16 * h + l) # form_decode r
              | _ \<Rightarrow> c # form_decode cs)
         | _ \<Rightarrow> c # form_decode cs)
      else c # form_decode cs)"

definition url_query :: "string \<Rightarrow> string" where
  "url_query u = drop 1 (dropWhile (\<lambda>c. c \<noteq> CHR ''?'') u)"

definition query_params :: "string \<Rightarrow> params" where
  "query_params qs =
     map (\<lambda>piece. (let k = takeWhile (\<lambda>c. c \<noteq> CHR ''='') piece
                   in (form_decode k, form_decode (drop (Suc (length k)) piece))))
         (filter (\<lambda>piece. piece \<noteq> []) (split_on CHR ''&'' qs))"

section \<open>components/search/search-filters.tsx\<close>

text \<open>The filter panel: it owns the open flag and the price slider and edits the
  \<open>SearchFilters\<close> object of its parent through \<open>onFiltersChange\<close>, which is the
  object returned here.\<close>

definition sf_amenities :: "(string \<times> string) list" where
  "sf_amenities =
     [(''wifi'', ''WiFi''), (''ac'', ''AC''), (''parking'', ''Parking''), (''laundry'', ''Laundry''),
      (''security'', ''Security''), (''cctv'', ''CCTV''), (''gym'', ''Gym''), (''power_backup'', ''Power Backup''),
      (''water_purifier'', ''Water Purifier''), (''mess'', ''Mess/Kitchen''), (''tv'', ''TV''),
      (''refrigerator'', ''Refrigerator'')]"

definition sf_sort_options :: "(string \<times> string) list" where
  "sf_sort_options =
     [(''relevance'', ''Most Relevant''), (''price_low'', ''Price: Low to High''),
      (''price_high'', ''Price: High to Low''), (''newest'', ''Newest First''), (''rating'', ''Highest Rated'')]"

record sf_state =
  sf_open :: bool
  sf_price :: "jval \<times> jval"

definition sf_init :: "jobj \<Rightarrow> sf_state" where
  "sf_init f = \<lparr>sf_open = False, sf_price = (js_or (obj_get f ''minRent'') (JNum 0), js_or (obj_get f ''maxRent'') (JNum 50000))\<rparr>"

definition update_filter :: "string \<Rightarrow> jval \<Rightarrow> jobj \<Rightarrow> jobj" where
  "update_filter k v f = obj_set f k v"

text \<open>\<open>togglePropertyType\<close>, \<open>toggleAmenity\<close>, \<open>toggleFurnishing\<close>: the same
  code on three keys.\<close>

definition toggle_filter :: "string \<Rightarrow> string \<Rightarrow> jobj \<Rightarrow> jobj" where
  "toggle_filter k x f =
     (let cur = arr_items (js_or (obj_get f k) (JArr []))
      in update_filter k (JArr (if js_includes cur (JStr x) then filter (\<lambda>t. \<not> js_strict_eq t (JStr x)) cur
                                else cur @ [JStr x])) f)"

definition sf_clear :: "sf_state \<Rightarrow> jobj \<times> sf_state" where
  "sf_clear st = ([], st\<lparr>sf_price := (JNum 0, JNum 50000)\<rparr>)"

text \<open>\<open>activeFiltersCount\<close>: \<open>v?.length || 0\<close> of the three lists.\<close>

definition length_or0 :: "jval \<Rightarrow> nat" where
  "length_or0 v = (case v of JArr xs \<Rightarrow> length xs | JStr s \<Rightarrow> length s | _ \<Rightarrow> 0)"

definition active_filters_count :: "jobj \<Rightarrow> nat" where
  "active_filters_count f =
     length_or0 (obj_get f ''propertyType'') + length_or0 (obj_get f ''furnishing'') +
     length_or0 (obj_get f ''amenities'') + (if js_truthy (obj_get f ''gender'') then 1 else 0) +
     (if js_truthy (obj_get f ''minRent'') \<or> js_truthy (obj_get f ''maxRent'') then 1 else 0)"

section \<open>Lemmas: URLs\<close>

lemma digit_val_hex_upper: "n < 16 \<Longrightarrow> digit_val 16 (hex_upper n) = Some n"
  by (cases "n < 10") (auto simp: hex_upper_def digit_val_def Let_def)

lemma uri_unreserved_plain: "uri_unreserved c \<Longrightarrow> c \<noteq> CHR ''+'' \<and> c \<noteq> CHR ''%'' \<and> c \<noteq> CHR ''&'' \<and> c \<noteq> CHR ''=''"
  by (auto simp: uri_unreserved_def word_char_def)

lemma hex_upper_plain: "n < 16 \<Longrightarrow> hex_upper n \<noteq> CHR ''&'' \<and> hex_upper n \<noteq> CHR ''=''"
  by (cases "n < 10") (auto simp: hex_upper_def dest!: arg_cong [where f = "of_char :: char \<Rightarrow> nat"])

lemma form_decode_encode: "form_decode (encode_uri_component s @ r) = s @ form_decode r"
proof (induction s)
  case Nil
  then show ?case by (simp add: encode_uri_component_def)
next
  case (Cons c s)
  have lo: "of_char c mod 16 < (16::nat)" by simp
  have hi: "of_char c div 16 < (16::nat)"
    using nat_of_char_less_256 [of c] by (simp add: div_less_iff_less_mult)
  have "char_of (16 * (of_char c div 16) + of_char c mod 16 :: nat) = c" by simp
  then show ?case
    using Cons uri_unreserved_plain [of c]
    by (simp add: encode_uri_component_def digit_val_hex_upper [OF lo] digit_val_hex_upper [OF hi])
qed

lemma hex_digits_bound: "of_char x div 16 < (16::nat)" "of_char x mod 16 < (16::nat)"
  using nat_of_char_less_256 [of x] by (simp_all add: div_less_iff_less_mult)

lemma encode_char_plain:
  "c \<in> set (if uri_unreserved x then [x] else [CHR ''%'', hex_upper (of_char x div 16), hex_upper (of_char x mod 16)])
   \<Longrightarrow> c \<noteq> CHR ''&'' \<and> c \<noteq> CHR ''=''"
  using uri_unreserved_plain [of x] hex_upper_plain [OF hex_digits_bound(1) [of x]] hex_upper_plain [OF hex_digits_bound(2) [of x]]
  by (auto split: if_splits)

lemma encode_plain:
  assumes "c \<in> set (encode_uri_component s)"
  shows "c \<noteq> CHR ''&'' \<and> c \<noteq> CHR ''=''"
proof -
  obtain x where "c \<in> set (if uri_unreserved x then [x]
                            else [CHR ''%'', hex_upper (of_char x div 16), hex_upper (of_char x mod 16)])"
    using assms unfolding encode_uri_component_def set_concat set_map by blast
  then show ?thesis by (rule encode_char_plain)
qed

section \<open>Lemmas: the wishlist requests of the pages\<close>

lemma wishlist_ids_ok:
  assumes "wishlists_ok d"
  shows "wishlist_ids d = JArr (guest_list d)"
proof (cases "find_one Wishlists guest_query d")
  case None
  then show ?thesis by (simp add: wishlist_ids_def guest_list_none)
next
  case (Some w)
  then have "obj_get w ''propertyIds'' = JArr (guest_list d)" using guest_doc_ok [OF assms] by blast
  with Some show ?thesis by (simp add: wishlist_ids_def)
qed

lemma route_wishlist_get:
  "route c ((api_req MGet ''/api/wishlist'' q body)\<lparr>rq_token := x\<rparr>) t d = json_reply (wishlist_GET d)"
  by (simp add: route_def api_req_def)

lemma route_wishlist_delete:
  "route c ((api_req MDelete ''/api/wishlist'' q body)\<lparr>rq_token := x\<rparr>) t d = json_reply (wishlist_DELETE q t d)"
  by (simp add: route_def api_req_def)

lemma route_inquiries_student:
  "route c ((api_req m ''/api/inquiries/student'' q body)\<lparr>rq_token := x\<rparr>) t d = (NotJson 404, d)"
  by (simp add: route_def api_req_def)

lemma fetch_json_reply:
  "route c (rq\<lparr>rq_token := jar b\<rparr>) t d = json_reply rd \<Longrightarrow> set_cookie (fst rd) = None \<Longrightarrow>
   fetch c rq t b d = (JsonReply (fst rd), b, snd rd)"
  by (cases rd) (simp add: fetch_json store_cookie_None)

lemma remove_resp:
  assumes ok: "wishlists_ok d" and p: "pid \<noteq> []"
  shows "jget (http_body (fst (wishlist_DELETE [(''propertyId'', pid)] t d))) ''propertyIds''
           = JArr (guest_list (snd (wishlist_DELETE [(''propertyId'', pid)] t d))) \<and>
         set_cookie (fst (wishlist_DELETE [(''propertyId'', pid)] t d)) = None"
proof -
  obtain n d' where u: "update_one Wishlists guest_query (remove_update (JStr pid) t) False d = Some (n, d')"
    "guest_list d' = set_remove (JStr pid) (guest_list d)"
    using ok by (rule remove_effect)
  have "wishlists_ok (snd (wishlist_DELETE [(''propertyId'', pid)] t d))" using ok by (rule wishlist_DELETE_ok)
  with u p show ?thesis by (simp add: wishlist_DELETE_def param_get_def jget_def wishlist_ids_ok)
qed

lemma clear_resp:
  assumes ok: "wishlists_ok d"
  shows "jget (http_body (fst (wishlist_DELETE [(''clearAll'', ''true'')] t d))) ''propertyIds''
           = JArr (guest_list (snd (wishlist_DELETE [(''clearAll'', ''true'')] t d))) \<and>
         set_cookie (fst (wishlist_DELETE [(''clearAll'', ''true'')] t d)) = None"
proof -
  obtain n d' where u: "update_one Wishlists guest_query [USet ''propertyIds'' (JArr []), USet ''updatedAt'' (js_now t)]
                          False d = Some (n, d')" "guest_list d' = []"
    using ok by (rule clear_effect)
  then show ?thesis by (simp add: wishlist_DELETE_def param_get_def jget_def)
qed

lemma wl_step_shows_server:
  assumes ok: "wishlists_ok d" and a: "wl_action_ok a"
  shows "wp_wishlist (fst (wl_page_step c t a pg b d)) = JArr (guest_list (snd (snd (wl_page_step c t a pg b d)))) \<and>
         wishlists_ok (snd (snd (wl_page_step c t a pg b d)))"
proof (cases a)
  case WLoad
  have "fetch c (api_req MGet ''/api/wishlist'' [] JUndef) t b d = (JsonReply (fst (wishlist_GET d)), b, d)"
    using fetch_json_reply [where rq = "api_req MGet ''/api/wishlist'' [] JUndef" and rd = "wishlist_GET d" and d = d and c = c and b = b and t = t]
    by (simp add: route_wishlist_get wishlist_GET_def)
  with WLoad ok show ?thesis
    by (simp add: wl_fetch_def set_wishlist_from_def wishlist_GET_def jget_def wishlist_ids_ok)
next
  case (WRemove pid)
  with a have p: "pid \<noteq> []" by simp
  have "fetch c (api_req MDelete ''/api/wishlist'' [(''propertyId'', pid)] JUndef) t b d =
          (JsonReply (fst (wishlist_DELETE [(''propertyId'', pid)] t d)), b, snd (wishlist_DELETE [(''propertyId'', pid)] t d))"
    by (rule fetch_json_reply) (simp_all add: route_wishlist_delete remove_resp [OF ok p])
  with WRemove ok p show ?thesis
    by (simp add: wl_remove_def set_wishlist_from_def remove_resp [OF ok p] wishlist_DELETE_ok)
next
  case WClear
  have "fetch c (api_req MDelete ''/api/wishlist'' [(''clearAll'', ''true'')] JUndef) t b d =
          (JsonReply (fst (wishlist_DELETE [(''clearAll'', ''true'')] t d)), b, snd (wishlist_DELETE [(''clearAll'', ''true'')] t d))"
    by (rule fetch_json_reply) (simp_all add: route_wishlist_delete clear_resp [OF ok])
  with WClear ok show ?thesis
    by (simp add: wl_clear_def set_wishlist_from_def clear_resp [OF ok] wishlist_DELETE_ok)
qed

section \<open>What the student's pages show\<close>

text \<open>Claim C15: after any run of the wishlist page's own
  operations (load, remove an id, clear), the page shows exactly the guest wishlist
  the server holds, as long as the store satisfied the wishlist invariant.\<close>

theorem wishlist_page_shows_server:
  "wishlists_ok d \<Longrightarrow> list_all (\<lambda>(t, a). wl_action_ok a) as \<Longrightarrow> as \<noteq> [] \<Longrightarrow>
   wp_wishlist (fst (wl_page_run c as pg b d)) = JArr (guest_list (snd (snd (wl_page_run c as pg b d))))"
proof (induction as arbitrary: pg b d)
  case Nil
  then show ?case by simp
next
  case (Cons ta as)
  obtain t a where ta: "ta = (t, a)" by fastforce
  obtain pg1 b1 d1 where st: "wl_page_step c t a pg b d = (pg1, b1, d1)" by (cases "wl_page_step c t a pg b d") auto
  have s: "wp_wishlist pg1 = JArr (guest_list d1) \<and> wishlists_ok d1"
    using wl_step_shows_server [OF Cons.prems(1), of a c t pg b] Cons.prems(2) st ta by simp
  show ?case
  proof (cases "as = []")
    case True
    then show ?thesis using s st ta by simp
  next
    case False
    then show ?thesis using Cons.IH [of d1 pg1 b1] s Cons.prems(2) st ta by simp
  qed
qed

text \<open>Claim C22: the student's dashboard shows the
  guest wishlist, but asks for its inquiries at \<open>/api/inquiries/student\<close>, a path with
  no route file: the list of inquiries stays empty whatever the database holds.\<close>

theorem student_dashboard_no_inquiries:
  assumes "wishlists_ok d" "js_truthy (ctx_user b)"
  shows "fetch_student_data c t pg b d = (pg\<lparr>sd_wishlist := JArr (guest_list d), sd_loading := False\<rparr>, b, d)"
proof -
  have w: "fetch c (api_req MGet ''/api/wishlist'' [] JUndef) t b d = (JsonReply (fst (wishlist_GET d)), b, d)"
    by (subst fetch_json [where r = "fst (wishlist_GET d)" and d' = d])
       (simp_all add: route_wishlist_get json_reply_def wishlist_GET_def store_cookie_None)
  have i: "fetch c (api_req MGet ''/api/inquiries/student'' [(''userId'', js_to_string (jget (ctx_user b) ''id''))] JUndef) t b d
             = (NotJson 404, b, d)"
    by (rule fetch_not_json) (simp add: route_inquiries_student)
  show ?thesis
    using assms w i by (simp add: fetch_student_data_def wishlist_GET_def jget_def wishlist_ids_ok)
qed

text \<open>The query typed in the home page's search box
  reaches the search page intact: \<open>encodeURIComponent\<close> followed by the
  \<open>URLSearchParams\<close> decoding gives back the text, \<open>&\<close>, \<open>=\<close>, \<open>+\<close> and
  \<open>%\<close> included.\<close>

theorem home_search_roundtrip:
  "js_trim q \<noteq> [] \<Longrightarrow> pp_query (props_page_init (query_params (url_query (home_search q)))) = q"
proof -
  assume q: "js_trim q \<noteq> []"
  let ?e = "encode_uri_component q"
  have u: "url_query (home_search q) = ''q='' @ ?e"
    using q by (simp add: home_search_def url_query_def)
  have s: "split_on CHR ''&'' (''q='' @ ?e) = [''q='' @ ?e]"
    by (rule split_on_notin) (auto dest: encode_plain)
  have tw: "takeWhile (\<lambda>c. c \<noteq> CHR ''='') (''q='' @ ?e) = ''q''" by simp
  have "form_decode ?e = q" using form_decode_encode [of q "[]"] by simp
  then show ?thesis
    unfolding props_page_init_def param_or_empty_def query_params_def u s
    by (simp add: tw param_get_def)
qed

text \<open>Claim C40: on a listing's page, the next and the previous image
  of a valid image index are valid indices of the listing's images.\<close>

theorem carousel_bounds:
  assumes "dp_property pg = Some p" "0 \<le> dp_image pg" "dp_image pg < image_count p"
  shows "0 \<le> dp_image (detail_next pg) \<and> dp_image (detail_next pg) < image_count p \<and>
         0 \<le> dp_image (detail_prev pg) \<and> dp_image (detail_prev pg) < image_count p"
  using assms by (auto simp: detail_next_def detail_prev_def next_image_def prev_image_def)

text \<open>The previous image of the next one, and the next of
  the previous one, is the image shown before.\<close>

theorem carousel_roundtrip:
  assumes "dp_property pg = Some p" "0 \<le> dp_image pg" "dp_image pg < image_count p"
  shows "detail_prev (detail_next pg) = pg \<and> detail_next (detail_prev pg) = pg"
  using assms by (auto simp: detail_next_def detail_prev_def next_image_def prev_image_def)

lemma wishlist_page_shows_server_witness:
  "wp_wishlist (fst (wl_page_run toy_crypto [(5, WRemove ''p1''), (6, WLoad)] wl_page_init \<lparr>jar = Some ''t'', ctx_user = JObj [(''id'', JStr ''user-5''), (''role'', JStr ''student'')]\<rparr> \<lparr>colls = (\<lambda>_. [])(Wishlists := [[(''_id'', JOid ''w1''), (''userId'', JStr ''guest-user''), (''propertyIds'', JArr [JStr ''p1'', JStr ''p2''])]]), next_oid = 3\<rparr>)) =
   JArr (guest_list (snd (snd (wl_page_run toy_crypto [(5, WRemove ''p1''), (6, WLoad)] wl_page_init \<lparr>jar = Some ''t'', ctx_user = JObj [(''id'', JStr ''user-5''), (''role'', JStr ''student'')]\<rparr> \<lparr>colls = (\<lambda>_. [])(Wishlists := [[(''_id'', JOid ''w1''), (''userId'', JStr ''guest-user''), (''propertyIds'', JArr [JStr ''p1'', JStr ''p2''])]]), next_oid = 3\<rparr>))))"
  by (rule wishlist_page_shows_server [OF sample_wishlists_ok]) simp_all

lemma student_dashboard_no_inquiries_witness:
  "fetch_student_data toy_crypto 5 sdash_init \<lparr>jar = Some ''t'', ctx_user = JObj [(''id'', JStr ''user-5''), (''role'', JStr ''student'')]\<rparr> \<lparr>colls = (\<lambda>_. [])(Wishlists := [[(''_id'', JOid ''w1''), (''userId'', JStr ''guest-user''), (''propertyIds'', JArr [JStr ''p1'', JStr ''p2''])]]), next_oid = 3\<rparr> =
     (sdash_init\<lparr>sd_wishlist := JArr [JStr ''p1'', JStr ''p2''], sd_loading := False\<rparr>, \<lparr>jar = Some ''t'', ctx_user = JObj [(''id'', JStr ''user-5''), (''role'', JStr ''student'')]\<rparr>, \<lparr>colls = (\<lambda>_. [])(Wishlists := [[(''_id'', JOid ''w1''), (''userId'', JStr ''guest-user''), (''propertyIds'', JArr [JStr ''p1'', JStr ''p2''])]]), next_oid = 3\<rparr>)"
  using student_dashboard_no_inquiries [OF sample_wishlists_ok, of "\<lparr>jar = Some ''t'', ctx_user = JObj [(''id'', JStr ''user-5''), (''role'', JStr ''student'')]\<rparr>" toy_crypto 5 sdash_init]
  by (simp add: sample_guest_list)

lemma home_search_roundtrip_witness: "pp_query (props_page_init (query_params (url_query (home_search ''PG & 50%'')))) = ''PG & 50%''"
  by (rule home_search_roundtrip) (simp add: js_trim_def js_space_def)

lemma carousel_bounds_witness:
  "0 \<le> dp_image (detail_next (detail_init\<lparr>dp_property := Some (JObj [(''images'', JArr [JStr ''a.jpg'', JStr ''b.jpg'', JStr ''c.jpg''])]), dp_image := 2\<rparr>)) \<and> dp_image (detail_next (detail_init\<lparr>dp_property := Some (JObj [(''images'', JArr [JStr ''a.jpg'', JStr ''b.jpg'', JStr ''c.jpg''])]), dp_image := 2\<rparr>)) < 3 \<and>
   0 \<le> dp_image (detail_prev (detail_init\<lparr>dp_property := Some (JObj [(''images'', JArr [JStr ''a.jpg'', JStr ''b.jpg'', JStr ''c.jpg''])]), dp_image := 2\<rparr>)) \<and> dp_image (detail_prev (detail_init\<lparr>dp_property := Some (JObj [(''images'', JArr [JStr ''a.jpg'', JStr ''b.jpg'', JStr ''c.jpg''])]), dp_image := 2\<rparr>)) < 3"
  using carousel_bounds [of "(detail_init\<lparr>dp_property := Some (JObj [(''images'', JArr [JStr ''a.jpg'', JStr ''b.jpg'', JStr ''c.jpg''])]), dp_image := 2\<rparr>)" "(JObj [(''images'', JArr [JStr ''a.jpg'', JStr ''b.jpg'', JStr ''c.jpg''])])"] by (simp add: detail_init_def image_count_def arr_items_def jget_def)

lemma carousel_roundtrip_witness:
  "detail_prev (detail_next (detail_init\<lparr>dp_property := Some (JObj [(''images'', JArr [JStr ''a.jpg'', JStr ''b.jpg'', JStr ''c.jpg''])]), dp_image := 2\<rparr>)) = (detail_init\<lparr>dp_property := Some (JObj [(''images'', JArr [JStr ''a.jpg'', JStr ''b.jpg'', JStr ''c.jpg''])]), dp_image := 2\<rparr>) \<and> detail_next (detail_prev (detail_init\<lparr>dp_property := Some (JObj [(''images'', JArr [JStr ''a.jpg'', JStr ''b.jpg'', JStr ''c.jpg''])]), dp_image := 2\<rparr>)) = (detail_init\<lparr>dp_property := Some (JObj [(''images'', JArr [JStr ''a.jpg'', JStr ''b.jpg'', JStr ''c.jpg''])]), dp_image := 2\<rparr>)"
  using carousel_roundtrip [of "(detail_init\<lparr>dp_property := Some (JObj [(''images'', JArr [JStr ''a.jpg'', JStr ''b.jpg'', JStr ''c.jpg''])]), dp_image := 2\<rparr>)" "(JObj [(''images'', JArr [JStr ''a.jpg'', JStr ''b.jpg'', JStr ''c.jpg''])])"] by (simp add: detail_init_def image_count_def arr_items_def jget_def)

end
