(* ===== verification/Forms.thy ===== *)
theory Forms
  imports Pages_Landlord
begin

text \<open>
  The inputs of the add-property form (dashboard/landlord/add-property/page.tsx,
  the JSX of its seven cards) and the browser's part in a submission.  Each input is
  a row of a table: the key of \<open>formData\<close> its \<open>onChange\<close> writes, its kind (a text,
  number, time or date \<open>Input\<close>, a \<open>Select\<close> with its items, a \<open>Checkbox\<close>), its
  \<open>required\<close> attribute, and the condition under which the JSX renders it.  A user
  event is one the rendered form can produce: a number input yields the empty string
  or a valid floating-point number (the HTML value sanitisation), a select one of its
  items.  \<open>form_reach\<close> is the set of forms the page can hold; the browser's
  constraint validation (\<open>required\<close>, \<open>min\<close>, the default step 1) decides whether
  \<open>onSubmit\<close> runs \<open>handleSubmit\<close>.
\<close>

section \<open>The inputs\<close>

datatype input_kind = TextIn | NumberIn "int option" | TimeIn | DateIn | SelectIn "string list" | CheckIn

datatype shown_when = Always | WhenEq string jval | WhenTruthy string

type_synonym form_input = "string \<times> input_kind \<times> bool \<times> shown_when"

definition shown :: "shown_when \<Rightarrow> jobj \<Rightarrow> bool" where
  "shown w f =
     (case w of Always \<Rightarrow> True | WhenEq k v \<Rightarrow> obj_get f k = v | WhenTruthy k \<Rightarrow> js_truthy (obj_get f k))"

text \<open>Basic Information: title, the description \<open>Textarea\<close>, the type and gender
  selects, and the BHK select shown for a flat.\<close>

definition basic_inputs :: "form_input list" where
  "basic_inputs =
     [(''title'', TextIn, True, Always), (''description'', TextIn, True, Always),
      (''propertyType'', SelectIn (map fst ap_property_types), False, Always),
      (''genderPreference'', SelectIn (map fst ap_gender_options), False, Always),
      (''bhk'', SelectIn [''1'', ''2'', ''3'', ''4''], False, WhenEq ''propertyType'' (JStr ''FLAT''))]"

definition location_inputs :: "form_input list" where
  "location_inputs =
     [(''address'', TextIn, True, Always), (''city'', TextIn, True, Always), (''state'', TextIn, False, Always),
      (''pincode'', TextIn, True, Always), (''landmark'', TextIn, False, Always),
      (''nearbyColleges'', TextIn, False, Always)]"

definition room_inputs :: "form_input list" where
  "room_inputs =
     [(''totalRooms'', NumberIn (Some 1), False, Always), (''totalBeds'', NumberIn (Some 1), False, Always),
      (''availableBeds'', NumberIn (Some 0), True, Always), (''bedsPerRoom'', NumberIn (Some 1), False, Always),
      (''roomSize'', TextIn, False, Always), (''bathrooms'', NumberIn (Some 1), False, Always),
      (''floorNumber'', NumberIn (Some 0), False, Always), (''totalFloors'', NumberIn (Some 1), False, Always),
      (''occupancyType'', SelectIn (map fst ap_occupancy_options), False, Always),
      (''furnishing'', SelectIn (map fst ap_furnishing_options), False, Always),
      (''furnishingDetails'', TextIn, False, Always)]"

definition pricing_inputs :: "form_input list" where
  "pricing_inputs =
     [(''rent'', NumberIn (Some 0), True, Always), (''deposit'', NumberIn (Some 0), True, Always),
      (''maintenanceCharges'', NumberIn (Some 0), False, Always),
      (''electricityCharges'', SelectIn [''included'', ''separate''], False, Always),
      (''waterCharges'', SelectIn [''included'', ''separate''], False, Always),
      (''foodIncluded'', CheckIn, False, Always),
      (''foodCharges'', NumberIn None, False, WhenTruthy ''foodIncluded''),
      (''mealsPerDay'', NumberIn None, False, WhenTruthy ''foodIncluded'')]"

definition rules_inputs :: "form_input list" where
  "rules_inputs =
     map (\<lambda>k. (k, CheckIn, False, Always))
       [''nonVegAllowed'', ''smokingAllowed'', ''drinkingAllowed'', ''petsAllowed'', ''visitorsAllowed'',
        ''oppositeSexAllowed''] @
     [(''gateClosingTime'', TimeIn, False, Always)]"

definition availability_inputs :: "form_input list" where
  "availability_inputs =
     [(''availableFrom'', DateIn, False, Always), (''minimumStay'', NumberIn (Some 1), False, Always),
      (''noticePeriod'', NumberIn (Some 1), False, Always)]"

definition form_inputs :: "form_input list" where
  "form_inputs = basic_inputs @ location_inputs @ room_inputs @ pricing_inputs @ rules_inputs @ availability_inputs"

section \<open>What the browser lets an input hold\<close>

text \<open>A valid floating-point number of HTML: an optional \<open>-\<close>, digits, a fraction
  of at least one digit (one of the two present), an optional exponent.\<close>

definition html_float :: "string \<Rightarrow> bool" where
  "html_float s =
     (let s1 = (case s of c # r \<Rightarrow> if c = CHR ''-'' then r else s | [] \<Rightarrow> []);
          ip = digit_prefix 10 s1;
          s2 = drop (length ip) s1;
          fp = (case s2 of c # r \<Rightarrow> if c = CHR ''.'' then Some (digit_prefix 10 r) else None | [] \<Rightarrow> None);
          s3 = (case fp of Some ds \<Rightarrow> drop (Suc (length ds)) s2 | None \<Rightarrow> s2);
          ex = (case s3 of
                  [] \<Rightarrow> True
                | c # r \<Rightarrow>
                    (c = CHR ''e'' \<or> c = CHR ''E'') \<and>
                    (let r' = (case r of x # y \<Rightarrow> if x = CHR ''-'' \<or> x = CHR ''+'' then y else r | [] \<Rightarrow> [])
                     in r' \<noteq> [] \<and> length (digit_prefix 10 r') = length r'))
      in (ip \<noteq> [] \<or> fp \<noteq> None) \<and> fp \<noteq> Some [] \<and> ex)"

text \<open>The value an input can take: a number input the empty string or a valid
  number, a select one of its items (the initial state may hold the empty string), a
  checkbox a boolean, the others any string.\<close>

fun kind_value :: "input_kind \<Rightarrow> jval \<Rightarrow> bool" where
  "kind_value (NumberIn _) v = (case v of JStr s \<Rightarrow> s = [] \<or> html_float s | _ \<Rightarrow> False)"
| "kind_value (SelectIn opts) v = (case v of JStr s \<Rightarrow> s = [] \<or> s \<in> set opts | _ \<Rightarrow> False)"
| "kind_value CheckIn v = (case v of JBool _ \<Rightarrow> True | _ \<Rightarrow> False)"
| "kind_value _ v = (case v of JStr _ \<Rightarrow> True | _ \<Rightarrow> False)"

section \<open>The user's events\<close>

text \<open>\<open>onChange\<close> of an \<open>Input\<close> (\<open>e.target.value\<close>), \<open>onValueChange\<close> of a
  \<open>Select\<close>, \<open>onCheckedChange\<close> of a \<open>Checkbox\<close>, an amenity button, the image
  buttons.\<close>

datatype form_event =
    Typed string string
  | Picked string string
  | Checked string bool
  | AmenityClick string
  | AddImageClick "string option"
  | RemoveImageClick nat

definition form_event_step :: "form_event \<Rightarrow> jobj \<Rightarrow> jobj" where
  "form_event_step ev f =
     (case ev of
        Typed k v \<Rightarrow> update_form_data k (JStr v) f
      | Picked k v \<Rightarrow> update_form_data k (JStr v) f
      | Checked k c \<Rightarrow> update_form_data k (JBool c) f
      | AmenityClick a \<Rightarrow> toggle_amenity a f
      | AddImageClick u \<Rightarrow> add_image_url u f
      | RemoveImageClick i \<Rightarrow> remove_image i f)"

text \<open>The events the rendered form can produce: the input exists and is shown, and
  the value is one its kind yields; a remove button exists for each image.\<close>

definition event_ok :: "jobj \<Rightarrow> form_event \<Rightarrow> bool" where
  "event_ok f ev =
     (case ev of
        Typed k v \<Rightarrow>
          list_ex (\<lambda>(k', kd, _, w). k' = k \<and> shown w f \<and>
                      (case kd of TextIn \<Rightarrow> True | TimeIn \<Rightarrow> True | DateIn \<Rightarrow> True
                                | NumberIn _ \<Rightarrow> v = [] \<or> html_float v | _ \<Rightarrow> False)) form_inputs
      | Picked k v \<Rightarrow>
          list_ex (\<lambda>(k', kd, _, w). k' = k \<and> shown w f \<and>
                      (case kd of SelectIn opts \<Rightarrow> v \<in> set opts | _ \<Rightarrow> False)) form_inputs
      | Checked k c \<Rightarrow> list_ex (\<lambda>(k', kd, _, w). k' = k \<and> shown w f \<and> kd = CheckIn) form_inputs
      | AmenityClick a \<Rightarrow> a \<in> set (map fst ap_amenities)
      | AddImageClick u \<Rightarrow> True
      | RemoveImageClick i \<Rightarrow> i < length (arr_items (obj_get f ''images'')))"

inductive form_reach :: "jobj \<Rightarrow> bool" where
  init: "form_reach form_init"
| step: "form_reach f \<Longrightarrow> event_ok f ev \<Longrightarrow> form_reach (form_event_step ev f)"

section \<open>The browser's constraint validation\<close>

text \<open>A shown input is valid unless it is required and empty, or a non-empty number
  is below its \<open>min\<close> or off the step (1, from \<open>min\<close>, else from 0).\<close>

definition input_valid :: "input_kind \<Rightarrow> bool \<Rightarrow> jval \<Rightarrow> bool" where
  "input_valid kd req v =
     (let s = js_to_string v in
      \<not> (req \<and> s = []) \<and>
      (case kd of
         NumberIn mn \<Rightarrow>
           s = [] \<or>
           (case js_parse_float s of
              Some (JNum q) \<Rightarrow> (case mn of None \<Rightarrow> True | Some m \<Rightarrow> of_int m \<le> q) \<and> of_int (floor q) = q
            | _ \<Rightarrow> False)
       | _ \<Rightarrow> True))"

definition browser_valid :: "jobj \<Rightarrow> bool" where
  "browser_valid f = list_all (\<lambda>(k, kd, req, w). \<not> shown w f \<or> input_valid kd req (obj_get f k)) form_inputs"

text \<open>\<open><form onSubmit={handleSubmit}>\<close> with the submit button disabled while
  \<open>isSubmitting\<close>: the handler runs only on a valid form.\<close>

definition submit_form ::
  "'a crypto_scheme \<Rightarrow> nat \<Rightarrow> add_page \<Rightarrow> browser \<Rightarrow> db \<Rightarrow> add_page \<times> browser \<times> db" where
  "submit_form c t pg b d =
     (if ap_submitting pg \<or> \<not> browser_valid (ap_form pg) then (pg, b, d) else add_property_submit c t pg b d)"

text \<open>Every value of a form is of its input's kind, and the amenities and images are
  arrays of strings.\<close>

definition str_array :: "jval \<Rightarrow> bool" where
  "str_array v = (case v of JArr ys \<Rightarrow> list_all (\<lambda>y. case y of JStr _ \<Rightarrow> True | _ \<Rightarrow> False) ys | _ \<Rightarrow> False)"

definition form_typed :: "jobj \<Rightarrow> bool" where
  "form_typed f =
     (list_all (\<lambda>(k, kd, _, _). kind_value kd (obj_get f k)) form_inputs \<and>
      str_array (obj_get f ''amenities'') \<and> str_array (obj_get f ''images''))"

section \<open>Event sequences\<close>

text \<open>A sequence of user events and whether the rendered form allows each in turn.\<close>

fun run_events :: "jobj \<Rightarrow> form_event list \<Rightarrow> jobj" where
  "run_events f [] = f"
| "run_events f (e # es) = run_events (form_event_step e f) es"

fun events_ok :: "jobj \<Rightarrow> form_event list \<Rightarrow> bool" where
  "events_ok f [] = True"
| "events_ok f (e # es) = (event_ok f e \<and> events_ok (form_event_step e f) es)"

section \<open>Samples\<close>

definition zero_rent_events :: "form_event list" where
  "zero_rent_events =
     [Typed ''title'' ''Lake View PG'', Typed ''description'' ''Near the campus'', Picked ''propertyType'' ''PG'',
      Typed ''address'' ''12 Lake Road'', Typed ''city'' ''Kolkata'', Typed ''pincode'' ''700091'',
      Typed ''availableBeds'' ''2'', Typed ''rent'' ''0'', Typed ''deposit'' ''5000'']"

definition sample_landlord_browser :: browser where
  "sample_landlord_browser =
     \<lparr>jar = Some ''tok'', ctx_user = JObj [(''id'', JStr ''u1''), (''role'', JStr ''landlord'')]\<rparr>"

section \<open>Lemmas\<close>

lemma form_keys_distinct: "distinct (map fst form_inputs)"
  by (simp add: form_inputs_def basic_inputs_def location_inputs_def room_inputs_def pricing_inputs_def
                rules_inputs_def availability_inputs_def)

lemma form_keys_not_arrays: "(k, r) \<in> set form_inputs \<Longrightarrow> k \<noteq> ''amenities'' \<and> k \<noteq> ''images''"
  by (auto simp: form_inputs_def basic_inputs_def location_inputs_def room_inputs_def pricing_inputs_def
                 rules_inputs_def availability_inputs_def)

lemma form_init_typed: "form_typed form_init"
  by (simp add: form_typed_def form_init_def form_inputs_def basic_inputs_def location_inputs_def
                room_inputs_def pricing_inputs_def rules_inputs_def availability_inputs_def str_array_def
                html_float_def ap_property_types_def ap_gender_options_def ap_occupancy_options_def
                ap_furnishing_options_def digit_val_def)

lemma rows_set_other:
  "k \<notin> fst ` set rows \<Longrightarrow>
   list_all (\<lambda>(k', kd, _, _). P kd (obj_get (obj_set f k v) k')) rows =
   list_all (\<lambda>(k', kd, _, _). P kd (obj_get f k')) rows"
  by (induction rows) (auto split: prod.splits)

lemma rows_set_row:
  assumes "distinct (map fst rows)" "(k, kd0, r0, w0) \<in> set rows" "P kd0 v"
    and "list_all (\<lambda>(k', kd, _, _). P kd (obj_get f k')) rows"
  shows "list_all (\<lambda>(k', kd, _, _). P kd (obj_get (obj_set f k v) k')) rows"
  unfolding list_all_iff
proof (intro ballI, clarify)
  fix k' kd r w assume row: "(k', kd, r, w) \<in> set rows"
  show "P kd (obj_get (obj_set f k v) k')"
  proof (cases "k' = k")
    case True
    with assms(1,2) row have "kd = kd0" by (metis (no_types, lifting) eq_key_imp_eq_value prod.inject)
    with True assms(3) show ?thesis by simp
  next
    case False
    with assms(4) row show ?thesis by (auto simp: list_all_iff)
  qed
qed

lemma str_array_filter_enum:
  "str_array (JArr xs) \<Longrightarrow> str_array (JArr (map snd (filter P (enumerate n xs))))"
  by (auto simp: str_array_def list_all_iff in_set_enumerate_eq)

lemma str_array_items: "str_array v \<Longrightarrow> v = JArr (arr_items v)"
  by (cases v) (auto simp: str_array_def arr_items_def)

lemma form_typed_set_input:
  assumes "form_typed f" "(k, kd, r, w) \<in> set form_inputs" "kind_value kd v"
  shows "form_typed (obj_set f k v)"
proof -
  have "k \<noteq> ''amenities'' \<and> k \<noteq> ''images''" using form_keys_not_arrays assms(2) by blast
  then show ?thesis
    using assms rows_set_row [OF form_keys_distinct assms(2), of "kind_value" v f]
    by (auto simp: form_typed_def)
qed

lemma form_typed_set_array:
  assumes "form_typed f" "str_array x" "k = ''amenities'' \<or> k = ''images''"
  shows "form_typed (obj_set f k x)"
proof -
  have "k \<notin> fst ` set form_inputs" using form_keys_not_arrays assms(3) by fastforce
  then show ?thesis using assms by (auto simp: form_typed_def rows_set_other)
qed

lemma form_typed_step:
  assumes "form_typed f" "event_ok f ev"
  shows "form_typed (form_event_step ev f)"
proof (cases ev)
  case (Typed k v)
  with assms(2) obtain kd r w where row: "(k, kd, r, w) \<in> set form_inputs"
    and kd: "case kd of TextIn \<Rightarrow> True | TimeIn \<Rightarrow> True | DateIn \<Rightarrow> True
               | NumberIn _ \<Rightarrow> v = [] \<or> html_float v | _ \<Rightarrow> False"
    by (auto simp: event_ok_def list_ex_iff)
  from kd have "kind_value kd (JStr v)" by (cases kd) auto
  with Typed show ?thesis
    using form_typed_set_input [OF assms(1) row] by (simp add: form_event_step_def update_form_data_def)
next
  case (Picked k v)
  with assms(2) obtain kd r w where row: "(k, kd, r, w) \<in> set form_inputs"
    and kd: "case kd of SelectIn opts \<Rightarrow> v \<in> set opts | _ \<Rightarrow> False"
    by (auto simp: event_ok_def list_ex_iff)
  from kd have "kind_value kd (JStr v)" by (cases kd) auto
  with Picked show ?thesis
    using form_typed_set_input [OF assms(1) row] by (simp add: form_event_step_def update_form_data_def)
next
  case (Checked k c)
  with assms(2) obtain r w where row: "(k, CheckIn, r, w) \<in> set form_inputs"
    by (auto simp: event_ok_def list_ex_iff)
  with Checked show ?thesis
    using form_typed_set_input [OF assms(1) row] by (simp add: form_event_step_def update_form_data_def)
next
  case (AmenityClick a)
  let ?xs = "arr_items (obj_get f ''amenities'')"
  let ?ys = "if JStr a \<in> set ?xs then filter (\<lambda>x. x \<noteq> JStr a) ?xs else ?xs @ [JStr a]"
  have "str_array (obj_get f ''amenities'')" using assms(1) by (simp add: form_typed_def)
  then have str: "str_array (JArr ?ys)"
    by (cases "obj_get f ''amenities''") (auto simp: str_array_def arr_items_def list_all_iff)
  have "form_event_step ev f = obj_set f ''amenities'' (JArr ?ys)"
    by (simp only: AmenityClick form_event_step_def form_event.case toggle_amenity_def arr_items_def Let_def)
  then show ?thesis using form_typed_set_array [OF assms(1) str] by simp
next
  case (AddImageClick u)
  have "str_array (obj_get f ''images'')" using assms(1) by (simp add: form_typed_def)
  then have "str_array (JArr (arr_items (obj_get f ''images'') @ [JStr x]))" for x
    by (cases "obj_get f ''images''") (auto simp: str_array_def arr_items_def)
  with AddImageClick assms(1) show ?thesis using form_typed_set_array [OF assms(1)]
    by (auto simp: form_event_step_def add_image_url_def arr_items_def split: option.splits)
next
  case (RemoveImageClick i)
  have "str_array (obj_get f ''images'')" using assms(1) by (simp add: form_typed_def)
  then have "str_array (JArr (map snd (filter P (enumerate 0 (arr_items (obj_get f ''images''))))))" for P
    by (intro str_array_filter_enum) (simp add: str_array_items [symmetric])
  with RemoveImageClick show ?thesis using form_typed_set_array [OF assms(1)]
    by (simp add: form_event_step_def remove_image_def arr_items_def)
qed

lemma form_reach_typed: "form_reach f \<Longrightarrow> form_typed f"
  by (induction rule: form_reach.induct) (auto intro: form_init_typed form_typed_step)

lemma property_data_keep:
  "k \<notin> fst ` set (property_overrides f uid t) \<Longrightarrow> obj_get (property_data f uid t) k = obj_get f k"
  unfolding property_data_def by (rule obj_get_foldl_notin)

lemma property_data_override:
  "(k, v) \<in> set (property_overrides f uid t) \<Longrightarrow> obj_get (property_data f uid t) k = v"
  using property_data_get [of k f uid t] property_overrides_distinct [of f uid t]
  by (force simp: obj_get_def map_of_eq_Some_iff)

lemma required_text_truthy:
  assumes "form_typed f" "browser_valid f" "(k, TextIn, True, Always) \<in> set form_inputs"
  shows "js_truthy (obj_get f k)"
proof -
  from assms(1,3) obtain s where "obj_get f k = JStr s"
    by (auto simp: form_typed_def list_all_iff split: jval.splits)
  moreover from assms(2,3) have "input_valid TextIn True (obj_get f k)"
    by (fastforce simp: browser_valid_def list_all_iff shown_def)
  ultimately show ?thesis by (simp add: input_valid_def)
qed

lemma int_or_zero_truthy: "js_truthy (int_or v (JNum 0)) = js_truthy (js_parse_int (js_to_string v))"
  by (simp add: int_or_def js_or_def)

lemmas form_rows = form_inputs_def basic_inputs_def location_inputs_def room_inputs_def pricing_inputs_def
  rules_inputs_def availability_inputs_def

lemma form_first_missing:
  assumes "form_reach f" "browser_valid f" "js_truthy uid"
  shows "first_missing (property_data f uid t) required_property_fields =
           (if obj_get f ''propertyType'' = JStr [] then Some ''propertyType''
            else if \<not> js_truthy (js_parse_int (js_to_string (obj_get f ''rent''))) then Some ''rent''
            else if \<not> js_truthy (js_parse_int (js_to_string (obj_get f ''deposit''))) then Some ''deposit''
            else None)"
proof -
  have ty: "form_typed f" using assms(1) by (rule form_reach_typed)
  let ?g = "obj_get (property_data f uid t)"
  have filled: "js_truthy (?g k)" if "k \<in> {''title'', ''description'', ''address'', ''city''}" for k
  proof -
    have "?g k = obj_get f k" using that by (intro property_data_keep) (auto simp: property_overrides_def Let_def)
    moreover have "(k, TextIn, True, Always) \<in> set form_inputs"
      using that by (elim insertE emptyE) (simp_all add: form_rows)
    ultimately show ?thesis using required_text_truthy [OF ty assms(2)] by simp
  qed
  have "?g ''propertyType'' = obj_get f ''propertyType''"
    by (intro property_data_keep) (auto simp: property_overrides_def Let_def)
  moreover obtain s where "obj_get f ''propertyType'' = JStr s"
    using ty by (auto simp: form_typed_def form_rows split: jval.splits)
  moreover have "?g ''rent'' = int_or (obj_get f ''rent'') (JNum 0)"
    by (rule property_data_override) (simp add: property_overrides_def Let_def)
  moreover have "?g ''deposit'' = int_or (obj_get f ''deposit'') (JNum 0)"
    by (rule property_data_override) (simp add: property_overrides_def Let_def)
  ultimately show ?thesis
    using filled assms(3) by (simp add: required_property_fields_def property_data_landlord int_or_zero_truthy)
qed

lemma form_reach_run: "form_reach f \<Longrightarrow> events_ok f es \<Longrightarrow> form_reach (run_events f es)"
  by (induction f es rule: run_events.induct) (auto intro: form_reach.step)

lemma submit_missing_field:
  assumes "\<not> ap_submitting pg" "browser_valid (ap_form pg)"
    and "js_truthy (jget (ctx_user b) ''id'')" "jget (ctx_user b) ''role'' = JStr ''landlord''"
    and "first_missing (property_data (ap_form pg) (jget (ctx_user b) ''id'') t) required_property_fields = Some k"
  shows "submit_form c t pg b d = (pg\<lparr>ap_error := JStr (k @ '' is required''), ap_submitting := False\<rparr>, b, d)"
proof -
  let ?body = "JObj (property_data (ap_form pg) (jget (ctx_user b) ''id'') t)"
  have "property_POST ?body t d = (fail_resp 400 (k @ '' is required''), d)"
    using assms(5) by (simp add: property_POST_def)
  then have "fetch c (api_req MPost ''/api/properties'' [] ?body) t b d =
               (JsonReply (fail_resp 400 (k @ '' is required'')), b, d)"
    by (simp add: fetch_def route_property_post json_reply_def fail_resp_def json_resp_def store_cookie_None)
  then show ?thesis using assms(1-4)
    by (simp add: submit_form_def add_property_submit_def fail_resp_def json_resp_def jget_def)
qed

text \<open>Claim C24: for a form the page can hold and the browser lets
  through, sent by a signed-in landlord, the route's required-field check fails
  exactly when no property type was picked (the select has no \<open>required\<close>) or
  \<open>parseInt\<close> of the rent or the deposit is 0, which \<open>min="0"\<close> allows; and
  then the page shows the route's message and the database is unchanged.\<close>

theorem submit_form_required:
  assumes "form_reach (ap_form pg)" "browser_valid (ap_form pg)" "\<not> ap_submitting pg"
    and "js_truthy (jget (ctx_user b) ''id'')" "jget (ctx_user b) ''role'' = JStr ''landlord''"
  shows "first_missing (property_data (ap_form pg) (jget (ctx_user b) ''id'') t) required_property_fields =
           (if obj_get (ap_form pg) ''propertyType'' = JStr [] then Some ''propertyType''
            else if \<not> js_truthy (js_parse_int (js_to_string (obj_get (ap_form pg) ''rent''))) then Some ''rent''
            else if \<not> js_truthy (js_parse_int (js_to_string (obj_get (ap_form pg) ''deposit''))) then Some ''deposit''
            else None)
         \<and> (\<forall>k. first_missing (property_data (ap_form pg) (jget (ctx_user b) ''id'') t) required_property_fields = Some k
              \<longrightarrow> submit_form c t pg b d = (pg\<lparr>ap_error := JStr (k @ '' is required''), ap_submitting := False\<rparr>, b, d))"
  using form_first_missing [OF assms(1,2,4)] submit_missing_field [OF assms(3,2,4,5)] by blast

lemma submit_form_required_witness:
  "browser_valid (run_events form_init zero_rent_events) \<and>
   submit_form toy_crypto 5 (add_page_init\<lparr>ap_form := run_events form_init zero_rent_events\<rparr>)
               sample_landlord_browser empty_db =
     (add_page_init\<lparr>ap_form := run_events form_init zero_rent_events,
                    ap_error := JStr ''rent is required'', ap_submitting := False\<rparr>,
      sample_landlord_browser, empty_db)"
proof -
  let ?f = "run_events form_init zero_rent_events"
  let ?pg = "add_page_init\<lparr>ap_form := ?f\<rparr>"
  have ok: "events_ok form_init zero_rent_events"
    by (simp add: zero_rent_events_def event_ok_def form_rows shown_def html_float_def digit_val_def
                  ap_property_types_def form_event_step_def update_form_data_def form_init_def)
  have v: "browser_valid ?f"
    by (simp add: zero_rent_events_def browser_valid_def input_valid_def form_rows shown_def
                  form_event_step_def update_form_data_def form_init_def js_parse_float_def
                  digit_val_def digits_value_def exp_value_def scale10_def js_space_def)
  have u: "js_truthy (jget (ctx_user sample_landlord_browser) ''id'')"
          "jget (ctx_user sample_landlord_browser) ''role'' = JStr ''landlord''"
    by (simp_all add: sample_landlord_browser_def jget_def)
  have rent: "(if obj_get (ap_form ?pg) ''propertyType'' = JStr [] then Some ''propertyType''
           else if \<not> js_truthy (js_parse_int (js_to_string (obj_get (ap_form ?pg) ''rent''))) then Some ''rent''
           else if \<not> js_truthy (js_parse_int (js_to_string (obj_get (ap_form ?pg) ''deposit''))) then Some ''deposit''
           else None) = Some ''rent''"
    by (simp add: zero_rent_events_def form_event_step_def update_form_data_def form_init_def
                  js_parse_int_def js_space_def digit_val_def digits_value_def add_page_init_def)
  have ns: "\<not> ap_submitting ?pg" by (simp add: add_page_init_def)
  have reach: "form_reach (ap_form ?pg)" using form_reach_run [OF form_reach.init ok] by simp
  have v': "browser_valid (ap_form ?pg)" using v by simp
  note both = submit_form_required [OF reach v' ns u, of 5 toy_crypto empty_db]
  have "first_missing (property_data (ap_form ?pg) (jget (ctx_user sample_landlord_browser) ''id'') 5)
          required_property_fields = Some ''rent''"
    using trans [OF conjunct1 [OF both] rent] .
  then have "submit_form toy_crypto 5 ?pg sample_landlord_browser empty_db =
          (?pg\<lparr>ap_error := JStr (''rent'' @ '' is required''), ap_submitting := False\<rparr>, sample_landlord_browser, empty_db)"
    using conjunct2 [OF both] by blast
  then show ?thesis using v by simp
qed
end
