(* ===== verification/Navigation.thy ===== *)
theory Navigation
  imports Client Utils
begin

text \<open>
  Navigation between the pages of src/src/app: the pages the app directory
  defines, the redirect effects of the dashboard pages (dashboard/page.tsx, the four
  landlord pages, the student dashboard), the links the header of
  components/layout/header.tsx renders and its \<open>handleLogout\<close>.  A redirect
  (\<open>router.push\<close>) is a client-side navigation: \<open>AuthProvider\<close> in the root layout
  keeps its state, so the next page's effect runs with the same \<open>user\<close>.
  \<open>settle\<close> follows the redirects; a redirect cycle is the value \<open>None\<close>.  A full
  load of a page starts a fresh \<open>AuthProvider\<close> (\<open>user\<close> null): \<open>open_page\<close> runs
  the page's effect and the provider's \<open>refreshUser\<close> in the order React runs them.
\<close>

section \<open>The pages of the app directory\<close>

text \<open>A URL's path: the part before the query string.\<close>

definition url_path :: "string \<Rightarrow> string" where
  "url_path u = takeWhile (\<lambda>c. c \<noteq> CHR ''?'') u"

text \<open>The routes of the files app/**/page.tsx; properties/[slug]/page.tsx is every
  one-segment path under /properties/.\<close>

definition app_pages :: "string list" where
  "app_pages =
     [''/'', ''/properties'', ''/wishlist'', ''/roommates'', ''/dashboard'', ''/dashboard/student'',
      ''/dashboard/landlord'', ''/dashboard/landlord/add-property'', ''/dashboard/landlord/properties'',
      ''/dashboard/landlord/inquiries'']"

definition app_page :: "string \<Rightarrow> bool" where
  "app_page u =
     (let p = url_path u
      in p \<in> set app_pages \<or>
         (take 12 p = ''/properties/'' \<and> drop 12 p \<noteq> [] \<and> CHR ''/'' \<notin> set (drop 12 p)))"

section \<open>The redirect effects\<close>

text \<open>\<open>isLoading\<close> of \<open>AuthProvider\<close>: \<open>useState(false)\<close>, never set.\<close>

definition auth_is_loading :: bool where
  "auth_is_loading = False"

text \<open>\<open>user?.role\<close>: \<open>undefined\<close> when there is no user.\<close>

definition user_role :: "jval \<Rightarrow> jval" where
  "user_role u = jget u ''role''"

text \<open>dashboard/page.tsx: the effect that sends a user to the dashboard of their
  role; a role that is neither is left on the page.\<close>

definition dashboard_redirect :: "bool \<Rightarrow> jval \<Rightarrow> string option" where
  "dashboard_redirect loading user =
     (if \<not> loading then
        if \<not> js_truthy user then Some ''/login''
        else if js_strict_eq (user_role user) (JStr ''landlord'') then Some ''/dashboard/landlord''
        else if js_strict_eq (user_role user) (JStr ''student'') then Some ''/dashboard/student''
        else None
      else None)"

text \<open>The guard of each landlord page (the same code in four files) and of the
  student dashboard.\<close>

definition landlord_guard :: "bool \<Rightarrow> jval \<Rightarrow> string option" where
  "landlord_guard loading user =
     (if \<not> loading \<and> \<not> js_truthy user then Some ''/login''
      else if \<not> loading \<and> \<not> js_strict_eq (user_role user) (JStr ''landlord'') then Some ''/dashboard/student''
      else None)"

definition lprops_guard :: "bool \<Rightarrow> jval \<Rightarrow> string option" where
  "lprops_guard auth_loading user =
     (if \<not> auth_loading \<and> \<not> js_truthy user then Some ''/login''
      else if \<not> auth_loading \<and> \<not> js_strict_eq (user_role user) (JStr ''landlord'') then Some ''/dashboard/student''
      else None)"

definition add_property_guard :: "bool \<Rightarrow> jval \<Rightarrow> string option" where
  "add_property_guard auth_loading user =
     (if \<not> auth_loading \<and> \<not> js_truthy user then Some ''/login''
      else if \<not> auth_loading \<and> \<not> js_strict_eq (user_role user) (JStr ''landlord'') then Some ''/dashboard/student''
      else None)"

definition linq_guard :: "bool \<Rightarrow> jval \<Rightarrow> string option" where
  "linq_guard auth_loading user =
     (if \<not> auth_loading \<and> \<not> js_truthy user then Some ''/login''
      else if \<not> auth_loading \<and> \<not> js_strict_eq (user_role user) (JStr ''landlord'') then Some ''/dashboard/student''
      else None)"

definition student_guard :: "bool \<Rightarrow> jval \<Rightarrow> string option" where
  "student_guard loading user =
     (if \<not> loading \<and> \<not> js_truthy user then Some ''/login''
      else if \<not> loading \<and> \<not> js_strict_eq (user_role user) (JStr ''student'') then Some ''/dashboard/landlord''
      else None)"

text \<open>The redirect effect of the page at a URL; the other pages have none.\<close>

definition page_guard :: "string \<Rightarrow> bool \<Rightarrow> jval \<Rightarrow> string option" where
  "page_guard u loading user =
     (let p = url_path u in
      if p = ''/dashboard'' then dashboard_redirect loading user
      else if p = ''/dashboard/landlord'' then landlord_guard loading user
      else if p = ''/dashboard/landlord/properties'' then lprops_guard loading user
      else if p = ''/dashboard/landlord/add-property'' then add_property_guard loading user
      else if p = ''/dashboard/landlord/inquiries'' then linq_guard loading user
      else if p = ''/dashboard/student'' then student_guard loading user
      else None)"

definition guarded_paths :: "string list" where
  "guarded_paths =
     [''/dashboard'', ''/dashboard/landlord'', ''/dashboard/landlord/properties'',
      ''/dashboard/landlord/add-property'', ''/dashboard/landlord/inquiries'', ''/dashboard/student'']"

text \<open>Client-side navigation: each \<open>router.push\<close> renders the next page, whose effect
  runs with the provider's unchanged \<open>user\<close>; the page reached is the one whose
  effect does not redirect.\<close>

partial_function (option) settle :: "jval \<Rightarrow> string \<Rightarrow> string option" where
  "settle user u = (case page_guard u auth_is_loading user of None \<Rightarrow> Some u | Some v \<Rightarrow> settle user v)"

text \<open>A full load of a page: the provider starts with no user; after the first
  render React runs the effects, the page's before its ancestor \<open>AuthProvider\<close>'s, so
  the page's redirect is decided before \<open>refreshUser\<close> starts; \<open>refreshUser\<close>
  then asks the server.  The result is the redirect issued and the browser after the
  refresh.\<close>

definition open_page ::
  "'a crypto_scheme \<Rightarrow> bool \<Rightarrow> nat \<Rightarrow> string \<Rightarrow> browser \<Rightarrow> db \<Rightarrow> string option \<times> browser \<times> db" where
  "open_page c in_time t u b d =
     (let b0 = b\<lparr>ctx_user := JNull\<rparr>;
          r = page_guard u auth_is_loading (ctx_user b0);
          (b1, d1) = ctx_refresh c in_time t b0 d
      in (r, b1, d1))"

section \<open>The header\<close>

definition nav_items :: "string list" where
  "nav_items = [''/'', ''/properties'', ''/properties?view=map'', ''/roommates'', ''/wishlist'']"

definition dashboard_link :: "jval \<Rightarrow> string" where
  "dashboard_link user =
     (if js_strict_eq (user_role user) (JStr ''landlord'') then ''/dashboard/landlord'' else ''/dashboard/student'')"

text \<open>The header's own \<open>getInitials\<close>: the first character of each space-separated
  word (an empty word gives none), upper-cased, at most two.\<close>

definition header_initials :: "string \<Rightarrow> string" where
  "header_initials name = take 2 (to_upper (concat (map (take 1) (split_on CHR '' '' name))))"

text \<open>The links the header renders, in document order: the logo, the desktop
  navigation, \<open>Find Housing\<close>, the auth section (a signed-in user's links are in a
  dropdown menu, whose content is mounted only while it is open), and the mobile
  menu when it is open.\<close>

definition header_links :: "bool \<Rightarrow> jval \<Rightarrow> bool \<Rightarrow> bool \<Rightarrow> string list" where
  "header_links loading user dropdown_open menu_open =
     [''/''] @ nav_items @ [''/properties''] @
     (if loading then []
      else if js_truthy user then
        (if dropdown_open then [dashboard_link user, ''/wishlist'', dashboard_link user @ ''/settings''] else [])
      else [''/login'', ''/register'']) @
     (if menu_open then
        nav_items @
        (if js_truthy user then [dashboard_link user, dashboard_link user @ ''/settings'']
         else [''/login'', ''/register''])
      else [])"

text \<open>\<open>handleLogout\<close>: \<open>logout()\<close>, which catches its own failure, then
  \<open>router.push("/")\<close>.\<close>

definition handle_logout :: "'a crypto_scheme \<Rightarrow> bool \<Rightarrow> nat \<Rightarrow> browser \<Rightarrow> db \<Rightarrow> string \<times> browser \<times> db" where
  "handle_logout c ok t b d = (let (b1, d1) = ctx_logout c ok t b d in (''/'', b1, d1))"

text \<open>footer.tsx: the logo, the four columns of \<open>footerLinks\<close> (company, for students,
  for landlords, support), then the legal links of the bottom bar.\<close>

definition footer_links :: "string list" where
  "footer_links =
     [''/''] @
     [''/about'', ''/how-it-works'', ''/careers'', ''/press'', ''/blog''] @
     [''/properties'', ''/roommates'', ''/areas'', ''/guides/moving'', ''/guides/rental''] @
     [''/properties/new'', ''/pricing'', ''/resources'', ''/success-stories'', ''/faq''] @
     [''/help'', ''/contact'', ''/safety'', ''/report'', ''/guidelines''] @
     [''/privacy'', ''/terms'', ''/cookies'']"

section \<open>Lemmas\<close>

lemma settle_stop: "page_guard u auth_is_loading user = None \<Longrightarrow> settle user u = Some u"
  by (subst settle.simps) simp

lemma settle_redirect: "page_guard u auth_is_loading user = Some v \<Longrightarrow> settle user u = settle user v"
  by (subst settle.simps) simp

lemma settle_cycle:
  assumes "\<forall>v\<in>S. \<exists>w\<in>S. page_guard v auth_is_loading user = Some w" "u \<in> S"
  shows "settle user u = None"
proof -
  have "settle us v = Some y \<Longrightarrow> us = user \<longrightarrow> v \<in> S \<longrightarrow> False" for us v y
    apply (erule settle.raw_induct [rotated])
    using assms(1) by (fastforce simp: settle_redirect split: option.splits)
  then show ?thesis using assms(2) by (cases "settle user u") blast+
qed

lemma user_role_JStr: "user_role user = JStr r \<Longrightarrow> js_truthy user"
  by (cases user) (auto simp: user_role_def jget_def)

lemma js_strict_eq_JStr [simp]: "js_strict_eq v (JStr s) = (v = JStr s)"
  by (auto simp: js_strict_eq_def)

lemmas guard_defs = page_guard_def dashboard_redirect_def landlord_guard_def lprops_guard_def
  add_property_guard_def linq_guard_def student_guard_def auth_is_loading_def

lemma role_guard:
  assumes "user_role user = JStr r" "r = ''student'' \<or> r = ''landlord''"
  shows "page_guard u auth_is_loading user \<in> {None, Some (''/dashboard/'' @ r)}"
  using assms user_role_JStr [OF assms(1)] by (auto simp: guard_defs Let_def)

lemma role_home:
  assumes "user_role user = JStr r" "r = ''student'' \<or> r = ''landlord''"
  shows "page_guard (''/dashboard/'' @ r) auth_is_loading user = None"
  using assms user_role_JStr [OF assms(1)] by (auto simp: guard_defs url_path_def)

text \<open>Claim C36: for a signed-in student or landlord the redirects of the
  dashboard pages end, from every URL: a page without a redirect is kept, every other
  one ends at the dashboard of the user's role.\<close>

theorem settle_signed_in:
  assumes "user_role user = JStr r" "r = ''student'' \<or> r = ''landlord''"
  shows "settle user u = Some (if page_guard u auth_is_loading user = None then u else ''/dashboard/'' @ r)"
  using role_guard [OF assms, of u] settle_redirect settle_stop role_home [OF assms] by auto

lemma settle_signed_in_witness:
  "settle (JObj [(''role'', JStr ''landlord'')]) ''/dashboard/student'' = Some ''/dashboard/landlord''"
  using settle_signed_in [of "JObj [(''role'', JStr ''landlord'')]" "''landlord''" "''/dashboard/student''"]
  by (simp add: user_role_def jget_def guard_defs url_path_def)

text \<open>Claim C23: a full load of a dashboard page sends the
  browser to /login whatever its session cookie, because the page's effect runs
  before \<open>refreshUser\<close> has asked the server; and /login has no page.\<close>

theorem open_page_sends_to_login:
  assumes "url_path u \<in> set guarded_paths"
  shows "open_page c it t u b d = (Some ''/login'', ctx_refresh c it t (b\<lparr>ctx_user := JNull\<rparr>) d)
         \<and> \<not> app_page ''/login''"
  using assms by (auto simp: open_page_def guarded_paths_def guard_defs app_page_def app_pages_def
                              url_path_def case_prod_beta)

lemma open_page_sends_to_login_witness:
  "open_page toy_crypto True 3 ''/dashboard/landlord'' browser_init empty_db =
     (Some ''/login'', ctx_refresh toy_crypto True 3 (browser_init\<lparr>ctx_user := JNull\<rparr>) empty_db)
   \<and> \<not> app_page ''/login''"
  using open_page_sends_to_login [of "''/dashboard/landlord''" toy_crypto True 3 browser_init empty_db]
  by (simp add: url_path_def guarded_paths_def)

text \<open>Claim C35: a signed-in user whose role is neither student nor
  landlord stays on /dashboard, and from every other dashboard page the student and
  landlord guards send them back and forth without end.\<close>

theorem settle_other_role:
  assumes "js_truthy user" "user_role user \<noteq> JStr ''student''" "user_role user \<noteq> JStr ''landlord''"
  shows "settle user ''/dashboard'' = Some ''/dashboard''
         \<and> (\<forall>u. url_path u \<in> set guarded_paths - {''/dashboard''} \<longrightarrow> settle user u = None)"
proof (intro conjI allI impI)
  show "settle user ''/dashboard'' = Some ''/dashboard''"
    using assms by (intro settle_stop) (auto simp: guard_defs url_path_def)
next
  fix u assume u: "url_path u \<in> set guarded_paths - {''/dashboard''}"
  let ?S = "{u, ''/dashboard/student'', ''/dashboard/landlord''}"
  have "\<forall>v\<in>?S. \<exists>w\<in>?S. page_guard v auth_is_loading user = Some w"
    using assms u by (auto simp: guard_defs guarded_paths_def url_path_def)
  then show "settle user u = None" by (rule settle_cycle) simp
qed

lemma settle_other_role_witness:
  "settle (JObj [(''role'', JStr ''admin'')]) ''/dashboard'' = Some ''/dashboard''
   \<and> settle (JObj [(''role'', JStr ''admin'')]) ''/dashboard/landlord'' = None"
proof -
  have "settle (JObj [(''role'', JStr ''admin'')]) ''/dashboard'' = Some ''/dashboard''
        \<and> (\<forall>u. url_path u \<in> set guarded_paths - {''/dashboard''} \<longrightarrow>
               settle (JObj [(''role'', JStr ''admin'')]) u = None)"
    by (rule settle_other_role) (simp_all add: user_role_def jget_def)
  then show ?thesis by (simp add: url_path_def guarded_paths_def)
qed

lemma footer_live_links:
  "filter app_page footer_links = [''/'', ''/properties'', ''/roommates'', ''/properties/new'']"
  by (simp add: footer_links_def app_page_def app_pages_def url_path_def)

lemma handle_logout_signed_out:
  assumes "handle_logout c True t b d = (u, b', d')"
  shows "u = ''/'' \<and> \<not> is_authenticated b' \<and> jar b' = None \<and> settle (ctx_user b') u = Some u"
proof -
  have b': "b' = fst (ctx_logout c True t b d)" using assms by (simp add: handle_logout_def case_prod_beta)
  then have "ctx_user b' = JNull"
    by (simp add: ctx_logout_def case_prod_beta)
  moreover have "u = ''/''" using assms by (simp add: handle_logout_def case_prod_beta)
  ultimately show ?thesis
    using b' logout_clears_jar by (auto simp: is_authenticated_def intro!: settle_stop simp: guard_defs url_path_def)
qed

text \<open>Claim C38: the links of the header that lead to no page are
  exactly /login and /register for a visitor, and the settings page of the
  dashboard for a signed-in user, once in the open dropdown and once in the open
  mobile menu.\<close>

theorem header_dead_links:
  "filter (\<lambda>l. \<not> app_page l) (header_links auth_is_loading user dd m) =
     (if js_truthy user
      then (if dd then [dashboard_link user @ ''/settings''] else []) @ (if m then [dashboard_link user @ ''/settings''] else [])
      else [''/login'', ''/register''] @ (if m then [''/login'', ''/register''] else []))"
  by (auto simp: header_links_def nav_items_def dashboard_link_def app_page_def app_pages_def
                 url_path_def auth_is_loading_def)
end
