(* ===== verification/Widgets.thy ===== *)
theory Widgets
  imports Pages_Student
begin

text \<open>
  Page parts that compute what they show.  The roommates page
  (src/src/app/roommates/page.tsx): three filter hooks and the memoised list they
  select from the static data file data/roommates.json, which is not in the
  repository and is a parameter (a list of JSON objects); the city select offers the
  distinct cities of that list in order of first appearance.  A field that is not a
  string makes \<open>toLowerCase\<close> throw, which is \<open>None\<close>.  The map of the search
  page (components/map/property-map.tsx): the view its effect sets and its initial
  centre.  The property card (components/property/property-card.tsx): the image it
  shows and its like button.  The rating of a listing as the search and wishlist
  pages and the card render it: a JSX child \<open>a && b\<close> renders \<open>a\<close> when it is
  falsy, and React prints a number (also 0) but nothing for \<open>false\<close>,
  \<open>null\<close> or \<open>undefined\<close>.
\<close>

section \<open>The roommates page\<close>

record rm_page =
  rm_search :: string
  rm_city :: string
  rm_gender :: string

definition rm_init :: rm_page where
  "rm_init = \<lparr>rm_search = [], rm_city = [], rm_gender = []\<rparr>"

text \<open>\<open>filteredRoommates\<close>: the search over name, college, course and city, then
  the city and gender selects unless empty or \<open>all\<close>.\<close>

definition roommate_search :: "string \<Rightarrow> jval \<Rightarrow> bool option" where
  "roommate_search q r =
     or_else (lower_includes (jget r ''name'') q)
       (or_else (lower_includes (jget r ''college'') q)
         (or_else (lower_includes (jget r ''course'') q) (lower_includes (jget r ''city'') q)))"

definition filtered_roommates :: "jval list \<Rightarrow> rm_page \<Rightarrow> jval list option" where
  "filtered_roommates data pg =
     (let r1 = (if rm_search pg \<noteq> [] then filter_opt (roommate_search (rm_search pg)) data else Some data);
          cf = rm_city pg; gf = rm_gender pg
      in map_option (\<lambda>r. let r2 = (if cf \<noteq> [] \<and> cf \<noteq> ''all'' then filter (\<lambda>x. js_strict_eq (jget x ''city'') (JStr cf)) r else r)
                         in if gf \<noteq> [] \<and> gf \<noteq> ''all'' then filter (\<lambda>x. js_strict_eq (jget x ''gender'') (JStr gf)) r2 else r2)
           r1)"

text \<open>\<open>Array.from(new Set(roommates.map(r => r.city)))\<close>: first occurrences, in
  order.\<close>

definition rm_cities :: "jval list \<Rightarrow> jval list" where
  "rm_cities data = rev (remdups (rev (map (\<lambda>r. jget r ''city'') data)))"

text \<open>The values of the city select: \<open>all\<close>, then each city (a string in the data).\<close>

definition rm_city_options :: "jval list \<Rightarrow> string list" where
  "rm_city_options data = ''all'' # map js_to_string (rm_cities data)"

text \<open>The values of the gender select.\<close>

definition rm_gender_options :: "string list" where
  "rm_gender_options = [''all'', ''male'', ''female'']"

text \<open>A roommate card's interest badges: the first four, then \<open>+n\<close> for the rest.\<close>

definition interest_badges :: "string list \<Rightarrow> string list" where
  "interest_badges xs = take 4 xs @ (if length xs > 4 then [''+'' @ dec_string (length xs - 4)] else [])"

section \<open>The map\<close>

text \<open>What \<open>MapUpdater\<close>'s effect does to the map: nothing, \<open>setView\<close> on a point
  with a zoom, or \<open>fitBounds\<close> on the points of all listings.\<close>

datatype map_view = NoChange | SetView "jval \<times> jval" nat | FitBounds "(jval \<times> jval) list"

definition map_point :: "jval \<Rightarrow> jval \<times> jval" where
  "map_point p = (jget p ''latitude'', jget p ''longitude'')"

definition map_updater :: "jval list \<Rightarrow> string \<Rightarrow> map_view" where
  "map_updater props sel =
     (if props = [] then NoChange
      else
        (let rest = (if length props = 1 then SetView (map_point (hd props)) 14 else FitBounds (map map_point props))
         in if sel \<noteq> [] then
              (case find (\<lambda>p. js_strict_eq (jget p ''id'') (JStr sel)) props of
                 Some p \<Rightarrow> SetView (map_point p) 15
               | None \<Rightarrow> rest)
            else rest))"

definition map_center :: "jval list \<Rightarrow> jval \<times> jval" where
  "map_center props =
     (if props \<noteq> [] then map_point (hd props) else (JNum (112863 / 5000), JNum (883639 / 10000)))"

section \<open>The property card and the rating\<close>

text \<open>\<open>images.find(img => img.isPrimary)?.url || images[0]?.url\<close>.\<close>

definition primary_image :: "jval list \<Rightarrow> jval" where
  "primary_image imgs =
     js_or (case find (\<lambda>i. js_truthy (jget i ''isPrimary'')) imgs of Some i \<Rightarrow> jget i ''url'' | None \<Rightarrow> JUndef)
           (case imgs of i # _ \<Rightarrow> jget i ''url'' | [] \<Rightarrow> JUndef)"

record card_state =
  is_liked :: bool
  image_error :: bool

text \<open>\<open>handleWishlistClick\<close>: the heart flips and the parent's callback gets the id.\<close>

definition card_wishlist_click :: "jval \<Rightarrow> card_state \<Rightarrow> card_state \<times> jval" where
  "card_wishlist_click p st = (st\<lparr>is_liked := \<not> is_liked st\<rparr>, jget p ''id'')"

text \<open>A JSX child: a value, or an element (a name for what it shows and the values
  it prints).  React puts nothing on the screen for \<open>false\<close>, \<open>null\<close>,
  \<open>undefined\<close> and the empty string, and prints every number, 0 included.\<close>

datatype jsx = JsxVal jval | JsxElem string "jval list"

definition jsx_and :: "jval \<Rightarrow> jsx \<Rightarrow> jsx" where
  "jsx_and a b = (if js_truthy a then b else JsxVal a)"

fun jsx_visible :: "jsx \<Rightarrow> bool" where
  "jsx_visible (JsxElem _ _) = True"
| "jsx_visible (JsxVal v) = (case v of JBool _ \<Rightarrow> False | JNull \<Rightarrow> False | JUndef \<Rightarrow> False | JStr s \<Rightarrow> s \<noteq> [] | _ \<Rightarrow> True)"

text \<open>The rating on a result of the search page and of the wishlist page
  (\<open>{p.averageRating && (<star/> {p.averageRating})}\<close>), and on the card, which
  also tests \<open>> 0\<close> and prints the count of reviews (\<open>toFixed(1)\<close> is left to
  the printer).\<close>

definition pp_rating :: "jval \<Rightarrow> jsx" where
  "pp_rating p = jsx_and (jget p ''averageRating'') (JsxElem ''rating'' [jget p ''averageRating''])"

definition wl_rating :: "jval \<Rightarrow> jsx" where
  "wl_rating p = jsx_and (jget p ''averageRating'') (JsxElem ''rating'' [jget p ''averageRating''])"

definition card_rating :: "jval \<Rightarrow> jsx" where
  "card_rating p =
     jsx_and (jget p ''averageRating'')
       (if (case jget p ''averageRating'' of JNum q \<Rightarrow> 0 < q | _ \<Rightarrow> False)
        then JsxElem ''rating'' [jget p ''averageRating'', jget p ''reviewCount'']
        else JsxVal (JBool False))"

section \<open>Lemmas\<close>

lemma interest_badges_bound: "length (interest_badges xs) = min (length xs) 5"
  by (simp add: interest_badges_def)


lemma rm_cities_set: "set (rm_cities data) = (\<lambda>r. jget r ''city'') ` set data"
  by (simp add: rm_cities_def)

lemma rm_cities_distinct: "distinct (rm_cities data)"
  by (simp add: rm_cities_def)

text \<open>Every city the select offers shows at least one roommate, and only roommates of
  that city.\<close>

theorem city_option_nonempty:
  assumes "JStr s \<in> set (rm_cities data)" "s \<noteq> []" "s \<noteq> ''all''"
  shows "\<exists>xs. filtered_roommates data (rm_init\<lparr>rm_city := s\<rparr>) = Some xs \<and> xs \<noteq> [] \<and>
              (\<forall>r\<in>set xs. jget r ''city'' = JStr s)"
proof -
  have eq: "js_strict_eq v (JStr s) = (v = JStr s)" for v by (auto simp: js_strict_eq_def)
  from assms(1) obtain r where "r \<in> set data" "jget r ''city'' = JStr s" by (auto simp: rm_cities_set)
  then have "filter (\<lambda>x. jget x ''city'' = JStr s) data \<noteq> []" by (auto simp: filter_empty_conv)
  then show ?thesis using assms(2,3) by (auto simp: filtered_roommates_def rm_init_def eq)
qed

lemma map_updater_selected:
  assumes "sel \<noteq> []" "p \<in> set props" "js_strict_eq (jget p ''id'') (JStr sel)"
  shows "\<exists>q. map_updater props sel = SetView (map_point q) 15 \<and> q \<in> set props \<and> jget q ''id'' = JStr sel"
proof -
  obtain q where q: "find (\<lambda>p. js_strict_eq (jget p ''id'') (JStr sel)) props = Some q"
    using assms(2,3) by (metis find_None_iff not_None_eq)
  then have "q \<in> set props \<and> js_strict_eq (jget q ''id'') (JStr sel)"
    by (auto simp: find_Some_iff)
  moreover have "map_updater props sel = SetView (map_point q) 15"
    using q assms(1,2) by (auto simp: map_updater_def)
  ultimately show ?thesis by (auto simp: js_strict_eq_def)
qed

lemma map_updater_fits_all:
  "length props \<ge> 2 \<Longrightarrow> sel = [] \<Longrightarrow> map_updater props sel = FitBounds (map map_point props)"
  by (auto simp: map_updater_def)

text \<open>The images the add-property page sends (\<open>form_images\<close>) put the first URL on
  the card.\<close>

lemma primary_image_form_images:
  "primary_image (arr_items (form_images (JArr (x # xs)))) = x"
  by (simp add: primary_image_def form_images_def arr_items_def jget_def js_or_def)

lemma primary_image_default: "primary_image (arr_items (form_images (JArr []))) = jget default_image ''url''"
  by (simp add: primary_image_def form_images_def arr_items_def default_image_def jget_def js_or_def)

text \<open>Claim C37: a listing whose rating is 0 shows a stray 0 where the rating would be, on the
  search page, the wishlist page and the card; with no rating nothing shows.\<close>

lemma rating_zero_printed:
  assumes "jget p ''averageRating'' = JNum 0"
  shows "pp_rating p = JsxVal (JNum 0) \<and> wl_rating p = JsxVal (JNum 0) \<and> card_rating p = JsxVal (JNum 0)
         \<and> jsx_visible (JsxVal (JNum 0))"
  using assms by (simp add: pp_rating_def wl_rating_def card_rating_def jsx_and_def)

lemma rating_absent_hidden:
  "jget p ''averageRating'' = JUndef \<Longrightarrow>
   \<not> jsx_visible (pp_rating p) \<and> \<not> jsx_visible (wl_rating p) \<and> \<not> jsx_visible (card_rating p)"
  by (simp add: pp_rating_def wl_rating_def card_rating_def jsx_and_def)

theorem rating_zero_printed_witness:
  "jget (JObj [(''title'', JStr ''Room''), (''averageRating'', JNum 0)]) ''averageRating'' = JNum 0 \<and>
   card_rating (JObj [(''title'', JStr ''Room''), (''averageRating'', JNum 0)]) = JsxVal (JNum 0) \<and>
   jsx_visible (JsxVal (JNum 0))"
proof -
  have h: "jget (JObj [(''title'', JStr ''Room''), (''averageRating'', JNum 0)]) ''averageRating'' = JNum 0"
    by (simp add: jget_def)
  show ?thesis using h rating_zero_printed [OF h] by blast
qed

end
