(* ===== verification/Spec2Isabelle.thy ===== *)
theory Spec2Isabelle
  imports Wishlist Properties Inquiries Auth Gateway Utils Validations Conformance Client Pages_Landlord Pages_Student Forms Navigation Widgets
begin

text \<open>
  \<^bold>\<open>UniNest: a verification development of the API routes and the pages that use them.\<close>

  UniNest is a Next.js application (sources under src/src).  Its server side is a
  set of route handlers in src/src/app/api that read and write a MongoDB database
  obtained from src/src/lib/mongodb.ts.  Each handler parses a request, issues a
  sequence of collection operations and answers with a JSON response; a \<open>catch\<close>
  block turns any exception into a 500 response, after whatever writes already took
  place.  Its client side is a set of React pages that keep state in hooks, hold the
  signed-in user in an auth context (src/src/contexts/auth-context.tsx) and call the
  routes with \<open>fetch\<close>.  The development models a handler as a function

    request \<open>\<Rightarrow>\<close> clock \<open>\<Rightarrow>\<close> database \<open>\<Rightarrow>\<close> response \<open>\<times>\<close> database

  and a page handler as a function of the page's state record, the browser (cookie
  jar and signed-in user) and the database, returning all three.  Every early return,
  every write and every exception the handler's own code and its inputs can raise
  is a branch of the model; the failures of the environment that are not (a
  database that cannot be reached, a failed network request outside logout) are
  listed under \<^emph>\<open>Not modelled\<close> below.

  \<^bold>\<open>Theories.\<close>
  \<^item> Prelude: shared lemmas on association lists, lists (\<open>find\<close>, \<open>filter\<close>,
    \<open>list_all2\<close>, index updates) and options.
  \<^item> Json: JavaScript values as they reach a handler (\<open>jval\<close>), truthiness,
    \<open>||\<close>, strict equality, property access, \<open>toLowerCase\<close>, \<open>parseInt\<close>,
    \<open>join\<close>, the \<open>ToNumber\<close> of a comparison (string numerals, \<open>Infinity\<close>, the
    exception of an object with its own \<open>toString\<close>), and the ObjectId constructor
    (24 hexadecimal digits, an object with such an \<open>id\<close>, a fresh id, or an exception).
  \<^item> Mongo: the database as a record of collections (lists of documents in
    insertion order) and an id counter; the query conditions, \<open>findOne\<close>,
    \<open>countDocuments\<close>, \<open>find().sort().skip().limit()\<close>, \<open>insertOne\<close>,
    \<open>updateOne\<close> with upsert, \<open>updateMany\<close> (not atomic), \<open>deleteOne\<close>, and the
    update operators (\<open>$set\<close> on dotted paths into objects and arrays) with the
    server's failures as \<open>None\<close>, among them two operators on conflicting paths.
  \<^item> Http: responses (\<open>NextResponse.json\<close> with status and cookie) and the clock.
  \<^item> Wishlist (api/wishlist/route.ts): the four handlers, the dispatch
    \<open>wishlist_route\<close>, the abstract list-as-set with the invariant
    \<open>wishlists_ok\<close>; the lemmas show the invariant is preserved, the route refines
    the set operations, and a toggle split into its read and its write loses an
    update under interleaving.
  \<^item> Properties (api/properties/route.ts): the GET query clause by clause and the
    page, POST with the landlord lookup and every default, PUT and DELETE with their
    ownership checks; the lemmas show the authorization of the writes, the effect of
    a create and a delete, and two defects (the landlord counter is never maintained,
    a delete with a non-ObjectId landlord id fails after deleting).
  \<^item> Inquiries (api/inquiries/route.ts): GET with the listing join, POST as its
    checks then its writes, PUT by either party, DELETE as a soft cancel; the
    uniqueness of active inquiries is kept by POST and DELETE run alone, broken by two
    interleaved POSTs that both passed the check and by a PUT that reopens an
    inactive inquiry; a cancel frees the listing for a new inquiry.
  \<^item> Auth (api/auth/register, login, me): registration, uniform login failure,
    the me/logout cookie protocol, with bcrypt and jsonwebtoken as parameters; a
    registration's cookie shows its user, a duplicate email is refused, and two
    registrations in one millisecond share an id, so the second cookie shows the first
    user.
  \<^item> Gateway (lib/mongodb.ts): \<open>connectToDatabase\<close> as one call and as an
    interleaving step relation split at its \<open>await\<close>, whose connection may resolve
    or reject; sequential requests share one client, concurrent ones that miss the
    cache create several, and once a call has returned no step creates a client
    (rule induction over the reachable states).
  \<^item> Utils (lib/utils.ts): the helpers with behaviour of their own, slugify against
    a one-pass reference, e-mail masking with its RangeError, the one-time password
    and debounce as a timer state.
  \<^item> Types, Validations, Conformance (types/*.ts, lib/validations.ts): the
    TypeScript interfaces as terms of a small type language with a run-time check,
    every zod schema with zod 3's parse and \<open>z.infer\<close>; parsing is sound for the
    inferred type and idempotent, and the register route's responses and documents
    are checked against the declared types.
  \<^item> Client (contexts/auth-context.tsx): file-system routing of a request to its
    route file (404 and 405 replies are not JSON), the browser's cookie jar,
    \<open>fetch\<close>, the context's login, register, logout (whose failed request is caught
    and changes nothing) and refreshUser, and a
    session as an inductive relation of these steps with arbitrary database changes
    in between; the invariant that a user is shown only with a session cookie holds
    on every session (rule induction on the reflexive transitive closure).
  \<^item> Pages_Landlord (dashboard/landlord/**): the add-property form and its
    \<open>handleSubmit\<close>, the listings page, the dashboard's data effect and the
    inquiries page; the lemmas show that a landlord registered through the app can
    never list a property, that the dashboard never loads (its routes do not exist),
    and that a status shown after an update
    is the status the server stored.
  \<^item> Pages_Student (dashboard/student, wishlist, properties, properties/[slug],
    the home page and the search filter panel): the wishlist page refines the
    server's guest list over any run of its operations; the student dashboard never
    shows inquiries; the search text survives the URL round trip; the image carousel
    stays in range.
  \<^item> Forms (dashboard/landlord/add-property/page.tsx, its JSX): every input of
    the form as a row (the key its handler writes, its kind, \<open>required\<close>, the
    condition under which it renders), the events the rendered form can produce and
    the forms they reach (an inductive set), the browser's constraint validation, and
    the submission through \<open>handleSubmit\<close> to \<open>POST /api/properties\<close>; the lemmas
    show every reachable value is of its input's kind (rule induction) and that the
    route refuses a form the browser lets through exactly when no property type was
    picked or the rent or deposit parses to 0.
  \<^item> Navigation (the dashboard pages' redirect effects, components/layout): the
    guards of dashboard/page.tsx, the four landlord pages and the student dashboard,
    their composition under client-side navigation (\<open>settle\<close>, a partial function
    whose \<open>None\<close> is a redirect cycle), a full page load with React's effect order
    (\<open>open_page\<close>), the header's links and \<open>handleLogout\<close> and the footer's
    links, against the routes of the app directory; the lemmas show the redirects
    end at the role's dashboard for a student or landlord, cycle for ever for any
    other role, send every full load of a dashboard to /login (which has no page),
    and which header links lead nowhere.
  \<^item> Widgets (app/roommates/page.tsx, components/map, components/property, the
    rating on the search and wishlist pages): the roommates filters and select
    values, the map's view effect and centre, the card's image and like button, and
    JSX children \<open>a && b\<close> with React's printing of falsy values; the lemmas show
    every offered city shows its roommates, the selected listing is the one the map
    centres on, the add-property images put the first URL on a card, and a rating
    of 0 prints a stray 0.
  \<^item> Spec2Isabelle (this theory): the register route against the registration
    schema.

  \<^bold>\<open>Modelling choices.\<close>  Numbers are rationals (every number the code computes is
  a finite decimal); \<open>NaN\<close> is its own value and \<open>Infinity\<close> (from
  \<open>parseFloat\<close>) is the \<open>None\<close> of \<open>js_parse_float\<close>.  The clock is a natural
  number of milliseconds.  MongoDB leaves the order of ties in a sort open; the model
  fixes one.  Fresh ObjectIds come from a counter in the database.  A regular
  expression given to \<open>$regex\<close> is modelled for literal patterns only.  Strings are
  byte strings, so \<open>encodeURIComponent\<close> works on bytes.  An asynchronous page
  handler is run to completion: its \<open>await\<close>s are sequential requests, and other
  clients act between two handlers (\<open>session\<close>), not inside one.  The static
  catalogue (data/properties.json, data/reviews.json) is not in the repository and is
  a parameter of the pages that read it.  No loop of the code is unbounded: every
  recursion of the model is structural (or a \<open>fun\<close> with its termination proof),
  the interleavings of the gateway are an inductive relation, and React's effect loop is a
  partial function (\<open>run_effect\<close>) whose termination is proved where it is claimed.
  Client-side navigation is the partial function \<open>settle\<close>: a redirect that never
  ends is its value \<open>None\<close>, proved by fixpoint induction over a set of pages closed
  under the redirects; its ending is proved by unfolding it at most twice.  The
  browser's part in a form (value sanitisation of number inputs, \<open>required\<close>,
  \<open>min\<close>, the step) follows the HTML standard, not code of the repository.

  \<^bold>\<open>Not modelled.\<close>  JSX rendering and styling beyond the links and inputs it
  wires; the shadcn/ui primitives and the root layout, which only render props;
  Leaflet (tiles, markers and \<open>fitBounds\<close> themselves); the static data files
  data/*.json, absent from the repository (parameters); the header's dropdown and
  mobile-menu toggles, which only choose which links render (the parameters
  \<open>dropdown_open\<close> and \<open>menu_open\<close>); a database that cannot be reached: the
  handlers are modelled with \<open>getDb()\<close> resolving (Gateway models the rejection
  itself; in the code it sends each handler to its \<open>catch\<close>, a 500, or for
  /api/auth/me a 401 \<open>Invalid token\<close>); a network failure of \<open>fetch\<close> in login,
  register and the pages (it leaves the browser and the database as they were,
  which a \<open>session\<close>'s \<open>others\<close> step already covers; refreshUser's is its abort);
  the expiry of the cookie (\<open>maxAge\<close> seven days) and of the token, which only
  makes \<open>jwt_verify\<close> fail later and is part of that parameter; Unicode: strings are
  byte lists and \<open>toLowerCase\<close> maps ASCII letters only (the strings it lowers are
  e-mail addresses and hexadecimal ids); the field order MongoDB gives a document
  it updates (the model keeps insertion order and appends new fields); \<open>cn\<close>, \<open>formatPrice\<close>, \<open>formatDate\<close> and
  \<open>calculateDistance\<close> of lib/utils.ts, which only call libraries; the MongoDB client
  and network (Mongo gives the behaviour the code relies on); bcrypt and jsonwebtoken
  (parameters); the JSON body parser (a body that is not JSON is the 500 branch where
  \<open>body_fields\<close> gives \<open>None\<close>).
\<close>

section \<open>Properties across components\<close>

text \<open>A registration form body that \<open>registerSchema\<close> accepts.\<close>

abbreviation "schema_register_body \<equiv>
  JObj [(''name'', JStr ''Asha''), (''email'', JStr ''asha@example.in''), (''password'', JStr ''Secret12''),
        (''confirmPassword'', JStr ''Secret12''), (''role'', JStr ''STUDENT'')]"

text \<open>
  Claim C25: the register route refuses every body that the
  registration schema of validations.ts accepts: the schema's roles are
  \<open>STUDENT\<close>/\<open>LANDLORD\<close>, the route's \<open>student\<close>/\<open>landlord\<close>, so the answer is
  always 400 \<open>Invalid role\<close> and nothing is written.
\<close>

theorem register_schema_refused:
  assumes "safe_parse register_schema body = Inr w"
  shows "register_POST c w t d = (fail_resp 400 ''Invalid role'', d)"
proof -
  have "zparse register_schema body = ([], Some w)"
    using assms by (auto simp: safe_parse_def split: prod.splits option.splits list.splits)
  then have obj: "zparse (ZObject register_shape) body = ([], Some w)"
    unfolding register_schema_def by (blast dest: zparse_refine_ok)
  then obtain kvs out where body: "body = JObj kvs" and w: "w = JObj out" by (blast dest: zparse_object_ok)
  have dist: "distinct (map fst register_shape)" by (simp add: register_shape_def)
  note field = zparse_field_value [OF dist obj [unfolded body w]]
  obtain n where "obj_get out ''name'' = JStr n" "\<not> length n < 2"
    using zparse_string_ok [OF field [of "''name''"]] by (auto simp: register_shape_def split: if_splits)
  then have nm: "js_truthy (obj_get out ''name'')" by auto
  obtain e where "obj_get out ''email'' = JStr e" "zod_email e"
    using zparse_string_ok [OF field [of "''email''"]] by (auto simp: register_shape_def split: if_splits)
  then have em: "js_truthy (obj_get out ''email'')" by (auto simp: zod_email_def Let_def)
  obtain p where "obj_get out ''password'' = JStr p" "\<not> length p < 8"
    using zparse_string_ok [OF field [of "''password''"]]
    by (auto simp: register_shape_def password_rule_def split: if_splits)
  then have pw: "js_truthy (obj_get out ''password'')" "pw_too_short (obj_get out ''password'') = Some False" by auto
  obtain r where "obj_get out ''role'' = JStr r" "r \<in> {''STUDENT'', ''LANDLORD''}"
    using zparse_enum_ok [OF field [of "''role''"]] by (auto simp: register_shape_def)
  then have ro: "js_truthy (obj_get out ''role'')" "\<not> valid_role (obj_get out ''role'')"
    by (auto simp: valid_role_def)
  show ?thesis using nm em pw ro by (simp add: register_POST_def register_check_def w)
qed

text \<open>The route registers a body with a seven-character password, no upper-case
  letter, no confirmation and a lower-case role, which the schema refuses on four
  counts.\<close>

theorem register_policy_divergence:
  "http_status (fst (register_POST toy_crypto sample_student_body 5 empty_db)) = 200 \<and>
   (case safe_parse register_schema sample_student_body of
      Inl iss \<Rightarrow> map fst iss = [[''password''], [''password''], [''confirmPassword''], [''role'']]
    | Inr _ \<Rightarrow> False)"
  by code_simp

lemma schema_register_body_parses:
  "safe_parse register_schema schema_register_body = Inr schema_register_body"
  by code_simp

theorem register_schema_refused_witness:
  "safe_parse register_schema schema_register_body = Inr schema_register_body \<and>
   register_POST toy_crypto schema_register_body 5 empty_db = (fail_resp 400 ''Invalid role'', empty_db)"
  using register_schema_refused [OF schema_register_body_parses] schema_register_body_parses by simp

end
